(* ===== verification/Prelude.thy ===== *)
theory Prelude
  imports Main "HOL-Library.Word"
begin

text \<open>
  Shared vocabulary of the development: machine-integer types, bytes and characters, the
  build platform, the C++ exceptions that can leave a function, the interfaces
  (locales) that several components meet, and generic list and word lemmas.

  \<^item> \<open>byte\<close>, \<open>u16\<close>, \<open>u32\<close>, \<open>u64\<close> are the fixed-width C++ integers; a
    \<open>std::vector<uint8_t>\<close> is \<open>bytes\<close>, a \<open>std::string\<close> is \<open>string\<close> (one \<open>char\<close> per
    C++ \<open>char\<close>).
  \<^item> \<open>fixed_codec\<close> is the contract of a fixed-width field of a packet, \<open>state_preorder\<close>
    the contract of a relation that every step of a stateful component respects.
\<close>

unbundle bit_operations_syntax

section \<open>Types\<close>

type_synonym byte = "8 word"
type_synonym bytes = "byte list"
type_synonym u16 = "16 word"
type_synonym u32 = "32 word"
type_synonym u64 = "64 word"

text \<open>
  The two ABIs the sources build for: MSVC on Windows (\<open>unsigned long\<close> has 32 bits, text
  files are translated) and POSIX systems (64 bits, no translation).
\<close>

datatype platform = Windows | Posix

text \<open>Exceptions that no handler of the component catches and that reach \<open>main\<close>.\<close>

datatype exn = FilesystemError | CryptoPPError

text \<open>Collections for the automation.\<close>

named_theorems codec_simps "lengths and decodings of packet fields"
named_theorems frame_simps "what an operation leaves unchanged"

section \<open>Characters and bytes\<close>

definition byte_of_char :: "char \<Rightarrow> byte" where
  "byte_of_char c = word_of_nat (of_char c)"

definition char_of_byte :: "byte \<Rightarrow> char" where
  "char_of_byte b = char_of (unat b)"

lemma of_char_less_256: "(of_char c :: nat) < 256"
proof -
  have "(of_char c :: nat) mod 256 = of_char c"
    by (metis char_of_def char_of_mod_256 of_char_mod_256)
  then show ?thesis
    by (metis mod_less_divisor zero_less_numeral)
qed

lemma unat_byte_of_char: "unat (byte_of_char c) = of_char c"
  using of_char_less_256 [of c] by (simp add: byte_of_char_def unat_of_nat)

lemma char_of_byte_of_char [simp]: "char_of_byte (byte_of_char c) = c"
  by (simp add: char_of_byte_def unat_byte_of_char)

lemma unat_byte_less_256: "unat (b :: byte) < 256"
  using unsigned_less [of b, where 'a = nat] by simp

lemma byte_of_char_of_byte [simp]: "byte_of_char (char_of_byte b) = b"
  using unat_byte_less_256 [of b] by (simp add: byte_of_char_def char_of_byte_def)

lemma char_of_byte_eq_iff [simp]: "char_of_byte a = char_of_byte b \<longleftrightarrow> a = b"
  by (metis byte_of_char_of_byte)

lemma byte_of_char_eq_iff [simp]: "byte_of_char a = byte_of_char b \<longleftrightarrow> a = b"
  by (metis char_of_byte_of_char)

lemma map_char_of_byte_inverse [simp]: "map char_of_byte (map byte_of_char s) = s"
  by (simp add: comp_def)

lemma map_byte_of_char_inverse [simp]: "map byte_of_char (map char_of_byte b) = b"
  by (simp add: comp_def)

definition NUL :: char where
  "NUL = CHR 0x00"

lemma byte_of_NUL [simp]: "byte_of_char NUL = 0"
  by (simp add: byte_of_char_def NUL_def)

lemma char_of_byte_0 [simp]: "char_of_byte 0 = NUL"
  by (metis byte_of_NUL char_of_byte_of_char)

lemma char_of_byte_eq_NUL [simp]: "char_of_byte b = NUL \<longleftrightarrow> b = 0"
  by (metis byte_of_NUL byte_of_char_of_byte char_of_byte_of_char)

lemma NUL_eq_char_of_byte [simp]: "NUL = char_of_byte b \<longleftrightarrow> b = 0"
  by (metis char_of_byte_eq_NUL)

lemma byte_of_char_eq_0 [simp]: "byte_of_char c = 0 \<longleftrightarrow> c = NUL"
  by (metis byte_of_NUL char_of_byte_of_char)

section \<open>Lists\<close>

lemma takeWhile_append_stop:
  "list_all P xs \<Longrightarrow> ys = [] \<or> \<not> P (hd ys) \<Longrightarrow> takeWhile P (xs @ ys) = xs"
  by (induction xs) (cases ys, auto)+

lemma take_length_takeWhile_take:
  "take (length (takeWhile P (take n xs))) xs = takeWhile P (take n xs)"
  by (induction xs arbitrary: n) (auto simp: take_Cons split: nat.split)

lemma takeWhile_all: "list_all P xs \<Longrightarrow> takeWhile P xs = xs"
  by (induction xs) auto

lemma drop_append_at [simp]: "length xs = n \<Longrightarrow> drop n (xs @ ys) = ys"
  by simp

lemma take_append_at [simp]: "length xs = n \<Longrightarrow> take n (xs @ ys) = xs"
  by simp

lemma funpow_commute: "(f ^^ m) ((f ^^ n) x) = (f ^^ n) ((f ^^ m) x)"
  by (metis add.commute comp_apply funpow_add)

lemma unat_u32_of_nat: "n < 2 ^ 32 \<Longrightarrow> unat (word_of_nat n :: u32) = n"
  by (simp add: unsigned_of_nat take_bit_nat_eq_self)

lemma xor_cancel_left [simp]: "a XOR b = a XOR c \<longleftrightarrow> b = (c :: 'a::len word)"
proof
  assume "a XOR b = a XOR c"
  then have "a XOR (a XOR b) = a XOR (a XOR c)" by simp
  then show "b = c" by (simp add: xor.assoc [symmetric])
qed simp

lemma xor_cancel_right [simp]: "b XOR a = c XOR a \<longleftrightarrow> b = (c :: 'a::len word)"
  by (simp add: xor.commute [of _ a])

section \<open>Interface: a fixed-width field\<close>

text \<open>
  A field of a packet: an encoder that appends exactly \<open>width\<close> bytes and a decoder that reads
  them at a pointer, whatever follows. Both the integers and the strings of the protocol meet
  this contract.
\<close>

locale fixed_codec =
  fixes enc :: "'a \<Rightarrow> bytes"
    and dec :: "bytes \<Rightarrow> 'a"
    and width :: nat
    and valid :: "'a \<Rightarrow> bool"
  assumes length_enc: "valid x \<Longrightarrow> length (enc x) = width"
    and dec_enc: "valid x \<Longrightarrow> dec (enc x @ rest) = x"
begin

lemma dec_enc_exact: "valid x \<Longrightarrow> dec (enc x) = x"
  using dec_enc [of x "[]"] by simp

lemma enc_inject: "valid x \<Longrightarrow> valid y \<Longrightarrow> enc x = enc y \<longleftrightarrow> x = y"
  by (metis dec_enc_exact)

lemma enc_append_inject:
  "valid x \<Longrightarrow> valid y \<Longrightarrow> enc x @ r = enc y @ r' \<longleftrightarrow> x = y \<and> r = r'"
  by (metis append_eq_append_conv length_enc enc_inject)

lemma dec_at: "valid x \<Longrightarrow> length pre = k \<Longrightarrow> dec (drop k (pre @ enc x @ post)) = x"
  by (simp add: dec_enc)

lemma skip_enc: "valid x \<Longrightarrow> drop width (enc x @ rest) = rest"
  by (simp add: length_enc)

end

section \<open>Interface: a relation every step respects\<close>

text \<open>
  A stateful component is described by steps \<open>'s \<Rightarrow> 'r \<times> 's\<close>. When a reflexive and
  transitive relation holds between the state before and after every step, it holds across
  sequences and loops of them.
\<close>

locale state_preorder =
  fixes R :: "'s \<Rightarrow> 's \<Rightarrow> bool"
  assumes R_refl: "R s s"
    and R_trans: "R s t \<Longrightarrow> R t u \<Longrightarrow> R s u"
begin

lemma R_chain3: "R s t \<Longrightarrow> R t u \<Longrightarrow> R u v \<Longrightarrow> R s v"
  by (blast intro: R_trans)

lemma R_seq: "f s = (a, t) \<Longrightarrow> R s (snd (f s)) \<Longrightarrow> R t u \<Longrightarrow> R s u"
  by (auto intro: R_trans)

lemma R_fold:
  assumes "\<And>x s. R s (f x s)"
  shows "R s (fold f xs s)"
  by (induction xs arbitrary: s) (auto intro: R_refl R_trans assms)

end

end
