(* ===== verification/NetworkClient.thy ===== *)
theory NetworkClient
  imports Prelude "HOL-Library.Sublist"
begin

text \<open>
  \<open>NetworkClient\<close> of \<open>src/NetworkClient.h\<close> and \<open>src/NetworkClient.cpp\<close>: the TCP connection to
  the server.

  Boost.Asio is a parameter: \<open>asio_api\<close> holds the calls of the code, over an unspecified
  type of sockets (which stands for the socket, the I/O context and the network behind them). A
  call that throws \<open>system_error\<close> returns \<open>False\<close> or \<open>None\<close>. \<open>nc_trace\<close> is not a field
  of the class: it lists what the client did on the wire, in order, so that properties can speak
  about whole conversations; no operation reads it.
\<close>

section \<open>State\<close>

datatype io_error = Eof | OtherError

type_synonym endpoints = "(string \<times> u16) list"

record 'w asio_api =
  as_is_open :: "'w \<Rightarrow> bool"
  as_resolve :: "string \<Rightarrow> string \<Rightarrow> 'w \<Rightarrow> endpoints option \<times> 'w"
  as_connect :: "endpoints \<Rightarrow> 'w \<Rightarrow> bool \<times> 'w"
  as_write :: "bytes \<Rightarrow> 'w \<Rightarrow> bool \<times> 'w"
  as_read :: "nat \<Rightarrow> 'w \<Rightarrow> (io_error option \<times> bytes) \<times> 'w"
  as_shutdown :: "'w \<Rightarrow> 'w"
  as_close :: "'w \<Rightarrow> 'w"

datatype net_event =
    Opened string u16 | Sent bytes | SendFailed bytes | Received bytes | ReceiveFailed nat | Closed

record 'w network_client =
  nc_socket :: 'w
  nc_trace :: "net_event list"

definition newNetworkClient :: "'w \<Rightarrow> 'w network_client" where
  "newNetworkClient socket = \<lparr>nc_socket = socket, nc_trace = []\<rparr>"

definition observe :: "net_event \<Rightarrow> 'w \<Rightarrow> 'w network_client \<Rightarrow> 'w network_client" where
  "observe ev w c = c\<lparr>nc_socket := w, nc_trace := nc_trace c @ [ev]\<rparr>"

section \<open>Operations\<close>

definition isConnected :: "'w asio_api \<Rightarrow> 'w network_client \<Rightarrow> bool" where
  "isConnected A c = as_is_open A (nc_socket c)"

definition disconnect :: "'w asio_api \<Rightarrow> 'w network_client \<Rightarrow> 'w network_client" where
  "disconnect A c =
     (if \<not> isConnected A c then c
      else observe Closed (as_close A (as_shutdown A (nc_socket c))) c)"

definition destroyNetworkClient :: "'w asio_api \<Rightarrow> 'w network_client \<Rightarrow> 'w network_client" where
  "destroyNetworkClient A c = disconnect A c"

text \<open>\<open>std::to_string\<close> on an unsigned number.\<close>

fun decimal :: "nat \<Rightarrow> string" where
  "decimal n =
     (if n < 10 then [char_of (48 + n)] else decimal (n div 10) @ [char_of (48 + n mod 10)])"

declare decimal.simps [simp del]

definition connect :: "'w asio_api \<Rightarrow> string \<Rightarrow> u16 \<Rightarrow> 'w network_client \<Rightarrow> bool \<times> 'w network_client" where
  "connect A host port c =
     (let c = (if isConnected A c then disconnect A c else c);
          portStr = decimal (unat port)
      in case as_resolve A host portStr (nc_socket c) of
           (None, w) \<Rightarrow> (False, c\<lparr>nc_socket := w\<rparr>)
         | (Some endpoints, w) \<Rightarrow>
             (case as_connect A endpoints w of
                (True, w) \<Rightarrow> (True, observe (Opened host port) w c)
              | (False, w) \<Rightarrow> (False, c\<lparr>nc_socket := w\<rparr>)))"

definition send :: "'w asio_api \<Rightarrow> bytes \<Rightarrow> 'w network_client \<Rightarrow> bool \<times> 'w network_client" where
  "send A data c =
     (if \<not> isConnected A c then (False, c)
      else if data = [] then (True, c)
      else case as_write A data (nc_socket c) of
          (True, w) \<Rightarrow> (True, observe (Sent data) w c)
        | (False, w) \<Rightarrow> (False, observe (SendFailed data) w c))"

text \<open>
  \<open>read\<close> fills the front of the zeroed buffer; the buffer keeps its size whatever was delivered.
\<close>

definition receiveExact :: "'w asio_api \<Rightarrow> nat \<Rightarrow> 'w network_client \<Rightarrow> bytes \<times> 'w network_client" where
  "receiveExact A numberOfBytes c =
     (if \<not> isConnected A c \<or> numberOfBytes = 0 then ([], c)
      else case as_read A numberOfBytes (nc_socket c) of
          ((None, got), w) \<Rightarrow>
            (let buffer = take numberOfBytes (got @ replicate numberOfBytes 0)
             in (buffer, observe (Received buffer) w c))
        | ((Some Eof, got), w) \<Rightarrow> ([], disconnect A (observe (ReceiveFailed numberOfBytes) w c))
        | ((Some OtherError, got), w) \<Rightarrow> ([], disconnect A (observe (ReceiveFailed numberOfBytes) w c)))"

section \<open>Documented behaviour of the library\<close>

text \<open>
  \<open>close\<close> leaves the socket closed even when it reports an error.
\<close>

definition asio_close_law :: "'w asio_api \<Rightarrow> bool" where
  "asio_close_law A \<longleftrightarrow> (\<forall>w. \<not> as_is_open A (as_close A w))"

section \<open>The interface to the transfer client\<close>

text \<open>
  \<open>channel\<close> is what \<open>TransferClient\<close> relies on: a closed channel carries nothing, a read
  returns all the bytes asked for or closes the channel, and everything is recorded in order.
\<close>

locale channel =
  fixes opened :: "'c \<Rightarrow> bool"
    and put :: "bytes \<Rightarrow> 'c \<Rightarrow> bool \<times> 'c"
    and get :: "nat \<Rightarrow> 'c \<Rightarrow> bytes \<times> 'c"
    and shut :: "'c \<Rightarrow> 'c"
    and wire :: "'c \<Rightarrow> net_event list"
    and lawful :: bool
  assumes put_closed: "\<not> opened c \<Longrightarrow> put d c = (False, c)"
    and get_closed: "\<not> opened c \<Longrightarrow> get n c = ([], c)"
    and get_zero: "get 0 c = ([], c)"
    and put_wire: "opened c \<Longrightarrow> d \<noteq> [] \<Longrightarrow> put d c = (ok, c') \<Longrightarrow>
      wire c' = wire c @ [if ok then Sent d else SendFailed d]"
    and get_wire: "get n c = (bs, c') \<Longrightarrow> bs \<noteq> [] \<Longrightarrow> length bs = n \<and> wire c' = wire c @ [Received bs]"
    and get_fails: "opened c \<Longrightarrow> 0 < n \<Longrightarrow> get n c = ([], c') \<Longrightarrow>
      \<exists>c1. wire c1 = wire c @ [ReceiveFailed n] \<and> c' = shut c1"
    and shut_closed: "\<not> opened c \<Longrightarrow> shut c = c"
    and shut_wire: "opened c \<Longrightarrow> wire (shut c) = wire c @ [Closed]"
    and shut_shuts: "lawful \<Longrightarrow> \<not> opened (shut c)"
begin

lemma shut_idem: "lawful \<Longrightarrow> shut (shut c) = shut c"
  by (simp add: shut_closed shut_shuts)

lemma get_failed_inert:
  assumes "lawful" "0 < n" "get n c = ([], c')"
  shows "put d c' = (False, c') \<and> get m c' = ([], c')"
proof (cases "opened c")
  case True
  then have "\<not> opened c'" using get_fails [OF True assms(2,3)] shut_shuts [OF assms(1)] by auto
  then show ?thesis by (simp add: put_closed get_closed)
next
  case False
  then show ?thesis using assms(3) by (simp add: put_closed get_closed)
qed

lemma get_length: "get n c = (bs, c') \<Longrightarrow> length bs = n \<or> bs = []"
  using get_wire by blast

lemma wire_grows_put: "prefix (wire c) (wire (snd (put d c)))" if "d \<noteq> []"
  using that put_closed [of c d] put_wire [of c d "fst (put d c)" "snd (put d c)"]
  by (cases "opened c") auto

lemma wire_grows_shut: "prefix (wire c) (wire (shut c))"
  by (cases "opened c") (simp_all add: shut_wire shut_closed)

lemma wire_grows_get: "prefix (wire c) (wire (snd (get n c)))"
proof (cases "opened c \<and> 0 < n")
  case True
  then show ?thesis
    using get_wire [of n c "fst (get n c)" "snd (get n c)"] get_fails [of c n "snd (get n c)"]
    by (cases "fst (get n c) = []") (fastforce simp: prod_eq_iff intro: prefix_order.trans [OF _ wire_grows_shut])+
next
  case False
  then show ?thesis using get_closed [of c n] get_zero [of c] by auto
qed

end

lemma length_receive_buffer: "length (take n (got @ replicate n 0)) = n"
  by simp

lemma isConnected_observe [simp]: "isConnected A (observe ev w c) = as_is_open A w"
  by (simp add: isConnected_def observe_def)

lemma nc_trace_observe [simp]: "nc_trace (observe ev w c) = nc_trace c @ [ev]"
  by (simp add: observe_def)

lemma receiveExact_cases:
  assumes "receiveExact A n c = (bs, c')"
  obtains (skip) "\<not> isConnected A c \<or> n = 0" "bs = []" "c' = c"
  | (full) w where "isConnected A c" "n \<noteq> 0" "length bs = n" "c' = observe (Received bs) w c"
  | (failed) w where "isConnected A c" "n \<noteq> 0" "bs = []" "c' = disconnect A (observe (ReceiveFailed n) w c)"
proof (cases "\<not> isConnected A c \<or> n = 0")
  case True
  then show ?thesis using assms by (intro skip) (auto simp: receiveExact_def)
next
  case False
  obtain r got w where r: "as_read A n (nc_socket c) = ((r, got), w)"
    by (metis prod.exhaust)
  show ?thesis
  proof (cases r)
    case None
    then have "bs = take n (got @ replicate n 0) \<and> c' = observe (Received bs) w c"
      using assms False r by (auto simp: receiveExact_def Let_def)
    then show ?thesis
      using False length_receive_buffer [of n got] by (intro full [of w]) simp_all
  next
    case (Some e)
    then show ?thesis
      using assms False r by (intro failed [of w]) (auto simp: receiveExact_def split: io_error.splits)
  qed
qed

lemma send_cases:
  assumes "send A d c = (ok, c')"
  obtains (closed) "\<not> isConnected A c" "\<not> ok" "c' = c"
  | (empty) "isConnected A c" "d = []" "ok" "c' = c"
  | (sent) w where "isConnected A c" "d \<noteq> []" "ok" "c' = observe (Sent d) w c"
  | (failed) w where "isConnected A c" "d \<noteq> []" "\<not> ok" "c' = observe (SendFailed d) w c"
  using assms by (auto simp: send_def split: if_splits prod.splits bool.splits)

interpretation tcp: channel "isConnected A" "send A" "receiveExact A" "disconnect A" nc_trace
  "asio_close_law A" for A
proof unfold_locales
  fix c c' :: "'a network_client" and d bs ok and n :: nat
  show "send A d c = (False, c)" if "\<not> isConnected A c"
    using that by (simp add: send_def)
  show "receiveExact A n c = ([], c)" if "\<not> isConnected A c"
    using that by (simp add: receiveExact_def)
  show "receiveExact A 0 c = ([], c)"
    by (simp add: receiveExact_def)
  show "nc_trace c' = nc_trace c @ [if ok then Sent d else SendFailed d]"
    if "isConnected A c" "d \<noteq> []" "send A d c = (ok, c')"
    using that(3) by (cases rule: send_cases) (use that in auto)
  show "length bs = n \<and> nc_trace c' = nc_trace c @ [Received bs]"
    if "receiveExact A n c = (bs, c')" "bs \<noteq> []"
    using that(1) by (cases rule: receiveExact_cases) (use that in auto)
  show "\<exists>c1. nc_trace c1 = nc_trace c @ [ReceiveFailed n] \<and> c' = disconnect A c1"
    if "isConnected A c" "0 < n" "receiveExact A n c = ([], c')"
    using that(3) by (cases rule: receiveExact_cases) (use that in \<open>auto intro: exI [of _ "observe _ _ c"]\<close>)
  show "disconnect A c = c" if "\<not> isConnected A c"
    using that by (simp add: disconnect_def)
  show "nc_trace (disconnect A c) = nc_trace c @ [Closed]" if "isConnected A c"
    using that by (simp add: disconnect_def)
  show "\<not> isConnected A (disconnect A c)" if "asio_close_law A"
    using that by (simp add: disconnect_def asio_close_law_def)
qed

section \<open>A scripted network\<close>

text \<open>
  An instance of the library: connecting and writing succeed, and what the server says is
  fixed in advance; a read beyond its end meets the end of the stream.
\<close>

record script_world =
  sw_open :: bool
  sw_incoming :: bytes

definition script_asio :: "script_world asio_api" where
  "script_asio =
     \<lparr>as_is_open = sw_open,
      as_resolve = (\<lambda>host portStr w. (Some [(host, 1234)], w)),
      as_connect = (\<lambda>eps w. (True, w\<lparr>sw_open := True\<rparr>)),
      as_write = (\<lambda>data w. (True, w)),
      as_read = (\<lambda>n w. if n \<le> length (sw_incoming w)
         then ((None, take n (sw_incoming w)), w\<lparr>sw_incoming := drop n (sw_incoming w)\<rparr>)
         else ((Some Eof, sw_incoming w), w\<lparr>sw_incoming := []\<rparr>)),
      as_shutdown = (\<lambda>w. w),
      as_close = (\<lambda>w. w\<lparr>sw_open := False\<rparr>)\<rparr>"

definition script :: "bytes \<Rightarrow> script_world" where
  "script bs = \<lparr>sw_open = False, sw_incoming = bs\<rparr>"

lemma script_asio_laws [simp]: "asio_close_law script_asio"
  by (auto simp: asio_close_law_def script_asio_def)

lemma script_send:
  "sw_open (nc_socket c) \<Longrightarrow> d \<noteq> [] \<Longrightarrow>
   send script_asio d c = (True, c\<lparr>nc_trace := nc_trace c @ [Sent d]\<rparr>)"
  by (simp add: send_def isConnected_def script_asio_def observe_def)

lemma script_receive:
  "sw_open (nc_socket c) \<Longrightarrow> sw_incoming (nc_socket c) = bs @ rest \<Longrightarrow> length bs = n \<Longrightarrow> 0 < n \<Longrightarrow>
   receiveExact script_asio n c =
     (bs, \<lparr>nc_socket = (nc_socket c)\<lparr>sw_incoming := rest\<rparr>, nc_trace = nc_trace c @ [Received bs]\<rparr>)"
  by (simp add: receiveExact_def isConnected_def script_asio_def observe_def)

section \<open>Properties\<close>

text \<open>
  C29. \<open>receiveExact\<close> returns all the bytes that were asked for or none. A non-empty result has exactly the
  requested size and leaves the connection as the read left it; an empty result for a positive size means that the
  connection is closed afterwards, after which nothing more is sent or received.
\<close>

theorem receive_exact_all_or_closed:
  assumes "asio_close_law A"
  shows "case receiveExact A n c of (bs, c') \<Rightarrow>
     if bs = [] then n = 0 \<and> c' = c \<or>
       (\<not> isConnected A c' \<and> send A d c' = (False, c') \<and> receiveExact A m c' = ([], c'))
     else length bs = n \<and> nc_trace c' = nc_trace c @ [Received bs]"
proof (cases "receiveExact A n c")
  case (Pair bs c')
  have "\<not> isConnected A c'" if "bs = []" "n \<noteq> 0"
    using Pair by (cases rule: receiveExact_cases) (use that tcp.shut_shuts [OF assms] in auto)
  then show ?thesis
    using Pair tcp.get_wire [OF Pair] tcp.get_failed_inert [OF assms, of n c c' d m] tcp.get_zero [of A c]
    by (cases "n = 0") auto
qed

theorem receive_exact_all_or_closed_witness:
  "case receiveExact script_asio 5 \<lparr>nc_socket = \<lparr>sw_open = True, sw_incoming = [1, 2, 3]\<rparr>, nc_trace = []\<rparr> of
     (bs, c') \<Rightarrow>
     if bs = [] then (5 :: nat) = 0 \<and> c' = \<lparr>nc_socket = \<lparr>sw_open = True, sw_incoming = [1, 2, 3]\<rparr>, nc_trace = []\<rparr> \<or>
       (\<not> isConnected script_asio c' \<and> send script_asio [9] c' = (False, c') \<and>
        receiveExact script_asio 2 c' = ([], c'))
     else length bs = 5 \<and> nc_trace c' =
       nc_trace \<lparr>nc_socket = \<lparr>sw_open = True, sw_incoming = [1, 2, 3]\<rparr>, nc_trace = []\<rparr> @ [Received bs]"
  by (rule receive_exact_all_or_closed) simp

text \<open>The port that is resolved is the port of the configuration.\<close>

fun decimal_value :: "string \<Rightarrow> nat \<Rightarrow> nat" where
  "decimal_value [] acc = acc"
| "decimal_value (c # s) acc = decimal_value s (10 * acc + (of_char c - 48))"

lemma decimal_value_append: "decimal_value (s @ t) acc = decimal_value t (decimal_value s acc)"
  by (induction s arbitrary: acc) auto

lemma decimal_value_decimal: "decimal_value (decimal n) 0 = n"
proof (induction n rule: decimal.induct)
  case (1 n)
  have "of_char (char_of (48 + m) :: char) = 48 + m" if "m < 10" for m :: nat
    using that by (simp add: of_char_of)
  with 1 show ?case
    by (simp add: decimal.simps [of n] decimal_value_append)
qed

end
