(* ===== verification/FileSystem.thy ===== *)
theory FileSystem
  imports Prelude
begin

text \<open>
  What the sources use of the C++ standard library's files: \<open>std::filesystem::exists\<close>,
  \<open>file_size\<close>, \<open>remove\<close> and \<open>path::filename\<close>, input and output file streams, and
  \<open>std::getline\<close>.

  A file system maps paths to contents. Everything the environment can refuse is a field of the
  state: a status query may throw, a file may be unreadable, unwritable or undeletable, and a
  device may take only so many bytes of a file. Streams in text mode translate line ends on
  Windows and nothing on POSIX systems. Paths are compared as strings, and files are regular
  files.
\<close>

section \<open>The state\<close>

record fs =
  fs_platform :: platform
  fs_files :: "string \<Rightarrow> string option"
  fs_status_fails :: "string \<Rightarrow> bool"
  fs_readable :: "string \<Rightarrow> bool"
  fs_writable :: "string \<Rightarrow> bool"
  fs_removable :: "string \<Rightarrow> bool"
  fs_capacity :: "string \<Rightarrow> nat option"

section \<open>Queries and removal\<close>

definition fs_exists :: "fs \<Rightarrow> string \<Rightarrow> exn + bool" where
  "fs_exists d p = (if fs_status_fails d p then Inl FilesystemError else Inr (fs_files d p \<noteq> None))"

definition fs_file_size :: "fs \<Rightarrow> string \<Rightarrow> exn + nat" where
  "fs_file_size d p =
     (if fs_status_fails d p then Inl FilesystemError
      else case fs_files d p of None \<Rightarrow> Inl FilesystemError | Some c \<Rightarrow> Inr (length c))"

text \<open>\<open>remove(path, ec)\<close>: does not throw; a missing file is no error.\<close>

definition fs_remove :: "fs \<Rightarrow> string \<Rightarrow> fs" where
  "fs_remove d p = (if fs_removable d p then d\<lparr>fs_files := (fs_files d)(p := None)\<rparr> else d)"

section \<open>Streams\<close>

text \<open>\<open>std::ifstream\<close>: the raw content when \<open>is_open()\<close>, \<open>None\<close> otherwise.\<close>

definition fs_open_in :: "fs \<Rightarrow> string \<Rightarrow> string option" where
  "fs_open_in d p = (if fs_readable d p then fs_files d p else None)"

text \<open>\<open>std::ofstream\<close> with \<open>trunc\<close>: \<open>None\<close> unless \<open>is_open()\<close>.\<close>

definition fs_open_trunc :: "fs \<Rightarrow> string \<Rightarrow> fs option" where
  "fs_open_trunc d p =
     (if fs_writable d p then Some (d\<lparr>fs_files := (fs_files d)(p \<mapsto> [])\<rparr>) else None)"

text \<open>Everything inserted into an output stream, as far as the device takes it.\<close>

definition fs_write :: "fs \<Rightarrow> string \<Rightarrow> string \<Rightarrow> fs" where
  "fs_write d p s =
     d\<lparr>fs_files := (fs_files d)(p \<mapsto> (case fs_capacity d p of None \<Rightarrow> s | Some n \<Rightarrow> take n s))\<rparr>"

text \<open>
  Text mode. Writing on Windows puts a carriage return before each line feed. Reading there
  drops a carriage return before a line feed and stops at a Ctrl-Z character.
\<close>

definition LF :: char where "LF = CHR 0x0A"
definition CR :: char where "CR = CHR 0x0D"
definition CTRL_Z :: char where "CTRL_Z = CHR 0x1A"

fun text_out :: "platform \<Rightarrow> string \<Rightarrow> string" where
  "text_out Posix s = s"
| "text_out Windows [] = []"
| "text_out Windows (c # s) = (if c = LF then [CR, LF] else [c]) @ text_out Windows s"

fun crlf_to_lf :: "string \<Rightarrow> string" where
  "crlf_to_lf (c # e # s) = (if c = CR \<and> e = LF then LF # crlf_to_lf s else c # crlf_to_lf (e # s))"
| "crlf_to_lf s = s"

fun text_in :: "platform \<Rightarrow> string \<Rightarrow> string" where
  "text_in Posix s = s"
| "text_in Windows s = crlf_to_lf (takeWhile (\<lambda>c. c \<noteq> CTRL_Z) s)"

text \<open>
  \<open>std::getline\<close> on what is left of a stream: \<open>None\<close> when it sets \<open>failbit\<close> (nothing is
  left), otherwise the line and what is left after its line feed.
\<close>

definition getline :: "string \<Rightarrow> (string \<times> string) option" where
  "getline s =
     (if s = [] then None
      else Some (takeWhile (\<lambda>c. c \<noteq> LF) s, drop 1 (dropWhile (\<lambda>c. c \<noteq> LF) s)))"

section \<open>Path names\<close>

text \<open>
  \<open>path::filename()\<close>: what follows the last separator of the path after its root name. On Windows
  both slashes separate, and the root name is a drive letter with its colon or a
  double-slash server name.
\<close>

definition is_separator :: "platform \<Rightarrow> char \<Rightarrow> bool" where
  "is_separator pl c \<longleftrightarrow> c = CHR ''/'' \<or> (pl = Windows \<and> c = CHR 0x5C)"

definition is_letter :: "char \<Rightarrow> bool" where
  "is_letter c \<longleftrightarrow> (let n = of_char c :: nat in (65 \<le> n \<and> n \<le> 90) \<or> (97 \<le> n \<and> n \<le> 122))"

definition root_name_length :: "platform \<Rightarrow> string \<Rightarrow> nat" where
  "root_name_length pl p =
     (if pl = Posix then 0
      else case p of
          c # e # s \<Rightarrow>
            if is_letter c \<and> e = CHR '':'' then 2
            else if is_separator pl c \<and> is_separator pl e \<and> s \<noteq> [] \<and> \<not> is_separator pl (hd s)
              then 2 + length (takeWhile (\<lambda>c. \<not> is_separator pl c) s)
            else 0
        | _ \<Rightarrow> 0)"

definition path_filename :: "platform \<Rightarrow> string \<Rightarrow> string" where
  "path_filename pl p =
     rev (takeWhile (\<lambda>c. \<not> is_separator pl c) (rev (drop (root_name_length pl p) p)))"

section \<open>Facts\<close>

lemma text_out_Windows_append: "text_out Windows (a @ b) = text_out Windows a @ text_out Windows b"
  by (induction a) auto

lemma text_out_append [simp]: "text_out pl (a @ b) = text_out pl a @ text_out pl b"
  by (cases pl) (simp_all add: text_out_Windows_append)

lemma set_text_out: "set (text_out pl s) \<subseteq> insert CR (set s)"
  by (cases pl) (simp, induction s, auto)

lemma CTRL_Z_neq [simp]: "CTRL_Z \<noteq> CR" "CTRL_Z \<noteq> LF" "CR \<noteq> LF" "LF \<noteq> CR" "CR \<noteq> CTRL_Z" "LF \<noteq> CTRL_Z"
  by (simp_all add: CTRL_Z_def CR_def LF_def)

lemma crlf_to_lf_Cons: "c \<noteq> CR \<Longrightarrow> crlf_to_lf (c # s) = c # crlf_to_lf s"
  by (cases s) auto

lemma crlf_to_lf_text_out: "crlf_to_lf (text_out Windows s) = s"
proof (induction s rule: length_induct)
  case (1 s)
  show ?case
  proof (cases s)
    case (Cons c t)
    then have IH: "crlf_to_lf (text_out Windows t) = t" using 1 by simp
    show ?thesis
    proof (cases "c = CR")
      case True
      show ?thesis
      proof (cases t)
        case (Cons e u)
        then show ?thesis
          using True IH \<open>s = c # t\<close> by (cases "e = LF") auto
      qed (simp add: Cons True)
    qed (auto simp: Cons IH crlf_to_lf_Cons)
  qed simp
qed

lemma text_in_out: "CTRL_Z \<notin> set s \<Longrightarrow> text_in pl (text_out pl s) = s"
proof (cases pl)
  case Windows
  assume "CTRL_Z \<notin> set s"
  then have "CTRL_Z \<notin> set (text_out Windows s)"
    using set_text_out [of Windows s] by auto
  then have "takeWhile (\<lambda>c. c \<noteq> CTRL_Z) (text_out Windows s) = text_out Windows s"
    by (intro takeWhile_all) (auto simp: list_all_iff)
  then show ?thesis
    by (simp only: Windows text_in.simps crlf_to_lf_text_out)
qed simp

lemma getline_line: "LF \<notin> set l \<Longrightarrow> getline (l @ LF # rest) = Some (l, rest)"
  by (auto simp: getline_def takeWhile_append dropWhile_append takeWhile_all list_all_iff)

lemma getline_last: "LF \<notin> set l \<Longrightarrow> l \<noteq> [] \<Longrightarrow> getline l = Some (l, [])"
proof -
  assume l: "LF \<notin> set l" "l \<noteq> []"
  then have "takeWhile (\<lambda>c. c \<noteq> LF) l = l" "dropWhile (\<lambda>c. c \<noteq> LF) l = []"
    by (auto simp: dropWhile_eq_Nil_conv)
  then show ?thesis using l by (simp only: getline_def) simp
qed

lemma getline_no_LF: "getline s = Some (l, rest) \<Longrightarrow> LF \<notin> set l"
  by (auto simp: getline_def split: if_splits dest: set_takeWhileD)

text \<open>What each operation leaves alone.\<close>

definition same_environment :: "fs \<Rightarrow> fs \<Rightarrow> bool" where
  "same_environment d e \<longleftrightarrow> fs_platform e = fs_platform d \<and> fs_status_fails e = fs_status_fails d \<and>
     fs_readable e = fs_readable d \<and> fs_writable e = fs_writable d \<and>
     fs_removable e = fs_removable d \<and> fs_capacity e = fs_capacity d"

interpretation environment: state_preorder same_environment
  by unfold_locales (simp_all add: same_environment_def)

lemma same_environment_ops [frame_simps]:
  "same_environment d (fs_remove d p)" "same_environment d (fs_write d p s)"
  "fs_open_trunc d p = Some e \<Longrightarrow> same_environment d e"
  by (auto simp: same_environment_def fs_remove_def fs_write_def fs_open_trunc_def split: if_splits)

end
