(* ===== verification/Protocol.thy ===== *)
theory Protocol
  imports Prelude
begin

text \<open>
  The wire protocol of \<open>src/Protocol.h\<close> and the packet builder of \<open>src/Protocol.cpp\<close>:
  constants, request and response codes, headers, little-endian integers, the zero-padded
  string field and the five request packets. A \<open>std::vector<uint8_t>\<close> is \<open>bytes\<close>, a
  \<open>std::array<uint8_t, UUID_SIZE>\<close> a list that \<open>uuid_ok\<close> says has 16 bytes. Sizes of type
  \<open>size_t\<close> are natural numbers; the narrowing casts to \<open>uint32_t\<close> are written out.
  \<open>reserve\<close> has no effect on the value of a vector and is left out.
\<close>

unbundle bit_operations_syntax

section \<open>Constants\<close>

definition MAX_CRC_ATTEMPTS :: nat where "MAX_CRC_ATTEMPTS = 4"
definition CLIENT_VERSION :: byte where "CLIENT_VERSION = 3"
definition SERVER_VERSION :: byte where "SERVER_VERSION = 3"
definition UUID_SIZE :: nat where "UUID_SIZE = 16"
definition FILE_NAME_FIELD_SIZE :: nat where "FILE_NAME_FIELD_SIZE = 255"
definition FILE_METADATA_SIZE :: nat where
  "FILE_METADATA_SIZE = 2 * (4 + 2) + FILE_NAME_FIELD_SIZE"
definition NAME_FIELD_SIZE :: nat where "NAME_FIELD_SIZE = 255"
definition PUBLIC_KEY_SIZE :: nat where "PUBLIC_KEY_SIZE = 160"
definition REQUEST_HEADER_SIZE :: nat where "REQUEST_HEADER_SIZE = 23"
definition RESPONSE_HEADER_SIZE :: nat where "RESPONSE_HEADER_SIZE = 7"
definition CRC_PAYLOAD_EXPECTED_SIZE :: nat where
  "CRC_PAYLOAD_EXPECTED_SIZE = UUID_SIZE + 4 + FILE_NAME_FIELD_SIZE + 4"
definition ENCRYPTED_AES_KEY_SIZE :: nat where "ENCRYPTED_AES_KEY_SIZE = 128"
definition AES_KEY_PAYLOAD_SIZE :: nat where
  "AES_KEY_PAYLOAD_SIZE = UUID_SIZE + ENCRYPTED_AES_KEY_SIZE"

lemmas protocol_sizes =
  UUID_SIZE_def FILE_NAME_FIELD_SIZE_def FILE_METADATA_SIZE_def NAME_FIELD_SIZE_def
  PUBLIC_KEY_SIZE_def REQUEST_HEADER_SIZE_def RESPONSE_HEADER_SIZE_def
  CRC_PAYLOAD_EXPECTED_SIZE_def ENCRYPTED_AES_KEY_SIZE_def AES_KEY_PAYLOAD_SIZE_def

section \<open>Codes\<close>

datatype request_code =
    Registration | SendPublicKey | Reconnect | SendFile
  | CrcValid | CrcInvalidRetry | CrcInvalidAbort

fun request_code_value :: "request_code \<Rightarrow> u16" where
  "request_code_value Registration = 825"
| "request_code_value SendPublicKey = 826"
| "request_code_value Reconnect = 827"
| "request_code_value SendFile = 828"
| "request_code_value CrcValid = 900"
| "request_code_value CrcInvalidRetry = 901"
| "request_code_value CrcInvalidAbort = 902"

text \<open>
  \<open>ResponseCode\<close> has the fixed underlying type \<open>uint16_t\<close>, so a cast from the wire may
  yield a value with no enumerator; \<open>UnlistedResponse\<close> holds such a value.
\<close>

datatype response_code =
    RegistrationSuccess | RegistrationFailed | AesKeyReceived | FileReceivedWithCrc
  | MessageConfirmed | ReconnectApproved | ReconnectRejected | GeneralError
  | UnlistedResponse u16

definition response_code_of :: "u16 \<Rightarrow> response_code" where
  "response_code_of w =
     (if w = 1600 then RegistrationSuccess
      else if w = 1601 then RegistrationFailed
      else if w = 1602 then AesKeyReceived
      else if w = 1603 then FileReceivedWithCrc
      else if w = 1604 then MessageConfirmed
      else if w = 1605 then ReconnectApproved
      else if w = 1606 then ReconnectRejected
      else if w = 1607 then GeneralError
      else UnlistedResponse w)"

fun response_code_value :: "response_code \<Rightarrow> u16" where
  "response_code_value RegistrationSuccess = 1600"
| "response_code_value RegistrationFailed = 1601"
| "response_code_value AesKeyReceived = 1602"
| "response_code_value FileReceivedWithCrc = 1603"
| "response_code_value MessageConfirmed = 1604"
| "response_code_value ReconnectApproved = 1605"
| "response_code_value ReconnectRejected = 1606"
| "response_code_value GeneralError = 1607"
| "response_code_value (UnlistedResponse w) = w"

lemma response_code_value_of [simp]: "response_code_value (response_code_of w) = w"
  by (simp add: response_code_of_def)

lemma response_code_of_value:
  "(case c of UnlistedResponse _ \<Rightarrow> False | _ \<Rightarrow> True) \<Longrightarrow> response_code_of (response_code_value c) = c"
  by (cases c) (simp_all add: response_code_of_def)

lemma response_code_of_inject: "response_code_of v = response_code_of w \<longleftrightarrow> v = w"
  by (metis response_code_value_of)

lemma request_code_value_inject [simp]: "request_code_value a = request_code_value b \<longleftrightarrow> a = b"
  by (cases a; cases b) simp_all

section \<open>Headers and responses\<close>

record request_header =
  rq_clientId :: bytes
  rq_version :: byte
  rq_code :: request_code
  rq_payloadSize :: u32

record response_header =
  rs_version :: byte
  rs_code :: response_code
  rs_payloadSize :: u32

record server_response =
  sr_header :: response_header
  sr_payload :: bytes

record aes_key_response =
  ak_clientId :: bytes
  ak_encryptedAesKey :: bytes

record file_crc_response =
  fc_clientId :: bytes
  fc_contentSize :: u32
  fc_fileName :: string
  fc_cksum :: u32

text \<open>\<open>RequestHeader header{}\<close>: every member has its default initialiser.\<close>

definition default_request_header :: request_header where
  "default_request_header =
     \<lparr>rq_clientId = replicate UUID_SIZE 0, rq_version = CLIENT_VERSION,
      rq_code = Registration, rq_payloadSize = 0\<rparr>"

definition uuid_ok :: "bytes \<Rightarrow> bool" where
  "uuid_ok u \<longleftrightarrow> length u = UUID_SIZE"

section \<open>Endian utilities\<close>

definition appendUint16LE :: "bytes \<Rightarrow> u16 \<Rightarrow> bytes" where
  "appendUint16LE buffer value =
     (buffer @ [ucast (value AND 0xFF)]) @ [ucast (drop_bit 8 value AND 0xFF)]"

definition appendUint32LE :: "bytes \<Rightarrow> u32 \<Rightarrow> bytes" where
  "appendUint32LE buffer value =
     (((buffer @ [ucast (value AND 0xFF)]) @ [ucast (drop_bit 8 value AND 0xFF)])
        @ [ucast (drop_bit 16 value AND 0xFF)]) @ [ucast (drop_bit 24 value AND 0xFF)]"

text \<open>The readers take a pointer: the bytes from that address on.\<close>

definition readUint16LE :: "bytes \<Rightarrow> u16" where
  "readUint16LE ptr = ucast (ptr ! 0) OR push_bit 8 (ucast (ptr ! 1))"

definition readUint32LE :: "bytes \<Rightarrow> u32" where
  "readUint32LE ptr =
     ucast (ptr ! 0) OR push_bit 8 (ucast (ptr ! 1)) OR push_bit 16 (ucast (ptr ! 2))
       OR push_bit 24 (ucast (ptr ! 3))"

lemma byte_mask: "ucast (w AND 0xFF) = (ucast (w :: 'a::len word) :: byte)"
proof (rule bit_word_eqI)
  fix n assume "n < LENGTH(8)"
  then have "bit (0xFF :: 'a word) n \<longleftrightarrow> n < LENGTH('a)"
    using bit_mask_iff [of 8 n, where 'a = "'a word"] by (simp add: mask_numeral possible_bit_def)
  then show "bit (ucast (w AND 0xFF) :: byte) n = bit (ucast w :: byte) n"
    by (auto simp: bit_simps dest: bit_imp_le_length)
qed

lemma readUint16LE_bytes:
  "readUint16LE (ucast v # ucast (drop_bit 8 v) # rest) = v"
  by (rule bit_word_eqI) (auto simp: readUint16LE_def bit_simps)

lemma readUint32LE_bytes:
  "readUint32LE (ucast v # ucast (drop_bit 8 v) # ucast (drop_bit 16 v) # ucast (drop_bit 24 v) # rest) = v"
proof (rule bit_word_eqI)
  fix n assume "n < LENGTH(32)"
  then have "n < 8 \<or> 8 \<le> n \<and> n < 16 \<or> 16 \<le> n \<and> n < 24 \<or> 24 \<le> n \<and> n < 32" by auto
  then show "bit (readUint32LE (ucast v # ucast (drop_bit 8 v) # ucast (drop_bit 16 v)
      # ucast (drop_bit 24 v) # rest)) n = bit v n"
    by (elim disjE) (auto simp: readUint32LE_def bit_simps)
qed

interpretation u16le: fixed_codec "appendUint16LE []" readUint16LE 2 "\<lambda>_. True"
  by unfold_locales (simp_all add: appendUint16LE_def byte_mask readUint16LE_bytes)

interpretation u32le: fixed_codec "appendUint32LE []" readUint32LE 4 "\<lambda>_. True"
  by unfold_locales (simp_all add: appendUint32LE_def byte_mask readUint32LE_bytes)

lemma appendUint16LE_append: "appendUint16LE buffer v = buffer @ appendUint16LE [] v"
  by (simp add: appendUint16LE_def)

lemma appendUint32LE_append: "appendUint32LE buffer v = buffer @ appendUint32LE [] v"
  by (simp add: appendUint32LE_def)

end
