(* ===== verification/HexConverter.thy ===== *)
theory HexConverter
  imports Protocol
begin

text \<open>
  \<open>HexConverter\<close> of \<open>src/ConfigManager.cpp\<close>: \<open>toHex\<close> prints a client ID with \<open>std::hex\<close>,
  width 2 and fill \<open>0\<close>; \<open>toBytes\<close> reads it back two characters at a time with
  \<open>std::strtol\<close> in base 16. \<open>strtol16\<close> is that library function as the code uses it: white space,
  a sign and a \<open>0x\<close> prefix are accepted before the digits, and it returns the value and the number of
  characters consumed. Its clamping of large values is left out, since the code only gives it
  two characters.
\<close>

section \<open>Printing\<close>

definition hex_char :: "nat \<Rightarrow> char" where
  "hex_char n = (if n < 10 then char_of (48 + n) else char_of (87 + n))"

fun hex_string :: "nat \<Rightarrow> string" where
  "hex_string n = (if n < 16 then [hex_char n] else hex_string (n div 16) @ [hex_char (n mod 16)])"

declare hex_string.simps [simp del]

definition setw2_fill0 :: "string \<Rightarrow> string" where
  "setw2_fill0 s = replicate (2 - length s) (CHR ''0'') @ s"

definition toHex :: "bytes \<Rightarrow> string" where
  "toHex bs = concat (map (\<lambda>b. setw2_fill0 (hex_string (unat b))) bs)"

section \<open>Reading\<close>

definition is_space :: "char \<Rightarrow> bool" where
  "is_space c \<longleftrightarrow> (let n = of_char c :: nat in n = 32 \<or> (9 \<le> n \<and> n \<le> 13))"

definition hex_value :: "char \<Rightarrow> nat option" where
  "hex_value c =
     (let n = of_char c :: nat
      in if 48 \<le> n \<and> n \<le> 57 then Some (n - 48)
         else if 65 \<le> n \<and> n \<le> 70 then Some (n - 55)
         else if 97 \<le> n \<and> n \<le> 102 then Some (n - 87)
         else None)"

definition is_xdigit :: "char \<Rightarrow> bool" where
  "is_xdigit c \<longleftrightarrow> hex_value c \<noteq> None"

text \<open>The optional sign and the optional prefix: what they count, and what follows.\<close>

definition skip_sign :: "string \<Rightarrow> bool \<times> nat \<times> string" where
  "skip_sign s = (case s of [] \<Rightarrow> (False, 0, [])
     | c # r \<Rightarrow> if c = CHR ''-'' then (True, 1, r) else if c = CHR ''+'' then (False, 1, r) else (False, 0, s))"

definition skip_0x :: "string \<Rightarrow> nat \<times> string" where
  "skip_0x s = (case s of
       z # x # d # r \<Rightarrow>
         if z = CHR ''0'' \<and> (x = CHR ''x'' \<or> x = CHR ''X'') \<and> is_xdigit d then (2, d # r) else (0, s)
     | _ \<Rightarrow> (0, s))"

definition strtol16 :: "string \<Rightarrow> int \<times> nat" where
  "strtol16 str =
     (let s = takeWhile (\<lambda>c. c \<noteq> NUL) str;
          spaces = takeWhile is_space s;
          (neg, signs, r) = skip_sign (dropWhile is_space s);
          (prefix, r) = skip_0x r;
          digits = takeWhile is_xdigit r;
          v = foldl (\<lambda>v c. 16 * v + int (the (hex_value c))) 0 digits
      in case digits of
           [] \<Rightarrow> (0, 0)
         | _ \<Rightarrow> (if neg then - v else v, length spaces + signs + prefix + length digits))"

text \<open>The loop of \<open>toBytes\<close> from index \<open>i\<close> on, with its early return.\<close>

function toBytes_from :: "nat \<Rightarrow> string \<Rightarrow> bytes \<Rightarrow> bytes option" where
  "toBytes_from i hexStr bs =
     (if i < 16 then
        (let bytesChunk = take 2 (drop (i * 2) hexStr);
             (val, consumed) = strtol16 bytesChunk
         in if consumed \<noteq> 2 \<or> val < 0 \<or> val > 0xFF then None
            else toBytes_from (Suc i) hexStr (bs[i := word_of_int val]))
      else Some bs)"
  by pat_completeness auto
termination
  by (relation "measure (\<lambda>(i, _, _). 16 - i)") auto

declare toBytes_from.simps [simp del]

definition toBytes :: "string \<Rightarrow> bytes option" where
  "toBytes hexStr =
     (if length hexStr \<noteq> 32 then None else toBytes_from 0 hexStr (replicate 16 0))"

section \<open>Two characters\<close>

text \<open>What one iteration makes of its two characters.\<close>

definition chunk_value :: "char \<Rightarrow> char \<Rightarrow> nat option" where
  "chunk_value a b =
     (if is_xdigit a \<and> is_xdigit b then Some (16 * the (hex_value a) + the (hex_value b))
      else if (is_space a \<or> a = CHR ''+'') \<and> is_xdigit b then hex_value b
      else if a = CHR ''-'' \<and> b = CHR ''0'' then Some 0
      else None)"

lemma hex_value_less: "hex_value c = Some v \<Longrightarrow> v < 16"
  by (auto simp: hex_value_def Let_def split: if_splits)

lemma hex_value_hex_char [simp]: "n < 16 \<Longrightarrow> hex_value (hex_char n) = Some n"
  by (auto simp: hex_value_def hex_char_def Let_def)

lemma is_xdigit_hex_char [simp]: "n < 16 \<Longrightarrow> is_xdigit (hex_char n)"
  by (simp add: is_xdigit_def)

lemma char_classes [simp]:
  "is_xdigit c \<Longrightarrow> \<not> is_space c" "is_xdigit c \<Longrightarrow> c \<noteq> CHR ''-''" "is_xdigit c \<Longrightarrow> c \<noteq> CHR ''+''"
  "is_xdigit c \<Longrightarrow> c \<noteq> NUL" "is_space c \<Longrightarrow> c \<noteq> NUL" "is_space c \<Longrightarrow> c \<noteq> CHR ''-''"
  "is_space c \<Longrightarrow> c \<noteq> CHR ''+''" "\<not> is_xdigit (CHR ''-'')" "\<not> is_xdigit (CHR ''+'')" "\<not> is_xdigit NUL"
  "CHR ''-'' \<noteq> NUL" "CHR ''+'' \<noteq> NUL" "\<not> is_space NUL"
  "\<not> is_space (CHR ''-'')" "\<not> is_space (CHR ''+'')" "is_xdigit (CHR ''0'')"
  by (auto simp: is_xdigit_def hex_value_def is_space_def NUL_def Let_def)

lemma hex_value_0: "hex_value c = Some 0 \<longleftrightarrow> c = CHR ''0''"
proof
  assume "hex_value c = Some 0"
  then have "(of_char c :: nat) = of_char (CHR ''0'')"
    by (auto simp: hex_value_def Let_def split: if_splits)
  then show "c = CHR ''0''" by (simp only: of_char_eq_iff)
qed (simp add: hex_value_def)

lemma space_not_xdigit [simp]: "is_space c \<Longrightarrow> \<not> is_xdigit c"
  using char_classes(1) by blast

lemmas strtol16_eval = strtol16_def Let_def skip_sign_def skip_0x_def

lemma strtol16_digit:
  assumes "is_xdigit a" "hex_value a = Some va"
  shows "is_xdigit b \<Longrightarrow> hex_value b = Some vb \<Longrightarrow> strtol16 [a, b] = (int (16 * va + vb), 2)"
    and "\<not> is_xdigit b \<Longrightarrow> strtol16 [a, b] = (int va, 1)"
  using assms by (simp_all add: strtol16_eval)

lemma strtol16_space:
  assumes "is_space a"
  shows "is_xdigit b \<Longrightarrow> hex_value b = Some vb \<Longrightarrow> strtol16 [a, b] = (int vb, 2)"
    and "\<not> is_xdigit b \<Longrightarrow> strtol16 [a, b] = (0, 0)"
  using assms by (simp_all add: strtol16_eval)

lemma strtol16_sign:
  shows "is_xdigit b \<Longrightarrow> hex_value b = Some vb \<Longrightarrow> strtol16 [CHR ''+'', b] = (int vb, 2)"
    and "is_xdigit b \<Longrightarrow> hex_value b = Some vb \<Longrightarrow> strtol16 [CHR ''-'', b] = (- int vb, 2)"
    and "\<not> is_xdigit b \<Longrightarrow> strtol16 [CHR ''+'', b] = (0, 0)"
    and "\<not> is_xdigit b \<Longrightarrow> strtol16 [CHR ''-'', b] = (0, 0)"
  by (simp_all add: strtol16_eval)

lemma strtol16_other:
  "\<not> is_space a \<Longrightarrow> \<not> is_xdigit a \<Longrightarrow> a \<noteq> CHR ''+'' \<Longrightarrow> a \<noteq> CHR ''-'' \<Longrightarrow> strtol16 [a, b] = (0, 0)"
  by (simp add: strtol16_eval)

lemma strtol16_chunk:
  "(case strtol16 [a, b] of (val, consumed) \<Rightarrow>
      if consumed \<noteq> 2 \<or> val < 0 \<or> val > 0xFF then None else Some (word_of_int val :: byte))
   = map_option word_of_nat (chunk_value a b)"
proof -
  consider va where "is_xdigit a" "hex_value a = Some va" "va < 16"
    | "is_space a" | "a = CHR ''+''" | "a = CHR ''-''"
    | "\<not> is_space a" "\<not> is_xdigit a" "a \<noteq> CHR ''+''" "a \<noteq> CHR ''-''"
    using hex_value_less by (cases "is_xdigit a") (auto simp: is_xdigit_def)
  note a_cases = this
  consider vb where "is_xdigit b" "hex_value b = Some vb" "vb < 16" | "\<not> is_xdigit b"
    using hex_value_less by (cases "is_xdigit b") (auto simp: is_xdigit_def)
  then show ?thesis
  proof cases
    case (1 vb)
    then have "b = CHR ''0'' \<longleftrightarrow> vb = 0" using hex_value_0 [of b] by auto
    from a_cases show ?thesis
      using 1 \<open>b = CHR ''0'' \<longleftrightarrow> vb = 0\<close>
      by cases (auto simp: strtol16_digit strtol16_space strtol16_sign strtol16_other chunk_value_def)
  next
    case 2
    from a_cases show ?thesis
      using 2
      by cases (auto simp: strtol16_digit strtol16_space strtol16_sign strtol16_other chunk_value_def)
  qed
qed

section \<open>The whole string\<close>

definition chunk_byte :: "string \<Rightarrow> nat \<Rightarrow> byte option" where
  "chunk_byte s i = map_option word_of_nat (chunk_value (s ! (2 * i)) (s ! Suc (2 * i)))"

lemma two_chars: "Suc k < length s \<Longrightarrow> take 2 (drop k s) = [s ! k, s ! Suc k]"
  by (simp add: take_Suc_conv_app_nth numeral_2_eq_2)

lemma toBytes_from_step:
  assumes "i < 16" and "length s = 32"
  shows "toBytes_from i s bs =
    (case chunk_byte s i of None \<Rightarrow> None | Some b \<Rightarrow> toBytes_from (Suc i) s (bs[i := b]))"
proof -
  let ?a = "s ! (2 * i)" and ?b = "s ! Suc (2 * i)"
  have chunk: "take 2 (drop (i * 2) s) = [?a, ?b]"
    using assms by (simp add: two_chars mult.commute)
  have "toBytes_from i s bs =
    (case (case strtol16 [?a, ?b] of (val, consumed) \<Rightarrow>
        if consumed \<noteq> 2 \<or> val < 0 \<or> val > 0xFF then None else Some (word_of_int val))
     of None \<Rightarrow> None | Some b \<Rightarrow> toBytes_from (Suc i) s (bs[i := b]))"
    using assms(1) by (subst toBytes_from.simps) (simp add: chunk Let_def split: prod.split)
  then show ?thesis
    by (simp only: strtol16_chunk chunk_byte_def)
qed

lemma toBytes_from_those:
  "length s = 32 \<Longrightarrow> length bs = 16 \<Longrightarrow> i \<le> 16 \<Longrightarrow>
   toBytes_from i s bs = map_option (\<lambda>vs. take i bs @ vs) (those (map (chunk_byte s) [i..<16]))"
proof (induction "16 - i" arbitrary: i bs)
  case 0
  then show ?case by (simp add: toBytes_from.simps)
next
  case (Suc n)
  then have i: "i < 16" by simp
  then have upt: "[i..<16] = i # [Suc i..<16]" by (rule upt_conv_Cons)
  show ?case
  proof (cases "chunk_byte s i")
    case None
    then show ?thesis using i Suc.prems by (simp add: toBytes_from_step upt)
  next
    case (Some b)
    have "toBytes_from (Suc i) s (bs[i := b]) =
        map_option (\<lambda>vs. take (Suc i) (bs[i := b]) @ vs) (those (map (chunk_byte s) [Suc i..<16]))"
      using Suc i by (intro Suc.hyps(1)) auto
    moreover have "take (Suc i) (bs[i := b]) = take i bs @ [b]"
      using i Suc.prems by (simp add: take_Suc_conv_app_nth)
    ultimately show ?thesis
      using Some i Suc.prems by (simp add: toBytes_from_step upt option.map_comp comp_def)
  qed
qed

lemma toBytes_those:
  "toBytes s = (if length s = 32 then those (map (chunk_byte s) [0..<16]) else None)"
  by (auto simp: toBytes_def toBytes_from_those option.map_ident)

lemma those_length: "those xs = Some ys \<Longrightarrow> length ys = length xs"
  by (induction xs arbitrary: ys) (auto split: option.splits)

lemma those_map_Some: "(\<And>x. x \<in> set xs \<Longrightarrow> f x = Some (g x)) \<Longrightarrow> those (map f xs) = Some (map g xs)"
  by (induction xs) auto

lemma those_None: "those xs = None \<longleftrightarrow> None \<in> set xs"
  by (induction xs) (auto split: option.splits)

lemma toBytes_uuid_ok: "toBytes s = Some u \<Longrightarrow> uuid_ok u"
  by (auto simp: toBytes_those uuid_ok_def UUID_SIZE_def dest: those_length split: if_splits)

lemma hex_string_byte: "n < 256 \<Longrightarrow> setw2_fill0 (hex_string n) = [hex_char (n div 16), hex_char (n mod 16)]"
proof (cases "n < 16")
  case True
  moreover have "hex_char 0 = CHR ''0''" by code_simp
  ultimately show ?thesis by (simp add: setw2_fill0_def hex_string.simps [of n])
next
  case False
  assume "n < 256"
  then have "n div 16 < 16" by simp
  then show ?thesis
    using False by (simp add: setw2_fill0_def hex_string.simps [of n] hex_string.simps [of "n div 16"])
qed

lemma toHex_pairs:
  "toHex bs = concat (map (\<lambda>b. [hex_char (unat b div 16), hex_char (unat b mod 16)]) bs)"
  by (simp add: toHex_def hex_string_byte unat_byte_less_256)

lemma length_toHex: "length (toHex bs) = 2 * length bs"
  by (induction bs) (auto simp: toHex_pairs)

lemma toHex_nth:
  "i < length bs \<Longrightarrow> toHex bs ! (2 * i) = hex_char (unat (bs ! i) div 16) \<and>
     toHex bs ! Suc (2 * i) = hex_char (unat (bs ! i) mod 16)"
proof (induction bs arbitrary: i)
  case (Cons b bs)
  then show ?case by (cases i) (auto simp: toHex_pairs)
qed simp

lemma toHex_no_control: "c \<in> set (toHex bs) \<Longrightarrow> \<exists>n < 16. c = hex_char n"
proof -
  assume "c \<in> set (toHex bs)"
  then obtain b :: byte where "c = hex_char (unat b div 16) \<or> c = hex_char (unat b mod 16)"
    by (auto simp: toHex_pairs)
  moreover have "unat b div 16 < 16" for b :: byte
    using unat_byte_less_256 [of b] by simp
  ultimately show ?thesis by (metis mod_less_divisor zero_less_numeral)
qed

section \<open>Correctness of the conversion\<close>

lemma toBytes_toHex:
  assumes "uuid_ok u"
  shows "toBytes (toHex u) = Some u"
proof -
  have len: "length u = 16" using assms by (simp add: uuid_ok_def UUID_SIZE_def)
  have "chunk_byte (toHex u) i = Some (u ! i)" if "i \<in> set [0..<16]" for i
  proof -
    have "unat (u ! i) div 16 < 16" "unat (u ! i) mod 16 < 16"
      using unat_byte_less_256 [of "u ! i"] by simp_all
    moreover have "16 * (unat (u ! i) div 16) + unat (u ! i) mod 16 = unat (u ! i)"
      by simp
    ultimately show ?thesis
      using that len toHex_nth [of i u] by (simp add: chunk_byte_def chunk_value_def)
  qed
  then have "those (map (chunk_byte (toHex u)) [0..<16]) = Some (map ((!) u) [0..<16])"
    by (rule those_map_Some)
  moreover have "map ((!) u) [0..<16] = u"
    using map_nth [of u] len by simp
  ultimately show ?thesis
    by (simp add: toBytes_those length_toHex len)
qed

text \<open>
  What the reader accepts: 32 characters in 16 pairs, each pair two hexadecimal digits of either
  case, or one digit after white space or a plus sign, or the pair minus zero.
\<close>

lemma toBytes_accepts:
  "(case toBytes s of
      Some u \<Rightarrow> uuid_ok u \<and> length s = 32 \<and> list_all (\<lambda>i. chunk_value (s ! (2 * i)) (s ! Suc (2 * i)) \<noteq> None) [0..<16]
    | None \<Rightarrow> \<not> (length s = 32 \<and> list_all (\<lambda>i. chunk_value (s ! (2 * i)) (s ! Suc (2 * i)) \<noteq> None) [0..<16]))"
proof -
  have "those (map (chunk_byte s) [0..<16]) = None \<longleftrightarrow>
      \<not> list_all (\<lambda>i. chunk_value (s ! (2 * i)) (s ! Suc (2 * i)) \<noteq> None) [0..<16]"
    by (auto simp: those_None list_all_iff chunk_byte_def image_iff simp del: set_upt)
  then show ?thesis
    using toBytes_uuid_ok [of s] by (auto simp: toBytes_those split: option.splits)
qed

text \<open>
  C35. A client ID survives being stored: reading back what \<open>toHex\<close> printed gives the same 16
  bytes. Of any string, the reader accepts exactly those of 32 characters in 16 pairs, each pair two hexadecimal
  digits of either case, or one digit after white space or a plus sign, or the pair minus zero; the
  result has 16 bytes.
\<close>

theorem hex_conversion:
  assumes "uuid_ok u"
  shows "toBytes (toHex u) = Some u \<and>
    (case toBytes s of
      Some v \<Rightarrow> uuid_ok v \<and> length s = 32 \<and> list_all (\<lambda>i. chunk_value (s ! (2 * i)) (s ! Suc (2 * i)) \<noteq> None) [0..<16]
    | None \<Rightarrow> \<not> (length s = 32 \<and> list_all (\<lambda>i. chunk_value (s ! (2 * i)) (s ! Suc (2 * i)) \<noteq> None) [0..<16]))"
  using toBytes_toHex [OF assms] toBytes_accepts by blast

theorem hex_conversion_witness:
  "toBytes (toHex [0, 1, 15, 16, 127, 128, 171, 205, 239, 254, 255, 2, 3, 4, 5, 6]) =
   Some [0, 1, 15, 16, 127, 128, 171, 205, 239, 254, 255, 2, 3, 4, 5, 6] \<and> toBytes ''zz'' = None"
  using hex_conversion [of "[0, 1, 15, 16, 127, 128, 171, 205, 239, 254, 255, 2, 3, 4, 5, 6]" "''zz''"]
  by (simp add: uuid_ok_def UUID_SIZE_def split: option.splits)

text \<open>The reader does not check that every character is a hexadecimal digit.\<close>

lemma toBytes_accepts_signs: "toBytes (concat (replicate 16 ''+7'')) = Some (replicate 16 7)"
  by code_simp

end
