(* ===== verification/CryptoHelper.thy ===== *)
theory CryptoHelper
  imports FileSystem HexConverter
begin

text \<open>
  \<open>CryptoHelper\<close> of \<open>src/CryptoHelper.h\<close> and \<open>src/CryptoHelper.cpp\<close>: the client's RSA key pair,
  its export and import, the decryption of the AES key and the AES-256-CBC encryption.

  Crypto++ is a parameter: \<open>crypto_api\<close> holds what the code calls, over unspecified types
  of random pools, private keys and public keys; \<open>None\<close> is a Crypto++ exception. The laws that
  properties rely on are the predicates \<open>key_export_law\<close> and \<open>cbc_padding_law\<close>.
\<close>

section \<open>State\<close>

record ('r, 'k, 'p) crypto_api =
  cp_generate :: "nat \<Rightarrow> 'r \<Rightarrow> ('k \<times> 'p) option \<times> 'r"
  cp_save_public :: "'p \<Rightarrow> bytes"
  cp_save_private :: "'k \<Rightarrow> bytes"
  cp_base64_encode :: "bytes \<Rightarrow> string"
  cp_base64_decode :: "string \<Rightarrow> bytes"
  cp_load_private :: "bytes \<Rightarrow> 'k option"
  cp_oaep_decrypt :: "'k \<Rightarrow> bytes \<Rightarrow> 'r \<Rightarrow> bytes option \<times> 'r"
  cp_aes_cbc_encrypt :: "bytes \<Rightarrow> bytes \<Rightarrow> bytes \<Rightarrow> bytes option"

record ('r, 'k, 'p) crypto_helper =
  ch_rng :: 'r
  ch_privateKey :: "'k option"
  ch_publicKey :: "'p option"

definition newCryptoHelper :: "'r \<Rightarrow> ('r, 'k, 'p) crypto_helper" where
  "newCryptoHelper r = \<lparr>ch_rng = r, ch_privateKey = None, ch_publicKey = None\<rparr>"

definition AES_MAX_KEYLENGTH :: nat where "AES_MAX_KEYLENGTH = 32"
definition AES_BLOCKSIZE :: nat where "AES_BLOCKSIZE = 16"

section \<open>Operations\<close>

definition generateRsaKeys ::
  "('r, 'k, 'p) crypto_api \<Rightarrow> ('r, 'k, 'p) crypto_helper \<Rightarrow> (exn + unit) \<times> ('r, 'k, 'p) crypto_helper" where
  "generateRsaKeys C h =
     (case cp_generate C 1024 (ch_rng h) of
        (None, r) \<Rightarrow> (Inl CryptoPPError, h\<lparr>ch_rng := r\<rparr>)
      | (Some (priv, pub), r) \<Rightarrow>
          (Inr (), h\<lparr>ch_rng := r, ch_privateKey := Some priv, ch_publicKey := Some pub\<rparr>))"

definition getPublicKeyDER :: "('r, 'k, 'p) crypto_api \<Rightarrow> ('r, 'k, 'p) crypto_helper \<Rightarrow> bytes" where
  "getPublicKeyDER C h = (case ch_publicKey h of None \<Rightarrow> [] | Some pub \<Rightarrow> cp_save_public C pub)"

definition getPrivateKeyBase64 :: "('r, 'k, 'p) crypto_api \<Rightarrow> ('r, 'k, 'p) crypto_helper \<Rightarrow> string" where
  "getPrivateKeyBase64 C h =
     (case ch_privateKey h of None \<Rightarrow> [] | Some priv \<Rightarrow> cp_base64_encode C (cp_save_private C priv))"

definition decryptAesKey ::
  "('r, 'k, 'p) crypto_api \<Rightarrow> bytes \<Rightarrow> ('r, 'k, 'p) crypto_helper \<Rightarrow> bytes \<times> ('r, 'k, 'p) crypto_helper" where
  "decryptAesKey C cipherText h =
     (case ch_privateKey h of
        None \<Rightarrow> ([], h)
      | Some priv \<Rightarrow>
          if cipherText = [] then ([], h)
          else case cp_oaep_decrypt C priv cipherText (ch_rng h) of
              (Some plain, r) \<Rightarrow> (plain, h\<lparr>ch_rng := r\<rparr>)
            | (None, r) \<Rightarrow> ([], h\<lparr>ch_rng := r\<rparr>))"

definition encryptAesCbc :: "('r, 'k, 'p) crypto_api \<Rightarrow> bytes \<Rightarrow> bytes \<Rightarrow> bytes" where
  "encryptAesCbc C aesKey plainText =
     (if length aesKey \<noteq> AES_MAX_KEYLENGTH then []
      else
        let iv = replicate AES_BLOCKSIZE 0
        in case cp_aes_cbc_encrypt C aesKey iv plainText of
             Some cipherText \<Rightarrow> cipherText
           | None \<Rightarrow> [])"

definition loadPrivateKeyBase64 ::
  "('r, 'k, 'p) crypto_api \<Rightarrow> string \<Rightarrow> ('r, 'k, 'p) crypto_helper \<Rightarrow> bool \<times> ('r, 'k, 'p) crypto_helper" where
  "loadPrivateKeyBase64 C base64Key h =
     (case cp_load_private C (cp_base64_decode C base64Key) of
        None \<Rightarrow> (False, h)
      | Some key \<Rightarrow> (True, h\<lparr>ch_privateKey := Some key\<rparr>))"

text \<open>What \<open>printKeyBuffer\<close> writes to the console.\<close>

definition printKeyBuffer :: "bytes \<Rightarrow> string" where
  "printKeyBuffer buffer = toHex buffer @ [LF]"

section \<open>Documented behaviour of the library\<close>

text \<open>A private key that was saved, encoded and decoded loads as the same key.\<close>

definition key_export_law :: "('r, 'k, 'p) crypto_api \<Rightarrow> bool" where
  "key_export_law C \<longleftrightarrow>
     (\<forall>k. cp_load_private C (cp_base64_decode C (cp_base64_encode C (cp_save_private C k))) = Some k)"

text \<open>PKCS#7: one to sixteen bytes are added, up to a multiple of the block size.\<close>

definition cbc_padding_law :: "('r, 'k, 'p) crypto_api \<Rightarrow> bool" where
  "cbc_padding_law C \<longleftrightarrow>
     (\<forall>key iv p c. cp_aes_cbc_encrypt C key iv p = Some c \<longrightarrow> length c = 16 * (length p div 16 + 1))"

section \<open>Properties\<close>

text \<open>
  A stored private key works like the generated one. After a successful key generation, the
  exported Base64 text loads into a fresh helper, which then decrypts every ciphertext as the
  original does; it has no public key to send.
\<close>

lemma exported_key_decrypts:
  assumes "key_export_law C" and "generateRsaKeys C h = (Inr (), h1)"
  shows "case loadPrivateKeyBase64 C (getPrivateKeyBase64 C h1) (newCryptoHelper (ch_rng h1)) of
     (ok, h2) \<Rightarrow> ok \<and> fst (decryptAesKey C ct h2) = fst (decryptAesKey C ct h1) \<and> getPublicKeyDER C h2 = []"
  using assms
  by (auto simp: key_export_law_def generateRsaKeys_def loadPrivateKeyBase64_def getPrivateKeyBase64_def
      decryptAesKey_def newCryptoHelper_def getPublicKeyDER_def split: prod.splits option.splits)

lemma padded_block_bounds:
  fixes n :: nat
  shows "n < 16 * (n div 16 + 1)" and "16 * (n div 16 + 1) \<le> n + 16"
    and "n + (16 - n mod 16) = 16 * (n div 16 + 1)"
  by presburger+

text \<open>
  A library for the witnesses: there are two private keys, which decrypt by adding a number to every
  byte, and the cipher pads and adds the first key byte.
\<close>

definition pkcs_pad :: "bytes \<Rightarrow> bytes" where
  "pkcs_pad p = p @ replicate (16 - length p mod 16) (word_of_nat (16 - length p mod 16))"

definition toy_crypto :: "(nat, bool, byte) crypto_api" where
  "toy_crypto =
     \<lparr>cp_generate = (\<lambda>bits r. (Some (odd r, word_of_nat r), Suc r)),
      cp_save_public = (\<lambda>p. replicate 160 p),
      cp_save_private = (\<lambda>k. [if k then 1 else 0]),
      cp_base64_encode = map (\<lambda>b. if b = 0 then CHR ''A'' else CHR ''B''),
      cp_base64_decode = map (\<lambda>c. if c = CHR ''A'' then 0 else 1),
      cp_load_private = (\<lambda>b. case b of [k] \<Rightarrow> Some (k \<noteq> 0) | _ \<Rightarrow> None),
      cp_oaep_decrypt = (\<lambda>k c r. (Some (map ((+) (if k then 1 else 2)) (take 32 c)), Suc r)),
      cp_aes_cbc_encrypt = (\<lambda>key iv p. Some (map ((+) (hd key)) (pkcs_pad p)))\<rparr>"

lemma toy_key_export [simp]: "key_export_law toy_crypto"
  unfolding key_export_law_def by (auto simp: toy_crypto_def)

lemma length_pkcs_pad: "length (pkcs_pad p) = 16 * (length p div 16 + 1)"
  using padded_block_bounds [of "length p"] by (simp add: pkcs_pad_def)

lemma toy_cbc_padding [simp]: "cbc_padding_law toy_crypto"
  by (auto simp: cbc_padding_law_def toy_crypto_def length_pkcs_pad)

lemma exported_key_decrypts_example:
  "case loadPrivateKeyBase64 toy_crypto
      (getPrivateKeyBase64 toy_crypto (snd (generateRsaKeys toy_crypto (newCryptoHelper 65))))
      (newCryptoHelper (ch_rng (snd (generateRsaKeys toy_crypto (newCryptoHelper 65))))) of
     (ok, h2) \<Rightarrow> ok \<and>
       fst (decryptAesKey toy_crypto [1, 2] h2) =
         fst (decryptAesKey toy_crypto [1, 2] (snd (generateRsaKeys toy_crypto (newCryptoHelper 65)))) \<and>
       getPublicKeyDER toy_crypto h2 = []"
  by (rule exported_key_decrypts [OF toy_key_export, of "newCryptoHelper 65"])
    (simp add: generateRsaKeys_def toy_crypto_def newCryptoHelper_def)

text \<open>
  \<open>encryptAesCbc\<close> never encrypts with a key of the wrong size: unless the key has 32 bytes the result
  is empty. With 32 bytes it is the library's ciphertext under the all-zero IV, which has at least one and at most
  sixteen bytes more than the plain text and whole blocks, or empty when the library throws.
\<close>

lemma encrypt_cbc_result:
  assumes "cbc_padding_law C"
  shows "if length key \<noteq> 32 \<or> cp_aes_cbc_encrypt C key (replicate 16 0) p = None
     then encryptAesCbc C key p = []
     else cp_aes_cbc_encrypt C key (replicate 16 0) p = Some (encryptAesCbc C key p) \<and>
       length (encryptAesCbc C key p) mod 16 = 0 \<and>
       length p < length (encryptAesCbc C key p) \<and> length (encryptAesCbc C key p) \<le> length p + 16"
  using assms padded_block_bounds [of "length p"]
  by (auto simp: encryptAesCbc_def AES_MAX_KEYLENGTH_def AES_BLOCKSIZE_def cbc_padding_law_def)

lemma encrypt_cbc_result_example:
  "let key = replicate 32 (1 :: byte); p = [5, 6 :: byte]
   in if length key \<noteq> 32 \<or> cp_aes_cbc_encrypt toy_crypto key (replicate 16 0) p = None
     then encryptAesCbc toy_crypto key p = []
     else cp_aes_cbc_encrypt toy_crypto key (replicate 16 0) p = Some (encryptAesCbc toy_crypto key p) \<and>
       length (encryptAesCbc toy_crypto key p) mod 16 = 0 \<and>
       length p < length (encryptAesCbc toy_crypto key p) \<and>
       length (encryptAesCbc toy_crypto key p) \<le> length p + 16"
  unfolding Let_def by (rule encrypt_cbc_result) simp

end
