(* ===== verification/CksumPosix.thy ===== *)
theory CksumPosix
  imports CksumCorrect
begin

text \<open>
  The shift register computes the remainder of the POSIX text. Long division over bit lists is
  first carried out in a 32-bit register that receives the dividend at its low end
  (\<open>gf2_reg\<close>); since that register is linear, receiving the dividend at the top, as the
  code does, saves the 32 zero bits that the text appends.
\<close>

unbundle bit_operations_syntax

section \<open>Long division in a register\<close>

fun gf2_reg :: "u32 \<Rightarrow> bool list \<Rightarrow> u32" where
  "gf2_reg s [] = s"
| "gf2_reg s (m # ms) = gf2_reg (crc_shift s XOR of_bool m) ms"

lemma length_word_bits [simp]: "length (word_bits w) = 32"
  by (simp add: word_bits_def)

lemma bit_positions:
  "rev [0..<32] = [31, 30, 29, 28, 27, 26, 25, 24, 23, 22, 21, 20, 19, 18, 17, 16,
     15, 14, 13, 12, 11, 10, 9, 8, 7, 6, 5, 4, 3, 2, 1, 0]"
  by code_simp

lemma word_bits_unfold:
  "word_bits w = map (bit w)
    [31, 30, 29, 28, 27, 26, 25, 24, 23, 22, 21, 20, 19, 18, 17, 16,
     15, 14, 13, 12, 11, 10, 9, 8, 7, 6, 5, 4, 3, 2, 1, 0]"
  by (simp only: word_bits_def bit_positions)

lemma posix_gen_unfold: "posix_gen = word_bits 0x04C11DB7"
  by (simp add: posix_gen_def word_bits_def bit_positions)

lemma word_bits_0: "word_bits 0 = replicate 32 False"
  unfolding word_bits_unfold by code_simp

lemma word_of_bits_word_bits [simp]: "word_of_bits (word_bits w) = w"
proof -
  have "word_of_bits (word_bits w) = horner_sum of_bool 2 (map (bit w) [0..<32])"
    by (simp add: word_of_bits_def word_bits_def rev_map)
  also have "\<dots> = take_bit 32 w"
    by (rule horner_sum_bit_eq_take_bit)
  also have "\<dots> = w"
    by (rule take_bit_word_eq_self) simp
  finally show ?thesis .
qed

lemma word_bits_shift:
  "\<exists>bs. word_bits s @ m # ms = bit s 31 # bs \<and>
     (if bit s 31 then xor_prefix posix_gen bs else bs) = word_bits (crc_shift s XOR of_bool m) @ ms"
proof -
  have "bit (of_bool m :: u32) n \<longleftrightarrow> m \<and> n = 0" for n
    by (cases m) (auto simp: bit_1_iff)
  then show ?thesis
    by (simp add: word_bits_unfold posix_gen_unfold bit_crc_shift bit_xor_iff)
qed

lemma gf2_mod_register: "gf2_mod (word_bits s @ ms) = word_bits (gf2_reg s ms)"
proof (induction ms arbitrary: s)
  case Nil
  then show ?case by (simp add: gf2_mod.simps)
next
  case (Cons m ms)
  obtain bs where bs: "word_bits s @ m # ms = bit s 31 # bs"
    and red: "(if bit s 31 then xor_prefix posix_gen bs else bs) = word_bits (crc_shift s XOR of_bool m) @ ms"
    using word_bits_shift by blast
  have "gf2_mod (word_bits s @ m # ms) = gf2_mod (if bit s 31 then xor_prefix posix_gen bs else bs)"
    by (subst gf2_mod.simps) (simp add: bs [symmetric], simp add: bs)
  also have "\<dots> = word_bits (gf2_reg s (m # ms))"
    by (simp add: red Cons.IH)
  finally show ?case .
qed

lemma gf2_mod_leading_zeros:
  "32 \<le> length xs \<Longrightarrow> gf2_mod (replicate k False @ xs) = gf2_mod xs"
proof (induction k)
  case (Suc k)
  then show ?case by (subst gf2_mod.simps) simp
qed simp

section \<open>Receiving the dividend at the top\<close>

fun crc_bits :: "u32 \<Rightarrow> bool list \<Rightarrow> u32" where
  "crc_bits s [] = s"
| "crc_bits s (m # ms) = crc_bits (crc_shift (s XOR (if m then 0x80000000 else 0))) ms"

lemma crc_bits_append: "crc_bits s (xs @ ys) = crc_bits (crc_bits s xs) ys"
  by (induction xs arbitrary: s) auto

lemma gf2_reg_zeros: "gf2_reg s (replicate n False) = (crc_shift ^^ n) s"
  by (induction n arbitrary: s) (auto simp: funpow_swap1)

lemma crc_shift_32_one: "(crc_shift ^^ 32) 1 = crc_shift 0x80000000"
proof -
  have "(crc_shift ^^ 31) 1 = push_bit 31 1"
    by (rule crc_shift_pow_low) (auto simp: bit_simps)
  moreover have "(crc_shift ^^ Suc 31) 1 = crc_shift ((crc_shift ^^ 31) 1)"
    by (simp only: funpow.simps comp_apply)
  ultimately show ?thesis by simp
qed

lemma gf2_reg_augmented:
  "gf2_reg s (ms @ replicate 32 False) = crc_bits ((crc_shift ^^ 32) s) ms"
proof (induction ms arbitrary: s)
  case Nil
  then show ?case by (simp only: append_Nil gf2_reg_zeros crc_bits.simps)
next
  case (Cons m ms)
  have "(crc_shift ^^ 32) (crc_shift s XOR of_bool m) =
      crc_shift ((crc_shift ^^ 32) s XOR (if m then 0x80000000 else 0))"
    using crc_shift_32_one by (cases m) (simp_all add: crc_shift_pow_xor crc_shift_xor funpow_swap1)
  then show ?case
    by (simp only: append_Cons gf2_reg.simps crc_bits.simps Cons.IH)
qed

text \<open>The eight bits of a byte, received one by one at the top, are one \<open>crc_byte\<close>.\<close>

lemma push_bit_of_bool: "bit (push_bit k (of_bool m) :: u32) n \<longleftrightarrow> n < 32 \<and> n = k \<and> m"
  by (cases m) (auto simp: bit_simps bit_1_iff)

lemma top_byte_bits:
  "push_bit 24 (ucast (b :: byte) :: u32) =
     push_bit 31 (of_bool (bit b 7)) XOR push_bit 30 (of_bool (bit b 6)) XOR
     push_bit 29 (of_bool (bit b 5)) XOR push_bit 28 (of_bool (bit b 4)) XOR
     push_bit 27 (of_bool (bit b 3)) XOR push_bit 26 (of_bool (bit b 2)) XOR
     push_bit 25 (of_bool (bit b 1)) XOR push_bit 24 (of_bool (bit b 0))"
proof (rule bit_word_eqI)
  fix n assume "n < LENGTH(32)"
  then have "n < 24 \<or> n = 24 \<or> n = 25 \<or> n = 26 \<or> n = 27 \<or> n = 28 \<or> n = 29 \<or> n = 30 \<or> n = 31"
    by auto
  then show "bit (push_bit 24 (ucast b) :: u32) n =
     bit (push_bit 31 (of_bool (bit b 7)) XOR push_bit 30 (of_bool (bit b 6)) XOR
       push_bit 29 (of_bool (bit b 5)) XOR push_bit 28 (of_bool (bit b 4)) XOR
       push_bit 27 (of_bool (bit b 3)) XOR push_bit 26 (of_bool (bit b 2)) XOR
       push_bit 25 (of_bool (bit b 1)) XOR push_bit 24 (of_bool (bit b 0)) :: u32) n"
    unfolding bit_xor_iff push_bit_of_bool
    by (elim disjE) (simp_all add: bit_simps)
qed

lemma crc_shift_top_bits:
  "crc_shift (push_bit 24 (of_bool m)) = push_bit 25 (of_bool m)"
  "crc_shift (push_bit 25 (of_bool m)) = push_bit 26 (of_bool m)"
  "crc_shift (push_bit 26 (of_bool m)) = push_bit 27 (of_bool m)"
  "crc_shift (push_bit 27 (of_bool m)) = push_bit 28 (of_bool m)"
  "crc_shift (push_bit 28 (of_bool m)) = push_bit 29 (of_bool m)"
  "crc_shift (push_bit 29 (of_bool m)) = push_bit 30 (of_bool m)"
  "crc_shift (push_bit 30 (of_bool m)) = push_bit 31 (of_bool m)"
  by (cases m; simp add: crc_shift_def)+

lemma crc_bits_byte: "crc_bits s (byte_bits b) = crc_byte s b"
proof -
  have "crc_bits s (m # ms) = crc_bits (crc_shift s XOR crc_shift (push_bit 31 (of_bool m))) ms" for s m ms
    by (simp add: crc_shift_xor)
  then show ?thesis
    unfolding crc_byte_def crc_shift_8 top_byte_bits byte_bits_def
    by (simp only: list.map crc_bits.simps(1) crc_shift_xor crc_shift_top_bits) (simp only: ac_simps)
qed

lemma crc_bits_bytes: "crc_bits s (concat (map byte_bits bs)) = foldl crc_byte s bs"
  by (induction bs arbitrary: s) (auto simp: crc_bits_append crc_bits_byte)

lemma posix_cksum_crc: "posix_cksum m = NOT (foldl crc_byte 0 (m @ length_octets (length m)))"
proof -
  let ?bits = "concat (map byte_bits (m @ length_octets (length m)))"
  have "gf2_mod (?bits @ replicate 32 False) = gf2_mod (word_bits 0 @ ?bits @ replicate 32 False)"
    using gf2_mod_leading_zeros [of "?bits @ replicate 32 False" 32]
    by (simp add: word_bits_0)
  also have "\<dots> = word_bits (crc_bits 0 ?bits)"
    by (simp only: gf2_mod_register gf2_reg_augmented crc_shift_pow_0)
  finally show ?thesis
    by (simp only: posix_cksum_def crc_bits_bytes word_of_bits_word_bits)
qed

section \<open>The checksum of the code is the POSIX checksum\<close>

text \<open>
  C7. The checksum never reads outside its table. The state of both loops of \<open>memcrc\<close> stays within 32 bits, at any width of
  \<open>unsigned long\<close> from 32 bits up, and from such a state the index into the table is below its length, for
  every character and for every octet of the length. The loops start in such a state, and each
  step leads to one.
\<close>

theorem memcrc_stays_in_table:
  fixes s :: "'l::len word"
  assumes "32 \<le> LENGTH('l)" and "UNSIGNED s = s"
  shows "UNSIGNED (0 :: 'l word) = 0 \<and>
    unat (ucast (drop_bit 24 s XOR ucast (byte_of_char ch)) :: u32) < length (crctab ! 0) \<and>
    UNSIGNED (memcrc_byte s ch) = memcrc_byte s ch \<and>
    unat (drop_bit 24 s XOR word_of_nat (n AND 0xFF)) < length (crctab ! 0) \<and>
    UNSIGNED (memcrc_octet n s) = memcrc_octet n s"
proof -
  have mask: "UNSIGNED w = take_bit 32 w" for w :: "'l word"
    by (simp add: UNSIGNED_def take_bit_eq_mask mask_numeral)
  define r where "r = (ucast s :: u32)"
  have s: "s = ucast r"
  proof -
    have "take_bit 32 s = ucast r"
      unfolding r_def by (rule bit_word_eqI) (auto simp: bit_simps)
    then show ?thesis using assms(2) mask by simp
  qed
  have "bit (v :: u32) m \<Longrightarrow> m < 32" for v m
    using bit_imp_le_length [of v m] by simp
  then have fits: "UNSIGNED (ucast (v :: u32) :: 'l word) = ucast v" for v
    unfolding mask using assms(1) by (auto intro!: bit_word_eqI simp: bit_simps)
  have "length (crctab ! 0) = 256" using slice0.length_tab by simp
  then show ?thesis
    using memcrc_len_step [OF assms(1), where n = n and s = r] tabidx_less [of r "byte_of_char ch"]
    unfolding s memcrc_tabidx [OF assms(1)] memcrc_byte_word [OF assms(1)]
    by (simp add: fits) (simp add: UNSIGNED_def)
qed

theorem memcrc_stays_in_table_witness:
  "let s = 0xFFFFFFFF :: 64 word
   in UNSIGNED (0 :: 64 word) = 0 \<and>
    unat (ucast (drop_bit 24 s XOR ucast (byte_of_char (CHR ''a''))) :: u32) < length (crctab ! 0) \<and>
    UNSIGNED (memcrc_byte s (CHR ''a'')) = memcrc_byte s (CHR ''a'') \<and>
    unat (drop_bit 24 s XOR word_of_nat (1000 AND 0xFF)) < length (crctab ! 0) \<and>
    UNSIGNED (memcrc_octet 1000 s) = memcrc_octet 1000 s"
  unfolding Let_def by (rule memcrc_stays_in_table) (simp_all add: UNSIGNED_def)

text \<open>
  C6. For every buffer, and whether \<open>unsigned long\<close> has 32 bits (Windows) or more (POSIX),
  \<open>memcrc\<close> over the whole buffer returns the POSIX \<open>cksum\<close> of its bytes, the complemented
  remainder of the polynomial division.
\<close>

theorem memcrc_is_posix_cksum:
  assumes "32 \<le> LENGTH('l::len)" and "n = length b"
  shows "(memcrc b n :: 'l word) = ucast (posix_cksum (map byte_of_char b))"
  using assms by (simp add: memcrc_word posix_cksum_crc)

text \<open>
  On the ASCII digits 1 to 9, on both ABIs; \<open>cksum\<close> prints 930766865 for them.
\<close>

theorem memcrc_is_posix_cksum_witness:
  "(memcrc ''123456789'' 9 :: 32 word) = ucast (posix_cksum (map byte_of_char ''123456789'')) \<and>
   (memcrc ''123456789'' 9 :: 64 word) = ucast (posix_cksum (map byte_of_char ''123456789''))"
  using memcrc_is_posix_cksum [where 'l = 32, of 9 "''123456789''"]
    memcrc_is_posix_cksum [where 'l = 64, of 9 "''123456789''"]
  by simp

lemma memcrc_check_value: "(memcrc ''123456789'' 9 :: 32 word) = 930766865"
  by code_simp

section \<open>The tables\<close>

lemma slice_at:
  assumes "k < 8" and "i < 256"
  shows "crctab ! k ! i = (crc_shift ^^ (8 * k + 8)) (push_bit 24 (word_of_nat i))"
proof -
  from assms(1) have "k = 0 \<or> k = 1 \<or> k = 2 \<or> k = 3 \<or> k = 4 \<or> k = 5 \<or> k = 6 \<or> k = 7"
    by auto
  then show ?thesis
    by (elim disjE) (simp_all add: crctab_def slice_nth [OF assms(2)])
qed

lemma crc_bits_zeros: "crc_bits s (replicate n False) = (crc_shift ^^ n) s"
  by (induction n arbitrary: s) (auto simp: funpow_swap1)

text \<open>
  C34. Every one of the 2048 constants of the table is right: entry \<open>i\<close> of slice \<open>k\<close> is the
  remainder of the polynomial division of the eight bits of \<open>i\<close>, followed by \<open>8 * k + 32\<close> zero
  bits, by the generator of the POSIX text.
\<close>

theorem crctab_slices:
  assumes "k < 8" and "i < 256"
  shows "crctab ! k ! i =
    word_of_bits (gf2_mod (byte_bits (word_of_nat i) @ replicate (8 * k) False @ replicate 32 False))"
proof -
  let ?bits = "byte_bits (word_of_nat i) @ replicate (8 * k) False"
  have "gf2_mod (?bits @ replicate 32 False) = gf2_mod (word_bits 0 @ ?bits @ replicate 32 False)"
    using gf2_mod_leading_zeros [of "?bits @ replicate 32 False" 32] by (simp add: word_bits_0)
  also have "\<dots> = word_bits (crc_bits 0 ?bits)"
    by (simp only: gf2_mod_register gf2_reg_augmented crc_shift_pow_0)
  also have "crc_bits 0 ?bits = (crc_shift ^^ (8 * k + 8)) (push_bit 24 (ucast (word_of_nat i :: byte)))"
    by (simp add: crc_bits_append crc_bits_zeros crc_bits_byte crc_byte_def funpow_add)
  also have "(ucast (word_of_nat i :: byte) :: u32) = word_of_nat i"
  proof -
    have "take_bit 8 i = i"
      by (rule take_bit_nat_eq_self) (use assms(2) in simp)
    then show ?thesis by (simp add: unsigned_of_nat)
  qed
  finally show ?thesis
    using slice_at [OF assms] by simp
qed

theorem crctab_slices_witness:
  "crctab ! 7 ! 255 =
    word_of_bits (gf2_mod (byte_bits (word_of_nat 255) @ replicate (8 * 7) False @ replicate 32 False))"
  by (rule crctab_slices) simp_all

section \<open>Corruptions the checksum always reveals\<close>

text \<open>At most 32 bits, placed at the top of a word.\<close>

fun top_word :: "bool list \<Rightarrow> u32" where
  "top_word [] = 0"
| "top_word (m # ms) = (if m then 0x80000000 else 0) XOR drop_bit 1 (top_word ms)"

lemma bit_top: "bit (0x80000000 :: u32) i \<longleftrightarrow> i = 31"
  using push_bit_of_bool [of 31 True i] by auto

lemma bit_top_word: "bit (top_word u) i \<longleftrightarrow> i < 32 \<and> 31 - i < length u \<and> u ! (31 - i)"
proof (induction u arbitrary: i)
  case (Cons m ms)
  consider "i < 31" | "i = 31" | "31 < i" by linarith
  then show ?case
  proof cases
    case 1
    then have "31 - i = Suc (31 - Suc i)" by simp
    with 1 show ?thesis
      using bit_top [of i] by (cases m) (simp_all add: bit_xor_iff bit_drop_bit_eq Cons.IH)
  qed (simp_all add: bit_xor_iff bit_drop_bit_eq if_distrib [of "\<lambda>w. bit w i"] bit_top Cons.IH)
qed simp

lemma top_word_inject:
  assumes "length u = length v" and "length u \<le> 32" and "top_word u = top_word v"
  shows "u = v"
proof (rule nth_equalityI [OF assms(1)])
  fix j assume "j < length u"
  then have "bit (top_word w) (31 - j) \<longleftrightarrow> w ! j" if "length w = length u" for w
    using assms(2) that by (auto simp: bit_top_word)
  from this [of u] this [of v] show "u ! j = v ! j"
    using assms(1,3) by simp
qed

lemma crc_bits_top_word:
  "length u \<le> 32 \<Longrightarrow> crc_bits s u = (crc_shift ^^ length u) (s XOR top_word u)"
proof (induction u arbitrary: s)
  case (Cons m ms)
  have "crc_shift (drop_bit 1 (top_word ms)) = top_word ms"
  proof (rule bit_word_eqI)
    fix n assume "n < LENGTH(32)"
    moreover have "\<not> bit (top_word ms) 0"
      using Cons.prems by (simp add: bit_top_word)
    ultimately show "bit (crc_shift (drop_bit 1 (top_word ms))) n = bit (top_word ms) n"
      by (cases n) (simp_all add: bit_crc_shift bit_drop_bit_eq bit_top_word)
  qed
  then have "crc_bits s (m # ms) = (crc_shift ^^ length ms)
      (crc_shift (s XOR (if m then 0x80000000 else 0)) XOR crc_shift (drop_bit 1 (top_word ms)))"
    using Cons by simp
  then show ?case
    by (simp only: crc_shift_xor [symmetric] top_word.simps length_Cons funpow_Suc_right comp_apply xor.assoc)
qed simp

lemma crc_bits_inject_state: "crc_bits s u = crc_bits t u \<longleftrightarrow> s = t"
proof (induction u arbitrary: s t)
  case (Cons m u)
  then show ?case using crc_shift_pow_inject [of 1] by simp
qed simp

lemma crc_bits_inject_burst:
  "length u = length v \<Longrightarrow> length u \<le> 32 \<Longrightarrow> crc_bits s u = crc_bits s v \<longleftrightarrow> u = v"
  by (auto simp: crc_bits_top_word crc_shift_pow_inject intro: top_word_inject)

text \<open>The bits of a file, in the order in which the division takes them.\<close>

definition file_bits :: "string \<Rightarrow> bool list" where
  "file_bits a = concat (map byte_bits (map byte_of_char a))"

lemma length_file_bits: "length (file_bits a) = 8 * length a"
  by (induction a) (simp_all add: file_bits_def byte_bits_def)

lemma memcrc_bits:
  assumes "32 \<le> LENGTH('l::len)"
  shows "(memcrc a (length a) :: 'l word) =
    ucast (NOT (foldl crc_byte (crc_bits 0 (file_bits a)) (length_octets (length a))))"
  unfolding file_bits_def crc_bits_bytes by (simp add: memcrc_word [OF assms])

lemma ucast_u32_inject:
  assumes "32 \<le> LENGTH('l::len)"
  shows "(ucast (x :: u32) :: 'l word) = ucast y \<longleftrightarrow> x = y"
proof
  assume eq: "(ucast x :: 'l word) = ucast y"
  show "x = y"
  proof (rule bit_word_eqI)
    fix i assume "i < LENGTH(32)"
    then have "bit (ucast w :: 'l word) i = bit w i" for w :: u32
      using assms by (simp add: bit_simps)
    with eq show "bit x i = bit y i" by metis
  qed
qed simp

lemma crc_fold_inject_state: "foldl crc_byte s u = foldl crc_byte t u \<longleftrightarrow> s = t"
  by (simp flip: crc_bits_bytes add: crc_bits_inject_state)

text \<open>
  C33. The checksum detects every burst error of at most 32 bits: two files whose bits, the
  most significant bit of each byte first, differ only within a window of at most 32 bits, wherever that
  window starts, have different checksums, at every width of \<open>unsigned long\<close> from 32 bits. So
  the comparison that decides between confirmation and retransmission cannot miss the difference.
\<close>

theorem memcrc_detects_burst:
  assumes "32 \<le> LENGTH('l::len)" and "length u = length v" and "length u \<le> 32" and "u \<noteq> v"
    and "file_bits a = pre @ u @ post" and "file_bits b = pre @ v @ post"
  shows "(memcrc a (length a) :: 'l word) \<noteq> memcrc b (length b)"
proof
  assume eq: "(memcrc a (length a) :: 'l word) = memcrc b (length b)"
  have "length (file_bits a) = length (file_bits b)"
    using assms(2,5,6) by simp
  then have "length a = length b"
    by (simp add: length_file_bits)
  then have "crc_bits 0 (file_bits a) = crc_bits 0 (file_bits b)"
    using eq unfolding memcrc_bits [OF assms(1)]
    by (simp add: ucast_u32_inject [OF assms(1)] crc_fold_inject_state)
  then show False
    using assms(2-4) unfolding assms(5,6)
    by (simp add: crc_bits_append crc_bits_inject_state crc_bits_inject_burst)
qed

text \<open>
  A burst of exactly 32 bits that starts in the middle of a byte and reaches into five bytes:
  the low half of the third character to the high half of the seventh.
\<close>

theorem memcrc_detects_burst_witness:
  "(memcrc ''abXYZWcd'' (length ''abXYZWcd'') :: 64 word) \<noteq> memcrc ''abU123sd'' (length ''abU123sd'')"
  by (rule memcrc_detects_burst
      [of "take 32 (drop 20 (file_bits ''abXYZWcd''))" "take 32 (drop 20 (file_bits ''abU123sd''))" _
        "take 20 (file_bits ''abXYZWcd'')" "drop 52 (file_bits ''abXYZWcd'')"]) code_simp+

end
