(* ===== verification/EncryptedFile.thy ===== *)
theory EncryptedFile
  imports CryptoHelper CksumPosix
begin

text \<open>
  \<open>EncryptedFile::createEncryptedFile\<close> of \<open>src/EncryptedFile.cpp\<close>: read a file, compute its checksum,
  encrypt it. A \<open>std::vector<char>\<close> is a string. The buffer is allocated for the size
  that \<open>file_size\<close> reports and zero where the stream delivers less.
\<close>

record encrypted_file_data =
  ef_fileName :: string
  ef_origFileSize :: u32
  ef_crc :: u32
  ef_encryptedContent :: bytes

definition read_into_buffer :: "nat \<Rightarrow> string \<Rightarrow> string" where
  "read_into_buffer fileSize content = take fileSize (content @ replicate fileSize NUL)"

text \<open>\<open>memcrc\<close> at the width of \<open>unsigned long\<close> of the platform, cast to \<open>uint32_t\<close>.\<close>

definition computed_crc :: "platform \<Rightarrow> string \<Rightarrow> nat \<Rightarrow> u32" where
  "computed_crc pl buf n =
     (case pl of
        Windows \<Rightarrow> ucast (memcrc buf n :: 32 word)
      | Posix \<Rightarrow> ucast (memcrc buf n :: 64 word))"

definition createEncryptedFile ::
  "('r, 'k, 'p) crypto_api \<Rightarrow> fs \<Rightarrow> string \<Rightarrow> bytes \<Rightarrow> exn + encrypted_file_data option" where
  "createEncryptedFile C d filePath aesKey =
     (case fs_exists d filePath of
        Inl e \<Rightarrow> Inl e
      | Inr ex \<Rightarrow>
          if \<not> ex then Inr None
          else case fs_file_size d filePath of
            Inl e \<Rightarrow> Inl e
          | Inr fileSize \<Rightarrow>
              (case fs_open_in d filePath of
                 None \<Rightarrow> Inr None
               | Some content \<Rightarrow>
                   let rawBuffer = (if fileSize > 0 then read_into_buffer fileSize content
                                    else replicate fileSize NUL);
                       computedCrc = computed_crc (fs_platform d) rawBuffer fileSize;
                       plainBytes = map byte_of_char rawBuffer;
                       encryptedBytes = encryptAesCbc C aesKey plainBytes
                   in if encryptedBytes = [] \<and> fileSize > 0 then Inr None
                      else Inr (Some
                        \<lparr>ef_fileName = path_filename (fs_platform d) filePath,
                         ef_origFileSize = word_of_nat fileSize,
                         ef_crc = computedCrc,
                         ef_encryptedContent = encryptedBytes\<rparr>)))"

lemma computed_crc_posix: "computed_crc pl s (length s) = posix_cksum (map byte_of_char s)"
proof (cases pl)
  case Windows
  have "(memcrc s (length s) :: 32 word) = ucast (posix_cksum (map byte_of_char s))"
    by (simp add: memcrc_word posix_cksum_crc)
  then show ?thesis by (simp add: computed_crc_def Windows)
next
  case Posix
  have "(memcrc s (length s) :: 64 word) = ucast (posix_cksum (map byte_of_char s))"
    by (simp add: memcrc_word posix_cksum_crc)
  then show ?thesis
    by (simp add: computed_crc_def Posix) (rule bit_word_eqI, simp add: bit_simps)
qed

lemma computed_crc_empty [simp]: "computed_crc pl [] 0 = posix_cksum []"
  using computed_crc_posix [of pl "[]"] by simp

lemma createEncryptedFile_cases:
  "createEncryptedFile C d p key =
    (if fs_status_fails d p then Inl FilesystemError
     else case fs_files d p of
       None \<Rightarrow> Inr None
     | Some content \<Rightarrow>
         if \<not> fs_readable d p \<or> (content \<noteq> [] \<and> encryptAesCbc C key (map byte_of_char content) = [])
         then Inr None
         else Inr (Some
           \<lparr>ef_fileName = path_filename (fs_platform d) p,
            ef_origFileSize = word_of_nat (length content),
            ef_crc = posix_cksum (map byte_of_char content),
            ef_encryptedContent = encryptAesCbc C key (map byte_of_char content)\<rparr>))"
proof -
  have "(if 0 < length content then read_into_buffer (length content) content
      else replicate (length content) NUL) = content" for content
    by (simp add: read_into_buffer_def)
  then show ?thesis
    by (auto simp: createEncryptedFile_def fs_exists_def fs_file_size_def fs_open_in_def
        computed_crc_posix Let_def split: option.split)
qed

text \<open>
  C24. What \<open>createEncryptedFile\<close> returns, on every path: an exception only from the
  status query; nothing for a missing or unreadable file, or when a non-empty file is not encrypted;
  otherwise the file name without its directories, the size modulo \<open>2^32\<close>, the POSIX
  checksum of the whole plain content on either platform, and its encryption.
\<close>

theorem createEncryptedFile_spec:
  "createEncryptedFile C d p key =
    (if fs_status_fails d p then Inl FilesystemError
     else case fs_files d p of
       None \<Rightarrow> Inr None
     | Some content \<Rightarrow>
         if (if fs_readable d p
             then content \<noteq> [] \<and> encryptAesCbc C key (map byte_of_char content) = [] else True)
         then Inr None
         else Inr (Some
           \<lparr>ef_fileName = path_filename (fs_platform d) p,
            ef_origFileSize = word_of_nat (length content),
            ef_crc = posix_cksum (map byte_of_char content),
            ef_encryptedContent = encryptAesCbc C key (map byte_of_char content)\<rparr>))"
  unfolding createEncryptedFile_cases by (simp split: option.split)

text \<open>
  The failure check does not cover empty files. With a key of the wrong size nothing is encrypted,
  yet for an empty file \<open>createEncryptedFile\<close> reports success, with empty encrypted
  content where AES-CBC with padding would give a full block.
\<close>

lemma empty_file_hides_encryption_failure:
  assumes "\<not> fs_status_fails d p" and "fs_readable d p" and "fs_files d p = Some []" and "length key \<noteq> 32"
  shows "createEncryptedFile C d p key = Inr (Some
     \<lparr>ef_fileName = path_filename (fs_platform d) p, ef_origFileSize = 0,
      ef_crc = posix_cksum [], ef_encryptedContent = []\<rparr>)"
  using assms
  by (simp add: createEncryptedFile_def fs_exists_def fs_file_size_def fs_open_in_def
      encryptAesCbc_def AES_MAX_KEYLENGTH_def Let_def)

definition sample_fs :: "platform \<Rightarrow> fs" where
  "sample_fs pl = \<lparr>fs_platform = pl,
     fs_files = [''empty.txt'' \<mapsto> [], ''a.txt'' \<mapsto> ''hello'', ''dir/b.bin'' \<mapsto> ''123456789''],
     fs_status_fails = (\<lambda>_. False), fs_readable = (\<lambda>_. True), fs_writable = (\<lambda>_. True),
     fs_removable = (\<lambda>_. True), fs_capacity = (\<lambda>_. None)\<rparr>"

lemma empty_file_hides_encryption_failure_example:
  "createEncryptedFile toy_crypto (sample_fs Windows) ''empty.txt'' [1, 2, 3] = Inr (Some
     \<lparr>ef_fileName = path_filename (fs_platform (sample_fs Windows)) ''empty.txt'', ef_origFileSize = 0,
      ef_crc = posix_cksum [], ef_encryptedContent = []\<rparr>)"
  by (rule empty_file_hides_encryption_failure) (simp_all add: sample_fs_def)

end
