(* ===== verification/ConfigManager.thy ===== *)
theory ConfigManager
  imports FileSystem HexConverter
begin

text \<open>
  \<open>ConfigManager\<close> of \<open>src/ConfigManager.h\<close> and \<open>src/ConfigManager.cpp\<close>: the transfer
  configuration read from JSON and the client's credentials kept in \<open>me.info\<close> and \<open>priv.key\<close>.

  The JSON library is a parameter: \<open>json_api\<close> holds the operations of \<open>nlohmann::json\<close> that
  the code calls, over an unspecified type of JSON values; \<open>json_parse\<close> is \<open>None\<close> when
  \<open>parse\<close> throws. A C++ \<open>int\<close> is a 32-bit word read as signed. What is printed is modelled in
  \<open>Console\<close>.
\<close>

section \<open>State\<close>

record transfer_info =
  ti_ip :: string
  ti_port :: u16
  ti_clientName :: string
  ti_files :: "string list"

record client_info =
  ci_name :: string
  ci_uuid :: bytes
  ci_privateKeyBase64 :: string

record config_manager =
  cm_transferInfo :: transfer_info
  cm_clientInfo :: client_info
  cm_meInfoPath :: string
  cm_privKeyPath :: string

text \<open>The constructor, and its default paths.\<close>

definition newConfigManager :: "string \<Rightarrow> string \<Rightarrow> config_manager" where
  "newConfigManager meInfoPath privKeyPath =
     \<lparr>cm_transferInfo = \<lparr>ti_ip = [], ti_port = 0, ti_clientName = [], ti_files = []\<rparr>,
      cm_clientInfo = \<lparr>ci_name = [], ci_uuid = replicate 16 0, ci_privateKeyBase64 = []\<rparr>,
      cm_meInfoPath = meInfoPath, cm_privKeyPath = privKeyPath\<rparr>"

definition default_config :: config_manager where
  "default_config = newConfigManager ''me.info'' ''priv.key''"

definition getUuidHex :: "client_info \<Rightarrow> string" where
  "getUuidHex ci = toHex (ci_uuid ci)"

section \<open>The transfer configuration\<close>

record 'j json_api =
  json_parse :: "string \<Rightarrow> 'j option"
  json_is_object :: "'j \<Rightarrow> bool"
  json_contains :: "'j \<Rightarrow> string \<Rightarrow> bool"
  json_at :: "'j \<Rightarrow> string \<Rightarrow> 'j"
  json_is_string :: "'j \<Rightarrow> bool"
  json_get_string :: "'j \<Rightarrow> string"
  json_is_number_integer :: "'j \<Rightarrow> bool"
  json_get_int :: "'j \<Rightarrow> 32 word"
  json_is_array :: "'j \<Rightarrow> bool"
  json_items :: "'j \<Rightarrow> 'j list"

text \<open>The loop over the \<open>files\<close> array: non-empty strings are kept, in order.\<close>

definition file_list :: "'j json_api \<Rightarrow> 'j \<Rightarrow> string list" where
  "file_list J configData =
     (if json_contains J configData ''files'' \<and> json_is_array J (json_at J configData ''files'')
      then map (json_get_string J)
             (filter (\<lambda>item. json_is_string J item \<and> json_get_string J item \<noteq> [])
               (json_items J (json_at J configData ''files'')))
      else [])"

text \<open>What follows the parsing: the schema, the port, the files, the client name.\<close>

definition load_document :: "'j json_api \<Rightarrow> 'j \<Rightarrow> config_manager \<Rightarrow> bool \<times> config_manager" where
  "load_document J configData c =
     (if \<not> json_is_object J configData \<or> \<not> json_contains J configData ''server''
         \<or> \<not> json_is_object J (json_at J configData ''server'')
      then (False, c)
      else
        let serverSection = json_at J configData ''server''
        in if \<not> json_contains J serverSection ''ip'' \<or> \<not> json_is_string J (json_at J serverSection ''ip'')
             \<or> \<not> json_contains J serverSection ''port''
             \<or> \<not> json_is_number_integer J (json_at J serverSection ''port'')
             \<or> \<not> json_contains J serverSection ''client''
             \<or> \<not> json_is_string J (json_at J serverSection ''client'')
           then (False, c)
           else
             let ip = json_get_string J (json_at J serverSection ''ip'');
                 rawPort = json_get_int J (json_at J serverSection ''port'');
                 clientName = json_get_string J (json_at J serverSection ''client'')
             in if sint rawPort \<le> 0 \<or> 65535 < sint rawPort then (False, c)
                else
                  let fileList = file_list J configData
                  in if clientName = [] \<or> 100 < length clientName then (False, c)
                     else (True, c\<lparr>cm_transferInfo :=
                            \<lparr>ti_ip = ip, ti_port = ucast rawPort,
                             ti_clientName = clientName, ti_files = fileList\<rparr>\<rparr>))"

definition loadTransferInfo ::
  "'j json_api \<Rightarrow> fs \<Rightarrow> string \<Rightarrow> config_manager \<Rightarrow> (exn + bool) \<times> config_manager" where
  "loadTransferInfo J d path c =
     (case fs_exists d path of
        Inl e \<Rightarrow> (Inl e, c)
      | Inr ex \<Rightarrow>
          if \<not> ex then (Inr False, c)
          else case fs_open_in d path of
            None \<Rightarrow> (Inr False, c)
          | Some raw \<Rightarrow>
              (case json_parse J (text_in (fs_platform d) raw) of
                 None \<Rightarrow> (Inr False, c)
               | Some configData \<Rightarrow>
                   (case load_document J configData c of (ok, c') \<Rightarrow> (Inr ok, c'))))"

section \<open>The stored credentials\<close>

definition hasClientInfo :: "fs \<Rightarrow> config_manager \<Rightarrow> exn + bool" where
  "hasClientInfo d c = fs_exists d (cm_meInfoPath c)"

definition loadClientInfo :: "fs \<Rightarrow> config_manager \<Rightarrow> (exn + bool) \<times> config_manager" where
  "loadClientInfo d c =
     (case hasClientInfo d c of
        Inl e \<Rightarrow> (Inl e, c)
      | Inr has \<Rightarrow>
          if \<not> has then (Inr False, c)
          else case fs_open_in d (cm_meInfoPath c) of
            None \<Rightarrow> (Inr False, c)
          | Some raw \<Rightarrow>
              (case getline (text_in (fs_platform d) raw) of
                 None \<Rightarrow> (Inr False, c)
               | Some (name, rest) \<Rightarrow>
              (case getline rest of
                 None \<Rightarrow> (Inr False, c)
               | Some (uuid, rest) \<Rightarrow>
              (case getline rest of
                 None \<Rightarrow> (Inr False, c)
               | Some (privateKey, rest) \<Rightarrow>
              (case toBytes uuid of
                 None \<Rightarrow> (Inr False, c)
               | Some uuidBytes \<Rightarrow>
                   (Inr True, c\<lparr>cm_clientInfo :=
                      \<lparr>ci_name = name, ci_uuid = uuidBytes, ci_privateKeyBase64 = privateKey\<rparr>\<rparr>))))))"

definition loadPrivateKey :: "fs \<Rightarrow> config_manager \<Rightarrow> string option" where
  "loadPrivateKey d c =
     (case fs_open_in d (cm_privKeyPath c) of
        None \<Rightarrow> None
      | Some raw \<Rightarrow>
          (case getline raw of
             None \<Rightarrow> None
           | Some (privateKeyBase64, _) \<Rightarrow>
               if privateKeyBase64 = [] then None else Some privateKeyBase64))"

definition me_info_text :: "string \<Rightarrow> bytes \<Rightarrow> string \<Rightarrow> string" where
  "me_info_text name uuid key = name @ [LF] @ toHex uuid @ [LF] @ key @ [LF]"

definition saveClientInfo ::
  "string \<Rightarrow> bytes \<Rightarrow> string \<Rightarrow> fs \<Rightarrow> config_manager \<Rightarrow> bool \<times> fs" where
  "saveClientInfo name uuid privateKeyBase64 d c =
     (case fs_open_trunc d (cm_meInfoPath c) of
        None \<Rightarrow> (False, d)
      | Some d1 \<Rightarrow>
          let d2 = fs_write d1 (cm_meInfoPath c)
                (text_out (fs_platform d) (me_info_text name uuid privateKeyBase64))
          in case fs_open_trunc d2 (cm_privKeyPath c) of
               None \<Rightarrow> (False, d2)
             | Some d3 \<Rightarrow> (True, fs_write d3 (cm_privKeyPath c) privateKeyBase64))"

definition removeClientInfo :: "fs \<Rightarrow> config_manager \<Rightarrow> fs" where
  "removeClientInfo d c = fs_remove (fs_remove d (cm_meInfoPath c)) (cm_privKeyPath c)"

end
