(* ===== verification/CredentialStore.thy ===== *)
theory CredentialStore
  imports ConfigManager
begin

text \<open>
  What \<open>ConfigManager\<close> promises to its client. \<open>credential_store\<close> is the contract of
  a store that holds at most one set of credentials: what is saved is what is
  loaded, and what is forgotten is gone. The files \<open>me.info\<close> and \<open>priv.key\<close> provide it on a
  healthy file system, on both platforms, for credentials that fit the line format. The
  theorems also cover what the contract leaves out: partial saves, the name that contains a
  line feed, the device that runs full, and the validation of \<open>transfer.json\<close>.
\<close>

section \<open>The contract\<close>

locale credential_store =
  fixes save :: "'c \<Rightarrow> 's \<Rightarrow> bool \<times> 's"
    and load :: "'s \<Rightarrow> 'c option"
    and present :: "'s \<Rightarrow> bool"
    and forget :: "'s \<Rightarrow> 's"
    and storable :: "'c \<Rightarrow> bool"
    and healthy :: "'s \<Rightarrow> bool"
  assumes save_succeeds: "healthy s \<Longrightarrow> fst (save x s)"
    and load_save: "healthy s \<Longrightarrow> storable x \<Longrightarrow> load (snd (save x s)) = Some x"
    and present_save: "healthy s \<Longrightarrow> present (snd (save x s))"
    and forget_absent: "healthy s \<Longrightarrow> \<not> present (forget s)"
    and load_present: "load s \<noteq> None \<Longrightarrow> present s"
    and healthy_save: "healthy s \<Longrightarrow> healthy (snd (save x s))"
    and healthy_forget: "healthy s \<Longrightarrow> healthy (forget s)"
begin

lemma last_save_wins:
  "healthy s \<Longrightarrow> storable y \<Longrightarrow> load (snd (save y (snd (save x s)))) = Some y"
  by (simp add: load_save healthy_save)

lemma load_forget: "healthy s \<Longrightarrow> load (forget s) = None"
  using load_present forget_absent by blast

lemma save_after_forget:
  "healthy s \<Longrightarrow> storable x \<Longrightarrow> load (snd (save x (forget s))) = Some x"
  by (simp add: load_save healthy_forget)

lemma forget_after_save: "healthy s \<Longrightarrow> \<not> present (forget (snd (save x s)))"
  by (simp add: forget_absent healthy_save)

end

section \<open>The files provide it\<close>

type_synonym credentials = "string \<times> bytes \<times> string"

definition save_credentials :: "config_manager \<Rightarrow> credentials \<Rightarrow> fs \<Rightarrow> bool \<times> fs" where
  "save_credentials c x d = (case x of (name, uuid, key) \<Rightarrow> saveClientInfo name uuid key d c)"

definition load_credentials :: "config_manager \<Rightarrow> fs \<Rightarrow> credentials option" where
  "load_credentials c d =
     (case loadClientInfo d c of
        (Inr True, c') \<Rightarrow>
          Some (ci_name (cm_clientInfo c'), ci_uuid (cm_clientInfo c'),
                ci_privateKeyBase64 (cm_clientInfo c'))
      | _ \<Rightarrow> None)"

definition has_credentials :: "config_manager \<Rightarrow> fs \<Rightarrow> bool" where
  "has_credentials c d \<longleftrightarrow> hasClientInfo d c = Inr True"

definition plain_line :: "string \<Rightarrow> bool" where
  "plain_line s \<longleftrightarrow> LF \<notin> set s \<and> CTRL_Z \<notin> set s"

definition storable_credentials :: "credentials \<Rightarrow> bool" where
  "storable_credentials x = (case x of (name, uuid, key) \<Rightarrow> plain_line name \<and> uuid_ok uuid \<and> plain_line key)"

definition healthy_path :: "fs \<Rightarrow> string \<Rightarrow> bool" where
  "healthy_path d p \<longleftrightarrow> \<not> fs_status_fails d p \<and> fs_readable d p \<and> fs_writable d p \<and>
     fs_removable d p \<and> fs_capacity d p = None"

definition healthy_store :: "config_manager \<Rightarrow> fs \<Rightarrow> bool" where
  "healthy_store c d \<longleftrightarrow> cm_meInfoPath c \<noteq> cm_privKeyPath c \<and>
     healthy_path d (cm_meInfoPath c) \<and> healthy_path d (cm_privKeyPath c)"

lemma plain_toHex: "plain_line (toHex u)"
proof -
  have "hex_char n \<noteq> LF \<and> hex_char n \<noteq> CTRL_Z" if "n < 16" for n
    using hex_value_hex_char [OF that] by (auto simp: hex_value_def LF_def CTRL_Z_def)
  then show ?thesis
    using toHex_no_control by (force simp: plain_line_def)
qed

lemma me_info_lines:
  assumes "plain_line name" "plain_line key"
  shows "text_in pl (text_out pl (me_info_text name uuid key)) = name @ LF # toHex uuid @ LF # key @ LF # []"
  using assms plain_toHex [of uuid]
  by (subst text_in_out) (auto simp: me_info_text_def plain_line_def)

text \<open>Loading back a file of three lines, and what it puts into the configuration.\<close>

lemma loadClientInfo_lines:
  assumes "\<not> fs_status_fails d (cm_meInfoPath c)" "fs_open_in d (cm_meInfoPath c) = Some raw"
    and "text_in (fs_platform d) raw = la @ LF # lb @ LF # lc @ LF # rest"
    and "LF \<notin> set la" "LF \<notin> set lb" "LF \<notin> set lc" and "toBytes lb = Some u"
  shows "loadClientInfo d c = (Inr True, c\<lparr>cm_clientInfo :=
     \<lparr>ci_name = la, ci_uuid = u, ci_privateKeyBase64 = lc\<rparr>\<rparr>)"
proof -
  have "fs_files d (cm_meInfoPath c) \<noteq> None"
    using assms(2) by (auto simp: fs_open_in_def split: if_splits)
  then show ?thesis
    using assms by (simp add: loadClientInfo_def hasClientInfo_def fs_exists_def getline_line)
qed

lemma saveClientInfo_files:
  assumes "healthy_store c d"
  obtains e where "saveClientInfo name uuid key d c = (True, e)" and "same_environment d e"
    and "fs_files e (cm_meInfoPath c) = Some (text_out (fs_platform d) (me_info_text name uuid key))"
    and "fs_files e (cm_privKeyPath c) = Some key"
  using assms
  by (auto simp: saveClientInfo_def fs_open_trunc_def fs_write_def healthy_store_def
      healthy_path_def same_environment_def Let_def)

lemma healthy_same_environment: "healthy_store c d \<Longrightarrow> same_environment d e \<Longrightarrow> healthy_store c e"
  by (simp add: healthy_store_def healthy_path_def same_environment_def)

lemma load_after_save:
  assumes "healthy_store c d" "plain_line name" "plain_line key" "uuid_ok uuid"
    and "saveClientInfo name uuid key d c = (ok, e)"
  shows "loadClientInfo e c = (Inr True, c\<lparr>cm_clientInfo :=
     \<lparr>ci_name = name, ci_uuid = uuid, ci_privateKeyBase64 = key\<rparr>\<rparr>)"
proof -
  obtain e' where "saveClientInfo name uuid key d c = (True, e')" "same_environment d e'"
    and f: "fs_files e' (cm_meInfoPath c) = Some (text_out (fs_platform d) (me_info_text name uuid key))"
    using saveClientInfo_files [OF assms(1)] by metis
  then have e: "same_environment d e" "fs_files e (cm_meInfoPath c) =
      Some (text_out (fs_platform d) (me_info_text name uuid key))"
    using assms(5) by auto
  have h: "healthy_store c e"
    using assms(1) e(1) by (rule healthy_same_environment)
  have pl: "fs_platform e = fs_platform d"
    using e(1) by (simp add: same_environment_def)
  show ?thesis
    using h e(2) pl me_info_lines [OF assms(2,3)] assms(2,3) plain_toHex [of uuid] toBytes_toHex [OF assms(4)]
    by (intro loadClientInfo_lines [where la = name and lb = "toHex uuid" and lc = key and rest = "[]"])
      (auto simp: healthy_store_def healthy_path_def fs_open_in_def plain_line_def)
qed

interpretation me_info: credential_store
  "save_credentials c" "load_credentials c" "has_credentials c" "\<lambda>d. removeClientInfo d c"
  storable_credentials "healthy_store c" for c
proof unfold_locales
  fix d and x :: credentials assume h: "healthy_store c d"
  obtain name uuid key where x: "x = (name, uuid, key)" by (cases x)
  obtain e where e: "saveClientInfo name uuid key d c = (True, e)" "same_environment d e"
    "fs_files e (cm_meInfoPath c) = Some (text_out (fs_platform d) (me_info_text name uuid key))"
    using saveClientInfo_files [OF h] by metis
  show "fst (save_credentials c x d)"
    by (simp add: save_credentials_def x e)
  show he: "healthy_store c (snd (save_credentials c x d))"
    using healthy_same_environment [OF h e(2)] by (simp add: save_credentials_def x e)
  show "has_credentials c (snd (save_credentials c x d))"
    using he by (auto simp: save_credentials_def x e has_credentials_def hasClientInfo_def
        fs_exists_def healthy_store_def healthy_path_def)
  show "load_credentials c (snd (save_credentials c x d)) = Some x" if "storable_credentials x"
    using that load_after_save [OF h _ _ _ e(1)]
    by (simp add: storable_credentials_def x save_credentials_def e load_credentials_def)
next
  fix d assume h: "healthy_store c d"
  then show "\<not> has_credentials c (removeClientInfo d c)"
    by (auto simp: has_credentials_def hasClientInfo_def removeClientInfo_def fs_exists_def
        fs_remove_def healthy_store_def healthy_path_def)
  have "same_environment d (removeClientInfo d c)"
    unfolding removeClientInfo_def by (rule environment.R_trans; rule same_environment_ops)
  with h show "healthy_store c (removeClientInfo d c)"
    by (rule healthy_same_environment)
next
  fix d assume "load_credentials c d \<noteq> None"
  then show "has_credentials c d"
    by (auto simp: load_credentials_def loadClientInfo_def has_credentials_def
        split: sum.splits if_splits option.splits)
qed

section \<open>Concrete file systems for the witnesses\<close>

definition empty_fs :: "platform \<Rightarrow> fs" where
  "empty_fs pl = \<lparr>fs_platform = pl, fs_files = (\<lambda>_. None), fs_status_fails = (\<lambda>_. False),
     fs_readable = (\<lambda>_. True), fs_writable = (\<lambda>_. True), fs_removable = (\<lambda>_. True),
     fs_capacity = (\<lambda>_. None)\<rparr>"

lemma healthy_empty_fs [simp]: "healthy_store default_config (empty_fs pl)"
  by (simp add: healthy_store_def healthy_path_def empty_fs_def default_config_def newConfigManager_def)

section \<open>Saving and loading\<close>

lemma saved_credentials:
  assumes "healthy_store c d" and "plain_line name" and "plain_line key" and "key \<noteq> []" and "uuid_ok uuid"
  shows "case saveClientInfo name uuid key d c of (ok, e) \<Rightarrow>
     ok \<and> hasClientInfo e c = Inr True \<and>
     loadClientInfo e c = (Inr True, c\<lparr>cm_clientInfo :=
       \<lparr>ci_name = name, ci_uuid = uuid, ci_privateKeyBase64 = key\<rparr>\<rparr>) \<and>
     loadPrivateKey e c = Some key \<and>
     hasClientInfo (removeClientInfo e c) c = Inr False"
proof -
  obtain e where e: "saveClientInfo name uuid key d c = (True, e)" "same_environment d e"
    "fs_files e (cm_meInfoPath c) = Some (text_out (fs_platform d) (me_info_text name uuid key))"
    "fs_files e (cm_privKeyPath c) = Some key"
    using saveClientInfo_files [OF assms(1)] by metis
  have h: "healthy_store c e"
    using assms(1) e(2) by (rule healthy_same_environment)
  have "loadPrivateKey e c = Some key"
    using h e(4) assms(3,4)
    by (simp add: loadPrivateKey_def fs_open_in_def healthy_store_def healthy_path_def
        plain_line_def getline_last)
  moreover have "hasClientInfo e c = Inr True"
    using me_info.load_present [of c e] load_after_save [OF assms(1,2,3,5) e(1)]
    by (simp add: load_credentials_def has_credentials_def)
  moreover have "hasClientInfo (removeClientInfo e c) c = Inr False"
    using me_info.forget_absent [OF h] h
    by (auto simp: has_credentials_def hasClientInfo_def fs_exists_def healthy_store_def
        healthy_path_def removeClientInfo_def fs_remove_def)
  ultimately show ?thesis
    using e(1) load_after_save [OF assms(1,2,3,5) e(1)] by simp
qed

text \<open>
  C26. Credentials survive on both platforms. On a healthy file system, for a name and a key
  without line feeds and Ctrl-Z characters, saving succeeds, \<open>me.info\<close> then loads to exactly
  the name, client ID and key that were saved, \<open>priv.key\<close> to the key, and after removal they are gone.
\<close>

theorem credentials_roundtrip:
  assumes "healthy_store c d" and "plain_line name" and "plain_line key" and "key \<noteq> []" and "uuid_ok uuid"
  shows "case saveClientInfo name uuid key d c of (ok, e) \<Rightarrow>
     ok \<and> hasClientInfo e c = Inr True \<and>
     loadClientInfo e c = (Inr True, c\<lparr>cm_clientInfo :=
       \<lparr>ci_name = name, ci_uuid = uuid, ci_privateKeyBase64 = key\<rparr>\<rparr>) \<and>
     loadPrivateKey e c = Some key \<and>
     hasClientInfo (removeClientInfo e c) c = Inr False"
  using assms by (rule saved_credentials)

theorem credentials_roundtrip_witness:
  "case saveClientInfo ''Ann'' (replicate 16 7) ''a2V5'' (empty_fs Windows) default_config of (ok, e) \<Rightarrow>
     ok \<and> hasClientInfo e default_config = Inr True \<and>
     loadClientInfo e default_config = (Inr True, default_config\<lparr>cm_clientInfo :=
       \<lparr>ci_name = ''Ann'', ci_uuid = replicate 16 7, ci_privateKeyBase64 = ''a2V5''\<rparr>\<rparr>) \<and>
     loadPrivateKey e default_config = Some ''a2V5'' \<and>
     hasClientInfo (removeClientInfo e default_config) default_config = Inr False"
  by (rule credentials_roundtrip) (simp_all add: plain_line_def LF_def CTRL_Z_def uuid_ok_def UUID_SIZE_def)

lemma half_saved_credentials:
  assumes "healthy_path d (cm_meInfoPath c)" and "\<not> fs_writable d (cm_privKeyPath c)"
    and "plain_line name" and "plain_line key" and "uuid_ok uuid"
  shows "case saveClientInfo name uuid key d c of (ok, e) \<Rightarrow>
     \<not> ok \<and> loadClientInfo e c = (Inr True, c\<lparr>cm_clientInfo :=
       \<lparr>ci_name = name, ci_uuid = uuid, ci_privateKeyBase64 = key\<rparr>\<rparr>)"
proof -
  define e where "e = d\<lparr>fs_files := (fs_files d)(cm_meInfoPath c \<mapsto>
      text_out (fs_platform d) (me_info_text name uuid key))\<rparr>"
  have "saveClientInfo name uuid key d c = (False, e)"
    using assms(1,2) by (auto simp: saveClientInfo_def fs_open_trunc_def fs_write_def healthy_path_def e_def Let_def)
  moreover have "loadClientInfo e c = (Inr True, c\<lparr>cm_clientInfo :=
       \<lparr>ci_name = name, ci_uuid = uuid, ci_privateKeyBase64 = key\<rparr>\<rparr>)"
    using assms plain_toHex [of uuid] toBytes_toHex [OF assms(5)] me_info_lines [OF assms(3,4)]
    by (intro loadClientInfo_lines [where la = name and lb = "toHex uuid" and lc = key and rest = "[]"])
      (auto simp: e_def healthy_path_def fs_open_in_def plain_line_def)
  ultimately show ?thesis by simp
qed

text \<open>
  C36. A client name with line feeds takes over the stored identity. The name is written to
  the line-based \<open>me.info\<close> as it is, so a name made of three lines loads back as
  its own first line, the client ID spelt in its second line and the key in its third: the
  identity that the server assigned is never read.
\<close>

theorem line_feed_name_injects_identity:
  assumes "healthy_store c d" and "plain_line a" and "uuid_ok v" and "plain_line k" and "plain_line key"
  shows "case saveClientInfo (a @ [LF] @ toHex v @ [LF] @ k) uuid key d c of (ok, e) \<Rightarrow>
     ok \<and> loadClientInfo e c = (Inr True, c\<lparr>cm_clientInfo :=
       \<lparr>ci_name = a, ci_uuid = v, ci_privateKeyBase64 = k\<rparr>\<rparr>)"
proof -
  let ?name = "a @ [LF] @ toHex v @ [LF] @ k"
  obtain e where e: "saveClientInfo ?name uuid key d c = (True, e)" "same_environment d e"
    "fs_files e (cm_meInfoPath c) = Some (text_out (fs_platform d) (me_info_text ?name uuid key))"
    using saveClientInfo_files [OF assms(1)] by metis
  have h: "healthy_store c e"
    using assms(1) e(2) by (rule healthy_same_environment)
  have pl: "fs_platform e = fs_platform d"
    using e(2) by (simp add: same_environment_def)
  have "text_in (fs_platform d) (text_out (fs_platform d) (me_info_text ?name uuid key)) =
      a @ LF # toHex v @ LF # k @ LF # (toHex uuid @ [LF] @ key @ [LF])"
    using assms plain_toHex [of uuid] plain_toHex [of v]
    by (subst text_in_out) (auto simp: me_info_text_def plain_line_def)
  then have "loadClientInfo e c = (Inr True, c\<lparr>cm_clientInfo :=
       \<lparr>ci_name = a, ci_uuid = v, ci_privateKeyBase64 = k\<rparr>\<rparr>)"
    using h e(3) pl assms plain_toHex [of v] toBytes_toHex [OF assms(3)]
    by (intro loadClientInfo_lines [where la = a and lb = "toHex v" and lc = k
          and rest = "toHex uuid @ [LF] @ key @ [LF]"])
      (auto simp: healthy_store_def healthy_path_def fs_open_in_def plain_line_def)
  with e(1) show ?thesis by simp
qed

theorem line_feed_name_injects_identity_witness:
  "case saveClientInfo (''a'' @ [LF] @ toHex (replicate 16 9) @ [LF] @ ''k'') (replicate 16 7) ''a2V5''
      (empty_fs Posix) default_config of (ok, e) \<Rightarrow>
     ok \<and> loadClientInfo e default_config = (Inr True, default_config\<lparr>cm_clientInfo :=
       \<lparr>ci_name = ''a'', ci_uuid = replicate 16 9, ci_privateKeyBase64 = ''k''\<rparr>\<rparr>)"
  by (rule line_feed_name_injects_identity)
    (simp_all add: plain_line_def LF_def CTRL_Z_def uuid_ok_def UUID_SIZE_def)

text \<open>
  C38. Write errors go unnoticed: on a device that takes no byte of \<open>me.info\<close> and no byte of
  \<open>priv.key\<close>, \<open>saveClientInfo\<close> still returns true as long as both files can be opened. The
  empty \<open>me.info\<close> then counts as client information for \<open>hasClientInfo\<close>, but neither the
  identity nor the private key can be loaded.
\<close>

theorem full_device_reports_success:
  assumes "fs_capacity d (cm_meInfoPath c) = Some 0" and "fs_capacity d (cm_privKeyPath c) = Some 0"
    and "fs_writable d (cm_meInfoPath c)" and "fs_writable d (cm_privKeyPath c)"
    and "\<not> fs_status_fails d (cm_meInfoPath c)"
  shows "case saveClientInfo name uuid key d c of (ok, e) \<Rightarrow>
     ok \<and> hasClientInfo e c = Inr True \<and> loadClientInfo e c = (Inr False, c) \<and> loadPrivateKey e c = None"
proof -
  have "text_in pl [] = []" for pl by (cases pl) simp_all
  then show ?thesis
    using assms
    by (simp add: saveClientInfo_def fs_open_trunc_def fs_write_def Let_def loadClientInfo_def
        loadPrivateKey_def hasClientInfo_def fs_exists_def fs_open_in_def getline_def)
qed

theorem full_device_reports_success_witness:
  "case saveClientInfo ''Ann'' (replicate 16 7) ''a2V5''
      ((empty_fs Windows)\<lparr>fs_capacity := (\<lambda>p. Some 0)\<rparr>) default_config
    of (ok, e) \<Rightarrow> ok \<and> hasClientInfo e default_config = Inr True \<and>
      loadClientInfo e default_config = (Inr False, default_config) \<and>
      loadPrivateKey e default_config = None"
  by (rule full_device_reports_success) (simp_all add: empty_fs_def)

end
