(* ===== verification/TransferConfig.thy ===== *)
theory TransferConfig
  imports CredentialStore
begin

text \<open>
  Validation of \<open>transfer.json\<close>: what \<open>loadTransferInfo\<close> accepts and what it stores, for every
  JSON library that provides the operations the code calls. \<open>json_value\<close> is a small JSON tree
  with these operations, used to instantiate the parameter in witnesses.
\<close>

section \<open>What is accepted\<close>

definition schema_ok :: "'j json_api \<Rightarrow> 'j \<Rightarrow> bool" where
  "schema_ok J j \<longleftrightarrow>
     json_is_object J j \<and> json_contains J j ''server'' \<and> json_is_object J (json_at J j ''server'') \<and>
     (let s = json_at J j ''server''
      in json_contains J s ''ip'' \<and> json_is_string J (json_at J s ''ip'') \<and>
         json_contains J s ''port'' \<and> json_is_number_integer J (json_at J s ''port'') \<and>
         json_contains J s ''client'' \<and> json_is_string J (json_at J s ''client''))"

definition doc_port :: "'j json_api \<Rightarrow> 'j \<Rightarrow> 32 word" where
  "doc_port J j = json_get_int J (json_at J (json_at J j ''server'') ''port'')"

definition doc_client :: "'j json_api \<Rightarrow> 'j \<Rightarrow> string" where
  "doc_client J j = json_get_string J (json_at J (json_at J j ''server'') ''client'')"

definition doc_ip :: "'j json_api \<Rightarrow> 'j \<Rightarrow> string" where
  "doc_ip J j = json_get_string J (json_at J (json_at J j ''server'') ''ip'')"

definition doc_ok :: "'j json_api \<Rightarrow> 'j \<Rightarrow> bool" where
  "doc_ok J j \<longleftrightarrow> schema_ok J j \<and> 1 \<le> sint (doc_port J j) \<and> sint (doc_port J j) \<le> 65535 \<and>
     1 \<le> length (doc_client J j) \<and> length (doc_client J j) \<le> 100"

lemma load_document_cases:
  "load_document J j c =
    (if doc_ok J j
     then (True, c\<lparr>cm_transferInfo := \<lparr>ti_ip = doc_ip J j, ti_port = ucast (doc_port J j),
             ti_clientName = doc_client J j, ti_files = file_list J j\<rparr>\<rparr>)
     else (False, c))"
proof (cases "schema_ok J j")
  case True
  have "doc_client J j = [] \<longleftrightarrow> \<not> 1 \<le> length (doc_client J j)"
    by (cases "doc_client J j") auto
  moreover have "sint (doc_port J j) \<le> 0 \<longleftrightarrow> \<not> 1 \<le> sint (doc_port J j)" by auto
  ultimately show ?thesis
    using True
    by (simp add: load_document_def schema_ok_def Let_def doc_ok_def flip: doc_port_def doc_client_def doc_ip_def)
next
  case False
  then show ?thesis
    by (auto simp: load_document_def schema_ok_def Let_def doc_ok_def)
qed

lemma file_list_nonempty: "list_all (\<lambda>f. f \<noteq> []) (file_list J j)"
  by (auto simp: file_list_def list_all_iff)

lemma port_of_int32:
  assumes "1 \<le> sint (w :: 32 word)" and "sint w \<le> 65535"
  shows "int (unat (ucast w :: u16)) = sint w"
proof -
  have "uint w = take_bit 32 (sint w)"
    by (simp add: uint_sint)
  also have "\<dots> = sint w"
    using assms by (intro take_bit_int_eq_self) simp_all
  finally have u: "sint w = uint w" ..
  have "int (unat (ucast w :: u16)) = uint (ucast w :: u16)"
    by simp
  also have "\<dots> = take_bit 16 (uint w)"
    by (simp add: unsigned_ucast_eq)
  also have "\<dots> = uint w"
    using assms(2) u by (intro take_bit_int_eq_self) simp_all
  finally show ?thesis using u by simp
qed

section \<open>What is stored\<close>

definition valid_transfer :: "transfer_info \<Rightarrow> bool" where
  "valid_transfer t \<longleftrightarrow> 1 \<le> unat (ti_port t) \<and> 1 \<le> length (ti_clientName t) \<and>
     length (ti_clientName t) \<le> 100 \<and> list_all (\<lambda>f. f \<noteq> []) (ti_files t)"

text \<open>
  C27. Loading \<open>transfer.json\<close> is all or nothing. When \<open>loadTransferInfo\<close> returns true, the port is
  between 1 and 65535, the client name has 1 to 100 characters, no file name is empty, and the
  stored credentials are untouched; on every other outcome (no file, unreadable file, parse error,
  schema mismatch, port or name out of range, a status query that throws) the configuration is
  unchanged.
\<close>

theorem load_transfer_valid_or_unchanged:
  "case loadTransferInfo J d path c of (r, c') \<Rightarrow>
     if r = Inr True
     then valid_transfer (cm_transferInfo c') \<and> cm_clientInfo c' = cm_clientInfo c \<and>
       cm_meInfoPath c' = cm_meInfoPath c \<and> cm_privKeyPath c' = cm_privKeyPath c
     else c' = c"
proof -
  have "valid_transfer \<lparr>ti_ip = doc_ip J j, ti_port = ucast (doc_port J j),
      ti_clientName = doc_client J j, ti_files = file_list J j\<rparr>" if "doc_ok J j" for j
  proof -
    have "int (unat (ucast (doc_port J j) :: u16)) = sint (doc_port J j)"
      using that by (intro port_of_int32) (simp_all add: doc_ok_def)
    then have "1 \<le> unat (ucast (doc_port J j) :: u16)"
      using that unfolding doc_ok_def by linarith
    then show ?thesis
      using that file_list_nonempty [of J j] by (auto simp: valid_transfer_def doc_ok_def)
  qed
  then show ?thesis
    by (auto simp: loadTransferInfo_def load_document_cases split: sum.split option.split)
qed

section \<open>A JSON tree for the witnesses\<close>

datatype json_value = JInt int | JString string | JArray "json_value list" | JObject "(string \<times> json_value) list"

definition json_tree :: "json_value option \<Rightarrow> json_value json_api" where
  "json_tree doc =
     \<lparr>json_parse = (\<lambda>_. doc),
      json_is_object = (\<lambda>j. case j of JObject _ \<Rightarrow> True | _ \<Rightarrow> False),
      json_contains = (\<lambda>j k. case j of JObject kvs \<Rightarrow> map_of kvs k \<noteq> None | _ \<Rightarrow> False),
      json_at = (\<lambda>j k. case j of JObject kvs \<Rightarrow> (case map_of kvs k of Some v \<Rightarrow> v | None \<Rightarrow> JInt 0) | _ \<Rightarrow> JInt 0),
      json_is_string = (\<lambda>j. case j of JString _ \<Rightarrow> True | _ \<Rightarrow> False),
      json_get_string = (\<lambda>j. case j of JString s \<Rightarrow> s | _ \<Rightarrow> []),
      json_is_number_integer = (\<lambda>j. case j of JInt _ \<Rightarrow> True | _ \<Rightarrow> False),
      json_get_int = (\<lambda>j. case j of JInt n \<Rightarrow> word_of_int n | _ \<Rightarrow> 0),
      json_is_array = (\<lambda>j. case j of JArray _ \<Rightarrow> True | _ \<Rightarrow> False),
      json_items = (\<lambda>j. case j of JArray xs \<Rightarrow> xs | _ \<Rightarrow> [])\<rparr>"

definition sample_config :: "int \<Rightarrow> json_value" where
  "sample_config port = JObject
     [(''server'', JObject [(''ip'', JString ''127.0.0.1''), (''port'', JInt port),
         (''client'', JString ''BenClientTest'')]),
      (''files'', JArray [JString ''a.txt'', JInt 3, JString [], JString ''b.bin''])]"

lemma sample_config_loads:
  "loadTransferInfo (json_tree (Some (sample_config 5000)))
     ((empty_fs Windows)\<lparr>fs_files := [''transfer.json'' \<mapsto> ''{}'']\<rparr>) ''transfer.json'' default_config =
   (Inr True, default_config\<lparr>cm_transferInfo := \<lparr>ti_ip = ''127.0.0.1'', ti_port = 5000,
      ti_clientName = ''BenClientTest'', ti_files = [''a.txt'', ''b.bin'']\<rparr>\<rparr>)"
  by (simp add: loadTransferInfo_def fs_exists_def fs_open_in_def empty_fs_def load_document_def
      json_tree_def sample_config_def file_list_def)

text \<open>
  C39. A port beyond 32 bits passes the range check. \<open>get<int>\<close> narrows the JSON integer
  before the check sees it, so for any \<open>k\<close> from 1 to 65535 a document whose port is
  \<open>2^32 + k\<close> is accepted and the port stored is \<open>k\<close>, when the JSON library
  converts an integer \<open>n\<close> as a C++ conversion does.
\<close>

theorem wide_port_accepted:
  assumes "schema_ok J j" and "1 \<le> length (doc_client J j)" and "length (doc_client J j) \<le> 100"
    and narrowing: "doc_port J j = word_of_int (2 ^ 32 + k)"
    and "1 \<le> k" and "k \<le> 65535"
  shows "load_document J j c =
    (True, c\<lparr>cm_transferInfo := \<lparr>ti_ip = doc_ip J j, ti_port = word_of_int k,
       ti_clientName = doc_client J j, ti_files = file_list J j\<rparr>\<rparr>)"
proof -
  have port: "doc_port J j = word_of_int k"
  proof -
    have "(word_of_int (2 ^ 32 + k) :: 32 word) = word_of_int (2 ^ 32) + word_of_int k"
      by (simp only: of_int_add)
    then show ?thesis by (simp add: narrowing)
  qed
  have s: "sint (word_of_int k :: 32 word) = k"
  proof -
    have "sint (word_of_int k :: 32 word) = signed_take_bit 31 k"
      by (simp add: sint_sbintrunc')
    also have "\<dots> = k"
      using assms(5,6) by (simp add: signed_take_bit_int_eq_self_iff)
    finally show ?thesis .
  qed
  have "(ucast (word_of_int k :: 32 word) :: u16) = word_of_int k"
    by (rule bit_word_eqI) (simp add: bit_simps)
  then show ?thesis
    using assms port s by (simp add: load_document_cases doc_ok_def)
qed

theorem wide_port_accepted_witness:
  "load_document (json_tree None) (sample_config (2 ^ 32 + 80)) default_config =
    (True, default_config\<lparr>cm_transferInfo := \<lparr>ti_ip = doc_ip (json_tree None) (sample_config (2 ^ 32 + 80)),
       ti_port = word_of_int 80, ti_clientName = doc_client (json_tree None) (sample_config (2 ^ 32 + 80)),
       ti_files = file_list (json_tree None) (sample_config (2 ^ 32 + 80))\<rparr>\<rparr>)"
  by (rule wide_port_accepted)
    (simp_all add: schema_ok_def doc_client_def doc_port_def json_tree_def sample_config_def)

end
