(* ===== verification/PacketBuilder.thy ===== *)
theory PacketBuilder
  imports Protocol
begin

text \<open>
  \<open>Protocol::PacketBuilder\<close> of \<open>src/Protocol.cpp\<close>: the zero-padded string field, the 23-byte
  request header and the five request packets, built by appending to a buffer as the code
  does. The \<open>flat\<close> lemmas give each packet as the concatenation of its fields.
\<close>

unbundle bit_operations_syntax

section \<open>Fields\<close>

text \<open>\<open>memcpy\<close> of a source to an offset inside a buffer.\<close>

definition memcpy :: "bytes \<Rightarrow> nat \<Rightarrow> bytes \<Rightarrow> bytes" where
  "memcpy buf off src = take off buf @ src @ drop (off + length src) buf"

text \<open>The code only calls it with field sizes of 255, so \<open>fieldSize - 1\<close> does not wrap.\<close>

definition appendFixedString :: "bytes \<Rightarrow> string \<Rightarrow> nat \<Rightarrow> bytes" where
  "appendFixedString buffer str fieldSize =
     (let bytesToCopy = min (length str) (fieldSize - 1);
          currentSize = length buffer;
          buffer = buffer @ replicate fieldSize 0
      in memcpy buffer currentSize (take bytesToCopy (map byte_of_char str)))"

definition appendRequestHeader :: "bytes \<Rightarrow> request_header \<Rightarrow> bytes" where
  "appendRequestHeader buffer header =
     (let buffer = buffer @ rq_clientId header;
          buffer = buffer @ [CLIENT_VERSION];
          buffer = appendUint16LE buffer (request_code_value (rq_code header))
      in appendUint32LE buffer (rq_payloadSize header))"

section \<open>Packets\<close>

definition buildRegistration :: "string \<Rightarrow> bytes" where
  "buildRegistration name =
     (let header = default_request_header
            \<lparr>rq_code := Registration, rq_payloadSize := word_of_nat NAME_FIELD_SIZE\<rparr>;
          packet = appendRequestHeader [] header
      in appendFixedString packet name NAME_FIELD_SIZE)"

definition buildPublicKeyExchange :: "bytes \<Rightarrow> string \<Rightarrow> bytes \<Rightarrow> bytes" where
  "buildPublicKeyExchange clientId name publicKey =
     (let header = default_request_header
            \<lparr>rq_clientId := clientId, rq_code := SendPublicKey,
             rq_payloadSize := word_of_nat (NAME_FIELD_SIZE + PUBLIC_KEY_SIZE)\<rparr>;
          packet = appendRequestHeader [] header;
          packet = appendFixedString packet name NAME_FIELD_SIZE;
          offset = length packet;
          packet = packet @ replicate PUBLIC_KEY_SIZE 0;
          bytesToCopy = min (length publicKey) PUBLIC_KEY_SIZE
      in memcpy packet offset (take bytesToCopy publicKey))"

text \<open>
  \<open>FILE_METADATA_SIZE + contentSize\<close> is computed at \<open>size_t\<close> and narrowed to 32 bits; the
  content size itself was narrowed before.
\<close>

definition buildSendFile ::
  "bytes \<Rightarrow> u32 \<Rightarrow> u16 \<Rightarrow> u16 \<Rightarrow> string \<Rightarrow> bytes \<Rightarrow> bytes" where
  "buildSendFile clientId origFileSize packetNum totalPackets fileName encryptedContent =
     (let contentSize = (word_of_nat (length encryptedContent) :: u32);
          header = default_request_header
            \<lparr>rq_clientId := clientId, rq_code := SendFile,
             rq_payloadSize := word_of_nat (FILE_METADATA_SIZE + unat contentSize)\<rparr>;
          packet = appendRequestHeader [] header;
          packet = appendUint32LE packet contentSize;
          packet = appendUint32LE packet origFileSize;
          packet = appendUint16LE packet packetNum;
          packet = appendUint16LE packet totalPackets;
          packet = appendFixedString packet fileName FILE_NAME_FIELD_SIZE
      in packet @ encryptedContent)"

definition buildCrcStatus :: "bytes \<Rightarrow> request_code \<Rightarrow> string \<Rightarrow> bytes" where
  "buildCrcStatus clientId code fileName =
     (let header = default_request_header
            \<lparr>rq_clientId := clientId, rq_code := code,
             rq_payloadSize := word_of_nat FILE_NAME_FIELD_SIZE\<rparr>;
          packet = appendRequestHeader [] header
      in appendFixedString packet fileName FILE_NAME_FIELD_SIZE)"

definition buildReconnect :: "bytes \<Rightarrow> string \<Rightarrow> bytes" where
  "buildReconnect clientId name =
     (let header = default_request_header
            \<lparr>rq_clientId := clientId, rq_code := Reconnect,
             rq_payloadSize := word_of_nat NAME_FIELD_SIZE\<rparr>;
          packet = appendRequestHeader [] header
      in appendFixedString packet name NAME_FIELD_SIZE)"

section \<open>Packets as concatenations of fields\<close>

text \<open>A zero-padded field of \<open>n\<close> bytes that keeps at most \<open>m\<close> bytes of its content.\<close>

definition padded :: "nat \<Rightarrow> nat \<Rightarrow> bytes \<Rightarrow> bytes" where
  "padded n m bs = take m bs @ replicate (n - min (length bs) m) 0"

lemma length_padded [codec_simps]: "m \<le> n \<Longrightarrow> length (padded n m bs) = n"
  by (auto simp: padded_def)

lemma memcpy_padded:
  "m \<le> n \<Longrightarrow>
   memcpy (buffer @ replicate n 0) (length buffer) (take (min (length bs) m) bs) = buffer @ padded n m bs"
  by (auto simp: memcpy_def padded_def min_def)

lemma appendFixedString_padded:
  "appendFixedString buffer s n = buffer @ padded n (n - 1) (map byte_of_char s)"
  using memcpy_padded [of "n - 1" n buffer "map byte_of_char s"]
  by (simp add: appendFixedString_def Let_def)

definition request_prefix :: "bytes \<Rightarrow> request_code \<Rightarrow> u32 \<Rightarrow> bytes" where
  "request_prefix uid code psize =
     uid @ [CLIENT_VERSION] @ appendUint16LE [] (request_code_value code) @ appendUint32LE [] psize"

lemma appendRequestHeader_prefix:
  "appendRequestHeader buffer h =
   buffer @ request_prefix (rq_clientId h) (rq_code h) (rq_payloadSize h)"
  by (simp add: appendRequestHeader_def request_prefix_def Let_def
      appendUint16LE_append [of "_ @ _"] appendUint32LE_append [of "_ @ _"])

lemma length_request_prefix [codec_simps]: "length (request_prefix uid code psize) = length uid + 7"
  by (simp add: request_prefix_def u16le.length_enc u32le.length_enc)

lemma buildRegistration_flat:
  "buildRegistration name =
   request_prefix (replicate 16 0) Registration 255 @ padded 255 254 (map byte_of_char name)"
  by (simp add: buildRegistration_def Let_def appendRequestHeader_prefix appendFixedString_padded
      default_request_header_def protocol_sizes)

lemma buildPublicKeyExchange_flat:
  "buildPublicKeyExchange uid name key =
   request_prefix uid SendPublicKey 415 @ padded 255 254 (map byte_of_char name) @ padded 160 160 key"
  by (simp add: buildPublicKeyExchange_def Let_def appendRequestHeader_prefix
      appendFixedString_padded default_request_header_def protocol_sizes memcpy_padded
      del: append_assoc)

lemma buildSendFile_flat:
  "buildSendFile uid osz pn tp fn content =
   request_prefix uid SendFile (267 + word_of_nat (length content)) @
   appendUint32LE [] (word_of_nat (length content)) @ appendUint32LE [] osz @
   appendUint16LE [] pn @ appendUint16LE [] tp @ padded 255 254 (map byte_of_char fn) @ content"
  by (simp add: buildSendFile_def Let_def appendRequestHeader_prefix appendFixedString_padded
      default_request_header_def protocol_sizes appendUint16LE_append [of "_ @ _"]
      appendUint32LE_append [of "_ @ _"] appendUint32LE_append [of "request_prefix _ _ _"])

lemma buildCrcStatus_flat:
  "buildCrcStatus uid code fn = request_prefix uid code 255 @ padded 255 254 (map byte_of_char fn)"
  by (simp add: buildCrcStatus_def Let_def appendRequestHeader_prefix appendFixedString_padded
      default_request_header_def protocol_sizes)

lemma buildReconnect_flat:
  "buildReconnect uid name = request_prefix uid Reconnect 255 @ padded 255 254 (map byte_of_char name)"
  by (simp add: buildReconnect_def Let_def appendRequestHeader_prefix appendFixedString_padded
      default_request_header_def protocol_sizes)

lemmas packets_flat =
  buildRegistration_flat buildPublicKeyExchange_flat buildSendFile_flat buildCrcStatus_flat
  buildReconnect_flat

end
