(* ===== verification/PacketParser.thy ===== *)
theory PacketParser
  imports PacketBuilder
begin

text \<open>
  \<open>Protocol::PacketParser\<close> of \<open>src/Protocol.cpp\<close>: the response header, the payload size
  that the protocol defines for each response code, and the three payload parsers.
  \<open>std::optional\<close> is \<open>option\<close>; a pointer into a payload is the list of bytes from there on.
\<close>

unbundle bit_operations_syntax

section \<open>The code\<close>

definition parseHeader :: "bytes \<Rightarrow> response_header option" where
  "parseHeader headerBuffer =
     (if length headerBuffer < RESPONSE_HEADER_SIZE then None
      else Some \<lparr>rs_version = headerBuffer ! 0,
                 rs_code = response_code_of (readUint16LE (drop 1 headerBuffer)),
                 rs_payloadSize = readUint32LE (drop 3 headerBuffer)\<rparr>)"

fun expectedPayloadSize :: "response_code \<Rightarrow> nat option" where
  "expectedPayloadSize RegistrationSuccess = Some UUID_SIZE"
| "expectedPayloadSize MessageConfirmed = Some UUID_SIZE"
| "expectedPayloadSize ReconnectRejected = Some UUID_SIZE"
| "expectedPayloadSize AesKeyReceived = Some AES_KEY_PAYLOAD_SIZE"
| "expectedPayloadSize ReconnectApproved = Some AES_KEY_PAYLOAD_SIZE"
| "expectedPayloadSize FileReceivedWithCrc = Some CRC_PAYLOAD_EXPECTED_SIZE"
| "expectedPayloadSize RegistrationFailed = Some 0"
| "expectedPayloadSize GeneralError = Some 0"
| "expectedPayloadSize (UnlistedResponse _) = None"

definition parseClientIdPayload :: "bytes \<Rightarrow> bytes option" where
  "parseClientIdPayload payload =
     (if length payload < UUID_SIZE then None else Some (take UUID_SIZE payload))"

definition parseAesKeyPayload :: "bytes \<Rightarrow> aes_key_response option" where
  "parseAesKeyPayload payload =
     (if length payload < UUID_SIZE then None
      else Some \<lparr>ak_clientId = take UUID_SIZE payload,
                 ak_encryptedAesKey = drop UUID_SIZE payload\<rparr>)"

text \<open>\<open>strnlen\<close>: the bytes before the first zero byte, at most \<open>n\<close>.\<close>

definition strnlen :: "bytes \<Rightarrow> nat \<Rightarrow> nat" where
  "strnlen ptr n = length (takeWhile (\<lambda>b. b \<noteq> 0) (take n ptr))"

text \<open>\<open>fileName.assign(namePtr, nameLen)\<close> with the length that \<open>strnlen\<close> finds.\<close>

definition readFixedName :: "bytes \<Rightarrow> string" where
  "readFixedName namePtr =
     (let nameLen = strnlen namePtr FILE_NAME_FIELD_SIZE
      in map char_of_byte (take nameLen namePtr))"

definition parseFileCrcPayload :: "bytes \<Rightarrow> file_crc_response option" where
  "parseFileCrcPayload payload =
     (if length payload < CRC_PAYLOAD_EXPECTED_SIZE then None
      else
        (let offset = 0;
             clientId = take UUID_SIZE (drop offset payload);
             offset = offset + UUID_SIZE;
             contentSize = readUint32LE (drop offset payload);
             offset = offset + 4;
             fileName = readFixedName (drop offset payload);
             offset = offset + FILE_NAME_FIELD_SIZE;
             cksum = readUint32LE (drop offset payload)
         in Some \<lparr>fc_clientId = clientId, fc_contentSize = contentSize,
                  fc_fileName = fileName, fc_cksum = cksum\<rparr>))"

section \<open>The string field is a codec\<close>

text \<open>
  What a zero-padded field stands for: the content up to its first zero byte. A name survives
  the field when it is shorter than 255 bytes and has no zero byte.
\<close>

definition c_string :: "string \<Rightarrow> string" where
  "c_string s = takeWhile (\<lambda>c. c \<noteq> NUL) s"

definition name_ok :: "string \<Rightarrow> bool" where
  "name_ok s \<longleftrightarrow> length s \<le> 254 \<and> NUL \<notin> set s"

lemma c_string_id: "NUL \<notin> set s \<Longrightarrow> c_string s = s"
  by (induction s) (auto simp: c_string_def)

lemma name_okD: "name_ok s \<Longrightarrow> c_string (take 254 s) = s"
  by (simp add: name_ok_def c_string_id)

lemma readFixedName_take: "readFixedName ptr = map char_of_byte (takeWhile (\<lambda>b. b \<noteq> 0) (take 255 ptr))"
  by (simp add: readFixedName_def strnlen_def protocol_sizes Let_def take_length_takeWhile_take)

lemma takeWhile_nonzero_bytes:
  "map char_of_byte (takeWhile (\<lambda>b. b \<noteq> 0) (map byte_of_char s)) = c_string s"
  by (induction s) (auto simp: c_string_def)

lemma takeWhile_padded:
  "m \<le> n \<Longrightarrow> takeWhile (\<lambda>b. b \<noteq> 0) (padded n m bs) = takeWhile (\<lambda>b. b \<noteq> 0) (take m bs)"
  by (auto simp: padded_def takeWhile_append takeWhile_replicate takeWhile_all list_all_iff)

lemma readFixedName_padded:
  "readFixedName (padded 255 254 (map byte_of_char s) @ rest) = c_string (take 254 s)"
proof -
  have "take 255 (padded 255 254 (map byte_of_char s) @ rest) = padded 255 254 (map byte_of_char s)"
    by (simp add: length_padded)
  then show ?thesis
    by (simp add: readFixedName_take takeWhile_padded take_map takeWhile_nonzero_bytes)
qed

interpretation name_field: fixed_codec "\<lambda>s. appendFixedString [] s 255" readFixedName 255 name_ok
  by unfold_locales
    (simp_all add: appendFixedString_padded length_padded readFixedName_padded name_okD)

section \<open>Parsing\<close>

lemma expectedPayloadSize_bound: "expectedPayloadSize c = Some n \<Longrightarrow> n \<le> 279"
  by (cases c) (auto simp: protocol_sizes)

lemma expectedPayloadSize_listed:
  "expectedPayloadSize (response_code_of w) \<noteq> None \<longleftrightarrow> 1600 \<le> w \<and> w \<le> 1607"
proof -
  have "w \<le> 1607 \<and> 1600 \<le> w \<longleftrightarrow> w \<in> {1600, 1601, 1602, 1603, 1604, 1605, 1606, 1607}"
    by (auto simp: word_le_nat_alt word_unat_eq_iff; arith)
  then show ?thesis
    by (auto simp: response_code_of_def)
qed

text \<open>A response header as the server writes it.\<close>

definition encode_response_header :: "response_header \<Rightarrow> bytes" where
  "encode_response_header h =
     [rs_version h] @ appendUint16LE [] (response_code_value (rs_code h)) @
     appendUint32LE [] (rs_payloadSize h)"

lemma length_encode_response_header [codec_simps]: "length (encode_response_header h) = 7"
  by (simp add: encode_response_header_def u16le.length_enc u32le.length_enc)

definition listed :: "response_code \<Rightarrow> bool" where
  "listed c \<longleftrightarrow> (case c of UnlistedResponse w \<Rightarrow> response_code_of w = UnlistedResponse w | _ \<Rightarrow> True)"

lemma listed_of [simp]: "listed (response_code_of w)"
  by (simp add: listed_def response_code_of_def)

lemma response_code_of_listed: "listed c \<Longrightarrow> response_code_of (response_code_value c) = c"
  by (cases c) (simp_all add: listed_def response_code_of_def)

lemma parseHeader_encode:
  "listed (rs_code h) \<Longrightarrow> parseHeader (encode_response_header h @ rest) = Some h"
  using u32le.dec_at [of "[rs_version h] @ appendUint16LE [] (response_code_value (rs_code h))" 3]
  by (simp add: parseHeader_def encode_response_header_def protocol_sizes u16le.length_enc
      u32le.length_enc u16le.dec_enc response_code_of_listed)

end
