(* ===== verification/ProtocolSpec.thy ===== *)
theory ProtocolSpec
  imports PacketParser
begin

text \<open>
  The protocol as its other end reads it. \<open>decode_request\<close> is a reference decoder of
  requests, written from the layout in \<open>src/Protocol.h\<close> (23-byte header: UUID, version,
  code, payload size, all little-endian; fixed-size payload fields) with its own integer
  reader, and \<open>encode_file_crc\<close>, \<open>encode_aes_key\<close> are the payloads a server sends. The
  theorems relate the packet builder and the packet parser to them.
\<close>

unbundle bit_operations_syntax

section \<open>A reference decoder of requests\<close>

fun le_value :: "bytes \<Rightarrow> nat" where
  "le_value [] = 0"
| "le_value (b # bs) = unat b + 256 * le_value bs"

definition c_field :: "bytes \<Rightarrow> string" where
  "c_field bs = map char_of_byte (takeWhile (\<lambda>b. b \<noteq> 0) bs)"

datatype server_request =
    Req_Register string
  | Req_PublicKey string bytes
  | Req_Reconnect string
  | Req_File nat nat nat string bytes
  | Req_Crc request_code string

definition decode_payload :: "nat \<Rightarrow> bytes \<Rightarrow> server_request option" where
  "decode_payload code p =
     (if code = 825 then (if length p = 255 then Some (Req_Register (c_field p)) else None)
      else if code = 826 then
        (if length p = 415 then Some (Req_PublicKey (c_field (take 255 p)) (drop 255 p)) else None)
      else if code = 827 then (if length p = 255 then Some (Req_Reconnect (c_field p)) else None)
      else if code = 828 then
        (if 267 \<le> length p \<and> le_value (take 4 p) = length p - 267
         then Some (Req_File (le_value (take 4 (drop 4 p))) (le_value (take 2 (drop 8 p)))
                (le_value (take 2 (drop 10 p))) (c_field (take 255 (drop 12 p))) (drop 267 p))
         else None)
      else if length p \<noteq> 255 then None
      else if code = 900 then Some (Req_Crc CrcValid (c_field p))
      else if code = 901 then Some (Req_Crc CrcInvalidRetry (c_field p))
      else if code = 902 then Some (Req_Crc CrcInvalidAbort (c_field p))
      else None)"

definition decode_request :: "bytes \<Rightarrow> (bytes \<times> server_request) option" where
  "decode_request bs =
     (if length bs < 23 \<or> bs ! 16 \<noteq> 3 \<or> le_value (take 4 (drop 19 bs)) \<noteq> length bs - 23 then None
      else map_option (Pair (take 16 bs)) (decode_payload (le_value (take 2 (drop 17 bs))) (drop 23 bs)))"

section \<open>Fields as the decoder sees them\<close>

lemma unat_low_byte: "unat (ucast (w :: 'a::len word) :: byte) = unat w mod 256"
  by (simp add: unsigned_ucast_eq take_bit_eq_mod)

lemma unat_drop_bit: "unat (drop_bit n (w :: 'a::len word)) = unat w div 2 ^ n"
  by (simp only: unat_drop_bit_eq) (simp only: drop_bit_eq_div)

lemma base_256_sum:
  "r0 + 256 * q1 = n \<Longrightarrow> r1 + 256 * q2 = q1 \<Longrightarrow> r2 + 256 * q3 = q2 \<Longrightarrow>
   r0 + (256 * r1 + (65536 * r2 + 16777216 * q3)) = (n :: nat)"
  by linarith

lemma base_256_digits:
  "n mod 256 + (256 * (n div 256 mod 256) + (65536 * (n div 65536 mod 256) + 16777216 * (n div 16777216)))
   = (n :: nat)"
proof -
  have "n div 65536 = n div 256 div 256" "n div 16777216 = n div 256 div 256 div 256"
    by (simp_all add: div_mult2_eq [symmetric])
  then show ?thesis
    by (simp only:) (rule base_256_sum; rule mod_mult_div_eq)
qed

lemma le_value_u16 [codec_simps]: "le_value (appendUint16LE [] v) = unat v"
proof -
  have "unat v < 65536" using unsigned_less [of v, where 'a = nat] by simp
  then show ?thesis
    by (simp add: appendUint16LE_def byte_mask unat_low_byte unat_drop_bit)
qed

lemma le_value_u32 [codec_simps]: "le_value (appendUint32LE [] v) = unat v"
proof -
  have "unat v < 4294967296" using unsigned_less [of v, where 'a = nat] by simp
  then show ?thesis
    using base_256_digits [of "unat v"]
    by (simp add: appendUint32LE_def byte_mask unat_low_byte unat_drop_bit del: drop_bit_eq_div)
qed

lemma c_field_padded [codec_simps]:
  "c_field (padded 255 254 (map byte_of_char s)) = c_string (take 254 s)"
  by (simp add: c_field_def takeWhile_padded take_map takeWhile_nonzero_bytes)

lemmas field_lengths = u16le.length_enc u32le.length_enc length_padded length_request_prefix

text \<open>A packet is its header and its payload; the decoder accepts it when the size agrees.\<close>

lemma decode_request_prefix:
  assumes "length uid = 16"
  shows "decode_request (request_prefix uid code psize @ payload) =
    (if unat psize = length payload
     then map_option (Pair uid) (decode_payload (unat (request_code_value code)) payload) else None)"
proof -
  define bs where "bs = request_prefix uid code psize @ payload"
  have bs: "bs = uid @ CLIENT_VERSION # appendUint16LE [] (request_code_value code) @
      appendUint32LE [] psize @ payload"
    by (simp add: bs_def request_prefix_def)
  have len: "length bs = 23 + length payload"
    using assms by (simp add: bs_def length_request_prefix)
  have version: "bs ! 16 = 3"
    using assms by (simp add: bs nth_append CLIENT_VERSION_def)
  have uid: "take 16 bs = uid"
    using assms by (simp add: bs)
  have d17: "drop 17 bs = appendUint16LE [] (request_code_value code) @ appendUint32LE [] psize @ payload"
    using assms by (simp add: bs)
  have "drop 19 bs = drop 2 (drop 17 bs)" by simp
  then have d19: "drop 19 bs = appendUint32LE [] psize @ payload"
    by (simp only: d17) (simp add: u16le.length_enc)
  have "drop 23 bs = drop 4 (drop 19 bs)" by simp
  then have d23: "drop 23 bs = payload"
    by (simp only: d19) (simp add: u32le.length_enc)
  have "le_value (take 2 (drop 17 bs)) = unat (request_code_value code)"
    by (simp only: d17) (simp add: u16le.length_enc le_value_u16)
  moreover have "le_value (take 4 (drop 19 bs)) = unat psize"
    by (simp only: d19) (simp add: u32le.length_enc le_value_u32)
  ultimately show ?thesis
    unfolding bs_def [symmetric] decode_request_def by (simp add: len version uid d23)
qed

lemma packet_too_long_for_size:
  "2 ^ 32 \<le> n \<Longrightarrow> unat (word_of_nat n :: u32) \<noteq> n"
  using unsigned_less [of "word_of_nat n :: u32", where 'a = nat] by simp

section \<open>Requests: what the server decodes is what the client built\<close>

lemma padded_key: "padded 160 160 key = take 160 (key @ replicate 160 0)"
  by (auto simp: padded_def min_def)

lemma decode_small_requests:
  "decode_request (buildRegistration name) = Some (replicate 16 0, Req_Register (c_string (take 254 name)))"
  "uuid_ok uid \<Longrightarrow> decode_request (buildPublicKeyExchange uid name key) =
     Some (uid, Req_PublicKey (c_string (take 254 name)) (take 160 (key @ replicate 160 0)))"
  "uuid_ok uid \<Longrightarrow> decode_request (buildReconnect uid name) = Some (uid, Req_Reconnect (c_string (take 254 name)))"
  "uuid_ok uid \<Longrightarrow> code \<in> {CrcValid, CrcInvalidRetry, CrcInvalidAbort} \<Longrightarrow>
     decode_request (buildCrcStatus uid code name) = Some (uid, Req_Crc code (c_string (take 254 name)))"
  by (auto simp: buildRegistration_flat buildPublicKeyExchange_flat buildReconnect_flat buildCrcStatus_flat
      decode_request_prefix field_lengths decode_payload_def c_field_padded padded_key uuid_ok_def UUID_SIZE_def)

text \<open>
  C32. Requests without a file decode to what they were built from, for every name, which is cut at 254 bytes and at its first zero byte: a
  registration to the zero client ID and the name; a public-key request to the client's ID,
  the name and exactly 160 bytes of key (a shorter key is padded with zero bytes, a longer one is
  cut); a reconnect request to the ID and the stored name; a checksum status to the ID, the verdict and
  the file name, for each of the three verdicts (900, 901, 902).
\<close>

theorem decode_requests:
  assumes "uuid_ok uid" and "code \<in> {CrcValid, CrcInvalidRetry, CrcInvalidAbort}"
  shows "decode_request (buildRegistration name) = Some (replicate 16 0, Req_Register (c_string (take 254 name))) \<and>
    decode_request (buildPublicKeyExchange uid name key) =
      Some (uid, Req_PublicKey (c_string (take 254 name)) (take 160 (key @ replicate 160 0))) \<and>
    decode_request (buildReconnect uid name) = Some (uid, Req_Reconnect (c_string (take 254 name))) \<and>
    decode_request (buildCrcStatus uid code fn) = Some (uid, Req_Crc code (c_string (take 254 fn)))"
  using assms by (simp add: decode_small_requests)

theorem decode_requests_witness:
  "decode_request (buildRegistration ''bob'') = Some (replicate 16 0, Req_Register (c_string (take 254 ''bob''))) \<and>
   decode_request (buildPublicKeyExchange (replicate 16 7) ''bob'' [1, 2, 3]) =
     Some (replicate 16 7, Req_PublicKey (c_string (take 254 ''bob'')) (take 160 ([1, 2, 3] @ replicate 160 0))) \<and>
   decode_request (buildReconnect (replicate 16 7) ''bob'') =
     Some (replicate 16 7, Req_Reconnect (c_string (take 254 ''bob''))) \<and>
   decode_request (buildCrcStatus (replicate 16 7) CrcInvalidRetry ''a.txt'') =
     Some (replicate 16 7, Req_Crc CrcInvalidRetry (c_string (take 254 ''a.txt'')))"
  by (rule decode_requests) (simp_all add: uuid_ok_def UUID_SIZE_def)

lemma decode_file_payload:
  "length content < 2 ^ 32 \<Longrightarrow>
   decode_payload 828 (appendUint32LE [] (word_of_nat (length content)) @ appendUint32LE [] osz @
      appendUint16LE [] pn @ appendUint16LE [] tp @ padded 255 254 (map byte_of_char fn) @ content)
   = Some (Req_File (unat osz) (unat pn) (unat tp) (c_string (take 254 fn)) content)"
proof -
  assume len: "length content < 2 ^ 32"
  define a b c d e where "a = appendUint32LE [] (word_of_nat (length content))"
    and "b = appendUint32LE [] osz" and "c = appendUint16LE [] pn" and "d = appendUint16LE [] tp"
    and "e = padded 255 254 (map byte_of_char fn)"
  have l: "length a = 4" "length b = 4" "length c = 2" "length d = 2" "length e = 255"
    by (simp_all add: a_def b_def c_def d_def e_def field_lengths)
  have "unat (word_of_nat (length content) :: u32) = length content"
    using len by (rule unat_u32_of_nat)
  then have v: "le_value a = length content" "le_value b = unat osz" "le_value c = unat pn"
    "le_value d = unat tp" "c_field e = c_string (take 254 fn)"
    by (simp_all add: a_def b_def c_def d_def e_def le_value_u16 le_value_u32 c_field_padded)
  show ?thesis
    unfolding a_def [symmetric] b_def [symmetric] c_def [symmetric] d_def [symmetric] e_def [symmetric]
    by (simp add: decode_payload_def l v)
qed

lemma decode_file_packet:
  assumes "uuid_ok uid"
  shows "decode_request (buildSendFile uid osz pn tp fn content) =
    (if length content < 2 ^ 32 - 267
     then Some (uid, Req_File (unat osz) (unat pn) (unat tp) (c_string (take 254 fn)) content)
     else None)"
proof -
  have psize: "(267 + word_of_nat (length content) :: u32) = word_of_nat (267 + length content)"
    by simp
  show ?thesis
  proof (cases "length content < 2 ^ 32 - 267")
    case True
    then have "unat (word_of_nat (267 + length content) :: u32) = 267 + length content"
      by (intro unat_u32_of_nat) simp
    then show ?thesis
      using True assms unfolding buildSendFile_flat psize
      by (simp add: decode_request_prefix field_lengths uuid_ok_def UUID_SIZE_def
          decode_file_payload del: of_nat_add)
  next
    case False
    then have "unat (word_of_nat (267 + length content) :: u32) \<noteq> 267 + length content"
      by (intro packet_too_long_for_size) simp
    then show ?thesis
      using False assms unfolding buildSendFile_flat psize
      by (simp add: decode_request_prefix field_lengths uuid_ok_def UUID_SIZE_def del: of_nat_add)
  qed
qed

text \<open>
  C22. Framing of the file packet. The server decodes the packet to the client's ID, the original
  size, the packet numbers, the file name and the exact content if and only if the content
  is shorter than \<open>2^32 - 267\<close> bytes. From that length on, the 32-bit payload size wraps around and no
  longer matches the bytes that follow.
\<close>

theorem decode_send_file:
  assumes "uuid_ok uid"
  shows "decode_request (buildSendFile uid osz pn tp fn content) =
    (if length content < 2 ^ 32 - 267
     then Some (uid, Req_File (unat osz) (unat pn) (unat tp) (c_string (take 254 fn)) content)
     else None)"
  using assms by (rule decode_file_packet)

text \<open>Both sides of the limit: three bytes of content, and \<open>2^32\<close> bytes of it.\<close>

theorem decode_send_file_witness:
  "decode_request (buildSendFile (replicate 16 7) 3 1 1 ''a.txt'' [1, 2, 3]) =
     Some (replicate 16 7, Req_File 3 1 1 (c_string (take 254 ''a.txt'')) [1, 2, 3]) \<and>
   decode_request (buildSendFile (replicate 16 7) 0 1 1 ''a.txt'' (replicate (2 ^ 32) 0)) = None"
proof -
  have ok: "uuid_ok (replicate 16 7)" by (simp add: uuid_ok_def UUID_SIZE_def)
  show ?thesis
    using decode_send_file [OF ok, of 3 1 1 "''a.txt''" "[1, 2, 3]"]
      decode_send_file [OF ok, of 0 1 1 "''a.txt''" "replicate (2 ^ 32) 0"]
    by (simp only: length_replicate) simp
qed

section \<open>Responses: what the client parses is what the server sent\<close>

definition encode_file_crc :: "file_crc_response \<Rightarrow> bytes" where
  "encode_file_crc r =
     fc_clientId r @ appendUint32LE [] (fc_contentSize r) @
     padded 255 255 (map byte_of_char (fc_fileName r)) @ appendUint32LE [] (fc_cksum r)"

definition encode_aes_key :: "aes_key_response \<Rightarrow> bytes" where
  "encode_aes_key r = ak_clientId r @ ak_encryptedAesKey r"

definition file_crc_ok :: "file_crc_response \<Rightarrow> bool" where
  "file_crc_ok r \<longleftrightarrow> uuid_ok (fc_clientId r) \<and> length (fc_fileName r) \<le> 255 \<and> NUL \<notin> set (fc_fileName r)"

lemma length_encode_file_crc [codec_simps]:
  "uuid_ok (fc_clientId r) \<Longrightarrow> length (encode_file_crc r) = 279"
  by (simp add: encode_file_crc_def field_lengths uuid_ok_def UUID_SIZE_def)

lemma readFixedName_full:
  "length s \<le> 255 \<Longrightarrow> NUL \<notin> set s \<Longrightarrow>
   readFixedName (padded 255 255 (map byte_of_char s) @ rest) = s"
proof -
  assume s: "length s \<le> 255" "NUL \<notin> set s"
  have "take 255 (padded 255 255 (map byte_of_char s) @ rest) = padded 255 255 (map byte_of_char s)"
    by (simp add: length_padded)
  then show ?thesis
    using s by (simp add: readFixedName_take takeWhile_padded take_map takeWhile_nonzero_bytes c_string_id)
qed

lemma unfold_parse_file_crc:
  "279 \<le> length p \<Longrightarrow> parseFileCrcPayload p =
     Some \<lparr>fc_clientId = take 16 p, fc_contentSize = readUint32LE (drop 16 p),
           fc_fileName = readFixedName (drop 20 p), fc_cksum = readUint32LE (drop 275 p)\<rparr>"
  by (simp add: parseFileCrcPayload_def Let_def protocol_sizes)

lemma parse_encode_file_crc:
  assumes "file_crc_ok r"
  shows "parseFileCrcPayload (encode_file_crc r @ rest) = Some r"
proof -
  define a b c d where "a = fc_clientId r" and "b = appendUint32LE [] (fc_contentSize r)"
    and "c = padded 255 255 (map byte_of_char (fc_fileName r))"
    and "d = appendUint32LE [] (fc_cksum r)"
  have l: "length a = 16" "length b = 4" "length c = 255" "length d = 4"
    using assms by (simp_all add: a_def b_def c_def d_def field_lengths file_crc_ok_def uuid_ok_def UUID_SIZE_def)
  have "encode_file_crc r @ rest = a @ b @ c @ d @ rest"
    by (simp add: encode_file_crc_def a_def b_def c_def d_def)
  moreover have "readUint32LE (b @ xs) = fc_contentSize r" "readUint32LE (d @ xs) = fc_cksum r" for xs
    by (simp_all add: b_def d_def u32le.dec_enc)
  moreover have "readFixedName (c @ xs) = fc_fileName r" for xs
    using assms by (simp add: c_def file_crc_ok_def readFixedName_full)
  ultimately show ?thesis
    by (simp add: unfold_parse_file_crc l) (simp add: a_def)
qed

lemma readUint32LE_take: "4 \<le> n \<Longrightarrow> readUint32LE (take n p) = readUint32LE p"
  by (simp add: readUint32LE_def)

lemma readUint16LE_take: "2 \<le> n \<Longrightarrow> readUint16LE (take n p) = readUint16LE p"
  by (simp add: readUint16LE_def)

lemma readFixedName_take_bytes: "255 \<le> n \<Longrightarrow> readFixedName (take n p) = readFixedName p"
  by (simp add: readFixedName_take min_absorb1)

lemma readFixedName_bound:
  "length (readFixedName p) \<le> 255 \<and> NUL \<notin> set (readFixedName p)"
proof -
  have "NUL \<notin> set (readFixedName p)"
    by (auto simp: readFixedName_take dest: set_takeWhileD)
  moreover have "length (readFixedName p) \<le> 255"
    using length_takeWhile_le [of "\<lambda>b. b \<noteq> 0" "take 255 p"] by (simp add: readFixedName_take)
  ultimately show ?thesis by simp
qed

text \<open>The parser reads within the 279 bytes of the format, and what it returns is well formed.\<close>

lemma parse_file_crc_within:
  "(case parseFileCrcPayload payload of
      None \<Rightarrow> length payload < 279
    | Some r \<Rightarrow> \<not> length payload < 279 \<and> file_crc_ok r \<and>
        parseFileCrcPayload (take 279 payload @ other) = Some r)"
proof (cases "length payload < 279")
  case True
  then show ?thesis by (simp add: parseFileCrcPayload_def protocol_sizes)
next
  case False
  have nth: "(take m p @ q) ! i = p ! i" if "i < m" "m \<le> length p" for m i and p q :: bytes
    using that by (simp add: nth_append)
  have r32: "readUint32LE (take m p @ q) = readUint32LE p" if "4 \<le> m" "m \<le> length p" for m p q
    using that by (simp add: readUint32LE_def nth)
  have nm: "readFixedName (take m p @ q) = readFixedName p" if "255 \<le> m" "m \<le> length p" for m p q
    using that by (simp add: readFixedName_take min_absorb1)
  show ?thesis
    using False readFixedName_bound [of "drop 20 payload"]
    by (simp add: unfold_parse_file_crc drop_take r32 nm file_crc_ok_def uuid_ok_def UUID_SIZE_def)
qed

text \<open>
  C23. The CRC parser is exact and memory safe. A response with a 16-byte ID and a file name of at
  most 255 bytes without a zero byte (a name that fills the field has no terminator) survives encoding and
  parsing, whatever bytes follow it. Of any payload, the parser accepts exactly those with the 279 bytes of the format,
  and the result depends on those bytes alone, so no read goes past them; it has a 16-byte ID and a name of
  at most 255 bytes with no zero byte.
\<close>

theorem parse_file_crc_exact:
  assumes "file_crc_ok r"
  shows "parseFileCrcPayload (encode_file_crc r @ rest) = Some r \<and>
    (case parseFileCrcPayload payload of
      None \<Rightarrow> length payload < 279
    | Some q \<Rightarrow> \<not> length payload < 279 \<and> file_crc_ok q \<and>
        parseFileCrcPayload (take 279 payload @ other) = Some q)"
  using parse_encode_file_crc [OF assms] parse_file_crc_within by blast

theorem parse_file_crc_exact_witness:
  "parseFileCrcPayload (encode_file_crc
      \<lparr>fc_clientId = replicate 16 7, fc_contentSize = 48, fc_fileName = ''a.txt'', fc_cksum = 99\<rparr> @ [])
   = Some \<lparr>fc_clientId = replicate 16 7, fc_contentSize = 48, fc_fileName = ''a.txt'', fc_cksum = 99\<rparr> \<and>
   (case parseFileCrcPayload [] of
      None \<Rightarrow> length ([] :: bytes) < 279
    | Some q \<Rightarrow> \<not> length ([] :: bytes) < 279 \<and> file_crc_ok q \<and>
        parseFileCrcPayload (take 279 [] @ []) = Some q)"
  by (rule parse_file_crc_exact) (simp add: file_crc_ok_def uuid_ok_def UUID_SIZE_def NUL_def)

section \<open>The response header\<close>

lemma appendUint16LE_read: "2 \<le> length p \<Longrightarrow> appendUint16LE [] (readUint16LE p) = take 2 p"
proof -
  assume "2 \<le> length p"
  then obtain a b r where p: "p = a # b # r"
    by (metis (no_types, opaque_lifting) Suc_le_length_iff numeral_2_eq_2)
  have "ucast (readUint16LE p) = a" "ucast (drop_bit 8 (readUint16LE p)) = b"
    by (rule bit_word_eqI, auto simp: p readUint16LE_def bit_simps dest: bit_imp_le_length)+
  then show ?thesis
    by (simp add: appendUint16LE_def byte_mask p)
qed

lemma appendUint32LE_read: "4 \<le> length p \<Longrightarrow> appendUint32LE [] (readUint32LE p) = take 4 p"
proof -
  assume "4 \<le> length p"
  then obtain a b c d r where p: "p = a # b # c # d # r"
    by (metis (no_types, opaque_lifting) Suc_le_length_iff numeral_eq_Suc pred_numeral_simps(2)
        BitM.simps(1) BitM.simps(2) pred_numeral_simps(3) pred_numeral_def)
  have "ucast (readUint32LE p) = a" "ucast (drop_bit 8 (readUint32LE p)) = b"
    "ucast (drop_bit 16 (readUint32LE p)) = c" "ucast (drop_bit 24 (readUint32LE p)) = d"
    by (rule bit_word_eqI, auto simp: p readUint32LE_def bit_simps dest: bit_imp_le_length)+
  then show ?thesis
    by (simp add: appendUint32LE_def byte_mask p)
qed

text \<open>
  C31. The header parser is exact: it rejects fewer than 7 bytes; otherwise the header it returns
  encodes to exactly the first 7 bytes (every response code, listed or not, included) and
  does not depend on what follows them.
\<close>

theorem parse_header_exact:
  "(case parseHeader bs of
      None \<Rightarrow> length bs < 7
    | Some h \<Rightarrow> \<not> length bs < 7 \<and> encode_response_header h = take 7 bs \<and>
        parseHeader (take 7 bs @ other) = Some h)"
proof (cases "length bs < 7")
  case True
  then show ?thesis by (simp add: parseHeader_def protocol_sizes)
next
  case False
  define h where "h = \<lparr>rs_version = bs ! 0, rs_code = response_code_of (readUint16LE (drop 1 bs)),
    rs_payloadSize = readUint32LE (drop 3 bs)\<rparr>"
  have p: "parseHeader bs = Some h"
    using False by (simp add: parseHeader_def protocol_sizes h_def)
  have "take 7 bs = take 1 bs @ take 2 (drop 1 bs) @ take 4 (drop 3 bs)"
    using take_add [of 1 6 bs] take_add [of 2 4 "drop 1 bs"] by simp
  moreover have "take 1 bs = [bs ! 0]"
    using False by (cases bs) auto
  ultimately have e: "encode_response_header h = take 7 bs"
    using False by (simp add: encode_response_header_def h_def appendUint16LE_read appendUint32LE_read)
  have "listed (rs_code h)" by (simp add: h_def)
  then have "parseHeader (take 7 bs @ other) = Some h"
    using parseHeader_encode [of h other] e by simp
  then show ?thesis using False p e by simp
qed

end
