(* ===== verification/TransferClient.thy ===== *)
theory TransferClient
  imports NetworkClient EncryptedFile TransferConfig CredentialStore ProtocolSpec
begin

text \<open>
  \<open>TransferClient\<close> of \<open>src/TransferClient.h\<close> and \<open>src/TransferClient.cpp\<close>, and \<open>main\<close>: the
  session with the server. The state holds the members of the class and the file system the
  program works on; the libraries are the parameter \<open>L\<close>. Functions return their
  result, or the exception that leaves them, with the new state. An output parameter is a
  further result. What is printed is modelled in
  \<open>Console\<close>.
\<close>

section \<open>State\<close>

record ('w, 'j, 'r, 'k, 'p) libs =
  lib_asio :: "'w asio_api"
  lib_json :: "'j json_api"
  lib_crypto :: "('r, 'k, 'p) crypto_api"

record ('w, 'r, 'k, 'p) transfer_client =
  tc_config :: config_manager
  tc_client :: "'w network_client"
  tc_crypto :: "('r, 'k, 'p) crypto_helper"
  tc_clientId :: bytes
  tc_decryptedAesKey :: bytes
  tc_disk :: fs

text \<open>The default constructor, given a socket, a random pool and a file system to start from.\<close>

definition newTransferClient :: "'w \<Rightarrow> 'r \<Rightarrow> fs \<Rightarrow> ('w, 'r, 'k, 'p) transfer_client" where
  "newTransferClient socket rng disk =
     \<lparr>tc_config = default_config, tc_client = newNetworkClient socket,
      tc_crypto = newCryptoHelper rng, tc_clientId = replicate UUID_SIZE 0,
      tc_decryptedAesKey = [], tc_disk = disk\<rparr>"

text \<open>The calls on the network member.\<close>

definition client_send ::
  "('w, 'j, 'r, 'k, 'p) libs \<Rightarrow> bytes \<Rightarrow> ('w, 'r, 'k, 'p) transfer_client
   \<Rightarrow> bool \<times> ('w, 'r, 'k, 'p) transfer_client" where
  "client_send L packet t =
     (case send (lib_asio L) packet (tc_client t) of (ok, c) \<Rightarrow> (ok, t\<lparr>tc_client := c\<rparr>))"

definition client_receiveExact ::
  "('w, 'j, 'r, 'k, 'p) libs \<Rightarrow> nat \<Rightarrow> ('w, 'r, 'k, 'p) transfer_client
   \<Rightarrow> bytes \<times> ('w, 'r, 'k, 'p) transfer_client" where
  "client_receiveExact L n t =
     (case receiveExact (lib_asio L) n (tc_client t) of (bs, c) \<Rightarrow> (bs, t\<lparr>tc_client := c\<rparr>))"

definition client_disconnect ::
  "('w, 'j, 'r, 'k, 'p) libs \<Rightarrow> ('w, 'r, 'k, 'p) transfer_client \<Rightarrow> ('w, 'r, 'k, 'p) transfer_client" where
  "client_disconnect L t = t\<lparr>tc_client := disconnect (lib_asio L) (tc_client t)\<rparr>"

section \<open>Receiving a response\<close>

definition receiveResponse ::
  "('w, 'j, 'r, 'k, 'p) libs \<Rightarrow> response_code list \<Rightarrow> ('w, 'r, 'k, 'p) transfer_client
   \<Rightarrow> server_response option \<times> ('w, 'r, 'k, 'p) transfer_client" where
  "receiveResponse L acceptedCodes t =
     (case client_receiveExact L RESPONSE_HEADER_SIZE t of (headerBuffer, t) \<Rightarrow>
      (case parseHeader headerBuffer of
         None \<Rightarrow> (None, t)
       | Some header \<Rightarrow>
           let expectedSize = expectedPayloadSize (rs_code header)
           in if (case expectedSize of None \<Rightarrow> True | Some n \<Rightarrow> unat (rs_payloadSize header) \<noteq> n)
              then (None, client_disconnect L t)
              else
                (case client_receiveExact L (unat (rs_payloadSize header)) t of (payload, t) \<Rightarrow>
                   let response = \<lparr>sr_header = header, sr_payload = payload\<rparr>
                   in if length (sr_payload response) \<noteq> unat (rs_payloadSize header) then (None, t)
                      else if rs_code header \<notin> set acceptedCodes then (None, t)
                      else
                        let echoesClientId = (rs_code header \<noteq> RegistrationSuccess \<and>
                              rs_code header \<noteq> ReconnectRejected)
                        in if echoesClientId \<and> tc_clientId t \<noteq> take UUID_SIZE (sr_payload response)
                           then (None, t)
                           else (Some response, t))))"

section \<open>Registration and key exchange\<close>

text \<open>The second half of \<open>registerAndExchangeKeys\<close>: the public key for the AES key.\<close>

definition exchangeKeys ::
  "('w, 'j, 'r, 'k, 'p) libs \<Rightarrow> string \<Rightarrow> ('w, 'r, 'k, 'p) transfer_client
   \<Rightarrow> bool \<times> ('w, 'r, 'k, 'p) transfer_client" where
  "exchangeKeys L clientName t =
     (case client_send L
             (buildPublicKeyExchange (tc_clientId t) clientName (getPublicKeyDER (lib_crypto L) (tc_crypto t))) t of
        (False, t) \<Rightarrow> (False, t)
      | (True, t) \<Rightarrow>
     (case receiveResponse L [AesKeyReceived] t of
        (None, t) \<Rightarrow> (False, t)
      | (Some aesResponse, t) \<Rightarrow>
     (case parseAesKeyPayload (sr_payload aesResponse) of
        None \<Rightarrow> (False, t)
      | Some aes \<Rightarrow>
     (case decryptAesKey (lib_crypto L) (ak_encryptedAesKey aes) (tc_crypto t) of (key, h) \<Rightarrow>
        (True, t\<lparr>tc_decryptedAesKey := key, tc_crypto := h\<rparr>)))))"

definition registerAndExchangeKeys ::
  "('w, 'j, 'r, 'k, 'p) libs \<Rightarrow> string \<Rightarrow> ('w, 'r, 'k, 'p) transfer_client
   \<Rightarrow> (exn + bool) \<times> ('w, 'r, 'k, 'p) transfer_client" where
  "registerAndExchangeKeys L clientName t =
     (case client_send L (buildRegistration clientName) t of
        (False, t) \<Rightarrow> (Inr False, t)
      | (True, t) \<Rightarrow>
     (case receiveResponse L [RegistrationSuccess] t of
        (None, t) \<Rightarrow> (Inr False, t)
      | (Some registrationResponse, t) \<Rightarrow>
     (case parseClientIdPayload (sr_payload registrationResponse) of
        None \<Rightarrow> (Inr False, t)
      | Some assignedUuid \<Rightarrow>
     (let t = t\<lparr>tc_clientId := assignedUuid\<rparr> in
     (case generateRsaKeys (lib_crypto L) (tc_crypto t) of
        (Inl e, h) \<Rightarrow> (Inl e, t\<lparr>tc_crypto := h\<rparr>)
      | (Inr _, h) \<Rightarrow>
     (let t = t\<lparr>tc_crypto := h\<rparr> in
     (case saveClientInfo clientName (tc_clientId t) (getPrivateKeyBase64 (lib_crypto L) (tc_crypto t))
             (tc_disk t) (tc_config t) of
        (False, d) \<Rightarrow> (Inr False, t\<lparr>tc_disk := d\<rparr>)
      | (True, d) \<Rightarrow>
          (case exchangeKeys L clientName (t\<lparr>tc_disk := d\<rparr>) of (ok, t) \<Rightarrow> (Inr ok, t)))))))))"

section \<open>Reconnection\<close>

text \<open>
  The result, and the value of the output parameter \<open>needsRegistration\<close>. \<open>requestReconnect\<close> is
  the part of \<open>tryReconnect\<close> that follows the loading of the credentials.
\<close>

definition requestReconnect ::
  "('w, 'j, 'r, 'k, 'p) libs \<Rightarrow> bool \<Rightarrow> ('w, 'r, 'k, 'p) transfer_client
   \<Rightarrow> (bool \<times> bool) \<times> ('w, 'r, 'k, 'p) transfer_client" where
  "requestReconnect L needsRegistration t =
     (let storedInfo = cm_clientInfo (tc_config t);
          t = t\<lparr>tc_clientId := ci_uuid storedInfo\<rparr> in
     (case client_send L (buildReconnect (tc_clientId t) (ci_name storedInfo)) t of
        (False, t) \<Rightarrow> ((False, needsRegistration), t)
      | (True, t) \<Rightarrow>
     (case receiveResponse L [ReconnectApproved, ReconnectRejected] t of
        (None, t) \<Rightarrow> ((False, needsRegistration), t)
      | (Some reconnectResponse, t) \<Rightarrow>
          if rs_code (sr_header reconnectResponse) = ReconnectRejected
          then ((False, True), t\<lparr>tc_disk := removeClientInfo (tc_disk t) (tc_config t)\<rparr>)
          else
     (case parseAesKeyPayload (sr_payload reconnectResponse) of
        None \<Rightarrow> ((False, needsRegistration), t)
      | Some aes \<Rightarrow>
     (case decryptAesKey (lib_crypto L) (ak_encryptedAesKey aes) (tc_crypto t) of (key, h) \<Rightarrow>
        ((True, needsRegistration), t\<lparr>tc_decryptedAesKey := key, tc_crypto := h\<rparr>))))))"

definition tryReconnect ::
  "('w, 'j, 'r, 'k, 'p) libs \<Rightarrow> bool \<Rightarrow> ('w, 'r, 'k, 'p) transfer_client
   \<Rightarrow> ((exn + bool) \<times> bool) \<times> ('w, 'r, 'k, 'p) transfer_client" where
  "tryReconnect L needsRegistration t =
     (let privKeyOpt = loadPrivateKey (tc_disk t) (tc_config t) in
     (case loadClientInfo (tc_disk t) (tc_config t) of
        (Inl e, c) \<Rightarrow> ((Inl e, needsRegistration), t\<lparr>tc_config := c\<rparr>)
      | (Inr loaded, c) \<Rightarrow>
     (let t = t\<lparr>tc_config := c\<rparr> in
     (case (if loaded
            then loadPrivateKeyBase64 (lib_crypto L)
                   (case privKeyOpt of Some key \<Rightarrow> key
                    | None \<Rightarrow> ci_privateKeyBase64 (cm_clientInfo (tc_config t))) (tc_crypto t)
            else (False, tc_crypto t)) of
        (credentialsLoaded, h) \<Rightarrow>
     (let t = t\<lparr>tc_crypto := h\<rparr> in
      if \<not> credentialsLoaded
      then ((Inr False, True), t\<lparr>tc_disk := removeClientInfo (tc_disk t) (tc_config t)\<rparr>)
      else (case requestReconnect L needsRegistration t of
              ((ok, needsRegistration), t) \<Rightarrow> ((Inr ok, needsRegistration), t)))))))"

definition authenticate ::
  "('w, 'j, 'r, 'k, 'p) libs \<Rightarrow> string \<Rightarrow> ('w, 'r, 'k, 'p) transfer_client
   \<Rightarrow> (exn + bool) \<times> ('w, 'r, 'k, 'p) transfer_client" where
  "authenticate L clientName t =
     (case hasClientInfo (tc_disk t) (tc_config t) of
        Inl e \<Rightarrow> (Inl e, t)
      | Inr has \<Rightarrow>
          let needsRegistration = \<not> has
          in if \<not> needsRegistration
             then (case tryReconnect L needsRegistration t of
                 ((Inl e, _), t) \<Rightarrow> (Inl e, t)
               | ((Inr ok, needsRegistration), t) \<Rightarrow>
                   if ok then (Inr True, t)
                   else if needsRegistration then registerAndExchangeKeys L clientName t
                   else (Inr False, t))
             else registerAndExchangeKeys L clientName t)"

section \<open>Transfer of a file\<close>

text \<open>
  One pass through the loop of \<open>transferAndVerify\<close>: it returns from the function, or falls
  through to the next attempt.
\<close>

datatype attempt_outcome = Return bool | NextAttempt

text \<open>What the client does with the checksum that the server reports.\<close>

definition verdict ::
  "('w, 'j, 'r, 'k, 'p) libs \<Rightarrow> encrypted_file_data \<Rightarrow> nat \<Rightarrow> file_crc_response
   \<Rightarrow> ('w, 'r, 'k, 'p) transfer_client \<Rightarrow> attempt_outcome \<times> ('w, 'r, 'k, 'p) transfer_client" where
  "verdict L fileData attempt crcResponse t =
     (if unat (fc_contentSize crcResponse) \<noteq> length (ef_encryptedContent fileData) then (Return False, t)
      else if fc_cksum crcResponse = ef_crc fileData
      then (case client_send L (buildCrcStatus (tc_clientId t) CrcValid (ef_fileName fileData)) t of
          (False, t) \<Rightarrow> (Return False, t)
        | (True, t) \<Rightarrow>
            (case receiveResponse L [MessageConfirmed] t of
               (None, t) \<Rightarrow> (Return False, t)
             | (Some _, t) \<Rightarrow> (Return True, t)))
      else if attempt < MAX_CRC_ATTEMPTS
      then (case client_send L (buildCrcStatus (tc_clientId t) CrcInvalidRetry (ef_fileName fileData)) t of
          (False, t) \<Rightarrow> (Return False, t)
        | (True, t) \<Rightarrow> (NextAttempt, t))
      else (case client_send L (buildCrcStatus (tc_clientId t) CrcInvalidAbort (ef_fileName fileData)) t of
          (False, t) \<Rightarrow> (Return False, t)
        | (True, t) \<Rightarrow>
            (case receiveResponse L [MessageConfirmed] t of
               (None, t) \<Rightarrow> (Return False, t)
             | (Some _, t) \<Rightarrow> (Return False, t))))"

definition transfer_attempt ::
  "('w, 'j, 'r, 'k, 'p) libs \<Rightarrow> encrypted_file_data \<Rightarrow> nat \<Rightarrow> ('w, 'r, 'k, 'p) transfer_client
   \<Rightarrow> attempt_outcome \<times> ('w, 'r, 'k, 'p) transfer_client" where
  "transfer_attempt L fileData attempt t =
     (case client_send L
             (buildSendFile (tc_clientId t) (ef_origFileSize fileData) 1 1 (ef_fileName fileData)
                (ef_encryptedContent fileData)) t of
        (False, t) \<Rightarrow> (Return False, t)
      | (True, t) \<Rightarrow>
     (case receiveResponse L [FileReceivedWithCrc] t of
        (None, t) \<Rightarrow> (Return False, t)
      | (Some crcResponse, t) \<Rightarrow>
     (case parseFileCrcPayload (sr_payload crcResponse) of
        None \<Rightarrow> (Return False, t)
      | Some crc \<Rightarrow> verdict L fileData attempt crc t)))"

function transfer_loop ::
  "('w, 'j, 'r, 'k, 'p) libs \<Rightarrow> encrypted_file_data \<Rightarrow> nat \<Rightarrow> ('w, 'r, 'k, 'p) transfer_client
   \<Rightarrow> bool \<times> ('w, 'r, 'k, 'p) transfer_client" where
  "transfer_loop L fileData attempt t =
     (if attempt \<le> MAX_CRC_ATTEMPTS
      then (case transfer_attempt L fileData attempt t of
          (Return ok, t) \<Rightarrow> (ok, t)
        | (NextAttempt, t) \<Rightarrow> transfer_loop L fileData (Suc attempt) t)
      else (False, t))"
  by pat_completeness auto
termination
  by (relation "measure (\<lambda>(L, fd, attempt, t). Suc MAX_CRC_ATTEMPTS - attempt)") auto

declare transfer_loop.simps [simp del]

definition transferAndVerify ::
  "('w, 'j, 'r, 'k, 'p) libs \<Rightarrow> encrypted_file_data \<Rightarrow> ('w, 'r, 'k, 'p) transfer_client
   \<Rightarrow> bool \<times> ('w, 'r, 'k, 'p) transfer_client" where
  "transferAndVerify L fileData t = transfer_loop L fileData 1 t"

definition sendSingleFile ::
  "('w, 'j, 'r, 'k, 'p) libs \<Rightarrow> string \<Rightarrow> ('w, 'r, 'k, 'p) transfer_client
   \<Rightarrow> (exn + bool) \<times> ('w, 'r, 'k, 'p) transfer_client" where
  "sendSingleFile L filePath t =
     (case fs_exists (tc_disk t) filePath of
        Inl e \<Rightarrow> (Inl e, t)
      | Inr ex \<Rightarrow>
          if \<not> ex then (Inr False, t)
          else case createEncryptedFile (lib_crypto L) (tc_disk t) filePath (tc_decryptedAesKey t) of
            Inl e \<Rightarrow> (Inl e, t)
          | Inr None \<Rightarrow> (Inr False, t)
          | Inr (Some fileData) \<Rightarrow>
              (case transferAndVerify L fileData t of (ok, t) \<Rightarrow> (Inr ok, t)))"

section \<open>The workflow\<close>

text \<open>The loop over the files: it stops at the first failure.\<close>

fun send_files ::
  "('w, 'j, 'r, 'k, 'p) libs \<Rightarrow> string list \<Rightarrow> ('w, 'r, 'k, 'p) transfer_client
   \<Rightarrow> (exn + bool) \<times> ('w, 'r, 'k, 'p) transfer_client" where
  "send_files L [] t = (Inr True, t)"
| "send_files L (filePath # filesToSend) t =
     (case sendSingleFile L filePath t of
        (Inl e, t) \<Rightarrow> (Inl e, t)
      | (Inr ok, t) \<Rightarrow> if \<not> ok then (Inr False, t) else send_files L filesToSend t)"

definition run ::
  "('w, 'j, 'r, 'k, 'p) libs \<Rightarrow> ('w, 'r, 'k, 'p) transfer_client
   \<Rightarrow> (exn + bool) \<times> ('w, 'r, 'k, 'p) transfer_client" where
  "run L t =
     (case loadTransferInfo (lib_json L) (tc_disk t) ''transfer.json'' (tc_config t) of
        (Inl e, c) \<Rightarrow> (Inl e, t\<lparr>tc_config := c\<rparr>)
      | (Inr False, c) \<Rightarrow> (Inr False, t\<lparr>tc_config := c\<rparr>)
      | (Inr True, c) \<Rightarrow>
     (let t = t\<lparr>tc_config := c\<rparr>;
          serverConfig = cm_transferInfo (tc_config t);
          ip = ti_ip serverConfig;
          port = ti_port serverConfig;
          clientName = ti_clientName serverConfig;
          filesToSend = ti_files serverConfig in
     (case connect (lib_asio L) ip port (tc_client t) of
        (False, n) \<Rightarrow> (Inr False, t\<lparr>tc_client := n\<rparr>)
      | (True, n) \<Rightarrow>
     (let t = t\<lparr>tc_client := n\<rparr> in
     (case authenticate L clientName t of
        (Inl e, t) \<Rightarrow> (Inl e, t)
      | (Inr False, t) \<Rightarrow> (Inr False, t)
      | (Inr True, t) \<Rightarrow>
          if length (tc_decryptedAesKey t) \<noteq> 32 then (Inr False, t)
          else
     (case send_files L filesToSend t of
        (Inl e, t) \<Rightarrow> (Inl e, t)
      | (Inr allSuccess, t) \<Rightarrow> (Inr allSuccess, client_disconnect L t)))))))"

text \<open>The destructor, and \<open>main\<close>: the exit code and the state when the process ends.\<close>

definition destroyTransferClient ::
  "('w, 'j, 'r, 'k, 'p) libs \<Rightarrow> ('w, 'r, 'k, 'p) transfer_client \<Rightarrow> ('w, 'r, 'k, 'p) transfer_client" where
  "destroyTransferClient L t = t\<lparr>tc_client := destroyNetworkClient (lib_asio L) (tc_client t)\<rparr>"

definition main ::
  "('w, 'j, 'r, 'k, 'p) libs \<Rightarrow> 'w \<Rightarrow> 'r \<Rightarrow> fs \<Rightarrow> nat \<times> ('w, 'r, 'k, 'p) transfer_client" where
  "main L socket rng disk =
     (case run L (newTransferClient socket rng disk) of
        (Inr ok, t) \<Rightarrow> ((if ok then 0 else 1), destroyTransferClient L t)
      | (Inl _, t) \<Rightarrow> (1, destroyTransferClient L t))"

end
