(* ===== verification/SessionSpec.thy ===== *)
theory SessionSpec
  imports NetworkClient ProtocolSpec
begin

text \<open>
  The abstract specification of a session: which conversations a client may have with the
  server. \<open>session_step\<close> is a state machine over the events on the wire. Its state is a phase and
  the identity of the session. \<open>session_path\<close> is its reachability relation. Nothing
  here refers to the code of \<open>TransferClient\<close>; requests are recognised by the client ID and the
  code in their header.
\<close>

section \<open>The state machine\<close>

datatype exchange =
    ForReconnect | ForRegistration | ForKey | ForCrc nat | ForConfirm | ForAbortAck

datatype phase =
    Offline | Authenticating | Awaiting exchange | Reading exchange response_code
  | Rejected | Registered | Ready | Checked nat | Resend nat | Over | Ended

type_synonym session = "phase \<times> bytes"

text \<open>The client ID and the code of a request.\<close>

definition request_of :: "bytes \<Rightarrow> bytes \<times> nat" where
  "request_of packet = (take 16 packet, le_value (take 2 (drop 17 packet)))"

fun accepts :: "exchange \<Rightarrow> response_code list" where
  "accepts ForReconnect = [ReconnectApproved, ReconnectRejected]"
| "accepts ForRegistration = [RegistrationSuccess]"
| "accepts ForKey = [AesKeyReceived]"
| "accepts (ForCrc n) = [FileReceivedWithCrc]"
| "accepts ForConfirm = [MessageConfirmed]"
| "accepts ForAbortAck = [MessageConfirmed]"

fun next_phase :: "exchange \<Rightarrow> response_code \<Rightarrow> phase" where
  "next_phase ForReconnect c = (if c = ReconnectRejected then Rejected else Ready)"
| "next_phase ForRegistration c = Registered"
| "next_phase ForKey c = Ready"
| "next_phase (ForCrc n) c = Checked n"
| "next_phase ForConfirm c = Ready"
| "next_phase ForAbortAck c = Over"

lemma next_phase_not_reading [simp]: "next_phase x c \<noteq> Reading y d"
  by (cases x) auto

text \<open>An acceptable response echoes the identity, unless it assigns one or rejects it.\<close>

definition echoes :: "bytes \<Rightarrow> response_code \<Rightarrow> bytes \<Rightarrow> bool" where
  "echoes i c payload \<longleftrightarrow>
     c = RegistrationSuccess \<or> c = ReconnectRejected \<or> take 16 payload = i"

definition header_ok :: "bytes \<Rightarrow> bool" where
  "header_ok hb \<longleftrightarrow>
     (case parseHeader hb of
        None \<Rightarrow> False
      | Some h \<Rightarrow> expectedPayloadSize (rs_code h) = Some (unat (rs_payloadSize h)) \<and> rs_payloadSize h \<noteq> 0)"

definition header_code :: "bytes \<Rightarrow> response_code" where
  "header_code hb = rs_code (the (parseHeader hb))"

text \<open>The requests that a phase allows, and where they lead.\<close>

inductive request_step :: "session \<Rightarrow> bytes \<Rightarrow> session \<Rightarrow> bool" where
  rq_reconnect: "request_of p = (u, 827) \<Longrightarrow> request_step (Authenticating, i) p (Awaiting ForReconnect, u)"
| rq_register: "request_of p = (replicate 16 0, 825) \<Longrightarrow>
    request_step (Authenticating, i) p (Awaiting ForRegistration, i)"
| rq_register_again: "request_of p = (replicate 16 0, 825) \<Longrightarrow>
    request_step (Rejected, i) p (Awaiting ForRegistration, i)"
| rq_public_key: "request_of p = (i, 826) \<Longrightarrow> request_step (Registered, i) p (Awaiting ForKey, i)"
| rq_send_file: "request_of p = (i, 828) \<Longrightarrow> request_step (Ready, i) p (Awaiting (ForCrc 1), i)"
| rq_resend: "request_of p = (i, 828) \<Longrightarrow> request_step (Resend n, i) p (Awaiting (ForCrc (Suc n)), i)"
| rq_valid: "request_of p = (i, 900) \<Longrightarrow> request_step (Checked n, i) p (Awaiting ForConfirm, i)"
| rq_retry: "request_of p = (i, 901) \<Longrightarrow> n < 4 \<Longrightarrow> request_step (Checked n, i) p (Resend n, i)"
| rq_abort: "request_of p = (i, 902) \<Longrightarrow> n = 4 \<Longrightarrow> request_step (Checked n, i) p (Awaiting ForAbortAck, i)"

text \<open>
  All events. Whatever goes wrong leads to \<open>Over\<close>, where nothing but closing the connection
  is left.
\<close>

inductive session_step :: "session \<Rightarrow> net_event \<Rightarrow> session \<Rightarrow> bool" where
  opens: "session_step (Offline, i) (Opened host port) (Authenticating, i)"
| closes: "q \<noteq> Ended \<Longrightarrow> session_step (q, i) Closed (Ended, i)"
| request: "request_step s p s' \<Longrightarrow> session_step s (Sent p) s'"
| request_fails: "request_step s p (q, j) \<Longrightarrow> session_step s (SendFailed p) (Over, j)"
| header: "length hb = 7 \<Longrightarrow> header_ok hb \<Longrightarrow>
    session_step (Awaiting x, i) (Received hb) (Reading x (header_code hb), i)"
| bad_header: "length hb = 7 \<Longrightarrow> \<not> header_ok hb \<Longrightarrow>
    session_step (Awaiting x, i) (Received hb) (Over, i)"
| no_header: "session_step (Awaiting x, i) (ReceiveFailed 7) (Over, i)"
| payload: "expectedPayloadSize c = Some (length p) \<Longrightarrow> c \<in> set (accepts x) \<Longrightarrow> echoes i c p \<Longrightarrow>
    session_step (Reading x c, i) (Received p)
      (next_phase x c, if c = RegistrationSuccess then take 16 p else i)"
| bad_payload: "expectedPayloadSize c = Some (length p) \<Longrightarrow> \<not> (c \<in> set (accepts x) \<and> echoes i c p) \<Longrightarrow>
    session_step (Reading x c, i) (Received p) (Over, i)"
| no_payload: "expectedPayloadSize c = Some n \<Longrightarrow>
    session_step (Reading x c, i) (ReceiveFailed n) (Over, i)"

inductive session_path :: "session \<Rightarrow> net_event list \<Rightarrow> session \<Rightarrow> bool" where
  path_Nil: "session_path s [] s"
| path_snoc: "session_path s evs s' \<Longrightarrow> session_step s' ev s'' \<Longrightarrow> session_path s (evs @ [ev]) s''"

definition session_start :: session where
  "session_start = (Offline, replicate 16 0)"

inductive_cases request_stepE: "request_step (q, i) p s'"
inductive_cases session_stepE: "session_step (q, i) ev s'"
inductive_cases sent_stepE: "session_step (q, i) (Sent p) s'"
inductive_cases path_snocE: "session_path s (evs @ [ev]) s'"

inductive_simps path_Nil_simp [simp]: "session_path s [] s'"
inductive_simps over_step_simp: "session_step (Over, i) ev s'"
inductive_simps ended_step_simp: "session_step (Ended, i) ev s'"
inductive_simps ended_request_simp [simp]: "request_step (Ended, i) p s'"
inductive_simps over_request_simp [simp]: "request_step (Over, i) p s'"

lemmas request_intros = request [OF rq_reconnect] request [OF rq_register] request [OF rq_register_again]
  request [OF rq_public_key] request [OF rq_send_file] request [OF rq_resend]
  request [OF rq_valid] request [OF rq_retry] request [OF rq_abort]

lemma path_snoc_iff: "session_path s (evs @ [ev]) s'' \<longleftrightarrow> (\<exists>s'. session_path s evs s' \<and> session_step s' ev s'')"
  by (blast elim: path_snocE intro: path_snoc)

lemma path_trans: "session_path t evs2 u \<Longrightarrow> session_path s evs1 t \<Longrightarrow> session_path s (evs1 @ evs2) u"
proof (induction rule: session_path.induct)
  case (path_snoc t evs s' ev s'')
  then show ?case by (metis append_assoc session_path.path_snoc)
qed simp

section \<open>What the specification guarantees\<close>

text \<open>The steps can be executed; the examples are a registration and a file sent too early.\<close>

code_pred (modes: i \<Rightarrow> i \<Rightarrow> o \<Rightarrow> bool) request_step .
code_pred (modes: i \<Rightarrow> i \<Rightarrow> o \<Rightarrow> bool, i \<Rightarrow> i \<Rightarrow> i \<Rightarrow> bool) session_step .

lemma registration_allowed:
  "session_step (Authenticating, replicate 16 0) (Sent (replicate 16 0 @ [3, 57, 3]))
     (Awaiting ForRegistration, replicate 16 0)"
  by code_simp

lemma early_file_refused:
  "\<not> session_step (Authenticating, replicate 16 0) (Sent (replicate 16 0 @ [3, 60, 3])) (Awaiting (ForCrc 1), replicate 16 0)"
  by code_simp

text \<open>The machine is deterministic: a conversation determines its state.\<close>

lemma request_step_deterministic: "request_step s p s1 \<Longrightarrow> request_step s p s2 \<Longrightarrow> s1 = s2"
  by (cases s) (auto elim!: request_stepE)

lemma session_step_deterministic: "session_step s ev s1 \<Longrightarrow> session_step s ev s2 \<Longrightarrow> s1 = s2"
  by (cases s) (auto elim!: session_stepE dest: request_step_deterministic)

lemma session_path_deterministic:
  "session_path s evs s1 \<Longrightarrow> session_path s evs s2 \<Longrightarrow> s1 = s2"
proof (induction evs arbitrary: s1 s2 rule: rev_induct)
  case (snoc ev evs)
  then show ?case by (metis path_snoc_iff session_step_deterministic)
qed simp

definition attempts_ok :: "phase \<Rightarrow> bool" where
  "attempts_ok q =
     (case q of
        Awaiting (ForCrc n) \<Rightarrow> 1 \<le> n \<and> n \<le> 4
      | Reading (ForCrc n) _ \<Rightarrow> 1 \<le> n \<and> n \<le> 4
      | Checked n \<Rightarrow> 1 \<le> n \<and> n \<le> 4
      | Resend n \<Rightarrow> 1 \<le> n \<and> n < 4
      | _ \<Rightarrow> True)"

lemma request_attempts_ok: "request_step s p s' \<Longrightarrow> attempts_ok (fst s) \<Longrightarrow> attempts_ok (fst s')"
  by (induction rule: request_step.induct) (auto simp: attempts_ok_def)

lemma step_attempts_ok: "session_step s ev s' \<Longrightarrow> attempts_ok (fst s) \<Longrightarrow> attempts_ok (fst s')"
proof (induction rule: session_step.induct)
  case (payload c p x i)
  then show ?case by (cases x) (auto simp: attempts_ok_def)
next
  case (request s p s')
  then show ?case by (blast intro: request_attempts_ok)
qed (auto simp: attempts_ok_def split: exchange.splits)

lemma path_attempts_ok: "session_path s evs s' \<Longrightarrow> attempts_ok (fst s) \<Longrightarrow> attempts_ok (fst s')"
  by (induction rule: session_path.induct) (auto dest: step_attempts_ok)

text \<open>Before the identity of the session is settled, and before the key is there.\<close>

fun early :: "phase \<Rightarrow> bool" where
  "early Offline = True"
| "early Authenticating = True"
| "early Rejected = True"
| "early (Awaiting x) = (x = ForReconnect \<or> x = ForRegistration)"
| "early (Reading x c) = (x = ForReconnect \<or> x = ForRegistration)"
| "early _ = False"

fun keyless :: "phase \<Rightarrow> bool" where
  "keyless Registered = True"
| "keyless (Awaiting x) = (x = ForReconnect \<or> x = ForRegistration \<or> x = ForKey)"
| "keyless (Reading x c) = (x = ForReconnect \<or> x = ForRegistration \<or> x = ForKey)"
| "keyless Over = True"
| "keyless Ended = True"
| "keyless q = early q"

definition late_requests :: "net_event list \<Rightarrow> bytes set" where
  "late_requests evs = {p. Sent p \<in> set evs \<and> snd (request_of p) \<noteq> 825 \<and> snd (request_of p) \<noteq> 827}"

definition key_delivered :: "net_event list \<Rightarrow> bool" where
  "key_delivered evs \<longleftrightarrow>
     (\<exists>hb. Received hb \<in> set evs \<and> header_code hb \<in> {AesKeyReceived, ReconnectApproved})"

lemma late_requests_snoc:
  "late_requests (evs @ [ev]) = late_requests evs \<union>
     (case ev of Sent p \<Rightarrow> if snd (request_of p) \<noteq> 825 \<and> snd (request_of p) \<noteq> 827 then {p} else {} | _ \<Rightarrow> {})"
  by (auto simp: late_requests_def split: net_event.splits)

text \<open>Every request after the identification carries the identity of the session.\<close>

definition identity_ok :: "session \<Rightarrow> net_event list \<Rightarrow> bool" where
  "identity_ok s evs \<longleftrightarrow>
     (\<forall>p \<in> late_requests evs. fst (request_of p) = snd s) \<and> (early (fst s) \<longrightarrow> late_requests evs = {})"

lemma request_identity_ok:
  "request_step s p s' \<Longrightarrow> identity_ok s evs \<Longrightarrow> identity_ok s' (evs @ [Sent p])"
  by (induction rule: request_step.induct) (auto simp: identity_ok_def late_requests_snoc)

lemma failed_request_identity_ok:
  "request_step s p (q, j) \<Longrightarrow> identity_ok s evs \<Longrightarrow> identity_ok (Over, j) (evs @ [SendFailed p])"
  by (induction s p "(q, j)" rule: request_step.induct) (auto simp: identity_ok_def late_requests_snoc)

lemma step_identity_ok:
  "session_step s ev s' \<Longrightarrow> identity_ok s evs \<Longrightarrow> identity_ok s' (evs @ [ev])"
proof (induction rule: session_step.induct)
  case (payload c p x i)
  then show ?case by (cases x) (auto simp: identity_ok_def late_requests_snoc)
qed (auto simp: request_identity_ok failed_request_identity_ok,
    auto simp: identity_ok_def late_requests_snoc)

lemma path_identity_ok: "session_path session_start evs s \<Longrightarrow> identity_ok s evs"
proof (induction evs arbitrary: s rule: rev_induct)
  case Nil
  then show ?case by (simp add: identity_ok_def late_requests_def)
next
  case (snoc ev evs)
  then show ?case by (metis path_snoc_iff step_identity_ok)
qed

text \<open>No file is sent before the key was delivered.\<close>

definition key_first :: "session \<Rightarrow> net_event list \<Rightarrow> bool" where
  "key_first s evs \<longleftrightarrow>
     (\<forall>x c. fst s = Reading x c \<longrightarrow> (\<exists>hb. Received hb \<in> set evs \<and> header_code hb = c)) \<and>
     (keyless (fst s) \<or> key_delivered evs) \<and>
     (\<forall>p. Sent p \<in> set evs \<longrightarrow> snd (request_of p) = 828 \<longrightarrow> key_delivered evs)"

lemma key_delivered_snoc: "key_delivered evs \<Longrightarrow> key_delivered (evs @ [ev])"
  by (auto simp: key_delivered_def)

lemma request_key_first: "request_step s p s' \<Longrightarrow> key_first s evs \<Longrightarrow> key_first s' (evs @ [Sent p])"
  by (induction rule: request_step.induct) (auto simp: key_first_def dest: key_delivered_snoc)

lemma step_key_first: "session_step s ev s' \<Longrightarrow> key_first s evs \<Longrightarrow> key_first s' (evs @ [ev])"
proof (induction rule: session_step.induct)
  case (payload c p x i)
  then obtain hb where hb: "Received hb \<in> set evs" "header_code hb = c" by (auto simp: key_first_def)
  have "keyless (next_phase x c) \<or> key_delivered (evs @ [Received p])"
  proof (cases "c = AesKeyReceived \<or> c = ReconnectApproved")
    case True
    then show ?thesis using hb by (auto simp: key_delivered_def)
  next
    case False
    then show ?thesis using payload by (cases x) (auto simp: key_first_def dest: key_delivered_snoc)
  qed
  then show ?case
    using payload by (auto simp: key_first_def dest: key_delivered_snoc elim: next_phase.elims)
next
  case (header hb x i)
  then show ?case by (auto simp: key_first_def dest: key_delivered_snoc)
qed (auto simp: request_key_first, auto simp: key_first_def dest: key_delivered_snoc)

lemma path_key_first: "session_path session_start evs s \<Longrightarrow> key_first s evs"
proof (induction evs arbitrary: s rule: rev_induct)
  case Nil
  then show ?case by (auto simp: key_first_def session_start_def)
next
  case (snoc ev evs)
  then show ?case by (metis path_snoc_iff step_key_first)
qed

end
