(* ===== verification/Exchange.thy ===== *)
theory Exchange
  imports TransferClient SessionSpec
begin

text \<open>
  One exchange with the server: what sending a request and receiving a response do to the
  state of \<open>TransferClient\<close>, and that they follow the state machine of
  \<open>SessionSpec\<close>. \<open>conv L t s\<close> says that everything the client \<open>t\<close> did on the wire is a conversation
  that leads the machine to \<open>s\<close>; \<open>talks\<close>, that it leads somewhere.
\<close>

abbreviation trace :: "('w, 'r, 'k, 'p) transfer_client \<Rightarrow> net_event list" where
  "trace t \<equiv> nc_trace (tc_client t)"

section \<open>What an exchange leaves unchanged\<close>

definition only_client ::
  "('w, 'r, 'k, 'p) transfer_client \<Rightarrow> ('w, 'r, 'k, 'p) transfer_client \<Rightarrow> bool" where
  "only_client t t' \<longleftrightarrow> t' = t\<lparr>tc_client := tc_client t'\<rparr>"

interpretation client_frame: state_preorder only_client
  by unfold_locales (simp_all add: only_client_def, metis transfer_client.update_convs(2)
      transfer_client.surjective transfer_client.select_convs(1,3,4,5,6))

lemma only_clientD:
  assumes "only_client t t'"
  shows "tc_config t' = tc_config t" "tc_crypto t' = tc_crypto t" "tc_clientId t' = tc_clientId t"
    "tc_decryptedAesKey t' = tc_decryptedAesKey t" "tc_disk t' = tc_disk t"
  using assms unfolding only_client_def by (metis transfer_client.select_convs transfer_client.surjective
      transfer_client.update_convs(2))+

lemma only_client_update [frame_simps]: "only_client t (t\<lparr>tc_client := c\<rparr>)"
  by (simp add: only_client_def)

lemma only_client_send [frame_simps]: "client_send L d t = (ok, t') \<Longrightarrow> only_client t t'"
  by (auto simp: client_send_def only_client_update split: prod.splits)

lemma only_client_receive [frame_simps]: "client_receiveExact L n t = (bs, t') \<Longrightarrow> only_client t t'"
  by (auto simp: client_receiveExact_def only_client_update split: prod.splits)

lemma only_client_disconnect [frame_simps]: "only_client t (client_disconnect L t)"
  by (simp add: client_disconnect_def only_client_update)

lemma only_client_response [frame_simps]:
  "receiveResponse L acc t = (r, t') \<Longrightarrow> only_client t t'"
  by (auto simp: receiveResponse_def Let_def split: prod.splits option.splits if_splits
      dest!: only_client_receive intro: client_frame.R_trans only_client_disconnect)

section \<open>A single step on the wire\<close>

abbreviation happens ::
  "net_event \<Rightarrow> 'w \<Rightarrow> ('w, 'r, 'k, 'p) transfer_client \<Rightarrow> ('w, 'r, 'k, 'p) transfer_client" where
  "happens ev w t \<equiv> t\<lparr>tc_client := observe ev w (tc_client t)\<rparr>"

abbreviation connected :: "('w, 'j, 'r, 'k, 'p) libs \<Rightarrow> ('w, 'r, 'k, 'p) transfer_client \<Rightarrow> bool" where
  "connected L t \<equiv> isConnected (lib_asio L) (tc_client t)"

lemma client_send_cases:
  assumes "client_send L d t = (ok, t')" and "d \<noteq> []"
  obtains (closed) "\<not> connected L t" "\<not> ok" "t' = t"
  | (sent) w where "connected L t" "ok" "t' = happens (Sent d) w t"
  | (failed) w where "connected L t" "\<not> ok" "t' = happens (SendFailed d) w t"
proof -
  obtain c where "send (lib_asio L) d (tc_client t) = (ok, c)" "t' = t\<lparr>tc_client := c\<rparr>"
    using assms(1) by (auto simp: client_send_def split: prod.splits)
  from this(1) this(2) assms(2) that show ?thesis
    by (cases rule: send_cases) auto
qed

lemma client_receive_cases:
  assumes "client_receiveExact L n t = (bs, t')" and "0 < n"
  obtains (closed) "\<not> connected L t" "bs = []" "t' = t"
  | (full) w where "connected L t" "length bs = n" "t' = happens (Received bs) w t"
  | (failed) w where "connected L t" "bs = []" "t' = client_disconnect L (happens (ReceiveFailed n) w t)"
proof -
  obtain c where "receiveExact (lib_asio L) n (tc_client t) = (bs, c)" "t' = t\<lparr>tc_client := c\<rparr>"
    using assms(1) by (auto simp: client_receiveExact_def split: prod.splits)
  from this(1) this(2) assms(2) that show ?thesis
    by (cases rule: receiveExact_cases) (auto simp: client_disconnect_def)
qed

lemma client_receive_zero: "client_receiveExact L 0 t = ([], t)"
  by (simp add: client_receiveExact_def tcp.get_zero)

section \<open>An accepted response\<close>

lemma accepted_size: "c \<in> set (accepts x) \<Longrightarrow> \<exists>n. expectedPayloadSize c = Some n \<and> 16 \<le> n"
  by (cases x) (auto simp: protocol_sizes)

lemma receiveResponse_Some:
  assumes "receiveResponse L acc t = (Some r, t')"
  obtains hb where "length hb = 7" and "parseHeader hb = Some (sr_header r)"
    and "expectedPayloadSize (rs_code (sr_header r)) = Some (length (sr_payload r))"
    and "unat (rs_payloadSize (sr_header r)) = length (sr_payload r)"
    and "rs_code (sr_header r) \<in> set acc"
    and "echoes (tc_clientId t) (rs_code (sr_header r)) (sr_payload r)"
    and "trace t' = trace t @ [Received hb] @ (if sr_payload r = [] then [] else [Received (sr_payload r)])"
    and "connected L t"
proof -
  obtain hb t1 where hb: "client_receiveExact L 7 t = (hb, t1)" by fastforce
  obtain h where h: "parseHeader hb = Some h"
    using assms by (auto simp: receiveResponse_def hb protocol_sizes split: option.splits)
  have size: "expectedPayloadSize (rs_code h) = Some (unat (rs_payloadSize h))"
    using assms by (auto simp: receiveResponse_def hb h protocol_sizes Let_def split: option.splits if_splits prod.splits)
  obtain p where p: "client_receiveExact L (unat (rs_payloadSize h)) t1 = (p, t')" "length p = unat (rs_payloadSize h)"
    and r: "r = \<lparr>sr_header = h, sr_payload = p\<rparr>" "rs_code h \<in> set acc"
    and e: "rs_code h = RegistrationSuccess \<or> rs_code h = ReconnectRejected \<or> tc_clientId t' = take 16 p"
    using assms by (auto simp: receiveResponse_def hb h size protocol_sizes Let_def split: if_splits prod.splits)
  have "hb \<noteq> []" using h by (auto simp: parseHeader_def protocol_sizes split: if_splits)
  then have t1: "length hb = 7" "trace t1 = trace t @ [Received hb]" "connected L t"
    using hb by (auto elim!: client_receive_cases)
  have "tc_clientId t' = tc_clientId t"
    using only_clientD(3) [OF only_client_response [OF assms]] .
  moreover have "trace t' = trace t1 @ (if p = [] then [] else [Received p])"
  proof (cases "p = []")
    case True
    then show ?thesis using p by (simp add: client_receive_zero)
  next
    case False
    then have "0 < unat (rs_payloadSize h)" using p(2) by (metis length_greater_0_conv)
    from p(1) this False show ?thesis by (cases rule: client_receive_cases) auto
  qed
  ultimately show ?thesis
    using that [of hb] h size p(2) r e t1 by (auto simp: echoes_def)
qed

section \<open>Exchanges follow the state machine\<close>

definition conv :: "('w, 'j, 'r, 'k, 'p) libs \<Rightarrow> ('w, 'r, 'k, 'p) transfer_client \<Rightarrow> session \<Rightarrow> bool" where
  "conv L t s \<longleftrightarrow> session_path session_start (trace t) s \<and> (fst s = Ended \<longrightarrow> \<not> connected L t)"

definition talks :: "('w, 'j, 'r, 'k, 'p) libs \<Rightarrow> ('w, 'r, 'k, 'p) transfer_client \<Rightarrow> bool" where
  "talks L t \<longleftrightarrow> (\<exists>s. conv L t s)"

lemma conv_other_fields [simp]:
  "conv L (t\<lparr>tc_config := c\<rparr>) s = conv L t s" "conv L (t\<lparr>tc_crypto := h\<rparr>) s = conv L t s"
  "conv L (t\<lparr>tc_clientId := u\<rparr>) s = conv L t s" "conv L (t\<lparr>tc_decryptedAesKey := k\<rparr>) s = conv L t s"
  "conv L (t\<lparr>tc_disk := d\<rparr>) s = conv L t s"
  by (simp_all add: conv_def)

lemma talks_other_fields [simp]:
  "talks L (t\<lparr>tc_config := c\<rparr>) = talks L t" "talks L (t\<lparr>tc_crypto := h\<rparr>) = talks L t"
  "talks L (t\<lparr>tc_clientId := u\<rparr>) = talks L t" "talks L (t\<lparr>tc_decryptedAesKey := k\<rparr>) = talks L t"
  "talks L (t\<lparr>tc_disk := d\<rparr>) = talks L t"
  by (simp_all add: talks_def)

lemma talksI: "conv L t s \<Longrightarrow> talks L t"
  unfolding talks_def by blast

lemma conv_event:
  "conv L t s \<Longrightarrow> session_step s ev s' \<Longrightarrow> fst s' \<noteq> Ended \<Longrightarrow> conv L (happens ev w t) s'"
  by (auto simp: conv_def intro: path_snoc)

lemma conv_disconnect:
  assumes "asio_close_law (lib_asio L)" and "conv L t s"
  shows "conv L (client_disconnect L t) (if connected L t then (Ended, snd s) else s)"
proof (cases "connected L t")
  case True
  then have "fst s \<noteq> Ended" using assms(2) by (auto simp: conv_def)
  then have "session_step s Closed (Ended, snd s)" by (cases s) (auto intro: closes)
  then show ?thesis
    using True assms tcp.shut_wire [OF True] tcp.shut_shuts [OF assms(1)]
    by (auto simp: conv_def client_disconnect_def intro: path_snoc)
next
  case False
  then show ?thesis using assms(2) tcp.shut_closed [OF False] by (simp add: client_disconnect_def)
qed

lemma talks_disconnect: "asio_close_law (lib_asio L) \<Longrightarrow> talks L t \<Longrightarrow> talks L (client_disconnect L t)"
  unfolding talks_def by (blast dest: conv_disconnect)

lemma request_not_ended: "request_step s p s' \<Longrightarrow> fst s' \<noteq> Ended"
  by (induction rule: request_step.induct) auto

lemma conv_send:
  assumes "client_send L d t = (ok, t')" and "d \<noteq> []" and "conv L t s" and "request_step s d s'"
  shows "if ok then conv L t' s' else talks L t'"
  using assms(1,2)
proof (cases rule: client_send_cases)
  case closed
  then show ?thesis using assms by (auto intro: talksI)
next
  case (sent w)
  then show ?thesis
    using conv_event [OF assms(3) request [OF assms(4)] request_not_ended [OF assms(4)]] by simp
next
  case (failed w)
  have over: "session_step s (SendFailed d) (Over, snd s')"
    using assms(4) by (cases s') (auto intro: request_fails)
  then show ?thesis
    using failed conv_event [OF assms(3) over] by (auto intro: talksI)
qed

lemma receiveResponse_header:
  assumes "client_receiveExact L 7 t = (hb, t1)"
  shows "receiveResponse L acc t =
    (case parseHeader hb of
       None \<Rightarrow> (None, t1)
     | Some h \<Rightarrow>
         if expectedPayloadSize (rs_code h) \<noteq> Some (unat (rs_payloadSize h))
         then (None, client_disconnect L t1)
         else
           (case client_receiveExact L (unat (rs_payloadSize h)) t1 of (p, t2) \<Rightarrow>
              if length p = unat (rs_payloadSize h) \<and> rs_code h \<in> set acc \<and> echoes (tc_clientId t2) (rs_code h) p
              then (Some \<lparr>sr_header = h, sr_payload = p\<rparr>, t2) else (None, t2)))"
  using assms
  by (auto simp: receiveResponse_def protocol_sizes Let_def echoes_def split: option.splits prod.splits)

text \<open>
  Receiving: an accepted response leads to the next phase, everything else out of the
  conversation.
\<close>

text \<open>A payload that does not come, or is refused, ends the conversation.\<close>

lemma conv_payload_failed:
  assumes law: "asio_close_law (lib_asio L)" and c: "conv L t (Reading x rc, i)"
    and size: "expectedPayloadSize rc = Some n" "0 < n" and p: "client_receiveExact L n t = (p, t')"
    and refused: "\<not> (length p = n \<and> rc \<in> set (accepts x) \<and> echoes i rc p)"
  shows "talks L t'"
  using p size(2)
proof (cases rule: client_receive_cases)
  case closed
  then show ?thesis using c by (auto intro: talksI)
next
  case (failed w)
  have "talks L (happens (ReceiveFailed n) w t)"
    using conv_event [OF c no_payload [OF size(1)]] by (auto intro: talksI)
  then show ?thesis using failed talks_disconnect [OF law] by simp
next
  case (full w)
  then have "session_step (Reading x rc, i) (Received p) (Over, i)"
    using refused size(1) by (intro bad_payload) auto
  then have "conv L (happens (Received p) w t) (Over, i)"
    by (rule conv_event [OF c]) simp
  then show ?thesis using full by (simp add: talksI)
qed

lemma conv_receive_failed:
  assumes law: "asio_close_law (lib_asio L)"
    and r: "receiveResponse L (accepts x) t = (None, t')"
    and c: "conv L t (Awaiting x, tc_clientId t)"
  shows "talks L t'"
proof -
  let ?i = "tc_clientId t"
  obtain hb t1 where hb: "client_receiveExact L 7 t = (hb, t1)" by fastforce
  have id1: "tc_clientId t1 = ?i" using only_clientD(3) [OF only_client_receive [OF hb]] .
  have "(0 :: nat) < 7" by simp
  with hb show ?thesis
  proof (cases rule: client_receive_cases)
    case closed
    then have "t' = t" using r by (simp add: receiveResponse_header [OF hb] parseHeader_def protocol_sizes)
    then show ?thesis using c by (auto intro: talksI)
  next
    case (failed w)
    then have "t' = t1" using r by (simp add: receiveResponse_header [OF hb] parseHeader_def protocol_sizes)
    moreover have "talks L (happens (ReceiveFailed 7) w t)"
      using conv_event [OF c no_header] by (auto intro: talksI)
    ultimately show ?thesis using failed talks_disconnect [OF law] by simp
  next
    case (full w)
    then obtain h where h: "parseHeader hb = Some h"
      by (simp add: parseHeader_def protocol_sizes)
    have bad: "conv L t1 (Over, ?i)" if "\<not> header_ok hb"
      using conv_event [OF c bad_header [OF _ that]] full by simp
    show ?thesis
    proof (cases "expectedPayloadSize (rs_code h) = Some (unat (rs_payloadSize h))")
      case False
      then have "\<not> header_ok hb" "t' = client_disconnect L t1"
        using r by (simp_all add: receiveResponse_header [OF hb] h header_ok_def)
      then show ?thesis using talks_disconnect [OF law] bad by (auto intro: talksI)
    next
      case size: True
      obtain p t2 where p: "client_receiveExact L (unat (rs_payloadSize h)) t1 = (p, t2)" by fastforce
      have t': "t' = t2" "\<not> (length p = unat (rs_payloadSize h) \<and> rs_code h \<in> set (accepts x) \<and>
          echoes (tc_clientId t2) (rs_code h) p)"
        using r by (auto simp: receiveResponse_header [OF hb] h size p split: if_splits)
      show ?thesis
      proof (cases "rs_payloadSize h = 0")
        case True
        then have "\<not> header_ok hb" "t2 = t1" using p by (simp_all add: header_ok_def h client_receive_zero)
        then show ?thesis using bad t' by (auto intro: talksI)
      next
        case False
        then have ok: "header_ok hb" "header_code hb = rs_code h"
          by (simp_all add: header_ok_def h header_code_def size)
        have c1: "conv L t1 (Reading x (rs_code h), ?i)"
          using conv_event [OF c header [OF _ ok(1)]] full ok(2) by simp
        have id2: "tc_clientId t2 = ?i"
          using only_clientD(3) [OF only_client_receive [OF p]] id1 by simp
        show ?thesis
          using conv_payload_failed [OF law c1 size _ p] t' False unfolding id2 by (simp add: unat_gt_0)
      qed
    qed
  qed
qed

lemma conv_receive:
  assumes "receiveResponse L (accepts x) t = (Some r, t')" and "conv L t (Awaiting x, tc_clientId t)"
  shows "conv L t' (next_phase x (rs_code (sr_header r)),
    if rs_code (sr_header r) = RegistrationSuccess then take 16 (sr_payload r) else tc_clientId t)"
  using assms(1)
proof (cases rule: receiveResponse_Some)
  case (1 hb)
  let ?c = "rs_code (sr_header r)" and ?p = "sr_payload r"
  have "?p \<noteq> []" using accepted_size [OF 1(5)] 1(3) by auto
  then have "header_ok hb" "header_code hb = ?c"
    using 1 by (auto simp: header_ok_def header_code_def)
  then have "session_step (Awaiting x, tc_clientId t) (Received hb) (Reading x ?c, tc_clientId t)"
    using header [OF 1(1)] by metis
  moreover have "session_step (Reading x ?c, tc_clientId t) (Received ?p)
      (next_phase x ?c, if ?c = RegistrationSuccess then take 16 ?p else tc_clientId t)"
    using payload [OF 1(3) 1(5) 1(6)] .
  ultimately have "session_path session_start (trace t')
      (next_phase x ?c, if ?c = RegistrationSuccess then take 16 ?p else tc_clientId t)"
    using 1(7) assms(2) \<open>?p \<noteq> []\<close> path_snoc [OF path_snoc]
    by (fastforce simp: conv_def)
  then show ?thesis
    by (cases x) (auto simp: conv_def)
qed

end
