(* ===== verification/SessionRefinement.thy ===== *)
theory SessionRefinement
  imports Exchange
begin

text \<open>
  Refinement: every operation of \<open>TransferClient\<close> follows the state machine of \<open>SessionSpec\<close>,
  whatever the server, the network, the files and the libraries do. A lemma of this theory says: from
  a conversation in the phase where the code calls the operation, success leads to the phase in which
  the code continues, and every failure leaves a conversation of the machine.
\<close>

section \<open>The requests on the wire\<close>

lemma request_of_prefix:
  "uuid_ok uid \<Longrightarrow> request_of (request_prefix uid code sz @ payload) = (uid, unat (request_code_value code))"
  by (simp add: request_of_def request_prefix_def uuid_ok_def protocol_sizes u16le.length_enc le_value_u16)

lemma request_prefix_nonempty [simp]: "request_prefix uid code sz \<noteq> []"
  by (simp add: request_prefix_def)

lemma uuid_ok_zero [simp]: "uuid_ok (replicate 16 0)"
  by (simp add: uuid_ok_def protocol_sizes)

lemma request_codes:
  "request_of (buildRegistration name) = (replicate 16 0, 825)"
  "uuid_ok uid \<Longrightarrow> request_of (buildPublicKeyExchange uid name key) = (uid, 826)"
  "uuid_ok uid \<Longrightarrow> request_of (buildReconnect uid name) = (uid, 827)"
  "uuid_ok uid \<Longrightarrow> request_of (buildSendFile uid osz pn tp fn content) = (uid, 828)"
  "uuid_ok uid \<Longrightarrow> request_of (buildCrcStatus uid code fn) = (uid, unat (request_code_value code))"
  by (simp_all add: packets_flat request_of_prefix)

lemma packets_nonempty:
  "buildRegistration name \<noteq> []" "buildPublicKeyExchange uid name key \<noteq> []"
  "buildReconnect uid name \<noteq> []" "buildSendFile uid osz pn tp fn content \<noteq> []"
  "buildCrcStatus uid code fn \<noteq> []"
  by (simp_all add: packets_flat)

text \<open>The client ID always has 16 bytes.\<close>

definition client_ok :: "('w, 'r, 'k, 'p) transfer_client \<Rightarrow> bool" where
  "client_ok t \<longleftrightarrow> uuid_ok (tc_clientId t)"

lemma client_ok_only_client: "only_client t t' \<Longrightarrow> client_ok t' \<longleftrightarrow> client_ok t"
  by (simp add: client_ok_def only_clientD)

section \<open>Transfer\<close>

lemma conv_status:
  assumes ok: "client_ok t" and c: "conv L t (Checked n, tc_clientId t)"
    and s: "client_send L (buildCrcStatus (tc_clientId t) code fn) t = (sent, t1)"
    and code: "code = CrcValid \<and> q = Awaiting ForConfirm \<or> code = CrcInvalidRetry \<and> q = Resend n \<and> n < 4
      \<or> code = CrcInvalidAbort \<and> q = Awaiting ForAbortAck \<and> n = 4"
  shows "tc_clientId t1 = tc_clientId t \<and> (if sent then conv L t1 (q, tc_clientId t) else talks L t1)"
proof -
  have "request_step (Checked n, tc_clientId t) (buildCrcStatus (tc_clientId t) code fn) (q, tc_clientId t)"
    using ok code by (auto simp: client_ok_def request_codes intro: rq_valid rq_retry rq_abort)
  with conv_send [OF s packets_nonempty(5) c] only_clientD(3) [OF only_client_send [OF s]]
  show ?thesis by simp
qed

lemma conv_acknowledged:
  assumes law: "asio_close_law (lib_asio L)" and c: "conv L t (Awaiting x, tc_clientId t)"
    and x: "x = ForConfirm \<or> x = ForAbortAck"
    and r: "receiveResponse L [MessageConfirmed] t = (resp, t')"
  shows "case resp of None \<Rightarrow> talks L t' | Some _ \<Rightarrow> conv L t' (next_phase x MessageConfirmed, tc_clientId t)"
proof -
  have acc: "[MessageConfirmed] = accepts x" using x by auto
  show ?thesis
  proof (cases resp)
    case None
    then show ?thesis using conv_receive_failed [OF law _ c] r acc by simp
  next
    case (Some m)
    then have "rs_code (sr_header m) = MessageConfirmed"
      using r by (auto elim: receiveResponse_Some)
    then show ?thesis
      using conv_receive [OF _ c, of m t'] r acc Some by simp
  qed
qed

definition attempt_post ::
  "('w, 'j, 'r, 'k, 'p) libs \<Rightarrow> bytes \<Rightarrow> nat \<Rightarrow> attempt_outcome \<Rightarrow> ('w, 'r, 'k, 'p) transfer_client \<Rightarrow> bool"
where
  "attempt_post L i n out t \<longleftrightarrow>
     (case out of
        Return ok \<Rightarrow> if ok then conv L t (Ready, i) else talks L t
      | NextAttempt \<Rightarrow> n < 4 \<and> conv L t (Resend n, i))"

lemma attempt_post_simps [simp]:
  "attempt_post L i n (Return ok) t = (if ok then conv L t (Ready, i) else talks L t)"
  "attempt_post L i n NextAttempt t = (n < 4 \<and> conv L t (Resend n, i))"
  by (simp_all add: attempt_post_def)

lemma conv_verdict:
  assumes law: "asio_close_law (lib_asio L)" and ok: "client_ok t" and n: "n \<le> 4"
    and c: "conv L t (Checked n, tc_clientId t)"
    and v: "verdict L fd n crc t = (out, t')"
  shows "attempt_post L (tc_clientId t) n out t'"
proof -
  let ?i = "tc_clientId t"
  let ?status = "\<lambda>code. client_send L (buildCrcStatus ?i code (ef_fileName fd)) t"
  note status = conv_status [OF ok c]
  consider (size) "unat (fc_contentSize crc) \<noteq> length (ef_encryptedContent fd)"
    | (valid) "unat (fc_contentSize crc) = length (ef_encryptedContent fd)" "fc_cksum crc = ef_crc fd"
    | (retry) "unat (fc_contentSize crc) = length (ef_encryptedContent fd)" "fc_cksum crc \<noteq> ef_crc fd" "n < 4"
    | (abort) "unat (fc_contentSize crc) = length (ef_encryptedContent fd)" "fc_cksum crc \<noteq> ef_crc fd" "n = 4"
    using n by linarith
  then show ?thesis
  proof cases
    case size
    then show ?thesis using v talksI [OF c] by (auto simp: verdict_def)
  next
    case valid
    obtain sent t1 where s: "?status CrcValid = (sent, t1)" by fastforce
    obtain resp t2 where r: "receiveResponse L [MessageConfirmed] t1 = (resp, t2)" by fastforce
    have 1: "tc_clientId t1 = ?i \<and> (if sent then conv L t1 (Awaiting ForConfirm, ?i) else talks L t1)"
      by (rule status [OF s]) simp
    then show ?thesis
      using v valid s r conv_acknowledged [OF law _ _ r, of ForConfirm]
      by (auto simp: verdict_def split: bool.splits option.splits)
  next
    case retry
    obtain sent t1 where s: "?status CrcInvalidRetry = (sent, t1)" by fastforce
    have "tc_clientId t1 = ?i \<and> (if sent then conv L t1 (Resend n, ?i) else talks L t1)"
      by (rule status [OF s]) (simp add: retry)
    then show ?thesis
      using v retry s by (auto simp: verdict_def MAX_CRC_ATTEMPTS_def split: bool.splits)
  next
    case abort
    obtain sent t1 where s: "?status CrcInvalidAbort = (sent, t1)" by fastforce
    obtain resp t2 where r: "receiveResponse L [MessageConfirmed] t1 = (resp, t2)" by fastforce
    have 1: "tc_clientId t1 = ?i \<and> (if sent then conv L t1 (Awaiting ForAbortAck, ?i) else talks L t1)"
      by (rule status [OF s]) (simp add: abort)
    have "talks L t2" if sent
      using 1 that conv_acknowledged [OF law _ _ r, of ForAbortAck] by (auto intro: talksI split: option.splits)
    then show ?thesis
      using v abort s r 1
      by (auto simp: verdict_def MAX_CRC_ATTEMPTS_def split: bool.splits option.splits)
  qed
qed

lemma conv_attempt:
  assumes law: "asio_close_law (lib_asio L)" and ok: "client_ok t"
    and c: "conv L t (q, tc_clientId t)" and n: "n \<le> 4"
    and q: "\<And>p. request_of p = (tc_clientId t, 828) \<Longrightarrow>
      request_step (q, tc_clientId t) p (Awaiting (ForCrc n), tc_clientId t)"
    and a: "transfer_attempt L fd n t = (out, t')"
  shows "attempt_post L (tc_clientId t) n out t'"
proof -
  let ?i = "tc_clientId t"
  let ?file = "buildSendFile ?i (ef_origFileSize fd) 1 1 (ef_fileName fd) (ef_encryptedContent fd)"
  obtain ok1 t1 where s1: "client_send L ?file t = (ok1, t1)" by fastforce
  have step1: "if ok1 then conv L t1 (Awaiting (ForCrc n), ?i) else talks L t1"
    using conv_send [OF s1 packets_nonempty(4) c q] ok by (simp add: client_ok_def request_codes)
  have id1: "tc_clientId t1 = ?i" using only_clientD(3) [OF only_client_send [OF s1]] .
  show ?thesis
  proof (cases ok1)
    case False
    then show ?thesis using a s1 step1 by (auto simp: transfer_attempt_def)
  next
    case True
    obtain resp t2 where r1: "receiveResponse L [FileReceivedWithCrc] t1 = (resp, t2)" by fastforce
    have c1: "conv L t1 (Awaiting (ForCrc n), tc_clientId t1)" using step1 True id1 by simp
    have id2: "tc_clientId t2 = ?i" using only_clientD(3) [OF only_client_response [OF r1]] id1 by simp
    show ?thesis
    proof (cases resp)
      case None
      then show ?thesis
        using a s1 True r1 conv_receive_failed [OF law _ c1, of t2]
        by (auto simp: transfer_attempt_def)
    next
      case (Some m)
      have m: "rs_code (sr_header m) = FileReceivedWithCrc"
        using r1 Some by (auto elim: receiveResponse_Some)
      have c2: "conv L t2 (Checked n, tc_clientId t2)"
        using conv_receive [OF _ c1, of m t2] r1 Some m id1 id2 by simp
      have ok2: "client_ok t2" using ok id2 by (simp add: client_ok_def)
      show ?thesis
        using a s1 True r1 Some conv_verdict [OF law ok2 n c2] talksI [OF c2] id2
        by (cases "parseFileCrcPayload (sr_payload m)") (auto simp: transfer_attempt_def)
    qed
  qed
qed

lemma only_client_status [frame_simps]:
  "verdict L fd n crc t = (out, t') \<Longrightarrow> only_client t t'"
  by (auto simp: verdict_def split: if_splits prod.splits bool.splits option.splits
      dest!: only_client_send only_client_response intro: client_frame.R_trans client_frame.R_refl)

lemma only_client_attempt [frame_simps]:
  "transfer_attempt L fd n t = (out, t') \<Longrightarrow> only_client t t'"
  by (auto simp: transfer_attempt_def split: prod.splits bool.splits option.splits
      dest!: only_client_send only_client_response only_client_status
      intro: client_frame.R_trans client_frame.R_chain3)

lemma only_client_loop [frame_simps]:
  "transfer_loop L fd n t = (ok, t') \<Longrightarrow> only_client t t'"
proof (induction L fd n t arbitrary: ok t' rule: transfer_loop.induct)
  case (1 L fd n t)
  obtain out t1 where a: "transfer_attempt L fd n t = (out, t1)" by fastforce
  then show ?case
    using 1(2) client_frame.R_trans [OF only_client_attempt [OF a] 1(1) [OF _ a [symmetric]]]
    by (cases out) (auto simp: transfer_loop.simps [of L fd n] split: if_splits
        intro: only_client_attempt client_frame.R_refl)
qed

text \<open>A file may be sent from \<open>Ready\<close>, as the first attempt, or after a retry request.\<close>

lemma conv_loop:
  assumes "asio_close_law (lib_asio L)" and "client_ok t" and "conv L t (q, tc_clientId t)"
    and "(n = 1 \<and> q = Ready) \<or> (1 < n \<and> n \<le> 4 \<and> q = Resend (n - 1))"
    and "transfer_loop L fd n t = (ok, t')"
  shows "if ok then conv L t' (Ready, tc_clientId t) else talks L t'"
  using assms
proof (induction L fd n t arbitrary: q rule: transfer_loop.induct)
  case (1 L fd n t)
  obtain out t1 where a: "transfer_attempt L fd n t = (out, t1)" by fastforce
  have n: "n \<le> 4" using 1(5) by auto
  have post: "attempt_post L (tc_clientId t) n out t1"
  proof (rule conv_attempt [OF 1(2) 1(3) 1(4) n _ a])
    fix p assume "request_of p = (tc_clientId t, 828)"
    then show "request_step (q, tc_clientId t) p (Awaiting (ForCrc n), tc_clientId t)"
      using 1(5) rq_send_file [of p "tc_clientId t"] rq_resend [of p "tc_clientId t" "n - 1"] by auto
  qed
  show ?case
  proof (cases out)
    case (Return r)
    then show ?thesis using 1(6) a n post
      by (auto simp: transfer_loop.simps [of L fd n] MAX_CRC_ATTEMPTS_def)
  next
    case NextAttempt
    have o: "only_client t t1" using only_client_attempt [OF a] .
    have "transfer_loop L fd (Suc n) t1 = (ok, t')"
      using 1(6) a n NextAttempt by (simp add: transfer_loop.simps [of L fd n] MAX_CRC_ATTEMPTS_def)
    then show ?thesis
      using 1(1) [OF _ a [symmetric] _ , of "Resend n"] 1(2,3) post NextAttempt n only_clientD(3) [OF o]
        client_ok_only_client [OF o] 1(5)
      by (auto simp: MAX_CRC_ATTEMPTS_def)
  qed
qed

section \<open>Files\<close>

lemma only_client_single [frame_simps]: "sendSingleFile L p t = (r, t') \<Longrightarrow> only_client t t'"
  by (auto simp: sendSingleFile_def transferAndVerify_def split: sum.splits option.splits prod.splits if_splits
      dest: only_client_loop intro: client_frame.R_refl)

lemma only_client_files [frame_simps]: "send_files L fs t = (r, t') \<Longrightarrow> only_client t t'"
proof (induction fs arbitrary: t)
  case (Cons p fs)
  obtain r1 t1 where s: "sendSingleFile L p t = (r1, t1)" by fastforce
  then have "only_client t t1" by (rule only_client_single)
  then show ?case
    using Cons s by (cases r1) (auto split: if_splits intro: client_frame.R_trans)
qed (simp add: client_frame.R_refl)

text \<open>The result of a function that may throw: success, failure or an exception.\<close>

definition conv_result ::
  "('w, 'j, 'r, 'k, 'p) libs \<Rightarrow> phase \<Rightarrow> exn + bool \<Rightarrow> ('w, 'r, 'k, 'p) transfer_client \<Rightarrow> bool" where
  "conv_result L q r t \<longleftrightarrow>
     (if r = Inr True then client_ok t \<and> conv L t (q, tc_clientId t) else talks L t)"

lemma conv_result_simps [simp]:
  "conv_result L q (Inr True) t = (client_ok t \<and> conv L t (q, tc_clientId t))"
  "conv_result L q (Inr False) t = talks L t"
  "conv_result L q (Inl e) t = talks L t"
  by (simp_all add: conv_result_def)

lemma conv_result_talks: "conv_result L q r t \<Longrightarrow> talks L t"
  by (auto simp: conv_result_def intro: talksI split: if_splits)

lemma conv_single:
  assumes law: "asio_close_law (lib_asio L)" and ok: "client_ok t" and c: "conv L t (Ready, tc_clientId t)"
    and s: "sendSingleFile L p t = (r, t')"
  shows "conv_result L Ready r t'"
proof -
  have loop: "conv_result L Ready (Inr fin) t1" if "transfer_loop L fd 1 t = (fin, t1)" for fd fin t1
    using conv_loop [OF law ok c _ that] only_client_loop [OF that] ok
    by (cases fin) (auto simp: only_clientD client_ok_only_client)
  show ?thesis
    using s loop talksI [OF c]
    by (auto simp: sendSingleFile_def transferAndVerify_def fs_exists_def
        split: sum.splits option.splits prod.splits if_splits)
qed

lemma conv_files:
  assumes law: "asio_close_law (lib_asio L)"
  shows "client_ok t \<Longrightarrow> conv L t (Ready, tc_clientId t) \<Longrightarrow> send_files L fs t = (r, t') \<Longrightarrow> conv_result L Ready r t'"
proof (induction fs arbitrary: t)
  case (Cons p fs)
  obtain r1 t1 where s: "sendSingleFile L p t = (r1, t1)" by fastforce
  have "conv_result L Ready r1 t1" by (rule conv_single [OF law Cons.prems(1,2) s])
  then show ?case
    using Cons.IH [of t1] Cons.prems(3) s
    by (cases r1) (auto split: if_splits simp: conv_result_def)
qed auto

section \<open>Authentication\<close>

lemma conv_exchange_keys:
  assumes law: "asio_close_law (lib_asio L)" and ok: "client_ok t"
    and c: "conv L t (Registered, tc_clientId t)"
    and s: "exchangeKeys L name t = (r, t')"
  shows "conv_result L Ready (Inr r) t'"
proof -
  let ?p = "buildPublicKeyExchange (tc_clientId t) name (getPublicKeyDER (lib_crypto L) (tc_crypto t))"
  obtain ok1 t1 where s1: "client_send L ?p t = (ok1, t1)" by fastforce
  obtain resp t2 where r1: "receiveResponse L [AesKeyReceived] t1 = (resp, t2)" by fastforce
  have id1: "tc_clientId t1 = tc_clientId t" using only_clientD(3) [OF only_client_send [OF s1]] .
  have id2: "tc_clientId t2 = tc_clientId t" using only_clientD(3) [OF only_client_response [OF r1]] id1 by simp
  have "request_step (Registered, tc_clientId t) ?p (Awaiting ForKey, tc_clientId t)"
    using ok by (auto simp: request_codes client_ok_def intro: rq_public_key)
  with conv_send [OF s1 packets_nonempty(2) c] id1
  have c1: "if ok1 then conv L t1 (Awaiting ForKey, tc_clientId t1) else talks L t1" by simp
  have failed: "talks L t2" if "ok1" "resp = None"
    using conv_receive_failed [OF law, of ForKey t1 t2] c1 r1 that by simp
  have received: "conv L t2 (Ready, tc_clientId t2)" if "ok1" "resp = Some m" for m
  proof -
    have "rs_code (sr_header m) = AesKeyReceived" using r1 that by (auto elim: receiveResponse_Some)
    then show ?thesis using conv_receive [of L ForKey t1 m t2] r1 c1 that id1 id2 by simp
  qed
  have "client_ok t2" using ok id2 by (simp add: client_ok_def)
  then show ?thesis
    using s s1 r1 c1 failed received talksI [OF received]
    by (cases ok1) (auto simp: exchangeKeys_def client_ok_def split: option.splits prod.splits)
qed

lemma conv_register:
  assumes law: "asio_close_law (lib_asio L)"
    and c: "conv L t (q, tc_clientId t)" and q: "q = Authenticating \<or> q = Rejected"
    and s: "registerAndExchangeKeys L name t = (r, t')"
  shows "conv_result L Ready r t'"
proof -
  let ?i = "tc_clientId t"
  obtain ok1 t1 where s1: "client_send L (buildRegistration name) t = (ok1, t1)" by fastforce
  have "request_step (q, ?i) (buildRegistration name) (Awaiting ForRegistration, ?i)"
    using q by (auto simp: request_codes intro: rq_register rq_register_again)
  with conv_send [OF s1 packets_nonempty(1) c] only_clientD(3) [OF only_client_send [OF s1]]
  have c1: "if ok1 then conv L t1 (Awaiting ForRegistration, tc_clientId t1) else talks L t1" by simp
  obtain resp t2 where r1: "receiveResponse L [RegistrationSuccess] t1 = (resp, t2)" by fastforce
  show ?thesis
  proof (cases "ok1 \<and> resp \<noteq> None")
    case False
    have "talks L t2" if "ok1" "resp = None"
      using conv_receive_failed [OF law, of ForRegistration t1 t2] c1 r1 that by simp
    then show ?thesis
      using s s1 r1 c1 False by (cases ok1) (auto simp: registerAndExchangeKeys_def)
  next
    case True
    then obtain m where m: "resp = Some m" and ok1 by auto
    have code: "rs_code (sr_header m) = RegistrationSuccess"
      and size: "expectedPayloadSize (rs_code (sr_header m)) = Some (length (sr_payload m))"
      using r1 by (auto simp: m elim: receiveResponse_Some)
    then have len: "length (sr_payload m) = 16" by (simp add: protocol_sizes)
    have c2: "conv L t2 (Registered, take 16 (sr_payload m))"
      using conv_receive [of L ForRegistration t1 m t2] r1 c1 \<open>ok1\<close> m code by simp
    have id: "parseClientIdPayload (sr_payload m) = Some (take 16 (sr_payload m))"
      using len by (simp add: parseClientIdPayload_def protocol_sizes)
    define u where "u = take 16 (sr_payload m)"
    have u: "uuid_ok u" using len by (simp add: u_def uuid_ok_def protocol_sizes)
    have exchange: "conv_result L Ready (Inr x) t'"
      if "exchangeKeys L name (t2\<lparr>tc_clientId := u, tc_crypto := h, tc_disk := d\<rparr>) = (x, t')" for x h d
      by (rule conv_exchange_keys [OF law _ _ that]) (use u c2 in \<open>simp_all add: client_ok_def u_def\<close>)
    show ?thesis
      using s s1 r1 \<open>ok1\<close> talksI [OF c2]
      by (auto simp: registerAndExchangeKeys_def m id Let_def simp flip: u_def intro: exchange
          split: sum.splits prod.splits bool.splits)
  qed
qed

text \<open>Reconnection: approval leads to \<open>Ready\<close>, and registration may follow only a refusal.\<close>

lemma loadClientInfo_uuid:
  "loadClientInfo d c = (Inr True, c') \<Longrightarrow> uuid_ok (ci_uuid (cm_clientInfo c'))"
  by (auto simp: loadClientInfo_def dest: toBytes_uuid_ok
      split: sum.splits if_splits option.splits prod.splits)

definition reconnect_post ::
  "('w, 'j, 'r, 'k, 'p) libs \<Rightarrow> exn + bool \<Rightarrow> bool \<Rightarrow> ('w, 'r, 'k, 'p) transfer_client \<Rightarrow> bool" where
  "reconnect_post L r needs t \<longleftrightarrow>
     (if r = Inr False \<and> needs
      then conv L t (Authenticating, tc_clientId t) \<or> conv L t (Rejected, tc_clientId t)
      else conv_result L Ready r t)"

lemma conv_request_reconnect:
  assumes law: "asio_close_law (lib_asio L)" and c: "conv L t (Authenticating, i)"
    and u: "uuid_ok (ci_uuid (cm_clientInfo (tc_config t)))"
    and s: "requestReconnect L False t = ((r, needs), t')"
  shows "reconnect_post L (Inr r) needs t'"
proof -
  define u where "u = ci_uuid (cm_clientInfo (tc_config t))"
  let ?t = "t\<lparr>tc_clientId := u\<rparr>" and ?p = "buildReconnect u (ci_name (cm_clientInfo (tc_config t)))"
  have c0: "conv L ?t (Authenticating, i)" and u0: "uuid_ok u" using c u by (simp_all add: u_def)
  obtain ok1 t1 where s1: "client_send L ?p ?t = (ok1, t1)" by fastforce
  obtain resp t2 where r1: "receiveResponse L [ReconnectApproved, ReconnectRejected] t1 = (resp, t2)" by fastforce
  have id1: "tc_clientId t1 = u" using only_clientD(3) [OF only_client_send [OF s1]] by simp
  have id2: "tc_clientId t2 = u" using only_clientD(3) [OF only_client_response [OF r1]] id1 by simp
  have "request_step (Authenticating, i) ?p (Awaiting ForReconnect, u)"
    using u0 by (auto simp: request_codes intro: rq_reconnect)
  with conv_send [OF s1 packets_nonempty(3) c0] id1
  have c1: "if ok1 then conv L t1 (Awaiting ForReconnect, tc_clientId t1) else talks L t1" by simp
  have ok2: "client_ok t2" using u0 id2 by (simp add: client_ok_def)
  consider "\<not> ok1" | "ok1" "resp = None" | m where "ok1" "resp = Some m" by (cases resp) auto
  then show ?thesis
  proof cases
    case 1
    then show ?thesis using s s1 c1 by (auto simp: requestReconnect_def Let_def reconnect_post_def simp flip: u_def)
  next
    case 2
    have "talks L t2"
      using conv_receive_failed [OF law, of ForReconnect t1 t2] c1 r1 2 by simp
    with 2 show ?thesis
      using s s1 r1 by (auto simp: requestReconnect_def Let_def reconnect_post_def simp flip: u_def)
  next
    case (3 m)
    have code: "rs_code (sr_header m) \<in> {ReconnectApproved, ReconnectRejected}"
      using r1 3 by (auto elim: receiveResponse_Some)
    then have c2: "conv L t2 (if rs_code (sr_header m) = ReconnectRejected then Rejected else Ready, tc_clientId t2)"
      using conv_receive [of L ForReconnect t1 m t2] r1 c1 3 id1 id2 by auto
    then have "talks L t2" by (rule talksI)
    with 3 c2 show ?thesis
      using s s1 r1 ok2
      by (auto simp: requestReconnect_def Let_def reconnect_post_def client_ok_def simp flip: u_def
          split: option.splits prod.splits if_splits)
  qed
qed

lemma conv_reconnect:
  assumes law: "asio_close_law (lib_asio L)" and c: "conv L t (Authenticating, tc_clientId t)"
    and s: "tryReconnect L False t = ((r, needs), t')"
  shows "reconnect_post L r needs t'"
proof -
  obtain l c' where l: "loadClientInfo (tc_disk t) (tc_config t) = (l, c')" by fastforce
  obtain ok h where h: "(if l = Inr True
        then loadPrivateKeyBase64 (lib_crypto L)
          (case loadPrivateKey (tc_disk t) (tc_config t) of Some key \<Rightarrow> key
           | None \<Rightarrow> ci_privateKeyBase64 (cm_clientInfo c')) (tc_crypto t)
        else (False, tc_crypto t)) = (ok, h)" by fastforce
  have "reconnect_post L (Inr r') needs' t''"
    if "requestReconnect L False (t\<lparr>tc_config := c', tc_crypto := h\<rparr>) = ((r', needs'), t'')" "l = Inr True" for r' needs' t''
    by (rule conv_request_reconnect [OF law _ _ that(1)])
      (use c l that(2) in \<open>auto intro: loadClientInfo_uuid\<close>)
  then show ?thesis
    using s l h talksI [OF c] c
    by (cases l)
      (auto simp: tryReconnect_def Let_def reconnect_post_def cong: option.case_cong
        split: if_splits prod.splits)
qed

lemma conv_authenticate:
  assumes law: "asio_close_law (lib_asio L)" and c: "conv L t (Authenticating, tc_clientId t)"
    and s: "authenticate L name t = (r, t')"
  shows "conv_result L Ready r t'"
proof -
  obtain r1 needs t1 where s1: "tryReconnect L False t = ((r1, needs), t1)" by (metis prod.exhaust)
  note post = conv_reconnect [OF law c s1]
  obtain hc where hc: "hasClientInfo (tc_disk t) (tc_config t) = hc" by simp
  consider e where "hc = Inl e" | "hc = Inr False" | "hc = Inr True" "r1 = Inr False" "needs"
    | "hc = Inr True" "\<not> (r1 = Inr False \<and> needs)"
    by (cases hc) auto
  then show ?thesis
  proof cases
    case 4
    then show ?thesis
      using s s1 post hc by (cases r1) (auto simp: authenticate_def reconnect_post_def conv_result_def split: if_splits)
  qed (use s s1 post hc c talksI [OF c] conv_register [OF law] in
      \<open>auto simp: authenticate_def reconnect_post_def conv_result_def\<close>)
qed

section \<open>The whole program\<close>

lemma conv_start: "conv L (newTransferClient w r d) session_start"
  by (simp add: conv_def newTransferClient_def newNetworkClient_def session_start_def)

text \<open>
  A closed fresh socket is connected; then the session starts. \<open>run\<close> ends in a conversation, and with success
  in one that was \<open>Ready\<close> when the connection was closed.
\<close>

lemma conv_connect:
  assumes "\<not> isConnected A c" and "connect A host port c = (ok, c')"
  shows "nc_trace c' = nc_trace c @ (if ok then [Opened host port] else [])"
  using assms by (auto simp: connect_def Let_def split: prod.splits option.splits bool.splits)

text \<open>\<open>run\<close> as a chain of stages: the configuration, the connection, the authentication, the files.\<close>

lemma run_chain:
  fixes L :: "('w, 'j, 'r, 'k, 'p) libs" and w :: 'w and rng :: 'r and d :: fs
  defines "t \<equiv> newTransferClient w rng d"
  assumes l: "loadTransferInfo (lib_json L) d ''transfer.json'' default_config = (l, c)"
    and n: "connect (lib_asio L) (ti_ip (cm_transferInfo c)) (ti_port (cm_transferInfo c)) (newNetworkClient w) = (ok, n)"
    and a: "authenticate L (ti_clientName (cm_transferInfo c)) (t\<lparr>tc_config := c, tc_client := n\<rparr>) = (r2, t2)"
    and f: "send_files L (ti_files (cm_transferInfo c)) t2 = (r3, t3)"
  shows "run L t =
      (if l \<noteq> Inr True then (l, t\<lparr>tc_config := c\<rparr>)
       else if \<not> ok then (Inr False, t\<lparr>tc_config := c, tc_client := n\<rparr>)
       else if r2 \<noteq> Inr True then (r2, t2)
       else if length (tc_decryptedAesKey t2) \<noteq> 32 then (Inr False, t2)
       else case r3 of Inl e \<Rightarrow> (Inl e, t3) | Inr b \<Rightarrow> (Inr b, client_disconnect L t3))"
proof -
  have [simp]: "tc_disk t = d" "tc_config t = default_config" "tc_client t = newNetworkClient w"
    by (simp_all add: t_def newTransferClient_def)
  show ?thesis
    using l n a f by (auto simp: run_def Let_def split: sum.splits bool.splits)
qed

lemma run_stages:
  fixes L :: "('w, 'j, 'r, 'k, 'p) libs"
  assumes "run L (newTransferClient w rng d) = (r, t')"
  obtains (config) c where "r \<noteq> Inr True" "t' = (newTransferClient w rng d)\<lparr>tc_config := c\<rparr>"
    | (offline) c n where "loadTransferInfo (lib_json L) d ''transfer.json'' default_config = (Inr True, c)"
      "connect (lib_asio L) (ti_ip (cm_transferInfo c)) (ti_port (cm_transferInfo c)) (newNetworkClient w) = (False, n)"
      "r = Inr False" "t' = (newTransferClient w rng d)\<lparr>tc_config := c, tc_client := n\<rparr>"
    | (online) c n r2 t2 where "loadTransferInfo (lib_json L) d ''transfer.json'' default_config = (Inr True, c)"
      "connect (lib_asio L) (ti_ip (cm_transferInfo c)) (ti_port (cm_transferInfo c)) (newNetworkClient w) = (True, n)"
      "authenticate L (ti_clientName (cm_transferInfo c)) ((newTransferClient w rng d)\<lparr>tc_config := c, tc_client := n\<rparr>) = (r2, t2)"
      "if r2 = Inr True \<and> length (tc_decryptedAesKey t2) = 32
       then (\<exists>t3. send_files L (ti_files (cm_transferInfo c)) t2 = (r, t3) \<and>
           t' = (case r of Inl _ \<Rightarrow> t3 | Inr _ \<Rightarrow> client_disconnect L t3))
       else r = (if r2 = Inr True then Inr False else r2) \<and> t' = t2"
proof -
  let ?t = "newTransferClient w rng d :: ('w, 'r, 'k, 'p) transfer_client"
  obtain l c where l: "loadTransferInfo (lib_json L) d ''transfer.json'' default_config = (l, c)" by fastforce
  let ?i = "cm_transferInfo c"
  obtain ok n where n: "connect (lib_asio L) (ti_ip ?i) (ti_port ?i) (newNetworkClient w) = (ok, n)" by fastforce
  define t1 where "t1 = ?t\<lparr>tc_config := c, tc_client := n\<rparr>"
  obtain r2 t2 where a: "authenticate L (ti_clientName ?i) t1 = (r2, t2)" by fastforce
  obtain r3 t3 where f: "send_files L (ti_files ?i) t2 = (r3, t3)" by fastforce
  note run = run_chain [OF l n a [unfolded t1_def] f, folded t1_def]
  consider "l \<noteq> Inr True" | "l = Inr True" "\<not> ok" | "l = Inr True" "ok" by blast
  then show ?thesis
  proof cases
    case 1
    then show ?thesis using assms run by (intro config) auto
  next
    case 2
    then show ?thesis using assms run l n by (intro offline) (auto simp: t1_def)
  next
    case 3
    then show ?thesis
      using assms run l n a f by (intro online [of c n r2 t2]) (auto simp: t1_def split: if_splits sum.splits)
  qed
qed

text \<open>Authentication starts in \<open>Authenticating\<close>, and the files are sent from \<open>Ready\<close>.\<close>

lemma conv_connected:
  fixes L :: "('w, 'j, 'r, 'k, 'p) libs"
  assumes closed: "\<not> as_is_open (lib_asio L) w"
    and n: "connect (lib_asio L) host port (newNetworkClient w) = (ok, n)"
  shows "conv L ((newTransferClient w rng d)\<lparr>tc_config := c, tc_client := n\<rparr>)
    (if ok then Authenticating else Offline, replicate 16 0)"
proof -
  have "nc_trace n = (if ok then [Opened host port] else [])"
    using conv_connect [OF _ n] closed by (simp add: newNetworkClient_def isConnected_def)
  then show ?thesis
    by (auto simp: conv_def session_start_def intro: path_snoc [OF path_Nil opens, simplified])
qed

lemma conv_run:
  fixes L :: "('w, 'j, 'r, 'k, 'p) libs"
  assumes law: "asio_close_law (lib_asio L)" and closed: "\<not> as_is_open (lib_asio L) w"
    and s: "run L (newTransferClient w rng d) = (r, t')"
  shows "if r = Inr True
    then (\<exists>t. client_ok t \<and> conv L t (Ready, tc_clientId t) \<and> t' = client_disconnect L t)
    else talks L t'"
  using s
proof (cases rule: run_stages)
  case (config c)
  then show ?thesis using talksI [OF conv_start [of L w rng d]] by auto
next
  case (offline c n)
  then show ?thesis using talksI [OF conv_connected [OF closed offline(2)]] by auto
next
  case (online c n r2 t2)
  let ?t1 = "(newTransferClient w rng d)\<lparr>tc_config := c, tc_client := n\<rparr> :: ('w, 'r, 'k, 'p) transfer_client"
  have "conv L ?t1 (Authenticating, tc_clientId ?t1)"
    using conv_connected [OF closed online(2), where rng = rng and d = d and c = c] by (simp add: newTransferClient_def protocol_sizes)
  then have post2: "conv_result L Ready r2 t2"
    by (rule conv_authenticate [OF law _ online(3)])
  show ?thesis
  proof (cases "r2 = Inr True \<and> length (tc_decryptedAesKey t2) = 32")
    case True
    then obtain t3 where f: "send_files L (ti_files (cm_transferInfo c)) t2 = (r, t3)"
      "t' = (case r of Inl _ \<Rightarrow> t3 | Inr _ \<Rightarrow> client_disconnect L t3)"
      using online(4) by auto
    have "conv_result L Ready r t3"
      using conv_files [OF law _ _ f(1)] post2 True by simp
    then show ?thesis
      using f(2) talks_disconnect [OF law] by (auto simp: conv_result_def split: if_splits sum.splits)
  next
    case False
    then have "t' = t2" "r \<noteq> Inr True" using online(4) by (auto split: if_splits)
    then show ?thesis using conv_result_talks [OF post2] by simp
  qed
qed

end
