(* ===== verification/Emission.thy ===== *)
theory Emission
  imports SessionRefinement
begin

text \<open>
  What each operation of \<open>TransferClient\<close> adds to the trace. \<open>emits P t t'\<close> says that the
  events between \<open>t\<close> and \<open>t'\<close> all satisfy \<open>P\<close>; with suitable \<open>P\<close> it bounds what is read, and
  tells which requests an operation can send. The properties of \<open>receiveResponse\<close> follow.
\<close>

section \<open>Events added by an operation\<close>

definition emits ::
  "(net_event \<Rightarrow> bool) \<Rightarrow> ('w, 'r, 'k, 'p) transfer_client \<Rightarrow> ('w, 'r, 'k, 'p) transfer_client \<Rightarrow> bool" where
  "emits P t t' \<longleftrightarrow> (\<exists>evs. trace t' = trace t @ evs \<and> list_all P evs)"

interpretation emission: state_preorder "emits P" for P
proof unfold_locales
  fix s t u :: "('a, 'b, 'c, 'd) transfer_client"
  show "emits P s s" by (auto simp: emits_def)
  assume "emits P s t" "emits P t u"
  then show "emits P s u" unfolding emits_def by (metis append_assoc list_all_append)
qed

lemma emits_same [simp]: "tc_client t' = tc_client t \<Longrightarrow> emits P t t'"
  by (simp add: emits_def)

lemma emits_cong:
  "tc_client t1 = tc_client t \<Longrightarrow> emits P t1 t' = emits P t t'"
  "tc_client t1 = tc_client t' \<Longrightarrow> emits P t t1 = emits P t t'"
  by (simp_all add: emits_def)

lemma emits_event: "trace t' = trace t @ [ev] \<Longrightarrow> P ev \<Longrightarrow> emits P t t'"
  by (auto simp: emits_def)

lemma emits_mono: "emits P t t' \<Longrightarrow> (\<And>ev. P ev \<Longrightarrow> Q ev) \<Longrightarrow> emits Q t t'"
  unfolding emits_def by (metis list.pred_mono_strong)

lemma emits_send:
  assumes "client_send L d t = (ok, t')" and "d \<noteq> []" and "P (Sent d)" and "P (SendFailed d)"
  shows "emits P t t'"
  using assms(1,2) by (cases rule: client_send_cases) (use assms in \<open>auto intro: emits_event\<close>)

lemma emits_disconnect: "P Closed \<Longrightarrow> emits P t (client_disconnect L t)"
  by (auto simp: client_disconnect_def disconnect_def intro: emits_event)

lemma disconnect_events: "\<exists>evs. trace (client_disconnect L t) = trace t @ evs \<and> (evs = [] \<or> evs = [Closed])"
  by (auto simp: client_disconnect_def disconnect_def)

lemma receive_events:
  assumes "client_receiveExact L n t = (bs, t')" and "0 < n"
  obtains evs where "trace t' = trace t @ evs"
    and "if bs = [] then evs \<in> {[], [ReceiveFailed n], [ReceiveFailed n, Closed]}
         else length bs = n \<and> evs = [Received bs]"
  using assms
proof (cases rule: client_receive_cases)
  case (failed w)
  then show ?thesis
    using that disconnect_events [of L "happens (ReceiveFailed n) w t"] by auto
qed (use assms that in auto)

text \<open>The events of a response: reads of at most 279 bytes, and perhaps a closing.\<close>

definition reading :: "net_event \<Rightarrow> bool" where
  "reading ev \<longleftrightarrow>
     (case ev of
        Received bs \<Rightarrow> length bs \<le> 279
      | ReceiveFailed n \<Rightarrow> n \<le> 279
      | Closed \<Rightarrow> True
      | _ \<Rightarrow> False)"

lemma reading_simps [simp]:
  "reading (Received bs) = (length bs \<le> 279)" "reading (ReceiveFailed n) = (n \<le> 279)" "reading Closed"
  "\<not> reading (Sent p)" "\<not> reading (SendFailed p)" "\<not> reading (Opened h q)"
  by (simp_all add: reading_def)

lemma response_events:
  assumes "receiveResponse L acc t = (r, t')"
  shows "\<exists>evs. trace t' = trace t @ evs \<and> length evs \<le> 3 \<and> list_all reading evs"
proof -
  obtain hb t1 where hb: "client_receiveExact L 7 t = (hb, t1)" by fastforce
  obtain evs1 where e1: "trace t1 = trace t @ evs1"
    "if hb = [] then evs1 \<in> {[], [ReceiveFailed 7], [ReceiveFailed 7, Closed]} else length hb = 7 \<and> evs1 = [Received hb]"
    using receive_events [OF hb] by auto
  show ?thesis
  proof (cases "parseHeader hb")
    case None
    then show ?thesis using assms e1 by (auto simp: receiveResponse_header [OF hb] split: if_splits)
  next
    case (Some h)
    let ?n = "unat (rs_payloadSize h)"
    have "hb \<noteq> []" using Some by (auto simp: parseHeader_def protocol_sizes)
    then have e1': "trace t1 = trace t @ [Received hb]" "length hb = 7" using e1 by auto
    obtain p t2 where p: "client_receiveExact L ?n t1 = (p, t2)" by fastforce
    show ?thesis
    proof (cases "expectedPayloadSize (rs_code h) = Some ?n")
      case False
      then show ?thesis
        using assms e1' disconnect_events [of L t1] by (auto simp: receiveResponse_header [OF hb] Some)
    next
      case True
      then have n: "?n \<le> 279" by (rule expectedPayloadSize_bound)
      have t': "t' = t2" using assms True by (auto simp: receiveResponse_header [OF hb] Some p split: if_splits)
      show ?thesis
      proof (cases "?n = 0")
        case True
        then show ?thesis using p t' e1' by (auto simp: client_receive_zero)
      next
        case False
        then obtain evs2 where "trace t2 = trace t1 @ evs2"
          "if p = [] then evs2 \<in> {[], [ReceiveFailed ?n], [ReceiveFailed ?n, Closed]} else length p = ?n \<and> evs2 = [Received p]"
          using receive_events [OF p] by auto
        then show ?thesis using t' e1' n by (auto split: if_splits)
      qed
    qed
  qed
qed

lemma emits_response: "receiveResponse L acc t = (r, t') \<Longrightarrow> emits reading t t'"
  using response_events unfolding emits_def by blast

section \<open>A scripted server\<close>

text \<open>
  The scripted network of \<open>NetworkClient\<close> delivers responses byte by byte. A valid response is
  accepted, and what follows it stays in the stream.
\<close>

definition incoming :: "(script_world, 'r, 'k, 'p) transfer_client \<Rightarrow> bytes" where
  "incoming t = sw_incoming (nc_socket (tc_client t))"

definition online :: "('w, 'j, 'r, 'k, 'p) libs \<Rightarrow> ('w, 'r, 'k, 'p) transfer_client \<Rightarrow> bool" where
  "online L t \<longleftrightarrow> as_is_open (lib_asio L) (nc_socket (tc_client t))"

definition reads ::
  "bytes list \<Rightarrow> bytes \<Rightarrow> (script_world, 'r, 'k, 'p) transfer_client \<Rightarrow> (script_world, 'r, 'k, 'p) transfer_client"
where
  "reads bss rest t = t\<lparr>tc_client :=
     \<lparr>nc_socket = (nc_socket (tc_client t))\<lparr>sw_incoming := rest\<rparr>,
      nc_trace = trace t @ map Received bss\<rparr>\<rparr>"

definition encode_response :: "server_response \<Rightarrow> bytes" where
  "encode_response r = encode_response_header (sr_header r) @ sr_payload r"

text \<open>The responses a client should accept at a point where it expects one of \<open>acc\<close>.\<close>

definition valid_response :: "response_code list \<Rightarrow> bytes \<Rightarrow> server_response \<Rightarrow> bool" where
  "valid_response acc i r \<longleftrightarrow>
     rs_code (sr_header r) \<in> set acc \<and> listed (rs_code (sr_header r)) \<and>
     expectedPayloadSize (rs_code (sr_header r)) = Some (length (sr_payload r)) \<and>
     unat (rs_payloadSize (sr_header r)) = length (sr_payload r) \<and>
     sr_payload r \<noteq> [] \<and> echoes i (rs_code (sr_header r)) (sr_payload r)"

lemma script_response:
  assumes "lib_asio L = script_asio" and "online L t" and "valid_response acc (tc_clientId t) r"
    and "incoming t = encode_response r @ rest"
  shows "receiveResponse L acc t =
    (Some r, reads [encode_response_header (sr_header r), sr_payload r] rest t)"
proof -
  let ?h = "encode_response_header (sr_header r)" and ?p = "sr_payload r"
  let ?c1 = "\<lparr>nc_socket = (nc_socket (tc_client t))\<lparr>sw_incoming := ?p @ rest\<rparr>,
      nc_trace = trace t @ [Received ?h]\<rparr>"
  have o: "sw_open (nc_socket (tc_client t))"
    using assms(1,2) by (simp add: online_def script_asio_def)
  have r1: "client_receiveExact L 7 t = (?h, t\<lparr>tc_client := ?c1\<rparr>)"
    using o assms(1,4)
    by (simp add: client_receiveExact_def incoming_def encode_response_def length_encode_response_header
        script_receive [of "tc_client t" ?h "?p @ rest"])
  have r2: "client_receiveExact L (length ?p) (t\<lparr>tc_client := ?c1\<rparr>) = (?p, reads [?h, ?p] rest t)"
    using o assms(1,3)
    by (simp add: client_receiveExact_def reads_def valid_response_def script_receive [of ?c1 ?p rest])
  have "parseHeader ?h = Some (sr_header r)"
    using parseHeader_encode [of "sr_header r" "[]"] assms(3) by (simp add: valid_response_def)
  then show ?thesis
    using assms(3) r2
    by (simp add: receiveResponse_header [OF r1] valid_response_def reads_def)
qed

section \<open>Properties of a response\<close>

text \<open>A client and libraries for the witnesses.\<close>

definition sample_libs :: "(script_world, json_value, nat, bool, byte) libs" where
  "sample_libs = \<lparr>lib_asio = script_asio, lib_json = json_tree (Some (sample_config 5000)),
     lib_crypto = toy_crypto\<rparr>"

definition sample_client :: "bytes \<Rightarrow> (script_world, nat, bool, byte) transfer_client" where
  "sample_client bs = (newTransferClient (script bs) 65 (empty_fs Windows))
     \<lparr>tc_client := \<lparr>nc_socket = \<lparr>sw_open = True, sw_incoming = bs\<rparr>, nc_trace = []\<rparr>\<rparr>"

definition sample_ack :: server_response where
  "sample_ack = \<lparr>sr_header = \<lparr>rs_version = 9, rs_code = MessageConfirmed, rs_payloadSize = 16\<rparr>,
     sr_payload = replicate 16 0\<rparr>"

lemma sample_libs_simps [simp]:
  "lib_asio sample_libs = script_asio" "lib_crypto sample_libs = toy_crypto"
  by (simp_all add: sample_libs_def)

lemma sample_client_simps [simp]:
  "incoming (sample_client bs) = bs" "online sample_libs (sample_client bs)"
  "tc_clientId (sample_client bs) = replicate 16 0" "trace (sample_client bs) = []"
  by (simp_all add: sample_client_def incoming_def online_def script_asio_def newTransferClient_def protocol_sizes)

lemma sample_ack_valid: "valid_response [MessageConfirmed] (replicate 16 0) sample_ack"
  by (simp add: valid_response_def sample_ack_def echoes_def listed_def protocol_sizes)

text \<open>
  C30. Every valid response is accepted, whatever server version its header names: on a connection whose
  next bytes are the response, \<open>receiveResponse\<close> returns it and leaves the bytes behind
  it unread. In particular the version byte is not checked.
\<close>

theorem valid_response_accepted:
  assumes "lib_asio L = script_asio" and "online L t" and "valid_response acc (tc_clientId t) r"
    and "incoming t = encode_response (r\<lparr>sr_header := (sr_header r)\<lparr>rs_version := v\<rparr>\<rparr>) @ rest"
  shows "receiveResponse L acc t =
    (Some (r\<lparr>sr_header := (sr_header r)\<lparr>rs_version := v\<rparr>\<rparr>),
     reads [encode_response_header ((sr_header r)\<lparr>rs_version := v\<rparr>), sr_payload r] rest t)"
proof -
  have "valid_response acc (tc_clientId t) (r\<lparr>sr_header := (sr_header r)\<lparr>rs_version := v\<rparr>\<rparr>)"
    using assms(3) by (simp add: valid_response_def)
  from script_response [OF assms(1,2) this assms(4)] show ?thesis by simp
qed

theorem valid_response_accepted_witness:
  "receiveResponse sample_libs [MessageConfirmed]
     (sample_client (encode_response (sample_ack\<lparr>sr_header := (sr_header sample_ack)\<lparr>rs_version := 77\<rparr>\<rparr>) @ [1, 2])) =
    (Some (sample_ack\<lparr>sr_header := (sr_header sample_ack)\<lparr>rs_version := 77\<rparr>\<rparr>),
     reads [encode_response_header ((sr_header sample_ack)\<lparr>rs_version := 77\<rparr>), sr_payload sample_ack] [1, 2]
       (sample_client (encode_response (sample_ack\<lparr>sr_header := (sr_header sample_ack)\<lparr>rs_version := 77\<rparr>\<rparr>) @ [1, 2])))"
  by (rule valid_response_accepted) (simp_all add: sample_ack_valid)

text \<open>
  C15. A response is used only when it is valid. Whenever \<open>receiveResponse\<close> returns a response,
  its header was parsed from the 7 bytes read first, its code is one of the accepted codes, its
  payload has exactly the size the protocol defines for that code and the header announced,
  and, except for codes 1600 and 1606, it begins with the client's own ID. Nothing but the
  connection changed.
\<close>

theorem receive_response_validated:
  assumes "receiveResponse L accepted t = (Some r, t')"
  shows "rs_code (sr_header r) \<in> set accepted \<and>
    expectedPayloadSize (rs_code (sr_header r)) = Some (length (sr_payload r)) \<and>
    unat (rs_payloadSize (sr_header r)) = length (sr_payload r) \<and>
    echoes (tc_clientId t) (rs_code (sr_header r)) (sr_payload r) \<and>
    (\<exists>hb. length hb = 7 \<and> parseHeader hb = Some (sr_header r) \<and>
       trace t' = trace t @ [Received hb] @ (if sr_payload r = [] then [] else [Received (sr_payload r)])) \<and>
    t' = t\<lparr>tc_client := tc_client t'\<rparr>"
  using assms
proof (cases rule: receiveResponse_Some)
  case (1 hb)
  then show ?thesis
    using only_client_response [OF assms] by (auto simp: only_client_def)
qed

theorem receive_response_validated_witness:
  "\<exists>t'. receiveResponse sample_libs [MessageConfirmed] (sample_client (encode_response sample_ack)) =
     (Some sample_ack, t') \<and>
   rs_code (sr_header sample_ack) \<in> set [MessageConfirmed] \<and>
   t' = (sample_client (encode_response sample_ack))\<lparr>tc_client := tc_client t'\<rparr>"
proof -
  let ?t = "sample_client (encode_response sample_ack)"
  let ?t' = "reads [encode_response_header (sr_header sample_ack), sr_payload sample_ack] [] ?t"
  have r: "receiveResponse sample_libs [MessageConfirmed] ?t = (Some sample_ack, ?t')"
    by (rule script_response) (simp_all add: sample_ack_valid)
  show ?thesis
    using receive_response_validated [OF r] r by blast
qed

text \<open>
  C16. The size in a response header is not trusted. Whatever the server sends, one call of
  \<open>receiveResponse\<close> performs at most three events on the connection, each a read of at most 279
  bytes or the closing; it never sends. If the announced size is not the one the protocol
  defines for the code, no payload is read, the response is refused and the
  connection is closed, so that nothing can be sent or received on it any more.
\<close>

theorem receive_response_bounded:
  assumes "asio_close_law (lib_asio L)"
  shows "case receiveResponse L accepted t of (r, t') \<Rightarrow>
    (\<exists>evs. trace t' = trace t @ evs \<and> length evs \<le> 3 \<and> list_all reading evs) \<and>
    (case client_receiveExact L 7 t of (hb, t1) \<Rightarrow>
       if (case parseHeader hb of None \<Rightarrow> False
           | Some h \<Rightarrow> expectedPayloadSize (rs_code h) \<noteq> Some (unat (rs_payloadSize h)))
       then r = None \<and> t' = client_disconnect L t1 \<and> \<not> connected L t' \<and>
         client_send L d t' = (False, t') \<and> client_receiveExact L n t' = ([], t')
       else True)"
proof -
  obtain r t' where r: "receiveResponse L accepted t = (r, t')" by fastforce
  obtain hb t1 where hb: "client_receiveExact L 7 t = (hb, t1)" by fastforce
  have closed: "\<not> connected L (client_disconnect L t1)"
    using tcp.shut_shuts [OF assms] by (simp add: client_disconnect_def)
  then have inert: "client_send L d (client_disconnect L t1) = (False, client_disconnect L t1)"
    "client_receiveExact L n (client_disconnect L t1) = ([], client_disconnect L t1)"
    by (simp_all add: client_send_def client_receiveExact_def tcp.put_closed tcp.get_closed)
  have "r = None \<and> t' = client_disconnect L t1"
    if "parseHeader hb = Some h" "expectedPayloadSize (rs_code h) \<noteq> Some (unat (rs_payloadSize h))" for h
    using r that by (simp add: receiveResponse_header [OF hb])
  then show ?thesis
    using response_events [OF r] closed inert by (auto simp: r hb split: option.splits)
qed

theorem receive_response_bounded_witness:
  "case receiveResponse sample_libs [] (sample_client [3, 0x44, 6, 0xFF, 0xFF, 0xFF, 0x7F]) of (r, t') \<Rightarrow>
    (\<exists>evs. trace t' = trace (sample_client [3, 0x44, 6, 0xFF, 0xFF, 0xFF, 0x7F]) @ evs \<and> length evs \<le> 3 \<and> list_all reading evs) \<and>
    (case client_receiveExact sample_libs 7 (sample_client [3, 0x44, 6, 0xFF, 0xFF, 0xFF, 0x7F]) of (hb, t1) \<Rightarrow>
       if (case parseHeader hb of None \<Rightarrow> False
           | Some h \<Rightarrow> expectedPayloadSize (rs_code h) \<noteq> Some (unat (rs_payloadSize h)))
       then r = None \<and> t' = client_disconnect sample_libs t1 \<and> \<not> connected sample_libs t' \<and>
         client_send sample_libs [1] t' = (False, t') \<and> client_receiveExact sample_libs 5 t' = ([], t')
       else True)"
  by (rule receive_response_bounded) simp

section \<open>Counting requests\<close>

definition sent_code :: "nat \<Rightarrow> net_event list \<Rightarrow> nat" where
  "sent_code c evs = length (filter (\<lambda>ev. case ev of Sent p \<Rightarrow> snd (request_of p) = c | _ \<Rightarrow> False) evs)"

abbreviation sent :: "nat \<Rightarrow> ('w, 'r, 'k, 'p) transfer_client \<Rightarrow> nat" where
  "sent c t \<equiv> sent_code c (trace t)"

lemma sent_code_append [simp]: "sent_code c (evs @ evs') = sent_code c evs + sent_code c evs'"
  by (simp add: sent_code_def)

lemma sent_code_simps [simp]:
  "sent_code c [] = 0"
  "sent_code c (Sent p # evs) = (if snd (request_of p) = c then 1 else 0) + sent_code c evs"
  "sent_code c (SendFailed p # evs) = sent_code c evs" "sent_code c (Received bs # evs) = sent_code c evs"
  "sent_code c (ReceiveFailed n # evs) = sent_code c evs" "sent_code c (Closed # evs) = sent_code c evs"
  "sent_code c (Opened h q # evs) = sent_code c evs"
  by (simp_all add: sent_code_def)

lemma sent_send:
  "client_send L d t = (ok, t') \<Longrightarrow> d \<noteq> [] \<Longrightarrow>
   sent c t' = sent c t + (if ok \<and> snd (request_of d) = c then 1 else 0)"
  by (erule client_send_cases) auto

lemma sent_code_reading: "list_all reading evs \<Longrightarrow> sent_code c evs = 0"
  by (induction evs) (auto simp: reading_def sent_code_def split: net_event.splits)

lemma sent_response: "receiveResponse L acc t = (r, t') \<Longrightarrow> sent c t' = sent c t"
  using emits_response [of L acc t r t'] by (auto simp: emits_def sent_code_reading)

lemma sent_disconnect [simp]: "sent c (client_disconnect L t) = sent c t"
  using disconnect_events [of L t] by auto

end
