(* ===== verification/TransferProperties.thy ===== *)
theory TransferProperties
  imports Emission
begin

text \<open>
  What \<open>transferAndVerify\<close> guarantees: success means that the server acknowledged, on the wire, a
  checksum equal to the local one; a file is transmitted at most four times; and a server that answers
  within the protocol and reports the right checksum in time makes the transfer succeed.
\<close>

section \<open>The log of a successful transfer\<close>

definition file_packet :: "encrypted_file_data \<Rightarrow> bytes \<Rightarrow> bytes" where
  "file_packet fd i =
     buildSendFile i (ef_origFileSize fd) 1 1 (ef_fileName fd) (ef_encryptedContent fd)"

text \<open>A response with a given code, as the two reads that received it.\<close>

definition reply :: "response_code \<Rightarrow> bytes \<Rightarrow> bytes \<Rightarrow> bytes \<Rightarrow> bool" where
  "reply c i hb p \<longleftrightarrow>
     map_option rs_code (parseHeader hb) = Some c \<and> expectedPayloadSize c = Some (length p) \<and> echoes i c p"

definition crc_reply :: "encrypted_file_data \<Rightarrow> bytes \<Rightarrow> bytes \<Rightarrow> bytes \<Rightarrow> u32 \<Rightarrow> bool" where
  "crc_reply fd i hb p ck \<longleftrightarrow>
     reply FileReceivedWithCrc i hb p \<and>
     (case parseFileCrcPayload p of
        None \<Rightarrow> False
      | Some r \<Rightarrow> unat (fc_contentSize r) = length (ef_encryptedContent fd) \<and> fc_cksum r = ck)"

inductive file_log :: "encrypted_file_data \<Rightarrow> bytes \<Rightarrow> nat \<Rightarrow> net_event list \<Rightarrow> bool" where
  log_verified: "n \<le> 4 \<Longrightarrow> crc_reply fd i hb p (ef_crc fd) \<Longrightarrow> reply MessageConfirmed i ha pa \<Longrightarrow>
    file_log fd i n [Sent (file_packet fd i), Received hb, Received p,
      Sent (buildCrcStatus i CrcValid (ef_fileName fd)), Received ha, Received pa]"
| log_retry: "n < 4 \<Longrightarrow> crc_reply fd i hb p ck \<Longrightarrow> ck \<noteq> ef_crc fd \<Longrightarrow> file_log fd i (Suc n) evs \<Longrightarrow>
    file_log fd i n ([Sent (file_packet fd i), Received hb, Received p,
      Sent (buildCrcStatus i CrcInvalidRetry (ef_fileName fd))] @ evs)"

lemma receive_reply:
  assumes "receiveResponse L [c] t = (Some r, t')" and "expectedPayloadSize c \<noteq> Some 0"
  obtains hb where "reply c (tc_clientId t) hb (sr_payload r)"
    and "trace t' = trace t @ [Received hb, Received (sr_payload r)]" and "tc_clientId t' = tc_clientId t"
  using assms(1)
proof (cases rule: receiveResponse_Some)
  case (1 hb)
  then show ?thesis
    using that [of hb] assms(2) only_clientD(3) [OF only_client_response [OF assms(1)]]
    by (auto simp: reply_def)
qed

lemma sent_trace: "client_send L d t = (True, t') \<Longrightarrow> d \<noteq> [] \<Longrightarrow> trace t' = trace t @ [Sent d]"
  by (erule client_send_cases) auto

lemmas no_empty_payload = UUID_SIZE_def AES_KEY_PAYLOAD_SIZE_def ENCRYPTED_AES_KEY_SIZE_def
  CRC_PAYLOAD_EXPECTED_SIZE_def FILE_NAME_FIELD_SIZE_def

lemma verdict_log:
  assumes "verdict L fd n crc t = (out, t')" and "out \<noteq> Return False"
  shows "unat (fc_contentSize crc) = length (ef_encryptedContent fd) \<and>
    (if out = NextAttempt
     then n < 4 \<and> fc_cksum crc \<noteq> ef_crc fd \<and>
       trace t' = trace t @ [Sent (buildCrcStatus (tc_clientId t) CrcInvalidRetry (ef_fileName fd))]
     else fc_cksum crc = ef_crc fd \<and>
       (\<exists>ha pa. reply MessageConfirmed (tc_clientId t) ha pa \<and>
         trace t' = trace t @ [Sent (buildCrcStatus (tc_clientId t) CrcValid (ef_fileName fd)), Received ha, Received pa]))"
proof -
  have confirm: "\<exists>ha pa. reply MessageConfirmed (tc_clientId t) ha pa \<and>
      trace t2 = trace t @ [Sent d, Received ha, Received pa]"
    if s: "client_send L d t = (True, t1)" and d: "d \<noteq> []" and r: "receiveResponse L [MessageConfirmed] t1 = (Some m, t2)"
    for d t1 t2 m
  proof -
    obtain ha where "reply MessageConfirmed (tc_clientId t1) ha (sr_payload m)"
      "trace t2 = trace t1 @ [Received ha, Received (sr_payload m)]"
      using receive_reply [OF r] by (auto simp: no_empty_payload)
    then show ?thesis
      using sent_trace [OF s d] only_clientD(3) [OF only_client_send [OF s]] by auto
  qed
  show ?thesis
    using assms
    by (auto simp: verdict_def MAX_CRC_ATTEMPTS_def packets_nonempty split: if_splits prod.splits bool.splits option.splits
        dest: confirm sent_trace)
qed

lemma attempt_log:
  assumes "transfer_attempt L fd n t = (out, t')" and "out \<noteq> Return False"
  obtains hb p ck where "crc_reply fd (tc_clientId t) hb p ck"
    and "if out = NextAttempt
     then n < 4 \<and> ck \<noteq> ef_crc fd \<and>
       trace t' = trace t @ [Sent (file_packet fd (tc_clientId t)), Received hb, Received p,
         Sent (buildCrcStatus (tc_clientId t) CrcInvalidRetry (ef_fileName fd))]
     else ck = ef_crc fd \<and>
       (\<exists>ha pa. reply MessageConfirmed (tc_clientId t) ha pa \<and>
         trace t' = trace t @ [Sent (file_packet fd (tc_clientId t)), Received hb, Received p,
           Sent (buildCrcStatus (tc_clientId t) CrcValid (ef_fileName fd)), Received ha, Received pa])"
proof -
  let ?i = "tc_clientId t"
  obtain t1 m t2 crc where s: "client_send L (file_packet fd ?i) t = (True, t1)"
    and r: "receiveResponse L [FileReceivedWithCrc] t1 = (Some m, t2)"
    and c: "parseFileCrcPayload (sr_payload m) = Some crc" and v: "verdict L fd n crc t2 = (out, t')"
    using assms by (auto simp: transfer_attempt_def file_packet_def split: prod.splits bool.splits option.splits)
  obtain hb where hb: "reply FileReceivedWithCrc (tc_clientId t1) hb (sr_payload m)"
    "trace t2 = trace t1 @ [Received hb, Received (sr_payload m)]" "tc_clientId t2 = tc_clientId t1"
    using receive_reply [OF r] by (auto simp: no_empty_payload)
  have id: "tc_clientId t1 = ?i" using only_clientD(3) [OF only_client_send [OF s]] .
  have t1: "trace t1 = trace t @ [Sent (file_packet fd ?i)]"
    by (rule sent_trace [OF s]) (simp add: file_packet_def packets_nonempty)
  show ?thesis
    using verdict_log [OF v assms(2)] hb t1 id c
    by (intro that [of hb "sr_payload m" "fc_cksum crc"]) (auto simp: crc_reply_def)
qed

lemma loop_log:
  "transfer_loop L fd n t = (True, t') \<Longrightarrow> 
   \<exists>evs. trace t' = trace t @ evs \<and> file_log fd (tc_clientId t) n evs"
proof (induction L fd n t rule: transfer_loop.induct)
  case (1 L fd n t)
  let ?i = "tc_clientId t"
  obtain out t1 where a: "transfer_attempt L fd n t = (out, t1)" by fastforce
  have n: "n \<le> 4" and out: "out \<noteq> Return False"
    using 1(2) a by (auto simp: transfer_loop.simps [of L fd n] MAX_CRC_ATTEMPTS_def split: if_splits)
  show ?case
  proof (cases out)
    case (Return r)
    with out a have "transfer_attempt L fd n t = (Return True, t1)" "t' = t1"
      using 1(2) n by (auto simp: transfer_loop.simps [of L fd n] MAX_CRC_ATTEMPTS_def)
    from attempt_log [OF this(1)] this(2) n show ?thesis
      by (auto intro: log_verified)
  next
    case NextAttempt
    with a have a': "transfer_attempt L fd n t = (NextAttempt, t1)" by simp
    have rest: "transfer_loop L fd (Suc n) t1 = (True, t')"
      using 1(2) n a' by (simp add: transfer_loop.simps [of L fd n] MAX_CRC_ATTEMPTS_def)
    obtain evs where evs: "trace t' = trace t1 @ evs" "file_log fd ?i (Suc n) evs"
      using 1(1) [OF _ a' [symmetric] refl rest] n only_clientD(3) [OF only_client_attempt [OF a']]
      by (auto simp: MAX_CRC_ATTEMPTS_def)
    obtain hb p ck where "crc_reply fd ?i hb p ck" "n < 4" "ck \<noteq> ef_crc fd"
      "trace t1 = trace t @ [Sent (file_packet fd ?i), Received hb, Received p,
         Sent (buildCrcStatus ?i CrcInvalidRetry (ef_fileName fd))]"
      by (rule attempt_log [OF a', simplified]) blast
    then show ?thesis
      using log_retry [OF _ _ _ evs(2)] evs(1) by auto
  qed
qed

section \<open>Counting the attempts\<close>

lemma verdict_counts:
  assumes "verdict L fd n crc t = (out, t')" and "uuid_ok (tc_clientId t)" and "n \<le> 4"
  shows "sent 828 t' = sent 828 t \<and>
    sent 901 t' = sent 901 t + (if out = NextAttempt then 1 else 0) \<and>
    (sent 902 t' = sent 902 t \<or> sent 902 t' = Suc (sent 902 t) \<and> n = 4 \<and> out = Return False) \<and>
    (out = NextAttempt \<longrightarrow> n < 4) \<and>
    sent 900 t' \<le> sent 900 t + (if out = NextAttempt then 0 else 1) \<and>
    (sent 900 t' = sent 900 t \<or> sent 902 t' = sent 902 t)"
proof -
  have response: "receiveResponse L acc t1 = (r, t2) \<Longrightarrow> \<forall>c. sent c t2 = sent c t1" for acc t1 r t2
    by (simp add: sent_response)
  have "\<forall>c. sent c t1 = sent c t + (if ok \<and> unat (request_code_value code) = c then 1 else 0)"
    if "client_send L (buildCrcStatus (tc_clientId t) code fn) t = (ok, t1)" for code fn ok t1
    using sent_send [OF that packets_nonempty(5)] assms(2) by (simp add: request_codes)
  note status = this [of CrcValid] this [of CrcInvalidRetry] this [of CrcInvalidAbort]
  show ?thesis
    using assms(1,3)
    by (auto simp: verdict_def MAX_CRC_ATTEMPTS_def split: if_splits prod.splits bool.splits option.splits
        dest!: response status)
qed

lemma attempt_counts:
  assumes "transfer_attempt L fd n t = (out, t')" and "uuid_ok (tc_clientId t)" and "n \<le> 4"
  shows "sent 828 t' \<le> sent 828 t + 1 \<and>
    (out = NextAttempt \<longrightarrow> n < 4 \<and> sent 828 t' = sent 828 t + 1) \<and>
    sent 901 t' = sent 901 t + (if out = NextAttempt then 1 else 0) \<and>
    (sent 902 t' = sent 902 t \<or> sent 902 t' = Suc (sent 902 t) \<and> n = 4 \<and> out = Return False) \<and>
    (sent 902 t' \<noteq> sent 902 t \<longrightarrow> sent 828 t' = sent 828 t + 1) \<and>
    sent 900 t' \<le> sent 900 t + (if out = NextAttempt then 0 else 1) \<and>
    (sent 900 t' = sent 900 t \<or> sent 902 t' = sent 902 t)"
proof -
  obtain ok t1 where s: "client_send L (file_packet fd (tc_clientId t)) t = (ok, t1)" by fastforce
  have c1: "sent c t1 = sent c t + (if ok \<and> 828 = c then 1 else 0)" for c
    using sent_send [OF s, of c] assms(2) by (auto simp: file_packet_def packets_nonempty request_codes)
  obtain r t2 where r: "receiveResponse L [FileReceivedWithCrc] t1 = (r, t2)" by fastforce
  have c2: "sent c t2 = sent c t1" for c using sent_response [OF r] .
  have id: "tc_clientId t2 = tc_clientId t"
    using only_clientD(3) [OF only_client_response [OF r]] only_clientD(3) [OF only_client_send [OF s]] by simp
  consider (stop) "out = Return False" "t' = t1 \<or> t' = t2"
    | (verdict) crc where "ok" "verdict L fd n crc t2 = (out, t')"
    using assms(1) s r by (auto simp: transfer_attempt_def file_packet_def split: bool.splits option.splits)
  then show ?thesis
  proof cases
    case stop
    then show ?thesis using c1 c2 by auto
  next
    case (verdict crc)
    then show ?thesis
      using verdict_counts [OF verdict(2) _ assms(3)] c1 c2 id assms(2) by auto
  qed
qed

lemma loop_counts:
  "transfer_loop L fd n t = (ok, t') \<Longrightarrow> uuid_ok (tc_clientId t) \<Longrightarrow> 1 \<le> n \<Longrightarrow> n \<le> 4 \<Longrightarrow>
   sent 828 t' + n \<le> sent 828 t + 5 \<and> sent 901 t' + n \<le> sent 901 t + 4 \<and>
   sent 900 t' + sent 902 t' \<le> sent 900 t + sent 902 t + 1 \<and>
   (sent 902 t' \<noteq> sent 902 t \<longrightarrow> \<not> ok \<and> sent 828 t' + n = sent 828 t + 5)"
proof (induction L fd n t rule: transfer_loop.induct)
  case (1 L fd n t)
  obtain out t1 where a: "transfer_attempt L fd n t = (out, t1)" by fastforce
  note c = attempt_counts [OF a 1(3,5)]
  show ?case
  proof (cases out)
    case (Return r)
    then have "t' = t1" "ok = r"
      using 1(2,5) a by (auto simp: transfer_loop.simps [of L fd n] MAX_CRC_ATTEMPTS_def)
    then show ?thesis using c Return 1(4,5) by (auto split: if_splits)
  next
    case NextAttempt
    have rest: "transfer_loop L fd (Suc n) t1 = (ok, t')"
      using 1(2,5) a NextAttempt by (simp add: transfer_loop.simps [of L fd n] MAX_CRC_ATTEMPTS_def)
    have "uuid_ok (tc_clientId t1)" using 1(3) only_clientD(3) [OF only_client_attempt [OF a]] by simp
    then show ?thesis
      using 1(1) [OF _ a [symmetric] NextAttempt rest] 1(4,5) c NextAttempt
      by (auto simp: MAX_CRC_ATTEMPTS_def)
  qed
qed

section \<open>A cooperating server\<close>

text \<open>An answer to a file packet that reports the right size and the checksum \<open>ck\<close>.\<close>

definition crc_answer :: "encrypted_file_data \<Rightarrow> bytes \<Rightarrow> u32 \<Rightarrow> server_response \<Rightarrow> bool" where
  "crc_answer fd i ck r \<longleftrightarrow>
     valid_response [FileReceivedWithCrc] i r \<and>
     (case parseFileCrcPayload (sr_payload r) of
        None \<Rightarrow> False
      | Some crc \<Rightarrow> unat (fc_contentSize crc) = length (ef_encryptedContent fd) \<and> fc_cksum crc = ck)"

lemma reads_simps [simp]:
  "lib_asio L = script_asio \<Longrightarrow> online L (reads bss rest t) = online L t" "incoming (reads bss rest t) = rest"
  "tc_clientId (reads bss rest t) = tc_clientId t" "sent c (reads bss rest t) = sent c t"
proof -
  show "sent c (reads bss rest t) = sent c t"
    by (simp add: reads_def) (induction bss, simp_all)
qed (simp_all add: online_def incoming_def reads_def script_asio_def)

lemma script_client_send:
  assumes "lib_asio L = script_asio" and "online L t" and "d \<noteq> []"
  obtains t1 where "client_send L d t = (True, t1)" and "online L t1" and "incoming t1 = incoming t"
    and "tc_clientId t1 = tc_clientId t" and "\<And>c. sent c t1 = sent c t + (if snd (request_of d) = c then 1 else 0)"
proof -
  let ?t1 = "t\<lparr>tc_client := (tc_client t)\<lparr>nc_trace := trace t @ [Sent d]\<rparr>\<rparr>"
  have "client_send L d t = (True, ?t1)"
    using assms script_send [of "tc_client t" d] by (simp add: client_send_def online_def script_asio_def)
  then show ?thesis
    using assms by (intro that [of ?t1]) (simp_all add: online_def incoming_def)
qed

lemma script_receive_reply:
  assumes "lib_asio L = script_asio" and "online L t" and "valid_response acc (tc_clientId t) r"
    and "incoming t = encode_response r @ rest"
  obtains t1 where "receiveResponse L acc t = (Some r, t1)" and "online L t1" and "incoming t1 = rest"
    and "tc_clientId t1 = tc_clientId t" and "\<And>c. sent c t1 = sent c t"
  using script_response [OF assms] assms(1,2) by (auto intro: that)

lemma script_attempt:
  assumes script: "lib_asio L = script_asio" and on: "online L t" and id: "uuid_ok (tc_clientId t)"
    and ans: "crc_answer fd (tc_clientId t) ck r" and inc: "incoming t = encode_response r @ rest" 
    and nxt: "if ck = ef_crc fd \<or> n = 4 then valid_response [MessageConfirmed] (tc_clientId t) ack \<and> rest = encode_response ack @ rest'
       else n < 4 \<and> rest' = rest"
  obtains t1 where "transfer_attempt L fd n t =
      (if ck = ef_crc fd then Return True else if n < 4 then NextAttempt else Return False, t1)"
    and "online L t1" and "incoming t1 = rest'" and "tc_clientId t1 = tc_clientId t"
    and "sent 828 t1 = Suc (sent 828 t)"
proof -
  let ?file = "buildSendFile (tc_clientId t) (ef_origFileSize fd) 1 1 (ef_fileName fd) (ef_encryptedContent fd)"
  obtain t1 where t1: "client_send L ?file t = (True, t1)" "online L t1" "incoming t1 = incoming t"
    "tc_clientId t1 = tc_clientId t" "sent 828 t1 = Suc (sent 828 t)"
    by (rule script_client_send [OF script on, of ?file]) (auto simp: request_codes id packets_nonempty)
  obtain t2 where t2: "receiveResponse L [FileReceivedWithCrc] t1 = (Some r, t2)" "online L t2" "incoming t2 = rest"
    "tc_clientId t2 = tc_clientId t" "sent 828 t2 = Suc (sent 828 t)"
    by (rule script_receive_reply [OF script t1(2), of "[FileReceivedWithCrc]" r rest])
      (use ans inc t1 in \<open>auto simp: crc_answer_def\<close>)
  obtain crc where crc: "parseFileCrcPayload (sr_payload r) = Some crc"
    "unat (fc_contentSize crc) = length (ef_encryptedContent fd)" "fc_cksum crc = ck"
    using ans by (auto simp: crc_answer_def split: option.splits)
  define code where "code = (if ck = ef_crc fd then CrcValid else if n < 4 then CrcInvalidRetry else CrcInvalidAbort)"
  obtain t3 where t3: "client_send L (buildCrcStatus (tc_clientId t) code (ef_fileName fd)) t2 = (True, t3)"
    "online L t3" "incoming t3 = rest" "tc_clientId t3 = tc_clientId t" "sent 828 t3 = Suc (sent 828 t)"
    by (rule script_client_send [OF script t2(2), of "buildCrcStatus (tc_clientId t) code (ef_fileName fd)"])
      (use t2 id in \<open>auto simp: request_codes code_def packets_nonempty\<close>)
  show ?thesis
  proof (cases "ck = ef_crc fd \<or> n = 4")
    case True
    obtain t4 where t4: "receiveResponse L [MessageConfirmed] t3 = (Some ack, t4)" "online L t4" "incoming t4 = rest'"
      "tc_clientId t4 = tc_clientId t" "sent 828 t4 = Suc (sent 828 t)"
      by (rule script_receive_reply [OF script t3(2), of "[MessageConfirmed]" ack rest'])
        (use True nxt t3 in auto)
    show ?thesis
      using t1 t2 t3 t4 crc True
      by (intro that [of t4]) (auto simp: transfer_attempt_def verdict_def code_def MAX_CRC_ATTEMPTS_def)
  next
    case False
    then show ?thesis
      using t1 t2 t3 crc nxt
      by (intro that [of t3]) (auto simp: transfer_attempt_def verdict_def code_def MAX_CRC_ATTEMPTS_def)
  qed
qed

lemma script_retries:
  "lib_asio L = script_asio \<Longrightarrow> online L t \<Longrightarrow> uuid_ok (tc_clientId t) \<Longrightarrow>
   list_all (\<lambda>r. \<exists>ck. ck \<noteq> ef_crc fd \<and> crc_answer fd (tc_clientId t) ck r) bads \<Longrightarrow> n + length bads \<le> 4 \<Longrightarrow>
   incoming t = concat (map encode_response bads) @ rest \<Longrightarrow>
   \<exists>t'. transfer_loop L fd n t = transfer_loop L fd (n + length bads) t' \<and> online L t' \<and> incoming t' = rest \<and>
     tc_clientId t' = tc_clientId t \<and> sent 828 t' = sent 828 t + length bads"
proof (induction bads arbitrary: n t)
  case (Cons r bads)
  then obtain ck where ck: "ck \<noteq> ef_crc fd" "crc_answer fd (tc_clientId t) ck r" by auto
  obtain t1 where t1: "transfer_attempt L fd n t = (NextAttempt, t1)" "online L t1"
    "incoming t1 = concat (map encode_response bads) @ rest" "tc_clientId t1 = tc_clientId t"
    "sent 828 t1 = Suc (sent 828 t)"
    by (rule script_attempt [OF Cons.prems(1,2,3) ck(2),
          of "concat (map encode_response bads) @ rest" n _ "concat (map encode_response bads) @ rest"])
      (use ck(1) Cons.prems(5,6) in auto)
  have "transfer_loop L fd n t = transfer_loop L fd (Suc n) t1"
    using t1(1) Cons.prems(5) by (simp add: transfer_loop.simps [of L fd n] MAX_CRC_ATTEMPTS_def)
  moreover have "\<exists>t'. transfer_loop L fd (Suc n) t1 = transfer_loop L fd (Suc n + length bads) t' \<and> online L t' \<and>
      incoming t' = rest \<and> tc_clientId t' = tc_clientId t1 \<and> sent 828 t' = sent 828 t1 + length bads"
    using Cons.prems t1 by (intro Cons.IH) auto
  ultimately show ?case using t1(4,5) by auto
qed auto

lemma script_final:
  assumes "lib_asio L = script_asio" and "online L t" and "uuid_ok (tc_clientId t)" and "n \<le> 4"
    and "crc_answer fd (tc_clientId t) ck r" and "ck = ef_crc fd \<or> n = 4"
    and "valid_response [MessageConfirmed] (tc_clientId t) ack"
    and "incoming t = encode_response r @ encode_response ack @ rest"
  shows "\<exists>t'. transfer_loop L fd n t = (ck = ef_crc fd, t') \<and> online L t' \<and> incoming t' = rest \<and> sent 828 t' = Suc (sent 828 t)"
proof -
  obtain t1 where "transfer_attempt L fd n t = (Return (ck = ef_crc fd), t1)" "online L t1" "incoming t1 = rest"
    "sent 828 t1 = Suc (sent 828 t)"
    by (rule script_attempt [OF assms(1,2,3,5,8), of n ack rest]) (use assms(6,7) in auto)
  then show ?thesis
    using assms(4) by (simp add: transfer_loop.simps [of L fd n] MAX_CRC_ATTEMPTS_def)
qed

lemma script_decided:
  assumes "lib_asio L = script_asio" and "online L t" and "uuid_ok (tc_clientId t)" and "length bads \<le> 3"
    and "list_all (\<lambda>r. \<exists>ck. ck \<noteq> ef_crc fd \<and> crc_answer fd (tc_clientId t) ck r) bads"
    and "crc_answer fd (tc_clientId t) ck final" and "ck = ef_crc fd \<or> length bads = 3"
    and "valid_response [MessageConfirmed] (tc_clientId t) ack"
    and "incoming t = concat (map encode_response bads) @ encode_response final @ encode_response ack @ rest"
  shows "\<exists>t'. transferAndVerify L fd t = (ck = ef_crc fd, t') \<and> online L t' \<and> incoming t' = rest \<and>
    sent 828 t' = sent 828 t + length bads + 1"
proof -
  obtain t1 where t1: "transfer_loop L fd 1 t = transfer_loop L fd (1 + length bads) t1" "online L t1"
    "incoming t1 = encode_response final @ encode_response ack @ rest" "tc_clientId t1 = tc_clientId t"
    "sent 828 t1 = sent 828 t + length bads"
    using script_retries [OF assms(1,2,3,5) _ assms(9), of 1] assms(4) by auto
  then show ?thesis
    using script_final [OF assms(1) t1(2), of "1 + length bads" fd ck final ack rest] assms
    by (auto simp: transferAndVerify_def)
qed

text \<open>The responses of a server that received the file \<open>fd\<close>, and a client for the witnesses.\<close>

definition crc_response :: "encrypted_file_data \<Rightarrow> bytes \<Rightarrow> u32 \<Rightarrow> server_response" where
  "crc_response fd i ck =
     \<lparr>sr_header = \<lparr>rs_version = 3, rs_code = FileReceivedWithCrc, rs_payloadSize = 279\<rparr>,
      sr_payload = encode_file_crc
        \<lparr>fc_clientId = i, fc_contentSize = word_of_nat (length (ef_encryptedContent fd)),
         fc_fileName = ef_fileName fd, fc_cksum = ck\<rparr>\<rparr>"

lemma crc_answer_response:
  assumes "uuid_ok i" and "length (ef_encryptedContent fd) < 2 ^ 32"
    and "length (ef_fileName fd) \<le> 255" and "NUL \<notin> set (ef_fileName fd)"
  shows "crc_answer fd i ck (crc_response fd i ck)"
proof -
  let ?r = "\<lparr>fc_clientId = i, fc_contentSize = word_of_nat (length (ef_encryptedContent fd)),
         fc_fileName = ef_fileName fd, fc_cksum = ck\<rparr>"
  have len: "length (encode_file_crc ?r) = 279" using assms(1) by (simp add: length_encode_file_crc)
  have "take 16 (encode_file_crc ?r) = i"
    using assms(1) by (simp add: encode_file_crc_def uuid_ok_def protocol_sizes)
  moreover have "parseFileCrcPayload (encode_file_crc ?r) = Some ?r"
    using parse_encode_file_crc [of ?r "[]"] assms by (simp add: file_crc_ok_def)
  moreover have "encode_file_crc ?r \<noteq> []" using len by auto
  ultimately show ?thesis
    using len unat_u32_of_nat [OF assms(2)]
    by (simp add: crc_answer_def valid_response_def crc_response_def listed_def echoes_def protocol_sizes)
qed

definition sample_file :: encrypted_file_data where
  "sample_file = \<lparr>ef_fileName = ''a.txt'', ef_origFileSize = 5, ef_crc = 7,
     ef_encryptedContent = replicate 16 1\<rparr>"

definition sample_answer :: "u32 \<Rightarrow> server_response" where
  "sample_answer ck = crc_response sample_file (replicate 16 0) ck"

lemma sample_answers: "crc_answer sample_file (replicate 16 0) ck (sample_answer ck)"
  unfolding sample_answer_def
  by (rule crc_answer_response) (simp_all add: sample_file_def NUL_def)

lemma ef_crc_sample_file [simp]: "ef_crc sample_file = 7"
  by (simp add: sample_file_def)

lemma sample_answers_7: "crc_answer sample_file (replicate 16 0) (ef_crc sample_file) (sample_answer 7)"
  using sample_answers [of 7] by simp

definition good_script :: bytes where
  "good_script = concat (map encode_response [sample_answer 8, sample_answer 9]) @
     encode_response (sample_answer 7) @ encode_response sample_ack @ [42]"

definition bad_script :: bytes where
  "bad_script = concat (map encode_response ([sample_answer 8, sample_answer 9, sample_answer 8] @ [sample_answer 1])) @
     encode_response sample_ack @ [42]"

lemma good_script_succeeds:
  "\<exists>t'. transferAndVerify sample_libs sample_file (sample_client good_script) = (True, t')"
  using script_decided [of sample_libs "sample_client good_script" "[sample_answer 8, sample_answer 9]"
      sample_file "ef_crc sample_file" "sample_answer 7" sample_ack "[42]"]
    sample_answers [of 8] sample_answers [of 9] sample_answers_7 sample_ack_valid
  by (force simp: good_script_def)

section \<open>Properties of a transfer\<close>

text \<open>
  C8. Success means verified. When \<open>transferAndVerify\<close> returns true, the events since its call are a
  log of this form: the file packet of this file with this client's ID, a valid 1603 response with that ID,
  the encrypted size that was sent and a checksum; as long as the checksum differs
  from the local one, a retry request and the next round, of at most four; then, in the round in
  which it equals the local checksum, the confirmation (900) and a valid acknowledgment (1604).
\<close>

theorem transfer_success_verified:
  assumes "transferAndVerify L fd t = (True, t')"
  shows "\<exists>evs. trace t' = trace t @ evs \<and> file_log fd (tc_clientId t) 1 evs"
  using assms unfolding transferAndVerify_def by (rule loop_log)

theorem transfer_success_verified_witness:
  "\<exists>t' evs. transferAndVerify sample_libs sample_file (sample_client good_script) = (True, t') \<and>
     trace t' = trace (sample_client good_script) @ evs \<and>
     file_log sample_file (tc_clientId (sample_client good_script)) 1 evs"
  using good_script_succeeds transfer_success_verified by blast

text \<open>
  C17. Transmissions are bounded. One call of \<open>transferAndVerify\<close> transmits the file at most four times and asks for a
  retry at most three times; it sends at most one verdict among 900 and 902; and it sends
  the abort only after exactly four transmissions, returning false.
\<close>

theorem transfer_attempts_bounded:
  assumes "uuid_ok (tc_clientId t)"
  shows "case transferAndVerify L fd t of (ok, t') \<Rightarrow>
    sent 828 t' \<le> sent 828 t + 4 \<and> sent 901 t' \<le> sent 901 t + 3 \<and>
    sent 900 t' + sent 902 t' \<le> sent 900 t + sent 902 t + 1 \<and>
    (if sent 902 t' = sent 902 t then True else \<not> ok \<and> sent 828 t' = sent 828 t + 4)"
proof (cases "transferAndVerify L fd t")
  case (Pair ok t')
  then show ?thesis
    using loop_counts [of L fd 1 t ok t'] assms by (auto simp: transferAndVerify_def)
qed

theorem transfer_attempts_bounded_witness:
  "case transferAndVerify sample_libs sample_file (sample_client bad_script) of (ok, t') \<Rightarrow>
    sent 828 t' \<le> sent 828 (sample_client bad_script) + 4 \<and> sent 901 t' \<le> sent 901 (sample_client bad_script) + 3 \<and>
    sent 900 t' + sent 902 t' \<le> sent 900 (sample_client bad_script) + sent 902 (sample_client bad_script) + 1 \<and>
    (if sent 902 t' = sent 902 (sample_client bad_script) then True
     else \<not> ok \<and> sent 828 t' = sent 828 (sample_client bad_script) + 4)"
  by (rule transfer_attempts_bounded) simp

text \<open>
  C19. A transfer is decided by the fourth checksum at the latest. Let the server, within the protocol, report a wrong checksum
  up to three times, then a last checksum that is right or the fourth, and acknowledge the client's
  verdict. Then \<open>transferAndVerify\<close> returns whether the last checksum was right, after one
  transmission for each reported checksum, and has read exactly these responses.
\<close>

theorem transfer_decided:
  assumes "lib_asio L = script_asio" and "online L t" and "uuid_ok (tc_clientId t)" and "length bads \<le> 3"
    and "list_all (\<lambda>r. \<exists>ck. ck \<noteq> ef_crc fd \<and> crc_answer fd (tc_clientId t) ck r) bads"
    and "crc_answer fd (tc_clientId t) ck final" and "ck = ef_crc fd \<or> length bads = 3"
    and "valid_response [MessageConfirmed] (tc_clientId t) ack"
    and "incoming t = concat (map encode_response bads) @ encode_response final @ encode_response ack @ rest"
  shows "\<exists>t'. transferAndVerify L fd t = (ck = ef_crc fd, t') \<and> incoming t' = rest \<and>
    sent 828 t' = sent 828 t + length bads + 1"
  using script_decided [OF assms] by blast

theorem transfer_decided_witness:
  "(\<exists>t'. transferAndVerify sample_libs sample_file (sample_client good_script) = (True, t') \<and> incoming t' = [42] \<and>
     sent 828 t' = sent 828 (sample_client good_script) + 3) \<and>
   (\<exists>t'. transferAndVerify sample_libs sample_file (sample_client bad_script) = (False, t') \<and> incoming t' = [42] \<and>
     sent 828 t' = sent 828 (sample_client bad_script) + 4)"
proof
  show "\<exists>t'. transferAndVerify sample_libs sample_file (sample_client good_script) = (True, t') \<and> incoming t' = [42] \<and>
      sent 828 t' = sent 828 (sample_client good_script) + 3"
    using transfer_decided [of sample_libs "sample_client good_script" "[sample_answer 8, sample_answer 9]"
        sample_file 7 "sample_answer 7" sample_ack "[42]"]
      sample_answers [of 7] sample_answers [of 8] sample_answers [of 9] sample_ack_valid
    by (force simp: good_script_def)
  show "\<exists>t'. transferAndVerify sample_libs sample_file (sample_client bad_script) = (False, t') \<and> incoming t' = [42] \<and>
      sent 828 t' = sent 828 (sample_client bad_script) + 4"
    using transfer_decided [of sample_libs "sample_client bad_script" "[sample_answer 8, sample_answer 9, sample_answer 8]"
        sample_file 1 "sample_answer 1" sample_ack "[42]"]
      sample_answers [of 1] sample_answers [of 8] sample_answers [of 9] sample_ack_valid
    by (force simp: bad_script_def)
qed

end
