(* ===== verification/AuthProperties.thy ===== *)
theory AuthProperties
  imports TransferProperties
begin

text \<open>
  What authentication guarantees: stored credentials are tried first and given up only when they are
  unusable or the server refuses them, registration happens only then, and the identity
  registered in one session is the identity of the next.
\<close>

section \<open>Reconnection\<close>

definition reconnect_packet :: "client_info \<Rightarrow> bytes" where
  "reconnect_packet info = buildReconnect (ci_uuid info) (ci_name info)"

lemma request_reconnect_effect:
  assumes "requestReconnect L False t = ((ok, needs), t')"
  shows "if needs
    then \<not> ok \<and> tc_disk t' = removeClientInfo (tc_disk t) (tc_config t) \<and>
      (\<exists>hb p. reply ReconnectRejected (ci_uuid (cm_clientInfo (tc_config t))) hb p \<and>
        trace t' = trace t @ [Sent (reconnect_packet (cm_clientInfo (tc_config t))), Received hb, Received p])
    else tc_disk t' = tc_disk t"
proof -
  let ?info = "cm_clientInfo (tc_config t)"
  let ?t = "t\<lparr>tc_clientId := ci_uuid ?info\<rparr>"
  obtain sent1 t1 where s: "client_send L (buildReconnect (ci_uuid ?info) (ci_name ?info)) ?t = (sent1, t1)" by fastforce
  obtain resp t2 where r: "receiveResponse L [ReconnectApproved, ReconnectRejected] t1 = (resp, t2)" by fastforce
  have o: "only_client ?t t1" "only_client t1 t2"
    using only_client_send [OF s] only_client_response [OF r] by auto
  have keep: "tc_disk t1 = tc_disk t" "tc_disk t2 = tc_disk t" "tc_config t2 = tc_config t" "tc_clientId t1 = ci_uuid ?info"
    using only_clientD [OF o(1)] only_clientD [OF o(2)] by auto
  have rejected: "\<exists>hb p. reply ReconnectRejected (ci_uuid ?info) hb p \<and>
      trace t2 = trace t @ [Sent (reconnect_packet ?info), Received hb, Received p]"
    if asm: "sent1" "resp = Some m" "rs_code (sr_header m) = ReconnectRejected" for m
  proof -
    have "trace t1 = trace t @ [Sent (reconnect_packet ?info)]"
      using sent_trace [of L _ ?t t1] s asm(1) by (auto simp: reconnect_packet_def packets_nonempty)
    moreover have r': "receiveResponse L [ReconnectApproved, ReconnectRejected] t1 = (Some m, t2)"
      using r asm(2) by simp
    obtain hb where "parseHeader hb = Some (sr_header m)"
      "expectedPayloadSize ReconnectRejected = Some (length (sr_payload m))"
      "trace t2 = trace t1 @ [Received hb] @ (if sr_payload m = [] then [] else [Received (sr_payload m)])"
      by (rule receiveResponse_Some [OF r']) (use that asm in auto)
    ultimately show ?thesis
      using asm(3) by (auto simp: reply_def echoes_def protocol_sizes)
  qed
  show ?thesis
    using assms s r keep rejected
    by (auto simp: requestReconnect_def Let_def split: bool.splits option.splits prod.splits if_splits)
qed

text \<open>Are the stored credentials usable? What is loaded before the reconnect request.\<close>

definition stored_key :: "fs \<Rightarrow> config_manager \<Rightarrow> string" where
  "stored_key d c =
     (case loadPrivateKey d c of
        Some key \<Rightarrow> key
      | None \<Rightarrow> ci_privateKeyBase64 (cm_clientInfo (snd (loadClientInfo d c))))"

definition credentials_usable ::
  "('w, 'j, 'r, 'k, 'p) libs \<Rightarrow> ('w, 'r, 'k, 'p) transfer_client \<Rightarrow> bool" where
  "credentials_usable L t \<longleftrightarrow>
     fst (loadClientInfo (tc_disk t) (tc_config t)) = Inr True \<and>
     fst (loadPrivateKeyBase64 (lib_crypto L) (stored_key (tc_disk t) (tc_config t)) (tc_crypto t))"

lemma loadClientInfo_paths:
  "loadClientInfo d c = (r, c') \<Longrightarrow> cm_meInfoPath c' = cm_meInfoPath c \<and> cm_privKeyPath c' = cm_privKeyPath c"
  by (auto simp: loadClientInfo_def split: sum.splits option.splits prod.splits if_splits)

lemma loadClientInfo_unchanged: "loadClientInfo d c = (r, c') \<Longrightarrow> r \<noteq> Inr True \<Longrightarrow> c' = c"
  by (auto simp: loadClientInfo_def split: sum.splits option.splits prod.splits if_splits)

lemma removeClientInfo_paths:
  "cm_meInfoPath c' = cm_meInfoPath c \<Longrightarrow> cm_privKeyPath c' = cm_privKeyPath c \<Longrightarrow>
   removeClientInfo d c' = removeClientInfo d c"
  by (simp add: removeClientInfo_def)

lemma tryReconnect_unfold:
  "tryReconnect L needs t =
    (case loadClientInfo (tc_disk t) (tc_config t) of (l, c) \<Rightarrow>
       case l of
         Inl e \<Rightarrow> ((Inl e, needs), t\<lparr>tc_config := c\<rparr>)
       | Inr loaded \<Rightarrow>
           case (if loaded then loadPrivateKeyBase64 (lib_crypto L) (stored_key (tc_disk t) (tc_config t)) (tc_crypto t)
                 else (False, tc_crypto t)) of (ok, h) \<Rightarrow>
             if \<not> ok
             then ((Inr False, True), t\<lparr>tc_config := c, tc_crypto := h, tc_disk := removeClientInfo (tc_disk t) c\<rparr>)
             else (case requestReconnect L needs (t\<lparr>tc_config := c, tc_crypto := h\<rparr>) of
                 ((ok, needs), t) \<Rightarrow> ((Inr ok, needs), t)))"
proof -
  obtain l c where "loadClientInfo (tc_disk t) (tc_config t) = (l, c)" by fastforce
  then show ?thesis
    by (cases l; cases "loadPrivateKey (tc_disk t) (tc_config t)")
      (simp_all add: tryReconnect_def stored_key_def Let_def split: prod.split)
qed

lemma loadPrivateKeyBase64_key:
  "loadPrivateKeyBase64 C s h = (ok, h') \<Longrightarrow> ch_rng h' = ch_rng h \<and> ch_publicKey h' = ch_publicKey h"
  by (auto simp: loadPrivateKeyBase64_def split: option.splits)

lemma reconnect_effect:
  "case tryReconnect L False t of ((r, needs), t') \<Rightarrow>
     if needs
     then r = Inr False \<and> tc_disk t' = removeClientInfo (tc_disk t) (tc_config t) \<and>
       (if credentials_usable L t
        then (\<exists>hb p. trace t' = trace t @
            [Sent (reconnect_packet (cm_clientInfo (snd (loadClientInfo (tc_disk t) (tc_config t))))), Received hb, Received p] \<and>
          reply ReconnectRejected (ci_uuid (cm_clientInfo (snd (loadClientInfo (tc_disk t) (tc_config t))))) hb p)
        else tc_client t' = tc_client t)
     else tc_disk t' = tc_disk t"
proof -
  obtain l c where l: "loadClientInfo (tc_disk t) (tc_config t) = (l, c)" by fastforce
  obtain ok h where h: "loadPrivateKeyBase64 (lib_crypto L) (stored_key (tc_disk t) (tc_config t)) (tc_crypto t) = (ok, h)"
    by fastforce
  obtain r2 needs2 t2 where q: "requestReconnect L False (t\<lparr>tc_config := c, tc_crypto := h\<rparr>) = ((r2, needs2), t2)"
    by (metis prod.exhaust)
  have paths: "removeClientInfo (tc_disk t) c = removeClientInfo (tc_disk t) (tc_config t)"
    using loadClientInfo_paths [OF l] by (intro removeClientInfo_paths) auto
  show ?thesis
    using request_reconnect_effect [OF q] l h q paths
    by (cases l) (auto simp: tryReconnect_unfold credentials_usable_def)
qed

text \<open>
  C20. Stored credentials are dropped for two reasons only. When \<open>tryReconnect\<close> asks for a new
  registration, it returned false and removed \<open>me.info\<close> and \<open>priv.key\<close>, and either the stored
  credentials were unusable (\<open>me.info\<close> or the private key cannot be loaded) and nothing was sent, or the
  server answered the reconnect request for the stored identity with a valid 1606. In every other case the file
  system is untouched, so a failure of the network or an invalid answer does not cost the
  client its identity.
\<close>

theorem reconnect_keeps_credentials:
  "case tryReconnect L False t of ((r, needs), t') \<Rightarrow>
     if needs
     then r = Inr False \<and> tc_disk t' = removeClientInfo (tc_disk t) (tc_config t) \<and>
       (if credentials_usable L t
        then (\<exists>hb p. trace t' = trace t @
            [Sent (reconnect_packet (cm_clientInfo (snd (loadClientInfo (tc_disk t) (tc_config t))))), Received hb, Received p] \<and>
          reply ReconnectRejected (ci_uuid (cm_clientInfo (snd (loadClientInfo (tc_disk t) (tc_config t))))) hb p)
        else tc_client t' = tc_client t)
     else tc_disk t' = tc_disk t"
  by (rule reconnect_effect)

lemma reconnect_paths:
  assumes "tryReconnect L n t = (x, t')"
  shows "cm_meInfoPath (tc_config t') = cm_meInfoPath (tc_config t)"
    and "cm_privKeyPath (tc_config t') = cm_privKeyPath (tc_config t)"
proof -
  have req: "tc_config t2 = tc_config t1" if "requestReconnect L n t1 = (rr, t2)" for t1 rr t2
    using that by (auto simp: requestReconnect_def Let_def only_clientD
        split: bool.splits option.splits prod.splits if_splits dest!: only_client_send only_client_response)
  obtain l c where l: "loadClientInfo (tc_disk t) (tc_config t) = (l, c)" by fastforce
  show "cm_meInfoPath (tc_config t') = cm_meInfoPath (tc_config t)"
    "cm_privKeyPath (tc_config t') = cm_privKeyPath (tc_config t)"
    using assms l loadClientInfo_paths [OF l]
    by (auto simp: tryReconnect_unfold split: sum.splits if_splits prod.splits dest!: req)
qed

section \<open>Registration\<close>

lemma exchange_keys_counts:
  assumes "exchangeKeys L name t = (r, t')" and "uuid_ok (tc_clientId t)"
  shows "sent 825 t' = sent 825 t \<and> sent 827 t' = sent 827 t \<and> sent 826 t' \<le> sent 826 t + 1 \<and>
    sent 828 t' = sent 828 t \<and> tc_disk t' = tc_disk t \<and> tc_config t' = tc_config t \<and> tc_clientId t' = tc_clientId t \<and>
    ch_privateKey (tc_crypto t') = ch_privateKey (tc_crypto t)"
proof -
  let ?p = "buildPublicKeyExchange (tc_clientId t) name (getPublicKeyDER (lib_crypto L) (tc_crypto t))"
  obtain ok t1 where s: "client_send L ?p t = (ok, t1)" by fastforce
  obtain resp t2 where r: "receiveResponse L [AesKeyReceived] t1 = (resp, t2)" by fastforce
  have c: "sent c t1 = sent c t + (if ok \<and> 826 = c then 1 else 0)" "sent c t2 = sent c t1" for c
    using sent_send [OF s packets_nonempty(2), of c] sent_response [OF r, of c] assms(2)
    by (auto simp: request_codes)
  have k: "tc_disk t2 = tc_disk t" "tc_disk t1 = tc_disk t" "tc_config t1 = tc_config t" "tc_config t2 = tc_config t"
    "tc_clientId t1 = tc_clientId t" "tc_clientId t2 = tc_clientId t" "tc_crypto t1 = tc_crypto t" "tc_crypto t2 = tc_crypto t"
    using only_clientD [OF only_client_send [OF s]] only_clientD [OF only_client_response [OF r]] by auto
  have d: "ch_privateKey (snd (decryptAesKey (lib_crypto L) ct h)) = ch_privateKey h" for ct h
    by (simp add: decryptAesKey_def split: option.split prod.split)
  show ?thesis
    using assms(1) s r c k d [of _ "tc_crypto t"]
    by (auto simp: exchangeKeys_def split: bool.splits option.splits prod.splits)
      (metis snd_conv)+
qed

lemma parseClientId_ok: "parseClientIdPayload p = Some u \<Longrightarrow> uuid_ok u"
  by (auto simp: parseClientIdPayload_def uuid_ok_def split: if_splits)

lemma register_counts:
  assumes "registerAndExchangeKeys L name t = (r, t')"
  shows "sent 825 t' \<le> sent 825 t + 1 \<and> sent 827 t' = sent 827 t \<and> sent 826 t' \<le> sent 826 t + 1 \<and>
    sent 828 t' = sent 828 t"
proof -
  obtain ok t1 where s: "client_send L (buildRegistration name) t = (ok, t1)" by fastforce
  obtain resp t2 where r: "receiveResponse L [RegistrationSuccess] t1 = (resp, t2)" by fastforce
  have c: "sent c t1 = sent c t + (if ok \<and> 825 = c then 1 else 0)" "sent c t2 = sent c t1" for c
    using sent_send [OF s packets_nonempty(1), of c] sent_response [OF r, of c] by (auto simp: request_codes)
  have k: "sent 825 t4 = sent 825 t2 \<and> sent 827 t4 = sent 827 t2 \<and> sent 826 t4 \<le> sent 826 t2 + 1 \<and> sent 828 t4 = sent 828 t2"
    if "exchangeKeys L name (t2\<lparr>tc_clientId := u, tc_crypto := h, tc_disk := d\<rparr>) = (b, t4)" "uuid_ok u" for u h d b t4
    using exchange_keys_counts [OF that(1)] that(2) by simp
  show ?thesis
    using assms s r c k
    by (auto simp: registerAndExchangeKeys_def Let_def dest!: k parseClientId_ok
        split: bool.splits option.splits sum.splits prod.splits)
qed

lemma reconnect_counts:
  assumes "tryReconnect L False t = ((r, needs), t')"
  shows "sent 825 t' = sent 825 t \<and> sent 826 t' = sent 826 t \<and> sent 827 t' \<le> sent 827 t + 1 \<and> sent 828 t' = sent 828 t"
proof -
  have req: "sent 825 t2 = sent 825 t0 \<and> sent 826 t2 = sent 826 t0 \<and> sent 827 t2 \<le> sent 827 t0 + 1 \<and> sent 828 t2 = sent 828 t0"
    if q: "requestReconnect L False t0 = (rr, t2)" and u: "uuid_ok (ci_uuid (cm_clientInfo (tc_config t0)))" for t0 t2 rr
  proof -
    let ?i = "cm_clientInfo (tc_config t0)"
    obtain ok t1 where s: "client_send L (buildReconnect (ci_uuid ?i) (ci_name ?i)) (t0\<lparr>tc_clientId := ci_uuid ?i\<rparr>) = (ok, t1)"
      by fastforce
    obtain resp t3 where r: "receiveResponse L [ReconnectApproved, ReconnectRejected] t1 = (resp, t3)" by fastforce
    have "sent c t1 = sent c t0 + (if ok \<and> 827 = c then 1 else 0)" "sent c t3 = sent c t1" for c
      using sent_send [OF s packets_nonempty(3), of c] sent_response [OF r, of c] u by (auto simp: request_codes)
    then show ?thesis
      using q s r by (auto simp: requestReconnect_def Let_def split: bool.splits option.splits prod.splits if_splits)
  qed
  obtain l c where l: "loadClientInfo (tc_disk t) (tc_config t) = (l, c)" by fastforce
  have "sent 825 t2 = sent 825 t \<and> sent 826 t2 = sent 826 t \<and> sent 827 t2 \<le> sent 827 t + 1 \<and> sent 828 t2 = sent 828 t"
    if "requestReconnect L False (t\<lparr>tc_config := c, tc_crypto := h\<rparr>) = (rr, t2)" "l = Inr True" for h rr t2
    using req [OF that(1)] loadClientInfo_uuid [of "tc_disk t" "tc_config t" c] l that(2) by simp
  note this [dest!]
  show ?thesis
    using assms l by (auto simp: tryReconnect_unfold split: sum.splits if_splits prod.splits)
qed

lemma authenticate_counts:
  "case authenticate L name t of (r, t') \<Rightarrow>
     sent 825 t' \<le> sent 825 t + 1 \<and> sent 826 t' \<le> sent 826 t + 1 \<and> sent 827 t' \<le> sent 827 t + 1 \<and>
     sent 828 t' = sent 828 t \<and>
     (if sent 825 t' = sent 825 t then True
      else (case hasClientInfo (tc_disk t) (tc_config t) of
          Inl e \<Rightarrow> False
        | Inr has \<Rightarrow> if has then snd (fst (tryReconnect L False t)) else sent 827 t' = sent 827 t))"
proof -
  obtain hc where hc: "hasClientInfo (tc_disk t) (tc_config t) = hc" by simp
  obtain r1 needs t1 where q: "tryReconnect L False t = ((r1, needs), t1)" by (metis prod.exhaust)
  obtain r2 t2 where g: "registerAndExchangeKeys L name t = (r2, t2)" by fastforce
  obtain r3 t3 where g1: "registerAndExchangeKeys L name t1 = (r3, t3)" by fastforce
  show ?thesis
    using reconnect_counts [OF q] register_counts [OF g] register_counts [OF g1] hc q g g1
    by (cases hc) (auto simp: authenticate_def split: sum.splits)
qed

text \<open>
  C28. Registration is the last resort, and authentication sends at most one request of each kind. Every call of
  \<open>authenticate\<close> sends at most one 825, one 826 and one 827 and no file. It sends a registration only when
  there is no \<open>me.info\<close>, or when \<open>tryReconnect\<close> found the credentials unusable or refused.
\<close>

theorem authenticate_requests:
  "case authenticate L name t of (r, t') \<Rightarrow>
     sent 825 t' \<le> sent 825 t + 1 \<and> sent 826 t' \<le> sent 826 t + 1 \<and> sent 827 t' \<le> sent 827 t + 1 \<and>
     sent 828 t' = sent 828 t \<and>
     (if sent 825 t' = sent 825 t then True
      else (case hasClientInfo (tc_disk t) (tc_config t) of
          Inl e \<Rightarrow> False
        | Inr has \<Rightarrow> if has then snd (fst (tryReconnect L False t)) else sent 827 t' = sent 827 t))"
  by (rule authenticate_counts)

lemma register_success:
  assumes "registerAndExchangeKeys L name t = (Inr True, t')"
  obtains h d where "ch_privateKey h \<noteq> None"
    and "saveClientInfo name (tc_clientId t') (getPrivateKeyBase64 (lib_crypto L) h) (tc_disk t) (tc_config t) = (True, d)"
    and "tc_disk t' = d" and "ch_privateKey (tc_crypto t') = ch_privateKey h" and "tc_config t' = tc_config t"
    and "uuid_ok (tc_clientId t')"
proof -
  obtain t1 m t2 u h d where s: "client_send L (buildRegistration name) t = (True, t1)"
    and r: "receiveResponse L [RegistrationSuccess] t1 = (Some m, t2)"
    and u: "parseClientIdPayload (sr_payload m) = Some u"
    and h: "generateRsaKeys (lib_crypto L) (tc_crypto t2) = (Inr (), h)"
    and d: "saveClientInfo name u (getPrivateKeyBase64 (lib_crypto L) h) (tc_disk t2) (tc_config t2) = (True, d)"
    and x: "exchangeKeys L name (t2\<lparr>tc_clientId := u, tc_crypto := h, tc_disk := d\<rparr>) = (True, t')"
    using assms by (auto simp: registerAndExchangeKeys_def Let_def split: bool.splits option.splits sum.splits prod.splits)
  have k: "tc_disk t2 = tc_disk t" "tc_config t2 = tc_config t"
    using only_clientD [OF only_client_send [OF s]] only_clientD [OF only_client_response [OF r]] by auto
  have "ch_privateKey h \<noteq> None" using h by (auto simp: generateRsaKeys_def split: prod.splits option.splits)
  then show ?thesis
    using that [of h d] d k exchange_keys_counts [OF x] parseClientId_ok [OF u] by simp
qed

section \<open>A cooperating server\<close>

lemma script_frame:
  assumes "client_send L d t = (True, t1)"
  shows "tc_crypto t1 = tc_crypto t" "tc_disk t1 = tc_disk t" "tc_config t1 = tc_config t" "tc_clientId t1 = tc_clientId t"
  using only_clientD [OF only_client_send [OF assms]] by auto

lemma script_exchange_keys:
  assumes script: "lib_asio L = script_asio" and on: "online L t"
    and r: "valid_response [AesKeyReceived] (tc_clientId t) r" and inc: "incoming t = encode_response r @ rest"
  shows "\<exists>t'. exchangeKeys L name t = (True, t') \<and> online L t' \<and> incoming t' = rest \<and> tc_clientId t' = tc_clientId t \<and>
    tc_decryptedAesKey t' = fst (decryptAesKey (lib_crypto L) (drop 16 (sr_payload r)) (tc_crypto t)) \<and>
    tc_disk t' = tc_disk t \<and> tc_config t' = tc_config t"
proof -
  let ?p = "buildPublicKeyExchange (tc_clientId t) name (getPublicKeyDER (lib_crypto L) (tc_crypto t))"
  obtain t1 where t1: "client_send L ?p t = (True, t1)" "online L t1" "incoming t1 = encode_response r @ rest"
    by (rule script_client_send [OF script on, of ?p]) (use inc in \<open>auto simp: packets_nonempty\<close>)
  note k1 = script_frame [OF t1(1)]
  obtain t2 where t2: "receiveResponse L [AesKeyReceived] t1 = (Some r, t2)" "online L t2" "incoming t2 = rest"
    by (rule script_receive_reply [OF script t1(2) _ t1(3)]) (use r k1 in auto)
  note k2 = only_clientD [OF only_client_response [OF t2(1)]]
  have "length (sr_payload r) = 144" using r by (auto simp: valid_response_def protocol_sizes)
  then show ?thesis
    using t1 t2 k1 k2
    by (auto simp: exchangeKeys_def parseAesKeyPayload_def protocol_sizes online_def incoming_def split: prod.split)
qed

text \<open>A server that answers the registration and the key exchange makes both succeed.\<close>

lemma script_register:
  assumes script: "lib_asio L = script_asio" and on: "online L t"
    and keys: "generateRsaKeys (lib_crypto L) (tc_crypto t) = (Inr (), h)"
    and store: "healthy_store (tc_config t) (tc_disk t)"
    and r1: "valid_response [RegistrationSuccess] (tc_clientId t) r1"
    and r2: "valid_response [AesKeyReceived] (sr_payload r1) r2"
    and inc: "incoming t = encode_response r1 @ encode_response r2 @ rest"
  shows "\<exists>t'. registerAndExchangeKeys L name t = (Inr True, t') \<and> online L t' \<and> incoming t' = rest \<and>
    tc_clientId t' = sr_payload r1 \<and>
    tc_decryptedAesKey t' = fst (decryptAesKey (lib_crypto L) (drop 16 (sr_payload r2)) h) \<and>
    tc_config t' = tc_config t \<and>
    tc_disk t' = snd (saveClientInfo name (sr_payload r1) (getPrivateKeyBase64 (lib_crypto L) h) (tc_disk t) (tc_config t))"
proof -
  obtain t1 where t1: "client_send L (buildRegistration name) t = (True, t1)" "online L t1"
    "incoming t1 = encode_response r1 @ encode_response r2 @ rest"
    by (rule script_client_send [OF script on, of "buildRegistration name"]) (use inc in \<open>auto simp: packets_nonempty\<close>)
  note k1 = script_frame [OF t1(1)]
  obtain t2 where t2: "receiveResponse L [RegistrationSuccess] t1 = (Some r1, t2)" "online L t2"
    "incoming t2 = encode_response r2 @ rest"
    by (rule script_receive_reply [OF script t1(2) _ t1(3)]) (use r1 k1 in auto)
  note k2 = only_clientD [OF only_client_response [OF t2(1)]]
  have "length (sr_payload r1) = 16" using r1 by (auto simp: valid_response_def protocol_sizes)
  then have id: "parseClientIdPayload (sr_payload r1) = Some (sr_payload r1)"
    by (simp add: parseClientIdPayload_def protocol_sizes)
  obtain d where d: "saveClientInfo name (sr_payload r1) (getPrivateKeyBase64 (lib_crypto L) h) (tc_disk t) (tc_config t) = (True, d)"
    by (rule saveClientInfo_files [OF store])
  let ?t3 = "t2\<lparr>tc_clientId := sr_payload r1, tc_crypto := h, tc_disk := d\<rparr>"
  have "online L ?t3" "incoming ?t3 = encode_response r2 @ rest"
    using t2 by (simp_all add: online_def incoming_def)
  from script_exchange_keys [OF script this(1) _ this(2)] r2 obtain t4 where
    "exchangeKeys L name ?t3 = (True, t4)" "online L t4" "incoming t4 = rest" "tc_clientId t4 = sr_payload r1"
    "tc_decryptedAesKey t4 = fst (decryptAesKey (lib_crypto L) (drop 16 (sr_payload r2)) h)"
    "tc_disk t4 = d" "tc_config t4 = tc_config t2"
    by fastforce
  then show ?thesis
    using t1 t2 k1 k2 id keys d by (auto simp: registerAndExchangeKeys_def Let_def)
qed

text \<open>Responses for the witnesses.\<close>

definition sample_registered :: server_response where
  "sample_registered = \<lparr>sr_header = \<lparr>rs_version = 3, rs_code = RegistrationSuccess, rs_payloadSize = 16\<rparr>,
     sr_payload = replicate 16 7\<rparr>"

definition sample_key :: server_response where
  "sample_key = \<lparr>sr_header = \<lparr>rs_version = 3, rs_code = AesKeyReceived, rs_payloadSize = 144\<rparr>,
     sr_payload = replicate 16 7 @ replicate 128 5\<rparr>"

definition register_script :: bytes where
  "register_script = encode_response sample_registered @ encode_response sample_key"

lemma sample_registered_valid: "valid_response [RegistrationSuccess] i sample_registered"
  by (simp add: valid_response_def sample_registered_def echoes_def listed_def protocol_sizes)

lemma sample_key_valid: "valid_response [AesKeyReceived] (sr_payload sample_registered) sample_key"
  by (simp add: valid_response_def sample_registered_def sample_key_def echoes_def listed_def protocol_sizes)

lemma sample_client_store [simp]:
  "tc_config (sample_client bs) = default_config" "tc_disk (sample_client bs) = empty_fs Windows"
  "tc_crypto (sample_client bs) = newCryptoHelper 65"
  by (simp_all add: sample_client_def newTransferClient_def)

definition sample_keys :: "(nat, bool, byte) crypto_helper" where
  "sample_keys = \<lparr>ch_rng = 66, ch_privateKey = Some True, ch_publicKey = Some 65\<rparr>"

lemma sample_keys:
  "generateRsaKeys (lib_crypto sample_libs) (tc_crypto (sample_client bs)) = (Inr (), sample_keys)"
  by (simp add: generateRsaKeys_def toy_crypto_def newCryptoHelper_def sample_keys_def)

text \<open>The Base64 text of a private key is one line, as the comment in \<open>CryptoHelper.h\<close> says.\<close>

definition key_text_law :: "('r, 'k, 'p) crypto_api \<Rightarrow> bool" where
  "key_text_law C \<longleftrightarrow> (\<forall>k. plain_line (cp_base64_encode C (cp_save_private C k)) \<and>
     cp_base64_encode C (cp_save_private C k) \<noteq> [])"

lemma toy_key_text [simp]: "key_text_law toy_crypto"
  by (simp add: key_text_law_def toy_crypto_def plain_line_def LF_def CTRL_Z_def)

lemma register_script_runs:
  "\<exists>t'. registerAndExchangeKeys sample_libs ''Ann'' (sample_client register_script) = (Inr True, t')"
  using script_register [OF _ _ sample_keys [of register_script] _ sample_registered_valid sample_key_valid, of "[]" "''Ann''"]
  by (auto simp: register_script_def)

section \<open>From one session to the next\<close>

lemma healthy_store_paths:
  "cm_meInfoPath c' = cm_meInfoPath c \<Longrightarrow> cm_privKeyPath c' = cm_privKeyPath c \<Longrightarrow>
   healthy_store c' d = healthy_store c d"
  by (simp add: healthy_store_def)

lemma saveClientInfo_paths:
  "cm_meInfoPath c' = cm_meInfoPath c \<Longrightarrow> cm_privKeyPath c' = cm_privKeyPath c \<Longrightarrow>
   saveClientInfo name u key d c' = saveClientInfo name u key d c"
  by (simp add: saveClientInfo_def Let_def split: option.split)

text \<open>
  C21. The identity registered in one session is used by the next. After a successful registration on a healthy file
  system with a name that fits a line, a later session on the resulting files finds the credentials, can
  use them, and its \<open>tryReconnect\<close> goes on to the reconnect request with exactly the name, the client ID
  assigned by the server and the private key generated in the first session.
\<close>

theorem registered_identity_reconnects:
  assumes reg: "registerAndExchangeKeys L name t0 = (Inr True, t)"
    and store: "healthy_store (tc_config t0) (tc_disk t0)" and name: "plain_line name"
    and laws: "key_export_law (lib_crypto L)" "key_text_law (lib_crypto L)"
    and later: "tc_disk s = tc_disk t" "cm_meInfoPath (tc_config s) = cm_meInfoPath (tc_config t0)"
      "cm_privKeyPath (tc_config s) = cm_privKeyPath (tc_config t0)"
  shows "hasClientInfo (tc_disk s) (tc_config s) = Inr True \<and>
    tryReconnect L False s =
      (case requestReconnect L False
          (s\<lparr>tc_config := (tc_config s)\<lparr>cm_clientInfo :=
               \<lparr>ci_name = name, ci_uuid = tc_clientId t,
                ci_privateKeyBase64 = getPrivateKeyBase64 (lib_crypto L) (tc_crypto t)\<rparr>\<rparr>,
             tc_crypto := (tc_crypto s)\<lparr>ch_privateKey := ch_privateKey (tc_crypto t)\<rparr>\<rparr>) of
        ((ok, needs), t') \<Rightarrow> ((Inr ok, needs), t'))"
proof -
  let ?C = "lib_crypto L"
  from reg obtain h d where h: "ch_privateKey h \<noteq> None"
    and save: "saveClientInfo name (tc_clientId t) (getPrivateKeyBase64 ?C h) (tc_disk t0) (tc_config t0) = (True, d)"
    and t: "tc_disk t = d" "ch_privateKey (tc_crypto t) = ch_privateKey h" "uuid_ok (tc_clientId t)"
    by (rule register_success)
  obtain k where k: "ch_privateKey h = Some k" using h by auto
  let ?key = "cp_base64_encode ?C (cp_save_private ?C k)"
  have key: "getPrivateKeyBase64 ?C h = ?key" "getPrivateKeyBase64 ?C (tc_crypto t) = ?key"
    using k t(2) by (simp_all add: getPrivateKeyBase64_def)
  have store': "healthy_store (tc_config s) (tc_disk t0)"
    using store healthy_store_paths [OF later(2,3)] by simp
  have save': "saveClientInfo name (tc_clientId t) ?key (tc_disk t0) (tc_config s) = (True, d)"
    using save saveClientInfo_paths [OF later(2,3)] key(1) by simp
  have saved: "loadClientInfo d (tc_config s) = (Inr True, (tc_config s)\<lparr>cm_clientInfo :=
       \<lparr>ci_name = name, ci_uuid = tc_clientId t, ci_privateKeyBase64 = ?key\<rparr>\<rparr>)"
    "loadPrivateKey d (tc_config s) = Some ?key" "hasClientInfo d (tc_config s) = Inr True"
    using saved_credentials [OF store' name, of ?key "tc_clientId t"] laws(2) t(3) save'
    by (auto simp: key_text_law_def)
  have "loadPrivateKeyBase64 ?C ?key (tc_crypto s) = (True, (tc_crypto s)\<lparr>ch_privateKey := Some k\<rparr>)"
    using laws(1) by (simp add: loadPrivateKeyBase64_def key_export_law_def)
  then show ?thesis
    using saved later(1) t(1,2) k key(2) by (simp add: tryReconnect_unfold stored_key_def)
qed

theorem registered_identity_reconnects_witness:
  "\<exists>t. registerAndExchangeKeys sample_libs ''Ann'' (sample_client register_script) = (Inr True, t) \<and>
    hasClientInfo (tc_disk t) default_config = Inr True \<and>
    tryReconnect sample_libs False ((sample_client [])\<lparr>tc_disk := tc_disk t\<rparr>) =
      (case requestReconnect sample_libs False
          ((sample_client [])\<lparr>tc_disk := tc_disk t,
             tc_config := default_config\<lparr>cm_clientInfo :=
               \<lparr>ci_name = ''Ann'', ci_uuid = tc_clientId t,
                ci_privateKeyBase64 = getPrivateKeyBase64 toy_crypto (tc_crypto t)\<rparr>\<rparr>,
             tc_crypto := (newCryptoHelper 65)\<lparr>ch_privateKey := ch_privateKey (tc_crypto t)\<rparr>\<rparr>) of
        ((ok, needs), t') \<Rightarrow> ((Inr ok, needs), t'))"
proof -
  obtain t where t: "registerAndExchangeKeys sample_libs ''Ann'' (sample_client register_script) = (Inr True, t)"
    using register_script_runs by blast
  show ?thesis
    using registered_identity_reconnects [OF t, of "(sample_client [])\<lparr>tc_disk := tc_disk t\<rparr>"] t
    by (simp add: plain_line_def LF_def CTRL_Z_def)
qed

section \<open>A stale private key\<close>

text \<open>
  C37. After a half-finished save, a readable old \<open>priv.key\<close> shadows the new key. If \<open>priv.key\<close> holds an earlier key and cannot be
  opened for writing, \<open>saveClientInfo\<close> leaves \<open>me.info\<close> with the new identity and the new key, but what
  the next session loads as the private key is the old one from \<open>priv.key\<close>.
\<close>

theorem stale_private_key_preferred:
  assumes "healthy_path d (cm_meInfoPath c)" and "\<not> fs_writable d (cm_privKeyPath c)"
    and "fs_readable d (cm_privKeyPath c)" and "cm_meInfoPath c \<noteq> cm_privKeyPath c"
    and "fs_files d (cm_privKeyPath c) = Some old" and "plain_line old" and "old \<noteq> []"
    and "plain_line name" and "plain_line key" and "uuid_ok uuid"
  shows "case saveClientInfo name uuid key d c of (ok, e) \<Rightarrow>
     \<not> ok \<and> loadClientInfo e c = (Inr True, c\<lparr>cm_clientInfo :=
       \<lparr>ci_name = name, ci_uuid = uuid, ci_privateKeyBase64 = key\<rparr>\<rparr>) \<and> stored_key e c = old"
proof -
  define e where "e = snd (saveClientInfo name uuid key d c)"
  have "fs_files e (cm_privKeyPath c) = Some old" "fs_readable e (cm_privKeyPath c)"
    using assms by (auto simp: e_def saveClientInfo_def fs_open_trunc_def fs_write_def healthy_path_def Let_def)
  then have "loadPrivateKey e c = Some old"
    using assms by (simp add: loadPrivateKey_def fs_open_in_def plain_line_def getline_last)
  then show ?thesis
    using half_saved_credentials [OF assms(1,2,8,9,10)]
    by (auto simp: stored_key_def e_def split: prod.splits)
qed

theorem stale_private_key_preferred_witness:
  "case saveClientInfo ''Ann'' (replicate 16 7) ''a2V5''
      ((empty_fs Posix)\<lparr>fs_writable := (\<lambda>p. p = ''me.info''), fs_files := [''priv.key'' \<mapsto> ''b2xk'']\<rparr>) default_config of (ok, e) \<Rightarrow>
     \<not> ok \<and> loadClientInfo e default_config = (Inr True, default_config\<lparr>cm_clientInfo :=
       \<lparr>ci_name = ''Ann'', ci_uuid = replicate 16 7, ci_privateKeyBase64 = ''a2V5''\<rparr>\<rparr>) \<and>
     stored_key e default_config = ''b2xk''"
  by (rule stale_private_key_preferred)
    (simp_all add: healthy_path_def empty_fs_def default_config_def newConfigManager_def
      plain_line_def LF_def CTRL_Z_def uuid_ok_def UUID_SIZE_def)

end
