(* ===== verification/ScriptedRun.thy ===== *)
theory ScriptedRun
  imports AuthProperties
begin

text \<open>
  Whole sessions with a server that follows the protocol, over the scripted network: the stored credentials
  are accepted, every file is served, and so \<open>main\<close> ends with exit code 0.
\<close>

section \<open>Reconnection\<close>

lemma script_reconnect:
  assumes script: "lib_asio L = script_asio" and on: "online L t"
    and r: "valid_response [ReconnectApproved] (ci_uuid (cm_clientInfo (tc_config t))) r"
    and inc: "incoming t = encode_response r @ rest"
  shows "\<exists>t'. requestReconnect L needs t = ((True, needs), t') \<and> online L t' \<and> incoming t' = rest \<and>
    tc_clientId t' = ci_uuid (cm_clientInfo (tc_config t)) \<and>
    tc_decryptedAesKey t' = fst (decryptAesKey (lib_crypto L) (drop 16 (sr_payload r)) (tc_crypto t)) \<and>
    tc_disk t' = tc_disk t \<and> tc_config t' = tc_config t"
proof -
  let ?i = "cm_clientInfo (tc_config t)"
  let ?t = "t\<lparr>tc_clientId := ci_uuid ?i\<rparr>"
  have on': "online L ?t" "incoming ?t = encode_response r @ rest"
    using on inc by (simp_all add: online_def incoming_def)
  obtain t1 where t1: "client_send L (buildReconnect (ci_uuid ?i) (ci_name ?i)) ?t = (True, t1)" "online L t1"
    "incoming t1 = encode_response r @ rest"
    by (rule script_client_send [OF script on'(1), of "buildReconnect (ci_uuid ?i) (ci_name ?i)"])
      (use on'(2) in \<open>auto simp: packets_nonempty\<close>)
  note k1 = script_frame [OF t1(1)]
  obtain t2 where t2: "receiveResponse L [ReconnectApproved, ReconnectRejected] t1 = (Some r, t2)" "online L t2"
    "incoming t2 = rest"
    by (rule script_receive_reply [OF script t1(2) _ t1(3)]) (use r k1 in \<open>auto simp: valid_response_def\<close>)
  note k2 = only_clientD [OF only_client_response [OF t2(1)]]
  have "length (sr_payload r) = 144" "rs_code (sr_header r) = ReconnectApproved"
    using r by (auto simp: valid_response_def protocol_sizes)
  then show ?thesis
    using t1 t2 k1 k2
    by (auto simp: requestReconnect_def Let_def parseAesKeyPayload_def protocol_sizes online_def incoming_def split: prod.split)
qed

lemma script_authenticate:
  assumes script: "lib_asio L = script_asio" and on: "online L t"
    and stored: "hasClientInfo (tc_disk t) (tc_config t) = Inr True"
      "loadClientInfo (tc_disk t) (tc_config t) = (Inr True, c)"
      "loadPrivateKeyBase64 (lib_crypto L) (stored_key (tc_disk t) (tc_config t)) (tc_crypto t) = (True, h)"
    and r: "valid_response [ReconnectApproved] (ci_uuid (cm_clientInfo c)) r"
    and inc: "incoming t = encode_response r @ rest"
  shows "\<exists>t'. authenticate L name t = (Inr True, t') \<and> online L t' \<and> incoming t' = rest \<and>
    tc_clientId t' = ci_uuid (cm_clientInfo c) \<and>
    tc_decryptedAesKey t' = fst (decryptAesKey (lib_crypto L) (drop 16 (sr_payload r)) h) \<and>
    tc_disk t' = tc_disk t"
proof -
  let ?t = "t\<lparr>tc_config := c, tc_crypto := h\<rparr>"
  obtain t' where "requestReconnect L False ?t = ((True, False), t')" "online L t'" "incoming t' = rest"
    "tc_clientId t' = ci_uuid (cm_clientInfo c)" "tc_disk t' = tc_disk t"
    "tc_decryptedAesKey t' = fst (decryptAesKey (lib_crypto L) (drop 16 (sr_payload r)) h)"
    using script_reconnect [OF script, of ?t r rest False] on r inc by (auto simp: online_def incoming_def)
  then show ?thesis
    using stored by (simp add: authenticate_def tryReconnect_unfold)
qed

text \<open>The server rejects the stored identity: the client gives it up and registers.\<close>

lemma script_rejected:
  assumes script: "lib_asio L = script_asio" and on: "online L t"
    and r: "valid_response [ReconnectRejected] (ci_uuid (cm_clientInfo (tc_config t))) r"
    and inc: "incoming t = encode_response r @ rest"
  shows "\<exists>t'. requestReconnect L needs t = ((False, True), t') \<and> online L t' \<and> incoming t' = rest \<and>
    tc_disk t' = removeClientInfo (tc_disk t) (tc_config t) \<and> tc_config t' = tc_config t \<and> tc_crypto t' = tc_crypto t"
proof -
  let ?i = "cm_clientInfo (tc_config t)"
  let ?t = "t\<lparr>tc_clientId := ci_uuid ?i\<rparr>"
  have on': "online L ?t" "incoming ?t = encode_response r @ rest"
    using on inc by (simp_all add: online_def incoming_def)
  obtain t1 where t1: "client_send L (buildReconnect (ci_uuid ?i) (ci_name ?i)) ?t = (True, t1)" "online L t1"
    "incoming t1 = encode_response r @ rest"
    by (rule script_client_send [OF script on'(1), of "buildReconnect (ci_uuid ?i) (ci_name ?i)"])
      (use on'(2) in \<open>auto simp: packets_nonempty\<close>)
  note k1 = script_frame [OF t1(1)]
  obtain t2 where t2: "receiveResponse L [ReconnectApproved, ReconnectRejected] t1 = (Some r, t2)" "online L t2"
    "incoming t2 = rest"
    by (rule script_receive_reply [OF script t1(2) _ t1(3)]) (use r k1 in \<open>auto simp: valid_response_def\<close>)
  note k2 = only_clientD [OF only_client_response [OF t2(1)]]
  have "rs_code (sr_header r) = ReconnectRejected"
    using r by (auto simp: valid_response_def)
  then show ?thesis
    using t1 t2 k1 k2 by (auto simp: requestReconnect_def Let_def online_def incoming_def)
qed

lemma healthy_removed: "healthy_store c (removeClientInfo d c) = healthy_store c d"
  by (auto simp: healthy_store_def healthy_path_def removeClientInfo_def fs_remove_def)

lemma script_reregister:
  assumes script: "lib_asio L = script_asio" and on: "online L t"
    and stored: "hasClientInfo (tc_disk t) (tc_config t) = Inr True"
      "loadClientInfo (tc_disk t) (tc_config t) = (Inr True, c)"
      "loadPrivateKeyBase64 (lib_crypto L) (stored_key (tc_disk t) (tc_config t)) (tc_crypto t) = (True, h0)"
    and keys: "generateRsaKeys (lib_crypto L) h0 = (Inr (), h)" and store: "healthy_store (tc_config t) (tc_disk t)"
    and r0: "valid_response [ReconnectRejected] (ci_uuid (cm_clientInfo c)) r0"
    and r1: "valid_response [RegistrationSuccess] i r1" and r2: "valid_response [AesKeyReceived] (sr_payload r1) r2"
    and inc: "incoming t = encode_response r0 @ encode_response r1 @ encode_response r2 @ rest"
  shows "\<exists>t'. authenticate L name t = (Inr True, t') \<and> online L t' \<and> incoming t' = rest \<and>
    tc_clientId t' = sr_payload r1 \<and>
    tc_decryptedAesKey t' = fst (decryptAesKey (lib_crypto L) (drop 16 (sr_payload r2)) h) \<and>
    tc_disk t' = snd (saveClientInfo name (sr_payload r1) (getPrivateKeyBase64 (lib_crypto L) h)
      (removeClientInfo (tc_disk t) (tc_config t)) (tc_config t))"
proof -
  let ?t = "t\<lparr>tc_config := c, tc_crypto := h0\<rparr>"
  note paths = loadClientInfo_paths [OF stored(2)]
  have removed: "removeClientInfo (tc_disk t) c = removeClientInfo (tc_disk t) (tc_config t)"
    using paths by (intro removeClientInfo_paths) auto
  obtain t1 where t1: "requestReconnect L False ?t = ((False, True), t1)" "online L t1"
    "incoming t1 = encode_response r1 @ encode_response r2 @ rest"
    "tc_disk t1 = removeClientInfo (tc_disk t) (tc_config t)" "tc_config t1 = c" "tc_crypto t1 = h0"
    using script_rejected [OF script, of ?t r0 "encode_response r1 @ encode_response r2 @ rest" False] on r0 inc removed
    by (auto simp: online_def incoming_def)
  have store1: "healthy_store (tc_config t1) (tc_disk t1)"
    using store healthy_removed [of "tc_config t" "tc_disk t"]
      healthy_store_paths [of c "tc_config t" "tc_disk t1"] paths t1(4,5) by simp
  have r1': "valid_response [RegistrationSuccess] (tc_clientId t1) r1"
    using r1 by (auto simp: valid_response_def echoes_def)
  have "saveClientInfo name u k d (tc_config t1) = saveClientInfo name u k d (tc_config t)" for u k d
    using paths t1(5) by (intro saveClientInfo_paths) auto
  then show ?thesis
    using script_register [OF script t1(2) keys [folded t1(6)] store1 r1' r2 t1(3), of name] stored t1
    by (auto simp: authenticate_def tryReconnect_unfold)
qed

section \<open>The files\<close>

text \<open>
  The responses \<open>inc\<close> of a server to the files: for each, at most three wrong checksums, then the
  right one and the acknowledgment.
\<close>

inductive serves ::
  "('r, 'k, 'p) crypto_api \<Rightarrow> fs \<Rightarrow> bytes \<Rightarrow> bytes \<Rightarrow> string list \<Rightarrow> bytes \<Rightarrow> bool" for C d key i where
  serves_none: "serves C d key i [] []"
| serves_file: "createEncryptedFile C d p key = Inr (Some fd) \<Longrightarrow> length bads \<le> 3 \<Longrightarrow>
    list_all (\<lambda>r. \<exists>ck. ck \<noteq> ef_crc fd \<and> crc_answer fd i ck r) bads \<Longrightarrow>
    crc_answer fd i (ef_crc fd) good \<Longrightarrow> valid_response [MessageConfirmed] i ack \<Longrightarrow>
    serves C d key i ps inc \<Longrightarrow>
    serves C d key i (p # ps)
      (concat (map encode_response bads) @ encode_response good @ encode_response ack @ inc)"

lemma createEncryptedFile_exists:
  "createEncryptedFile C d p key = Inr (Some fd) \<Longrightarrow> fs_exists d p = Inr True"
  by (auto simp: createEncryptedFile_def split: sum.splits if_splits)

lemma script_files:
  "serves C d key i ps inc \<Longrightarrow> lib_asio L = script_asio \<Longrightarrow> lib_crypto L = C \<Longrightarrow> online L t \<Longrightarrow>
   uuid_ok i \<Longrightarrow> tc_clientId t = i \<Longrightarrow> tc_disk t = d \<Longrightarrow> tc_decryptedAesKey t = key \<Longrightarrow> incoming t = inc @ rest \<Longrightarrow>
   \<exists>t'. send_files L ps t = (Inr True, t') \<and> incoming t' = rest"
proof (induction arbitrary: t rule: serves.induct)
  case (serves_file p fd bads good ack ps inc)
  obtain t1 where t1: "transferAndVerify L fd t = (True, t1)" "online L t1" "incoming t1 = inc @ rest"
    using script_decided [of L t bads fd "ef_crc fd" good ack "inc @ rest"] serves_file by auto
  have s: "sendSingleFile L p t = (Inr True, t1)"
    using t1(1) serves_file createEncryptedFile_exists [OF serves_file(1)] by (simp add: sendSingleFile_def)
  note k = only_clientD [OF only_client_single [OF s]]
  have "\<exists>t'. send_files L ps t1 = (Inr True, t') \<and> incoming t' = rest"
    by (rule serves_file.IH) (use serves_file t1 k in auto)
  then show ?case using s by auto
qed auto

section \<open>The program\<close>

lemma script_connect:
  "connect script_asio host port (newNetworkClient (script bs)) =
     (True, \<lparr>nc_socket = \<lparr>sw_open = True, sw_incoming = bs\<rparr>, nc_trace = [Opened host port]\<rparr>)"
  by (simp add: connect_def Let_def isConnected_def script_asio_def newNetworkClient_def script_def observe_def)

lemma script_closed [simp]: "\<not> as_is_open script_asio (script bs)"
  by (simp add: script_def script_asio_def)

text \<open>The state of the client when authentication begins.\<close>

definition connected_client ::
  "config_manager \<Rightarrow> bytes \<Rightarrow> 'r \<Rightarrow> fs \<Rightarrow> (script_world, 'r, 'k, 'p) transfer_client" where
  "connected_client c bs rng d =
     (newTransferClient (script bs) rng d)\<lparr>tc_config := c, tc_client :=
       \<lparr>nc_socket = \<lparr>sw_open = True, sw_incoming = bs\<rparr>,
        nc_trace = [Opened (ti_ip (cm_transferInfo c)) (ti_port (cm_transferInfo c))]\<rparr>\<rparr>"

lemma connected_client_simps [simp]:
  "incoming (connected_client c bs rng d) = bs" "lib_asio L = script_asio \<Longrightarrow> online L (connected_client c bs rng d)"
  "tc_clientId (connected_client c bs rng d) = replicate 16 0" "tc_config (connected_client c bs rng d) = c"
  "tc_disk (connected_client c bs rng d) = d" "tc_crypto (connected_client c bs rng d) = newCryptoHelper rng"
  by (simp_all add: connected_client_def incoming_def online_def script_asio_def newTransferClient_def protocol_sizes)

lemma script_main:
  assumes script: "lib_asio L = script_asio"
    and config: "loadTransferInfo (lib_json L) d ''transfer.json'' default_config = (Inr True, c)"
    and auth: "authenticate L (ti_clientName (cm_transferInfo c)) (connected_client c bs rng d) = (Inr True, t2)"
    and t2: "online L t2" "uuid_ok (tc_clientId t2)" "length (tc_decryptedAesKey t2) = 32" "incoming t2 = inc @ rest"
    and files: "serves (lib_crypto L) (tc_disk t2) (tc_decryptedAesKey t2) (tc_clientId t2) (ti_files (cm_transferInfo c)) inc"
  shows "\<exists>t'. main L (script bs) rng d = (0, t') \<and> incoming t' = rest \<and> tc_clientId t' = tc_clientId t2 \<and>
    tc_decryptedAesKey t' = tc_decryptedAesKey t2 \<and> tc_disk t' = tc_disk t2"
proof -
  obtain t3 where f: "send_files L (ti_files (cm_transferInfo c)) t2 = (Inr True, t3)" "incoming t3 = rest"
    using script_files [OF files script refl t2(1,2) refl refl refl t2(4)] by blast
  note k = only_clientD [OF only_client_files [OF f(1)]]
  have "run L (newTransferClient (script bs) rng d) = (Inr True, client_disconnect L t3)"
    using config auth f t2(3) script
    by (simp add: run_def Let_def newTransferClient_def connected_client_def script_connect)
  moreover have "incoming (client_disconnect L t) = incoming t" for t :: "(script_world, 'b, 'c, 'd) transfer_client"
    using script by (simp add: client_disconnect_def disconnect_def incoming_def script_asio_def observe_def)
  ultimately show ?thesis
    using f k by (auto simp: main_def destroyTransferClient_def destroyNetworkClient_def
        simp flip: client_disconnect_def) (simp_all add: client_disconnect_def)
qed

text \<open>A first run: registration, key exchange and the files.\<close>

lemma script_first_run:
  assumes script: "lib_asio L = script_asio"
    and config: "loadTransferInfo (lib_json L) d ''transfer.json'' default_config = (Inr True, c)"
    and fresh: "hasClientInfo d c = Inr False" and store: "healthy_store c d"
    and keys: "generateRsaKeys (lib_crypto L) (newCryptoHelper rng) = (Inr (), h)"
    and r1: "valid_response [RegistrationSuccess] (replicate 16 0) r1"
    and r2: "valid_response [AesKeyReceived] (sr_payload r1) r2"
    and key: "key = fst (decryptAesKey (lib_crypto L) (drop 16 (sr_payload r2)) h)" "length key = 32"
    and saved: "e = snd (saveClientInfo (ti_clientName (cm_transferInfo c)) (sr_payload r1)
        (getPrivateKeyBase64 (lib_crypto L) h) d c)"
    and files: "serves (lib_crypto L) e key (sr_payload r1) (ti_files (cm_transferInfo c)) inc"
  shows "\<exists>t'. main L (script (encode_response r1 @ encode_response r2 @ inc @ rest)) rng d = (0, t') \<and>
    incoming t' = rest \<and> tc_clientId t' = sr_payload r1 \<and> tc_decryptedAesKey t' = key \<and> tc_disk t' = e"
proof -
  let ?bs = "encode_response r1 @ encode_response r2 @ inc @ rest"
  let ?t = "connected_client c ?bs rng d"
  obtain t2 where t2: "registerAndExchangeKeys L (ti_clientName (cm_transferInfo c)) ?t = (Inr True, t2)"
    "online L t2" "incoming t2 = inc @ rest" "tc_clientId t2 = sr_payload r1" "tc_decryptedAesKey t2 = key" "tc_disk t2 = e"
    using script_register [OF script, of ?t h r1 r2 "inc @ rest" "ti_clientName (cm_transferInfo c)"]
      script keys store r1 r2 key(1) saved by auto
  have "authenticate L (ti_clientName (cm_transferInfo c)) ?t = (Inr True, t2)"
    using fresh t2(1) by (simp add: authenticate_def)
  moreover have "uuid_ok (tc_clientId t2)"
    using t2(4) r1 by (auto simp: valid_response_def protocol_sizes uuid_ok_def)
  ultimately show ?thesis
    using script_main [OF script config, of ?bs rng t2 inc rest] t2 key(2) files by auto
qed

text \<open>A later run: the stored credentials are accepted.\<close>

lemma script_later_run:
  assumes script: "lib_asio L = script_asio"
    and config: "loadTransferInfo (lib_json L) d ''transfer.json'' default_config = (Inr True, c)"
    and stored: "hasClientInfo d c = Inr True" "loadClientInfo d c = (Inr True, c')"
      "loadPrivateKeyBase64 (lib_crypto L) (stored_key d c) (newCryptoHelper rng) = (True, h)"
    and r: "valid_response [ReconnectApproved] (ci_uuid (cm_clientInfo c')) r"
    and key: "key = fst (decryptAesKey (lib_crypto L) (drop 16 (sr_payload r)) h)" "length key = 32"
    and files: "serves (lib_crypto L) d key (ci_uuid (cm_clientInfo c')) (ti_files (cm_transferInfo c)) inc"
  shows "\<exists>t'. main L (script (encode_response r @ inc @ rest)) rng d = (0, t') \<and> incoming t' = rest \<and>
    tc_clientId t' = ci_uuid (cm_clientInfo c') \<and> tc_decryptedAesKey t' = key \<and> tc_disk t' = d"
proof -
  let ?bs = "encode_response r @ inc @ rest"
  let ?t = "connected_client c ?bs rng d"
  obtain t2 where t2: "authenticate L (ti_clientName (cm_transferInfo c)) ?t = (Inr True, t2)"
    "online L t2" "incoming t2 = inc @ rest" "tc_clientId t2 = ci_uuid (cm_clientInfo c')"
    "tc_decryptedAesKey t2 = key" "tc_disk t2 = d"
    using script_authenticate [OF script, of ?t c' h r "inc @ rest" "ti_clientName (cm_transferInfo c)"]
      script stored r key(1) by auto
  have "uuid_ok (ci_uuid (cm_clientInfo c'))"
    using loadClientInfo_uuid [of d c c'] stored(2) by simp
  then show ?thesis
    using script_main [OF script config t2(1,2), of inc rest] t2 key(2) files by auto
qed

text \<open>A run with stored credentials that the server no longer accepts.\<close>

lemma script_rejected_run:
  assumes script: "lib_asio L = script_asio"
    and config: "loadTransferInfo (lib_json L) d ''transfer.json'' default_config = (Inr True, c)"
    and stored: "hasClientInfo d c = Inr True" "loadClientInfo d c = (Inr True, c')"
      "loadPrivateKeyBase64 (lib_crypto L) (stored_key d c) (newCryptoHelper rng) = (True, h0)"
    and keys: "generateRsaKeys (lib_crypto L) h0 = (Inr (), h)" and store: "healthy_store c d"
    and r0: "valid_response [ReconnectRejected] (ci_uuid (cm_clientInfo c')) r0"
    and r1: "valid_response [RegistrationSuccess] i r1" and r2: "valid_response [AesKeyReceived] (sr_payload r1) r2"
    and key: "key = fst (decryptAesKey (lib_crypto L) (drop 16 (sr_payload r2)) h)" "length key = 32"
    and saved: "e = snd (saveClientInfo (ti_clientName (cm_transferInfo c)) (sr_payload r1)
        (getPrivateKeyBase64 (lib_crypto L) h) (removeClientInfo d c) c)"
    and files: "serves (lib_crypto L) e key (sr_payload r1) (ti_files (cm_transferInfo c)) inc"
  shows "\<exists>t'. main L (script (encode_response r0 @ encode_response r1 @ encode_response r2 @ inc @ rest)) rng d = (0, t') \<and>
    incoming t' = rest \<and> tc_clientId t' = sr_payload r1 \<and> tc_decryptedAesKey t' = key \<and> tc_disk t' = e"
proof -
  let ?bs = "encode_response r0 @ encode_response r1 @ encode_response r2 @ inc @ rest"
  let ?t = "connected_client c ?bs rng d"
  obtain t2 where t2: "authenticate L (ti_clientName (cm_transferInfo c)) ?t = (Inr True, t2)"
    "online L t2" "incoming t2 = inc @ rest" "tc_clientId t2 = sr_payload r1" "tc_decryptedAesKey t2 = key" "tc_disk t2 = e"
    using script_reregister [OF script, of ?t c' h0 h r0 i r1 r2 "inc @ rest" "ti_clientName (cm_transferInfo c)"]
      script stored keys store r0 r1 r2 key(1) saved by auto
  have "uuid_ok (tc_clientId t2)"
    using t2(4) r1 by (auto simp: valid_response_def protocol_sizes uuid_ok_def)
  then show ?thesis
    using script_main [OF script config t2(1,2), of inc rest] t2 key(2) files by auto
qed

section \<open>A session for the witnesses\<close>

definition sample_disk :: fs where
  "sample_disk = (empty_fs Windows)\<lparr>fs_files :=
     [''transfer.json'' \<mapsto> ''{}'', ''a.txt'' \<mapsto> ''hello'', ''b.bin'' \<mapsto> ''123456789'']\<rparr>"

definition sample_cm :: config_manager where
  "sample_cm = default_config\<lparr>cm_transferInfo := \<lparr>ti_ip = ''127.0.0.1'', ti_port = 5000,
      ti_clientName = ''BenClientTest'', ti_files = [''a.txt'', ''b.bin'']\<rparr>\<rparr>"

definition sample_id :: bytes where
  "sample_id = replicate 16 7"

definition sample_saved :: fs where
  "sample_saved = snd (saveClientInfo ''BenClientTest'' sample_id ''B'' sample_disk sample_cm)"

definition sample_data :: "string \<Rightarrow> string \<Rightarrow> encrypted_file_data" where
  "sample_data p content = \<lparr>ef_fileName = p, ef_origFileSize = word_of_nat (length content),
     ef_crc = posix_cksum (map byte_of_char content),
     ef_encryptedContent = encryptAesCbc toy_crypto (replicate 32 6) (map byte_of_char content)\<rparr>"

definition sample_ok :: server_response where
  "sample_ok = sample_ack\<lparr>sr_payload := sample_id\<rparr>"

definition sample_approved :: server_response where
  "sample_approved = \<lparr>sr_header = \<lparr>rs_version = 3, rs_code = ReconnectApproved, rs_payloadSize = 144\<rparr>,
     sr_payload = sample_id @ replicate 128 5\<rparr>"

definition sample_serving :: bytes where
  "sample_serving =
     concat (map encode_response [crc_response (sample_data ''a.txt'' ''hello'') sample_id
         (ef_crc (sample_data ''a.txt'' ''hello'') + 1)]) @
     encode_response (crc_response (sample_data ''a.txt'' ''hello'') sample_id (ef_crc (sample_data ''a.txt'' ''hello''))) @
     encode_response sample_ok @
     concat (map encode_response []) @
     encode_response (crc_response (sample_data ''b.bin'' ''123456789'') sample_id
         (ef_crc (sample_data ''b.bin'' ''123456789''))) @
     encode_response sample_ok @ []"

lemma sample_loads:
  assumes "fs_files d ''transfer.json'' = Some s" and "same_environment sample_disk d"
  shows "loadTransferInfo (lib_json sample_libs) d ''transfer.json'' default_config = (Inr True, sample_cm)"
  using assms
  by (simp add: loadTransferInfo_def fs_exists_def fs_open_in_def empty_fs_def load_document_def same_environment_def
      sample_libs_def json_tree_def sample_config_def file_list_def sample_disk_def sample_cm_def)

lemma sample_names: "path_filename Windows ''a.txt'' = ''a.txt''" "path_filename Windows ''b.bin'' = ''b.bin''"
  by code_simp+

lemma sample_cipher: "length (encryptAesCbc toy_crypto (replicate 32 6) p) = 16 * (length p div 16 + 1)"
  "encryptAesCbc toy_crypto (replicate 32 6) p \<noteq> []"
proof -
  show *: "length (encryptAesCbc toy_crypto (replicate 32 6) p) = 16 * (length p div 16 + 1)"
    by (simp add: encryptAesCbc_def AES_MAX_KEYLENGTH_def toy_crypto_def length_pkcs_pad)
  show "encryptAesCbc toy_crypto (replicate 32 6) p \<noteq> []"
    using * by (metis list.size(3) mult_eq_0_iff add_is_0 numeral_neq_zero one_neq_zero)
qed

lemma sample_served:
  assumes "fs_files d ''a.txt'' = Some ''hello''" and "fs_files d ''b.bin'' = Some ''123456789''"
    and "same_environment sample_disk d"
  shows "serves toy_crypto d (replicate 32 6) sample_id [''a.txt'', ''b.bin''] sample_serving"
proof -
  have encrypted: "createEncryptedFile toy_crypto d p (replicate 32 6) = Inr (Some (sample_data p s))"
    if "fs_files d p = Some s" "path_filename Windows p = p" for p s
    using assms(3) that
    by (simp add: createEncryptedFile_cases sample_data_def same_environment_def sample_disk_def empty_fs_def sample_cipher)
  have answer: "crc_answer (sample_data p s) sample_id ck (crc_response (sample_data p s) sample_id ck)"
    if "length p \<le> 255" "NUL \<notin> set p" "length s < 100" for p s ck
    by (rule crc_answer_response) (use that in \<open>simp_all add: sample_data_def sample_cipher sample_id_def uuid_ok_def protocol_sizes\<close>)
  have ok: "valid_response [MessageConfirmed] sample_id sample_ok"
    by (simp add: valid_response_def sample_ok_def sample_ack_def sample_id_def echoes_def listed_def protocol_sizes)
  show ?thesis
    unfolding sample_serving_def
    by (intro serves_file [where fd = "sample_data ''a.txt'' ''hello''"]
          serves_file [where fd = "sample_data ''b.bin'' ''123456789''"] serves_none encrypted answer ok assms(1,2) sample_names)
      (use answer [of "''a.txt''" "''hello''" "ef_crc (sample_data ''a.txt'' ''hello'') + 1"] in
        \<open>auto simp: NUL_def intro!: exI [of _ "ef_crc (sample_data ''a.txt'' ''hello'') + 1"]\<close>)
qed

lemma sample_store: "healthy_store sample_cm sample_disk"
  by (simp add: healthy_store_def healthy_path_def sample_cm_def sample_disk_def empty_fs_def default_config_def
      newConfigManager_def)

lemma sample_saved_disk:
  "same_environment sample_disk sample_saved" "fs_files sample_saved ''a.txt'' = Some ''hello''"
  "fs_files sample_saved ''b.bin'' = Some ''123456789''" "fs_files sample_saved ''transfer.json'' = Some ''{}''"
  by (simp_all add: sample_saved_def sample_disk_def sample_cm_def saveClientInfo_def fs_open_trunc_def fs_write_def
      empty_fs_def default_config_def newConfigManager_def same_environment_def Let_def)

lemma sample_saved_credentials:
  "loadClientInfo sample_saved sample_cm = (Inr True, sample_cm\<lparr>cm_clientInfo :=
     \<lparr>ci_name = ''BenClientTest'', ci_uuid = sample_id, ci_privateKeyBase64 = ''B''\<rparr>\<rparr>)"
  "hasClientInfo sample_saved sample_cm = Inr True" "stored_key sample_saved sample_cm = ''B''"
proof -
  note saved = saved_credentials [OF sample_store, of "''BenClientTest''" "''B''" sample_id]
  show "loadClientInfo sample_saved sample_cm = (Inr True, sample_cm\<lparr>cm_clientInfo :=
      \<lparr>ci_name = ''BenClientTest'', ci_uuid = sample_id, ci_privateKeyBase64 = ''B''\<rparr>\<rparr>)"
    "hasClientInfo sample_saved sample_cm = Inr True" "stored_key sample_saved sample_cm = ''B''"
    using saved by (auto simp: sample_saved_def stored_key_def plain_line_def LF_def CTRL_Z_def sample_id_def
        uuid_ok_def protocol_sizes split: prod.splits)
qed

lemma sample_disk_facts:
  "loadTransferInfo (lib_json sample_libs) sample_disk ''transfer.json'' default_config = (Inr True, sample_cm)"
  "loadTransferInfo (lib_json sample_libs) sample_saved ''transfer.json'' default_config = (Inr True, sample_cm)"
  "hasClientInfo sample_disk sample_cm = Inr False"
  "ti_files (cm_transferInfo sample_cm) = [''a.txt'', ''b.bin'']" "ti_clientName (cm_transferInfo sample_cm) = ''BenClientTest''"
  using sample_loads [of sample_disk "''{}''"] sample_loads [OF sample_saved_disk(4,1)]
  by (simp_all add: sample_disk_def sample_cm_def same_environment_def hasClientInfo_def fs_exists_def empty_fs_def
      default_config_def newConfigManager_def)

lemma sample_aes_key:
  "fst (decryptAesKey (lib_crypto sample_libs) (drop 16 (sr_payload sample_key)) sample_keys) = replicate 32 6"
  "fst (decryptAesKey (lib_crypto sample_libs) (drop 16 (sr_payload sample_approved)) sample_keys) = replicate 32 6"
  by (simp_all add: decryptAesKey_def sample_keys_def sample_key_def sample_approved_def sample_id_def toy_crypto_def)

lemma sample_generated:
  "generateRsaKeys (lib_crypto sample_libs) (newCryptoHelper 65) = (Inr (), sample_keys)"
  "getPrivateKeyBase64 toy_crypto sample_keys = ''B''" "sr_payload sample_registered = sample_id"
  by (simp_all add: generateRsaKeys_def getPrivateKeyBase64_def toy_crypto_def newCryptoHelper_def sample_keys_def
      sample_registered_def sample_id_def)

definition sample_first_script :: bytes where
  "sample_first_script = encode_response sample_registered @ encode_response sample_key @ sample_serving @ []"

lemma sample_first_run:
  "\<exists>t'. main sample_libs (script sample_first_script) 65 sample_disk = (0, t') \<and> tc_disk t' = sample_saved"
  unfolding sample_first_script_def
  using script_first_run [OF _ sample_disk_facts(1,3) sample_store sample_generated(1)
      sample_registered_valid sample_key_valid sample_aes_key(1) [symmetric] _ refl, of sample_serving "[]"]
    sample_served [OF sample_saved_disk(2,3,1)]
  by (auto simp: sample_disk_facts sample_generated sample_saved_def)

text \<open>The file system when the stored identity was rejected and the client registered again.\<close>

definition sample_rejected :: server_response where
  "sample_rejected = \<lparr>sr_header = \<lparr>rs_version = 3, rs_code = ReconnectRejected, rs_payloadSize = 16\<rparr>,
     sr_payload = replicate 16 0\<rparr>"

definition sample_resaved :: fs where
  "sample_resaved = snd (saveClientInfo ''BenClientTest'' sample_id ''B'' (removeClientInfo sample_saved sample_cm) sample_cm)"

lemma sample_resaved_disk:
  "same_environment sample_disk sample_resaved" "fs_files sample_resaved ''a.txt'' = Some ''hello''"
  "fs_files sample_resaved ''b.bin'' = Some ''123456789''"
  using sample_saved_disk
  by (simp_all add: sample_resaved_def sample_cm_def saveClientInfo_def fs_open_trunc_def fs_write_def removeClientInfo_def
      fs_remove_def default_config_def newConfigManager_def same_environment_def Let_def sample_disk_def empty_fs_def)

definition sample_loaded :: "(nat, bool, byte) crypto_helper" where
  "sample_loaded = (newCryptoHelper 65)\<lparr>ch_privateKey := Some True\<rparr>"

lemma sample_loaded:
  "loadPrivateKeyBase64 (lib_crypto sample_libs) (stored_key sample_saved sample_cm) (newCryptoHelper 65) = (True, sample_loaded)"
  "generateRsaKeys (lib_crypto sample_libs) sample_loaded = (Inr (), sample_keys)"
  "fst (decryptAesKey (lib_crypto sample_libs) (drop 16 (sr_payload sample_approved)) sample_loaded) = replicate 32 6"
  by (simp_all add: sample_saved_credentials(3) loadPrivateKeyBase64_def toy_crypto_def sample_loaded_def newCryptoHelper_def
      generateRsaKeys_def sample_keys_def decryptAesKey_def sample_approved_def sample_id_def)

lemma sample_responses:
  "valid_response [ReconnectApproved] sample_id sample_approved" "valid_response [ReconnectRejected] i sample_rejected"
  by (simp_all add: valid_response_def sample_approved_def sample_rejected_def sample_id_def echoes_def listed_def protocol_sizes)

end
