(* ===== verification/WireBound.thy ===== *)
theory WireBound
  imports ScriptedRun
begin

text \<open>
  How many operations on the connection the client performs once it is connected. \<open>grows k t t'\<close> says that at
  most \<open>k\<close> events were added to the trace, none of them the opening of a connection; the bounds of
  the operations add up to a bound for \<open>main\<close>.
\<close>

fun opens_connection :: "net_event \<Rightarrow> bool" where
  "opens_connection (Opened host port) = True"
| "opens_connection _ = False"

definition grows :: "nat \<Rightarrow> ('w, 'r, 'k, 'p) transfer_client \<Rightarrow> ('w, 'r, 'k, 'p) transfer_client \<Rightarrow> bool" where
  "grows k t t' \<longleftrightarrow>
     (\<exists>evs. trace t' = trace t @ evs \<and> length evs \<le> k \<and> list_all (\<lambda>ev. \<not> opens_connection ev) evs)"

lemma grows_length: "grows k t t' \<Longrightarrow> length (trace t') \<le> length (trace t) + k"
  by (auto simp: grows_def)

definition opened :: "net_event list \<Rightarrow> (string \<times> u16) set" where
  "opened evs = {(host, port). Opened host port \<in> set evs}"

lemma grows_opened: "grows k t t' \<Longrightarrow> opened (trace t') = opened (trace t)"
  by (fastforce simp: grows_def opened_def list_all_iff)

lemma grows_trans:
  assumes "grows k t u" and "grows m u v"
  shows "grows (k + m) t v"
proof -
  obtain e1 e2 where "trace u = trace t @ e1" "trace v = trace u @ e2" "length e1 \<le> k" "length e2 \<le> m"
    "list_all (\<lambda>ev. \<not> opens_connection ev) e1" "list_all (\<lambda>ev. \<not> opens_connection ev) e2"
    using assms unfolding grows_def by blast
  then show ?thesis unfolding grows_def by (intro exI [of _ "e1 @ e2"]) auto
qed

lemma grows_mono: "grows k t u \<Longrightarrow> k \<le> m \<Longrightarrow> grows m t u"
  unfolding grows_def by (meson order_trans)

lemma grows_fields [simp]:
  "grows k (t\<lparr>tc_config := c\<rparr>) u = grows k t u" "grows k (t\<lparr>tc_crypto := h\<rparr>) u = grows k t u"
  "grows k (t\<lparr>tc_clientId := i\<rparr>) u = grows k t u" "grows k (t\<lparr>tc_disk := d\<rparr>) u = grows k t u"
  "grows k u (t\<lparr>tc_config := c\<rparr>) = grows k u t" "grows k u (t\<lparr>tc_crypto := h\<rparr>) = grows k u t"
  "grows k u (t\<lparr>tc_clientId := i\<rparr>) = grows k u t" "grows k u (t\<lparr>tc_disk := d\<rparr>) = grows k u t"
  "grows k u (t\<lparr>tc_decryptedAesKey := a\<rparr>) = grows k u t" "grows k t t"
  by (simp_all add: grows_def)

lemma grows_send: "client_send L d t = (ok, t') \<Longrightarrow> grows 1 t t'"
  by (auto simp: grows_def client_send_def send_def split: if_splits prod.splits bool.splits)

lemma reading_not_opening: "list_all reading evs \<Longrightarrow> list_all (\<lambda>ev. \<not> opens_connection ev) evs"
  by (induction evs) (auto elim: opens_connection.elims)

lemma grows_response: "receiveResponse L acc t = (r, t') \<Longrightarrow> grows 3 t t'"
  using response_events [of L acc t r t'] by (auto simp: grows_def dest: reading_not_opening)

lemma grows_disconnect: "grows 1 t (client_disconnect L t)"
  by (auto simp: grows_def client_disconnect_def disconnect_def)

text \<open>A request and its response.\<close>

lemma grows_exchange:
  assumes "client_send L d t = (ok, t1)" and "receiveResponse L acc t1 = (r, t2)"
  shows "grows 4 t t2"
  using grows_trans [OF grows_send [OF assms(1)] grows_response [OF assms(2)]] by simp

lemmas grows_intros = grows_exchange grows_mono [OF grows_send]

lemma grows_verdict: "verdict L fd n crc t = (out, t') \<Longrightarrow> grows 4 t t'"
  by (auto simp: verdict_def split: if_splits prod.splits bool.splits option.splits intro: grows_intros)

lemma grows_attempt: 
  assumes "transfer_attempt L fd n t = (out, t')"
  shows "grows 8 t t'"
proof -
  let ?d = "buildSendFile (tc_clientId t) (ef_origFileSize fd) 1 1 (ef_fileName fd) (ef_encryptedContent fd)"
  obtain ok t1 r t2 where s: "client_send L ?d t = (ok, t1)" "receiveResponse L [FileReceivedWithCrc] t1 = (r, t2)"
    by fastforce
  have g: "grows 4 t t1" "grows 4 t t2"
    using s by (auto intro: grows_exchange grows_mono [OF grows_send [OF s(1)]])
  show ?thesis
    using assms s grows_mono [OF g(1), of 8] grows_mono [OF g(2), of 8] grows_trans [OF g(2) grows_verdict]
    by (auto simp: transfer_attempt_def split: bool.splits option.splits)
qed

lemma grows_loop:
  "transfer_loop L fd n t = (ok, t') \<Longrightarrow> grows (8 * (5 - n)) t t'"
proof (induction L fd n t rule: transfer_loop.induct)
  case (1 L fd n t)
  obtain out t1 where a: "transfer_attempt L fd n t = (out, t1)" by fastforce
  show ?case
  proof (cases "n \<le> 4")
    case True
    then have k: "8 + 8 * (5 - Suc n) = 8 * (5 - n)" by simp
    show ?thesis
    proof (cases out)
      case (Return b)
      then show ?thesis
        using 1(2) True a grows_mono [OF grows_attempt [OF a], of "8 * (5 - n)"]
        by (simp add: transfer_loop.simps [of L fd n] MAX_CRC_ATTEMPTS_def)
    next
      case NextAttempt
      have "transfer_loop L fd (Suc n) t1 = (ok, t')"
        using 1(2) True a NextAttempt by (simp add: transfer_loop.simps [of L fd n] MAX_CRC_ATTEMPTS_def)
      then have "grows (8 * (5 - Suc n)) t1 t'"
        using 1(1) [OF _ a [symmetric] NextAttempt] True by (simp add: MAX_CRC_ATTEMPTS_def)
      then show ?thesis using grows_trans [OF grows_attempt [OF a]] k by metis
    qed
  next
    case False
    then show ?thesis using 1(2) by (simp add: transfer_loop.simps [of L fd n] MAX_CRC_ATTEMPTS_def)
  qed
qed

lemma grows_single: "sendSingleFile L p t = (r, t') \<Longrightarrow> grows 32 t t'"
  using grows_loop [of L _ 1 t _ t']
  by (auto simp: sendSingleFile_def transferAndVerify_def split: sum.splits if_splits option.splits prod.splits)

lemma grows_files: "send_files L ps t = (r, t') \<Longrightarrow> grows (32 * length ps) t t'"
proof (induction ps arbitrary: t)
  case (Cons p ps)
  obtain r1 t1 where s: "sendSingleFile L p t = (r1, t1)" by fastforce
  have "grows (32 + 32 * length ps) t t'"
    using Cons s grows_mono [OF grows_single [OF s]] grows_trans [OF grows_single [OF s]]
    by (auto split: sum.splits if_splits)
  then show ?case by simp
qed simp

lemma grows_exchangeKeys: "exchangeKeys L name t = (r, t') \<Longrightarrow> grows 4 t t'"
  by (auto simp: exchangeKeys_def split: bool.splits option.splits prod.splits intro: grows_intros)

lemma grows_register: "registerAndExchangeKeys L name t = (r, t') \<Longrightarrow> grows 8 t t'"
proof -
  assume a: "registerAndExchangeKeys L name t = (r, t')"
  obtain ok t1 m t2 where s: "client_send L (buildRegistration name) t = (ok, t1)"
    "receiveResponse L [RegistrationSuccess] t1 = (m, t2)" by fastforce
  have g: "grows 4 t t1" "grows 4 t t2"
    using s by (auto intro: grows_exchange grows_mono [OF grows_send [OF s(1)]])
  have k: "grows (4 + 4) t t4" if "exchangeKeys L name (t2\<lparr>tc_clientId := u, tc_crypto := h, tc_disk := d\<rparr>) = (b, t4)" for u h d b t4
    by (rule grows_trans [OF g(2)]) (use grows_exchangeKeys [OF that] in simp)
  show ?thesis
    using a s k grows_mono [OF g(1), of 8] grows_mono [OF g(2), of 8]
    by (auto simp: registerAndExchangeKeys_def Let_def split: bool.splits option.splits sum.splits prod.splits)
qed

lemma grows_reconnect: "tryReconnect L n t = ((r, needs), t') \<Longrightarrow> grows 4 t t'"
proof -
  assume a: "tryReconnect L n t = ((r, needs), t')"
  have q: "grows 4 t0 t2" if "requestReconnect L n t0 = (rr, t2)" for t0 t2 rr
  proof -
    let ?i = "cm_clientInfo (tc_config t0)"
    obtain ok t1 where s: "client_send L (buildReconnect (ci_uuid ?i) (ci_name ?i)) (t0\<lparr>tc_clientId := ci_uuid ?i\<rparr>) = (ok, t1)"
      by fastforce
    obtain m t3 where m: "receiveResponse L [ReconnectApproved, ReconnectRejected] t1 = (m, t3)" by fastforce
    have "grows 4 t0 t1" "grows 4 t0 t3"
      using grows_mono [OF grows_send [OF s], of 4] grows_exchange [OF s m] by simp_all
    then show ?thesis
      using that s m by (auto simp: requestReconnect_def Let_def split: bool.splits option.splits prod.splits if_splits)
  qed
  show ?thesis
    using a by (auto simp: tryReconnect_unfold split: sum.splits if_splits prod.splits dest!: q)
qed

lemma grows_authenticate: "authenticate L name t = (r, t') \<Longrightarrow> grows 12 t t'"
proof -
  assume a: "authenticate L name t = (r, t')"
  obtain r1 needs t1 where q: "tryReconnect L False t = ((r1, needs), t1)" by (metis prod.exhaust)
  have g: "grows 4 t t1" using grows_reconnect [OF q] .
  have "grows (4 + 8) t t2" if "registerAndExchangeKeys L name t1 = (b, t2)" for b t2
    by (rule grows_trans [OF g grows_register [OF that]])
  then show ?thesis
    using a q grows_mono [OF g, of 12] grows_mono [OF grows_register, of L name t _ _ 12]
    by (auto simp: authenticate_def split: sum.splits if_splits)
qed

end
