(* ===== verification/ProgramRun.thy ===== *)
theory ProgramRun
  imports WireBound
begin

text \<open>
  \<open>run\<close> and \<open>main\<close> as a whole: the stages they pass, what a successful run did, what is sent and when,
  and how many operations on the connection that takes.
\<close>

section \<open>The whole program\<close>

lemma main_outcome:
  assumes law: "asio_close_law (lib_asio L)" and closed: "\<not> as_is_open (lib_asio L) w"
    and m: "main L w rng d = (code, t')"
  shows "talks L t' \<and> \<not> connected L t' \<and>
    (code = 0 \<longrightarrow> (\<exists>t. run L (newTransferClient w rng d) = (Inr True, client_disconnect L t) \<and>
       client_ok t \<and> conv L t (Ready, tc_clientId t) \<and> t' = client_disconnect L t))"
proof -
  obtain r t1 where r: "run L (newTransferClient w rng d) = (r, t1)" by fastforce
  have t': "t' = client_disconnect L t1"
    using m r by (auto simp: main_def destroyTransferClient_def destroyNetworkClient_def client_disconnect_def
        split: sum.splits)
  have off: "\<not> connected L (client_disconnect L t)" for t :: "('a, 'c, 'd, 'e) transfer_client"
    using tcp.shut_shuts [OF law] by (simp add: client_disconnect_def)
  have twice: "client_disconnect L (client_disconnect L t) = client_disconnect L t"
    for t :: "('a, 'c, 'd, 'e) transfer_client"
    using tcp.shut_idem [OF law] by (simp add: client_disconnect_def)
  note run = conv_run [OF law closed r]
  have "talks L t1" using run talks_disconnect [OF law] by (auto intro: talksI split: if_splits)
  then have "talks L t'" unfolding t' by (rule talks_disconnect [OF law])
  moreover have "code = 0 \<longrightarrow> r = Inr True"
    using m r by (auto simp: main_def split: sum.splits if_splits)
  ultimately show ?thesis
    using run off t' twice r by (auto split: if_splits)
qed

text \<open>The identity and the phases reached by prefixes of a conversation.\<close>

lemma path_prefix: "session_path s (a @ b) s' \<Longrightarrow> \<exists>s1. session_path s a s1"
proof (induction b arbitrary: s' rule: rev_induct)
  case (snoc ev b)
  then show ?case unfolding append_assoc [symmetric] path_snoc_iff by blast
qed auto

lemma path_key_before_file:
  assumes "session_path session_start (a @ Sent p # b) s" and "snd (request_of p) = 828"
  shows "key_delivered a"
proof -
  have "\<exists>s1. session_path session_start (a @ [Sent p]) s1"
    using path_prefix [of session_start "a @ [Sent p]" b s] assms(1) by simp
  then obtain s1 where "session_path session_start (a @ [Sent p]) s1" by blast
  then obtain s0 where "session_path session_start a s0" "session_step s0 (Sent p) s1"
    unfolding path_snoc_iff by blast
  then have "key_first s0 a" "request_step s0 p s1"
    using path_key_first by (auto elim: session_step.cases)
  then show ?thesis using assms(2)
    by (auto simp: key_first_def elim: request_step.cases)
qed

text \<open>The files of a configuration, one log after another.\<close>

fun files_log ::
  "('r, 'k, 'p) crypto_api \<Rightarrow> fs \<Rightarrow> bytes \<Rightarrow> bytes \<Rightarrow> string list \<Rightarrow> net_event list \<Rightarrow> bool" where
  "files_log C d key i [] evs = (evs = [])"
| "files_log C d key i (p # ps) evs =
     (\<exists>fd evs1 evs2. createEncryptedFile C d p key = Inr (Some fd) \<and> evs = evs1 @ evs2 \<and>
        file_log fd i 1 evs1 \<and> files_log C d key i ps evs2)"

lemma send_files_log:
  "send_files L ps t = (Inr True, t') \<Longrightarrow>
   \<exists>evs. trace t' = trace t @ evs \<and>
     files_log (lib_crypto L) (tc_disk t) (tc_decryptedAesKey t) (tc_clientId t) ps evs"
proof (induction ps arbitrary: t)
  case (Cons p ps)
  obtain t1 where s: "sendSingleFile L p t = (Inr True, t1)" and rest: "send_files L ps t1 = (Inr True, t')"
    using Cons.prems by (auto split: prod.splits sum.splits if_splits)
  note k = only_clientD [OF only_client_single [OF s]]
  obtain fd where fd: "createEncryptedFile (lib_crypto L) (tc_disk t) p (tc_decryptedAesKey t) = Inr (Some fd)"
    "transfer_loop L fd 1 t = (True, t1)"
    using s by (auto simp: sendSingleFile_def transferAndVerify_def split: sum.splits if_splits option.splits prod.splits)
  obtain evs1 where "trace t1 = trace t @ evs1" "file_log fd (tc_clientId t) 1 evs1"
    using loop_log [OF fd(2)] by blast
  moreover obtain evs2 where "trace t' = trace t1 @ evs2"
    "files_log (lib_crypto L) (tc_disk t) (tc_decryptedAesKey t) (tc_clientId t) ps evs2"
    using Cons.IH [OF rest] k by auto
  ultimately show ?case using fd(1) by auto
qed simp

lemma sendSingleFile_counts:
  assumes "sendSingleFile L p t = (r, t')" and "uuid_ok (tc_clientId t)"
  shows "sent 828 t' \<le> sent 828 t + 4"
proof -
  have "sent 828 t1 \<le> sent 828 t + 4" if "transfer_loop L fd 1 t = (fin, t1)" for fd fin t1
    using loop_counts [OF that assms(2)] by simp
  from this [simplified] show ?thesis
    using assms(1)
    by (auto simp: sendSingleFile_def transferAndVerify_def fs_exists_def
        split: sum.splits option.splits prod.splits if_splits)
qed

lemma send_files_counts:
  "send_files L ps t = (r, t') \<Longrightarrow> uuid_ok (tc_clientId t) \<Longrightarrow> sent 828 t' \<le> sent 828 t + 4 * length ps"
proof (induction ps arbitrary: t)
  case (Cons p ps)
  obtain r1 t1 where s: "sendSingleFile L p t = (r1, t1)" by fastforce
  have "sent 828 t1 \<le> sent 828 t + 4" using sendSingleFile_counts [OF s Cons.prems(2)] .
  moreover have "uuid_ok (tc_clientId t1)"
    using Cons.prems(2) only_clientD(3) [OF only_client_single [OF s]] by simp
  ultimately show ?case
    using Cons.IH [of t1] Cons.prems(1) s by (auto split: sum.splits if_splits)
qed simp

text \<open>The client ID has 16 bytes in every state.\<close>

lemma client_ok_register:
  assumes "registerAndExchangeKeys L name t = (r, t')" and "client_ok t"
  shows "client_ok t'"
proof -
  have x: "client_ok t2" if "exchangeKeys L name (t1\<lparr>tc_clientId := u, tc_crypto := h, tc_disk := d\<rparr>) = (b, t2)"
    "parseClientIdPayload p = Some u" for t1 t2 u h d b p
    using exchange_keys_counts [OF that(1)] parseClientId_ok [OF that(2)] by (simp add: client_ok_def)
  show ?thesis
    using assms
    by (auto simp: registerAndExchangeKeys_def Let_def split: bool.splits option.splits sum.splits prod.splits
        dest!: only_client_send only_client_response intro: x)
      (auto simp: client_ok_def only_clientD dest: parseClientId_ok)
qed

lemma client_ok_reconnect:
  assumes "tryReconnect L n t = ((r, needs), t')" and "client_ok t"
  shows "client_ok t'"
proof -
  have req: "client_ok t2" if q: "requestReconnect L n t0 = (rr, t2)"
    and u: "uuid_ok (ci_uuid (cm_clientInfo (tc_config t0)))" for t0 t2 rr
    using q u
    by (auto simp: requestReconnect_def Let_def client_ok_def only_clientD
        split: bool.splits option.splits prod.splits if_splits dest!: only_client_send only_client_response)
  obtain l c where l: "loadClientInfo (tc_disk t) (tc_config t) = (l, c)" by fastforce
  have "client_ok t2" if "requestReconnect L n (t\<lparr>tc_config := c, tc_crypto := h\<rparr>) = (rr, t2)" "l = Inr True" for h rr t2
    using req [OF that(1)] loadClientInfo_uuid [of "tc_disk t" "tc_config t" c] l that(2) by simp
  note this [dest!]
  show ?thesis
    using assms l by (auto simp: tryReconnect_unfold client_ok_def split: sum.splits if_splits prod.splits)
qed

lemma client_ok_authenticate:
  assumes "authenticate L name t = (r, t')" and "client_ok t"
  shows "client_ok t'"
proof -
  obtain hc where hc: "hasClientInfo (tc_disk t) (tc_config t) = hc" by simp
  obtain r1 needs t1 where q: "tryReconnect L False t = ((r1, needs), t1)" by (metis prod.exhaust)
  show ?thesis
    using assms hc q client_ok_reconnect [OF q assms(2)] client_ok_register
    by (cases hc) (auto simp: authenticate_def split: sum.splits if_splits)
qed

lemma main_run:
  assumes "main L w rng d = (code, t')"
  obtains r t where "run L (newTransferClient w rng d) = (r, t)" and "t' = client_disconnect L t"
    and "code = 0 \<longleftrightarrow> r = Inr True"
proof -
  obtain r t where "run L (newTransferClient w rng d) = (r, t)" by fastforce
  then show ?thesis
    using assms that by (auto simp: main_def destroyTransferClient_def destroyNetworkClient_def client_disconnect_def
        split: sum.splits if_splits)
qed

lemma client_ok_new [simp]:
  "client_ok ((newTransferClient w rng d)\<lparr>tc_config := c\<rparr>)"
  "client_ok ((newTransferClient w rng d)\<lparr>tc_config := c, tc_client := n\<rparr>)"
  by (simp_all add: client_ok_def newTransferClient_def uuid_ok_def)

lemma sent_connect: "connect A host port c = (ok, c') \<Longrightarrow> sent_code x (nc_trace c') = sent_code x (nc_trace c)"
  by (auto simp: connect_def Let_def disconnect_def split: if_splits option.splits prod.splits bool.splits)

lemma sent_authenticate: "authenticate L name t = (r, t') \<Longrightarrow> sent 828 t' = sent 828 t"
  using authenticate_counts [where L = L and name = name and t = t] by simp

lemma client_ok_disconnect [simp]: "client_ok (client_disconnect L t) = client_ok t"
  by (simp add: client_ok_def client_disconnect_def)

lemma fields_disconnect [simp]:
  "tc_decryptedAesKey (client_disconnect L t) = tc_decryptedAesKey t" "tc_clientId (client_disconnect L t) = tc_clientId t"
  "tc_disk (client_disconnect L t) = tc_disk t"
  by (simp_all add: client_disconnect_def)

lemma disconnect_twice:
  assumes "asio_close_law (lib_asio L)"
  shows "client_disconnect L (client_disconnect L t) = client_disconnect L t"
  using tcp.shut_idem [OF assms] by (simp add: client_disconnect_def)

text \<open>No file is sent before the authentication is complete and the key has 32 bytes.\<close>

lemma run_files:
  fixes L :: "('w, 'j, 'r, 'k, 'p) libs"
  assumes "run L (newTransferClient w rng d) = (r, t')"
  shows "client_ok t' \<and> sent 828 t' \<le> 4 * length (ti_files (cm_transferInfo (snd
        (loadTransferInfo (lib_json L) d ''transfer.json'' default_config)))) \<and>
    (sent 828 t' = 0 \<or> length (tc_decryptedAesKey t') = 32)"
  using assms
proof (cases rule: run_stages)
  case (config c)
  then show ?thesis by (simp add: client_ok_def newTransferClient_def newNetworkClient_def uuid_ok_def)
next
  case (offline c n)
  then show ?thesis using sent_connect [OF offline(2), of 828] by (simp add: newNetworkClient_def)
next
  case (online c n r2 t2)
  have t2: "client_ok t2" "sent 828 t2 = 0"
    using client_ok_authenticate [OF online(3)] sent_authenticate [OF online(3)] sent_connect [OF online(2), of 828]
    by (simp_all add: newNetworkClient_def)
  show ?thesis
  proof (cases "r2 = Inr True \<and> length (tc_decryptedAesKey t2) = 32")
    case True
    then obtain t3 where f: "send_files L (ti_files (cm_transferInfo c)) t2 = (r, t3)"
      "t' = t3 \<or> t' = client_disconnect L t3"
      using online(4) by (cases r) auto
    note k = only_clientD [OF only_client_files [OF f(1)]]
    have "client_ok t3" "length (tc_decryptedAesKey t3) = 32" "sent 828 t3 \<le> 4 * length (ti_files (cm_transferInfo c))"
      using k t2 True send_files_counts [OF f(1)] by (simp_all add: client_ok_def)
    then show ?thesis using f(2) online(1) by auto
  next
    case False
    then show ?thesis using t2 online(4) by auto
  qed
qed

text \<open>What a successful run did: the stages, and the trace before and after authentication.\<close>

lemma main_success:
  assumes law: "asio_close_law (lib_asio L)" and closed: "\<not> as_is_open (lib_asio L) w"
    and m: "main L w rng d = (0, t)"
  obtains c t2 t3 where "loadTransferInfo (lib_json L) d ''transfer.json'' default_config = (Inr True, c)"
    and "conv L t2 (Ready, tc_clientId t2)" and "client_ok t2" and "sent 828 t2 = 0"
    and "length (tc_decryptedAesKey t2) = 32"
    and "send_files L (ti_files (cm_transferInfo c)) t2 = (Inr True, t3)" and "t = client_disconnect L t3"
proof -
  obtain t1 where r: "run L (newTransferClient w rng d) = (Inr True, t1)" "t = client_disconnect L t1"
    using main_run [OF m] by blast
  show ?thesis
    using r(1)
  proof (cases rule: run_stages)
    case (online c n r2 t2)
    then have k: "r2 = Inr True" "length (tc_decryptedAesKey t2) = 32" by (auto split: if_splits)
    then obtain t3 where f: "send_files L (ti_files (cm_transferInfo c)) t2 = (Inr True, t3)" "t1 = client_disconnect L t3"
      using online(4) by auto
    let ?t = "(newTransferClient w rng d)\<lparr>tc_config := c, tc_client := n\<rparr>"
    have "conv L ?t (Authenticating, tc_clientId ?t)"
      using conv_connected [OF closed online(2), where rng = rng and d = d and c = c]
      by (simp add: newTransferClient_def protocol_sizes)
    then have "conv_result L Ready r2 t2" by (rule conv_authenticate [OF law _ online(3)])
    moreover have "sent 828 t2 = 0"
      using sent_authenticate [OF online(3)] sent_connect [OF online(2), of 828] by (simp add: newNetworkClient_def)
    ultimately show ?thesis
      using that [of c t2 t3] online(1) k f r(2) disconnect_twice [OF law, of t3] by (simp add: conv_result_def)
  qed auto
qed

text \<open>The events of a run: connecting, authentication, the files, and closing.\<close>

lemma connect_trace:
  "connect A host port c = (ok, c') \<Longrightarrow> nc_trace c = [] \<Longrightarrow>
   length (nc_trace c') \<le> 2 \<and> opened (nc_trace c') \<subseteq> {(host, port)}"
  by (auto simp: connect_def Let_def disconnect_def opened_def split: if_splits option.splits prod.splits bool.splits)

lemma run_events:
  fixes L :: "('w, 'j, 'r, 'k, 'p) libs"
  assumes "run L (newTransferClient w rng d) = (r, t')"
  defines "info \<equiv> cm_transferInfo (snd (loadTransferInfo (lib_json L) d ''transfer.json'' default_config))"
  shows "length (trace t') \<le> 15 + 32 * length (ti_files info) \<and> opened (trace t') \<subseteq> {(ti_ip info, ti_port info)}"
  using assms(1)
proof (cases rule: run_stages)
  case (config c)
  then show ?thesis by (simp add: newTransferClient_def newNetworkClient_def opened_def)
next
  case (offline c n)
  then show ?thesis using connect_trace [OF offline(2)] by (simp add: newNetworkClient_def info_def)
next
  case (online c n r2 t2)
  have info: "info = cm_transferInfo c" using online(1) by (simp add: info_def)
  note g = grows_authenticate [OF online(3)]
  have t2: "length (trace t2) \<le> 14" "opened (trace t2) \<subseteq> {(ti_ip info, ti_port info)}"
    using grows_length [OF g] grows_opened [OF g] connect_trace [OF online(2)] by (simp_all add: newNetworkClient_def info)
  show ?thesis
  proof (cases "r2 = Inr True \<and> length (tc_decryptedAesKey t2) = 32")
    case True
    then obtain t3 where f: "send_files L (ti_files info) t2 = (r, t3)" "t' = t3 \<or> t' = client_disconnect L t3"
      using online(4) unfolding info by (cases r) auto
    have "grows (32 * length (ti_files info) + 1) t2 t'"
      using f(2) grows_trans [OF grows_files [OF f(1)] grows_disconnect]
        grows_mono [OF grows_files [OF f(1)], of "32 * length (ti_files info) + 1"] by auto
    then show ?thesis using grows_length grows_opened t2 by fastforce
  next
    case False
    then show ?thesis using t2 online(4) by auto
  qed
qed

end
