(* ===== verification/Delivery.thy ===== *)
theory Delivery
  imports ProgramRun
begin

text \<open>
  What reaches the server. \<open>received\<close> is the view of a server that decodes the requests on the wire: it keeps the last file
  packet and takes the file over when its checksum is confirmed (900). A log of verified
  transfers delivers the files as they are on disk.
\<close>

section \<open>The server's view of a trace\<close>

fun received :: "(string \<times> bytes) option \<Rightarrow> net_event list \<Rightarrow> (string \<times> bytes) list" where
  "received pending [] = []"
| "received pending (Sent p # evs) =
     (case decode_request p of
        Some (_, Req_File _ _ _ name content) \<Rightarrow> received (Some (name, content)) evs
      | Some (_, Req_Crc CrcValid name) \<Rightarrow>
          (case pending of
             Some file_data \<Rightarrow> file_data # received None evs
           | None \<Rightarrow> received None evs)
      | _ \<Rightarrow> received pending evs)"
| "received pending (_ # evs) = received pending evs"

text \<open>Without a file packet nothing is received.\<close>

lemma decode_payload_file: "decode_payload code p = Some (Req_File a b c n s) \<Longrightarrow> code = 828"
  by (auto simp: decode_payload_def split: if_splits)

lemma decode_request_file: "decode_request p = Some (u, Req_File a b c n s) \<Longrightarrow> snd (request_of p) = 828"
  by (auto simp: decode_request_def request_of_def dest: decode_payload_file split: if_splits)

lemma received_no_file: "sent_code 828 evs = 0 \<Longrightarrow> received None (evs @ rest) = received None rest"
proof (induction evs)
  case (Cons ev evs)
  show ?case
  proof (cases ev)
    case (Sent p)
    then have code: "snd (request_of p) \<noteq> 828" using Cons.prems by (auto split: if_splits)
    have "received None (Sent p # evs @ rest) = received None (evs @ rest)"
    proof (cases "decode_request p")
      case (Some ur)
      obtain u r where ur: "ur = (u, r)" by fastforce
      with Some code have "\<And>a b c n s. r \<noteq> Req_File a b c n s" using decode_request_file by blast
      then show ?thesis
        using Some ur by (simp split: server_request.split request_code.split)
    qed simp
    then show ?thesis using Cons Sent by auto
  qed (use Cons in simp_all)
qed simp

lemma received_tail: "received pending (evs @ [Closed]) = received pending evs"
  by (induction pending evs rule: received.induct) (auto split: option.splits server_request.splits request_code.splits)

section \<open>A verified transfer is a delivery\<close>

text \<open>Up to this size the packet is framed correctly.\<close>

definition frameable :: "encrypted_file_data \<Rightarrow> bool" where
  "frameable fd \<longleftrightarrow> length (ef_encryptedContent fd) < 2 ^ 32 - 267"

lemma received_log:
  "file_log fd i n evs \<Longrightarrow> uuid_ok i \<Longrightarrow> frameable fd \<Longrightarrow>
   received pending (evs @ rest) =
     (c_string (take 254 (ef_fileName fd)), ef_encryptedContent fd) # received None rest"
proof (induction arbitrary: pending rule: file_log.induct)
  case (log_verified n fd i hb p ha pa)
  then show ?case
    by (simp add: file_packet_def decode_file_packet decode_small_requests frameable_def)
next
  case (log_retry n fd i hb p ck evs)
  then show ?case
    by (simp add: file_packet_def decode_file_packet decode_small_requests frameable_def)
qed

lemma received_files:
  "files_log C d key i ps evs \<Longrightarrow> uuid_ok i \<Longrightarrow>
   (\<And>p fd. p \<in> set ps \<Longrightarrow> createEncryptedFile C d p key = Inr (Some fd) \<Longrightarrow> frameable fd) \<Longrightarrow>
   received None evs = map (\<lambda>p. case createEncryptedFile C d p key of
       Inr (Some fd) \<Rightarrow> (c_string (take 254 (ef_fileName fd)), ef_encryptedContent fd)
     | _ \<Rightarrow> ([], [])) ps"
proof (induction C d key i ps evs rule: files_log.induct)
  case (2 C d key i p ps evs)
  obtain fd evs1 evs2 where f: "createEncryptedFile C d p key = Inr (Some fd)" "evs = evs1 @ evs2"
    "file_log fd i 1 evs1" "files_log C d key i ps evs2" using 2(2) by auto
  have "received None evs = (c_string (take 254 (ef_fileName fd)), ef_encryptedContent fd) # received None evs2"
    unfolding f(2) by (rule received_log [OF f(3) 2(3) 2(4) [OF _ f(1)]]) simp
  moreover have "p' \<in> set ps \<Longrightarrow> createEncryptedFile C d p' key = Inr (Some fd') \<Longrightarrow> frameable fd'" for p' fd'
    using 2(4) [of p' fd'] by simp
  ultimately show ?case using 2(1) [OF f(4) 2(3)] f(1) by simp
qed simp

lemma files_log_exists:
  "files_log C d key i ps evs \<Longrightarrow> p \<in> set ps \<Longrightarrow> \<exists>fd. createEncryptedFile C d p key = Inr (Some fd)"
  by (induction C d key i ps evs rule: files_log.induct) auto

section \<open>Decryption\<close>

text \<open>
  AES-CBC with a key of the right size does not fail, and \<open>decrypt\<close> undoes it. Only the server
  decrypts; \<open>decrypt\<close> stands for its cipher.
\<close>

definition cbc_decrypt_law :: "('r, 'k, 'p) crypto_api \<Rightarrow> (bytes \<Rightarrow> bytes \<Rightarrow> bytes) \<Rightarrow> bool" where
  "cbc_decrypt_law C decrypt \<longleftrightarrow>
     (\<forall>key p. if length key = 32
        then (case cp_aes_cbc_encrypt C key (replicate 16 0) p of
            None \<Rightarrow> False
          | Some c \<Rightarrow> decrypt key c = p)
        else True)"

lemma decrypt_encryptAesCbc:
  assumes "cbc_decrypt_law C decrypt" and "length key = 32"
  shows "decrypt key (encryptAesCbc C key p) = p"
  using spec [OF spec [OF assms(1) [unfolded cbc_decrypt_law_def], of key], of p] assms(2)
  by (simp add: encryptAesCbc_def AES_MAX_KEYLENGTH_def AES_BLOCKSIZE_def split: option.splits)

lemma length_encryptAesCbc:
  assumes "cbc_padding_law C"
  shows "length (encryptAesCbc C key p) \<le> length p + 16"
  using assms padded_block_bounds [of "length p"]
  by (auto simp: encryptAesCbc_def cbc_padding_law_def split: option.split)

lemma encrypted_file:
  assumes "createEncryptedFile C d p key = Inr (Some fd)"
  obtains s where "fs_files d p = Some s" and "ef_fileName fd = path_filename (fs_platform d) p"
    and "ef_encryptedContent fd = encryptAesCbc C key (map byte_of_char s)"
  using assms by (auto simp: createEncryptedFile_cases split: if_splits option.splits)

text \<open>What the server holds after a log of verified transfers, decrypted, is what the disk holds.\<close>

definition on_disk :: "fs \<Rightarrow> string \<Rightarrow> (string \<times> bytes) option" where
  "on_disk d p =
     map_option (\<lambda>s. (c_string (take 254 (path_filename (fs_platform d) p)), map byte_of_char s)) (fs_files d p)"

definition small_files :: "fs \<Rightarrow> string list \<Rightarrow> bool" where
  "small_files d ps \<longleftrightarrow>
     list_all (\<lambda>p. case fs_files d p of None \<Rightarrow> True | Some s \<Rightarrow> length s < 2 ^ 32 - 283) ps"

lemma delivered_files:
  assumes "files_log C d key i ps evs" and "uuid_ok i" and "length key = 32"
    and laws: "cbc_padding_law C" "cbc_decrypt_law C decrypt" and small: "small_files d ps"
  shows "map (\<lambda>(name, content). Some (name, decrypt key content)) (received None evs) = map (on_disk d) ps"
proof -
  have file_data: "frameable fd \<and> Some (c_string (take 254 (ef_fileName fd)), decrypt key (ef_encryptedContent fd)) = on_disk d p"
    if "p \<in> set ps" and created: "createEncryptedFile C d p key = Inr (Some fd)" for p fd
  proof -
    obtain s where s: "fs_files d p = Some s" "ef_fileName fd = path_filename (fs_platform d) p"
      "ef_encryptedContent fd = encryptAesCbc C key (map byte_of_char s)"
      using encrypted_file [OF created] by metis
    moreover have "length s < 2 ^ 32 - 283"
      using small that(1) s(1) by (auto simp: small_files_def list_all_iff)
    ultimately show ?thesis
      using length_encryptAesCbc [OF laws(1), of key "map byte_of_char s"]
        decrypt_encryptAesCbc [OF laws(2) assms(3), of "map byte_of_char s"]
      by (simp add: frameable_def on_disk_def)
  qed
  have "received None evs = map (\<lambda>p. case createEncryptedFile C d p key of
       Inr (Some fd) \<Rightarrow> (c_string (take 254 (ef_fileName fd)), ef_encryptedContent fd)
     | _ \<Rightarrow> ([], [])) ps"
    by (rule received_files [OF assms(1,2)]) (use file_data in blast)
  then show ?thesis
    using file_data files_log_exists [OF assms(1)] by fastforce
qed

text \<open>The cipher of the witnesses: subtract the first key byte and strip the padding.\<close>

definition toy_decrypt :: "bytes \<Rightarrow> bytes \<Rightarrow> bytes" where
  "toy_decrypt key c =
     (let p = map (\<lambda>b. b - hd key) c in take (length p - unat (last p)) p)"

lemma toy_cbc_decrypt: "cbc_decrypt_law toy_crypto toy_decrypt"
proof -
  have "toy_decrypt key (map ((+) (hd key)) (pkcs_pad p)) = p" for key p
  proof -
    let ?k = "16 - length p mod 16"
    have "map (\<lambda>b. b - hd key) (map ((+) (hd key)) (pkcs_pad p)) = pkcs_pad p"
      by (simp add: map_idI)
    moreover have "last (pkcs_pad p) = word_of_nat ?k" "length (pkcs_pad p) = length p + ?k"
      by (simp_all add: pkcs_pad_def)
    moreover have "unat (word_of_nat n :: byte) = n" if "n \<le> 16" for n
      using that by (simp add: unsigned_of_nat take_bit_nat_eq_self_iff)
    from this [of ?k] have "unat (word_of_nat ?k :: byte) = ?k" by (simp del: of_nat_diff)
    ultimately show ?thesis
      by (simp add: toy_decrypt_def Let_def del: map_map) (simp add: pkcs_pad_def)
  qed
  then show ?thesis
    by (simp add: cbc_decrypt_law_def toy_crypto_def)
qed

end
