(* ===== verification/ProgramProperties.thy ===== *)
theory ProgramProperties
  imports Delivery
begin

text \<open>
  Properties of the whole program, \<open>run\<close> and \<open>main\<close>: everything it does on the wire is a conversation of the
  state machine, the connection is closed when the process ends, and exit code 0 means
  that every file of the configuration was verified by the server, in order.
\<close>

section \<open>Properties of the program\<close>

text \<open>
  C3. The program follows the protocol. Whatever the server, the network, the files and the libraries do, the
  events of a run of \<open>main\<close> are a conversation of the state machine, and the connection is closed when the
  process ends. With exit code 0, the conversation had reached \<open>Ready\<close> (authenticated, no file
  in transfer) when the connection was closed.
\<close>

theorem main_follows_protocol:
  assumes "asio_close_law (lib_asio L)" and "\<not> as_is_open (lib_asio L) w"
  shows "case main L w rng d of (code, t) \<Rightarrow>
    (\<exists>s. session_path session_start (trace t) s) \<and> \<not> connected L t \<and>
    (if code = 0
     then (\<exists>evs i. uuid_ok i \<and> session_path session_start evs (Ready, i) \<and> trace t \<in> {evs, evs @ [Closed]})
     else True)"
proof (cases "main L w rng d")
  case (Pair code t)
  note out = main_outcome [OF assms Pair]
  have "\<exists>evs i. uuid_ok i \<and> session_path session_start evs (Ready, i) \<and> trace t \<in> {evs, evs @ [Closed]}"
    if zero: "code = 0"
  proof -
    obtain u where u: "client_ok u" "conv L u (Ready, tc_clientId u)" "t = client_disconnect L u"
      using out zero by blast
    then show ?thesis
      using disconnect_events [of L u] unfolding client_ok_def conv_def by fastforce
  qed
  then show ?thesis
    using out unfolding Pair talks_def conv_def by auto
qed

theorem main_follows_protocol_witness:
  "\<exists>t. main sample_libs (script sample_first_script) 65 sample_disk = (0, t) \<and>
    (\<exists>evs i. uuid_ok i \<and> session_path session_start evs (Ready, i) \<and> trace t \<in> {evs, evs @ [Closed]})"
proof -
  obtain t where t: "main sample_libs (script sample_first_script) 65 sample_disk = (0, t)"
    using sample_first_run by blast
  show ?thesis
    using main_follows_protocol [of sample_libs "script sample_first_script" 65 sample_disk] t by simp
qed

text \<open>
  C1. Exit code 0 means that every file was verified. The configuration was loaded and valid; after an authenticated
  conversation without any file packet the rest of the trace consists, for each configured file in
  order, of one log of a verified transfer: the content encrypted under a 32-byte key, sent under the
  client's ID, and acknowledged with the POSIX checksum of the file on disk. Nothing else was
  sent.
\<close>

theorem main_success_verified:
  assumes "asio_close_law (lib_asio L)" and "\<not> as_is_open (lib_asio L) w"
    and "main L w rng d = (0, t)"
  shows "\<exists>c before evs.
    loadTransferInfo (lib_json L) d ''transfer.json'' default_config = (Inr True, c) \<and>
    length (tc_decryptedAesKey t) = 32 \<and>
    session_path session_start before (Ready, tc_clientId t) \<and> sent_code 828 before = 0 \<and>
    files_log (lib_crypto L) (tc_disk t) (tc_decryptedAesKey t) (tc_clientId t) (ti_files (cm_transferInfo c)) evs \<and>
    trace t \<in> {before @ evs, before @ evs @ [Closed]}"
proof -
  obtain c t2 t3 where s: "loadTransferInfo (lib_json L) d ''transfer.json'' default_config = (Inr True, c)"
    "conv L t2 (Ready, tc_clientId t2)" "sent 828 t2 = 0" "length (tc_decryptedAesKey t2) = 32"
    "send_files L (ti_files (cm_transferInfo c)) t2 = (Inr True, t3)" "t = client_disconnect L t3"
    using main_success [OF assms] by metis
  obtain evs where evs: "trace t3 = trace t2 @ evs"
    "files_log (lib_crypto L) (tc_disk t2) (tc_decryptedAesKey t2) (tc_clientId t2) (ti_files (cm_transferInfo c)) evs"
    using send_files_log [OF s(5)] by blast
  note k = only_clientD [OF only_client_files [OF s(5)]]
  have "trace t \<in> {trace t2 @ evs, trace t2 @ evs @ [Closed]}"
    using disconnect_events [of L t3] evs(1) s(6) by auto
  then show ?thesis
    using s evs(2) k by (intro exI [of _ c] exI [of _ "trace t2"] exI [of _ evs]) (simp add: conv_def)
qed

theorem main_success_verified_witness:
  "\<exists>t. main sample_libs (script sample_first_script) 65 sample_disk = (0, t) \<and> (\<exists>c before evs.
    loadTransferInfo (lib_json sample_libs) sample_disk ''transfer.json'' default_config = (Inr True, c) \<and>
    length (tc_decryptedAesKey t) = 32 \<and>
    session_path session_start before (Ready, tc_clientId t) \<and> sent_code 828 before = 0 \<and>
    files_log (lib_crypto sample_libs) (tc_disk t) (tc_decryptedAesKey t) (tc_clientId t) (ti_files (cm_transferInfo c)) evs \<and>
    trace t \<in> {before @ evs, before @ evs @ [Closed]})"
proof -
  obtain t where t: "main sample_libs (script sample_first_script) 65 sample_disk = (0, t)"
    using sample_first_run by blast
  show ?thesis
    by (rule exI [of _ t], rule conjI [OF t], rule main_success_verified [OF _ _ t]) simp_all
qed

text \<open>
  C2. Exit code 0 means that the server has the files. A server that decodes the requests on the wire and takes over a file when its
  checksum is confirmed has, after decryption, exactly the configured files, in order: each name
  without directories (as far as it fits the field) with the bytes on the client's disk. The cipher is assumed to be
  invertible and to pad as documented, and the files to be small enough for the 32-bit size field of the
  packet.
\<close>

theorem main_delivers_files:
  assumes "asio_close_law (lib_asio L)" and "\<not> as_is_open (lib_asio L) w"
    and "cbc_padding_law (lib_crypto L)" and "cbc_decrypt_law (lib_crypto L) decrypt"
    and "main L w rng d = (0, t)"
    and "loadTransferInfo (lib_json L) d ''transfer.json'' default_config = (Inr True, c)"
    and "small_files (tc_disk t) (ti_files (cm_transferInfo c))"
  shows "map (\<lambda>(name, content). Some (name, decrypt (tc_decryptedAesKey t) content)) (received None (trace t)) =
    map (on_disk (tc_disk t)) (ti_files (cm_transferInfo c))"
proof -
  obtain t2 t3 where s: "client_ok t2" "sent 828 t2 = 0" "length (tc_decryptedAesKey t2) = 32"
    "send_files L (ti_files (cm_transferInfo c)) t2 = (Inr True, t3)" "t = client_disconnect L t3"
    using main_success [OF assms(1,2,5)] assms(6) by (metis Pair_inject)
  obtain evs where evs: "trace t3 = trace t2 @ evs"
    "files_log (lib_crypto L) (tc_disk t2) (tc_decryptedAesKey t2) (tc_clientId t2) (ti_files (cm_transferInfo c)) evs"
    using send_files_log [OF s(4)] by blast
  note k = only_clientD [OF only_client_files [OF s(4)]]
  have "received None (trace t) = received None (trace t3)"
    using disconnect_events [of L t3] received_tail s(5) by auto
  also have "\<dots> = received None evs"
    using received_no_file [OF s(2)] evs(1) by simp
  finally show ?thesis
    using delivered_files [OF evs(2) _ s(3) assms(3,4)] s(1,5) k assms(7) by (simp add: client_ok_def)
qed

theorem main_delivers_files_witness:
  "\<exists>t. main sample_libs (script sample_first_script) 65 sample_disk = (0, t) \<and>
    map (\<lambda>(name, content). Some (name, toy_decrypt (tc_decryptedAesKey t) content)) (received None (trace t)) =
      [Some (''a.txt'', map byte_of_char ''hello''), Some (''b.bin'', map byte_of_char ''123456789'')]"
proof -
  obtain t where t: "main sample_libs (script sample_first_script) 65 sample_disk = (0, t)" "tc_disk t = sample_saved"
    using sample_first_run by blast
  have disk: "small_files sample_saved [''a.txt'', ''b.bin'']" "fs_platform sample_saved = Windows"
    using sample_saved_disk by (simp_all add: small_files_def same_environment_def sample_disk_def empty_fs_def)
  show ?thesis
    using main_delivers_files [OF _ _ _ _ t(1) sample_disk_facts(1), of toy_decrypt] t disk
    by (simp add: sample_disk_facts toy_cbc_decrypt on_disk_def sample_saved_disk sample_names c_string_def NUL_def)
qed

text \<open>
  C9. Requests keep their order and their identity. In every run of \<open>main\<close>, whatever its exit code: all
  requests after the identification (826, 828, 900, 901, 902) carry one and the same client ID; every file packet comes after the
  response that delivered the AES key; at most four are sent per configured file; and if any was sent, the decrypted
  key has 32 bytes.
\<close>

theorem main_request_discipline:
  assumes "asio_close_law (lib_asio L)" and "\<not> as_is_open (lib_asio L) w"
  shows "case main L w rng d of (code, t) \<Rightarrow>
    (\<exists>i. (fst \<circ> request_of) ` late_requests (trace t) \<subseteq> {i}) \<and>
    {a. \<exists>p b. trace t = a @ Sent p # b \<and> snd (request_of p) = 828} \<subseteq> Collect key_delivered \<and>
    sent 828 t \<le> 4 * length (ti_files (cm_transferInfo (snd
      (loadTransferInfo (lib_json L) d ''transfer.json'' default_config)))) \<and>
    (if sent 828 t = 0 then True else length (tc_decryptedAesKey t) = 32) \<and> length (tc_clientId t) = 16"
proof (cases "main L w rng d")
  case (Pair code t)
  obtain s where s: "session_path session_start (trace t) s"
    using main_outcome [OF assms Pair] unfolding talks_def conv_def by blast
  have "\<exists>i. (fst \<circ> request_of) ` late_requests (trace t) \<subseteq> {i}"
    using path_identity_ok [OF s] by (auto simp: identity_ok_def)
  moreover have "key_delivered a" if "trace t = a @ Sent p # b" "snd (request_of p) = 828" for a p b
    using path_key_before_file [of a p b s] s that by simp
  moreover obtain r t1 where run: "run L (newTransferClient w rng d) = (r, t1)" and t: "t = client_disconnect L t1"
    using main_run [OF Pair] by blast
  ultimately show ?thesis
    using run_files [OF run] unfolding Pair by (auto simp: client_ok_def uuid_ok_def protocol_sizes)
qed

theorem main_request_discipline_witness:
  "case main sample_libs (script sample_first_script) 65 sample_disk of (code, t) \<Rightarrow>
    (\<exists>i. (fst \<circ> request_of) ` late_requests (trace t) \<subseteq> {i}) \<and>
    {a. \<exists>p b. trace t = a @ Sent p # b \<and> snd (request_of p) = 828} \<subseteq> Collect key_delivered \<and>
    sent 828 t \<le> 4 * length (ti_files (cm_transferInfo (snd
      (loadTransferInfo (lib_json sample_libs) sample_disk ''transfer.json'' default_config)))) \<and>
    (if sent 828 t = 0 then True else length (tc_decryptedAesKey t) = 32) \<and> length (tc_clientId t) = 16"
  by (rule main_request_discipline) simp_all

text \<open>
  C14. Every run ends after a bounded number of operations on the connection, whatever the server answers: opening,
  sending, reading and closing happen at most 16 times outside the files and 32 times for each configured
  file. The only connection ever opened is the one to the configured host and port.
\<close>

theorem main_wire_operations:
  "case main L w rng d of (code, t) \<Rightarrow>
    let info = cm_transferInfo (snd (loadTransferInfo (lib_json L) d ''transfer.json'' default_config))
    in length (trace t) \<le> 16 + 32 * length (ti_files info) \<and>
      {(host, port). Opened host port \<in> set (trace t)} \<subseteq> {(ti_ip info, ti_port info)}"
proof (cases "main L w rng d")
  case (Pair code t)
  obtain r t1 where r: "run L (newTransferClient w rng d) = (r, t1)" "t = client_disconnect L t1"
    using main_run [OF Pair] by blast
  note g = grows_disconnect [of t1 L]
  show ?thesis
    using run_events [OF r(1)] grows_length [OF g] grows_opened [OF g] r(2)
    unfolding Pair opened_def Let_def by auto
qed

text \<open>
  C10. A first run succeeds with a server that follows the protocol. With a valid configuration, no credentials, a healthy store
  and keys that can be generated, if the server assigns an ID, sends an AES key that
  decrypts to 32 bytes, and for every configured file reports the right checksum after at most three wrong
  ones, then \<open>main\<close> returns 0, having read exactly these responses and stored the credentials.
\<close>

theorem program_succeeds:
  assumes "lib_asio L = script_asio"
    and "loadTransferInfo (lib_json L) d ''transfer.json'' default_config = (Inr True, c)"
    and "hasClientInfo d c = Inr False" and "healthy_store c d"
    and "generateRsaKeys (lib_crypto L) (newCryptoHelper rng) = (Inr (), h)"
    and "valid_response [RegistrationSuccess] (replicate 16 0) r1"
    and "valid_response [AesKeyReceived] (sr_payload r1) r2"
    and "key = fst (decryptAesKey (lib_crypto L) (drop 16 (sr_payload r2)) h)" and "length key = 32"
    and "e = snd (saveClientInfo (ti_clientName (cm_transferInfo c)) (sr_payload r1)
        (getPrivateKeyBase64 (lib_crypto L) h) d c)"
    and "serves (lib_crypto L) e key (sr_payload r1) (ti_files (cm_transferInfo c)) inc"
  shows "\<exists>t'. main L (script (encode_response r1 @ encode_response r2 @ inc @ rest)) rng d = (0, t') \<and>
    incoming t' = rest \<and> tc_clientId t' = sr_payload r1 \<and> tc_decryptedAesKey t' = key \<and> tc_disk t' = e"
  using assms by (rule script_first_run)

theorem program_succeeds_witness:
  "\<exists>t'. main sample_libs (script (encode_response sample_registered @ encode_response sample_key @ sample_serving @ [9]))
      65 sample_disk = (0, t') \<and> incoming t' = [9] \<and> tc_clientId t' = sample_id \<and> tc_disk t' = sample_saved"
  using program_succeeds [OF _ sample_disk_facts(1,3) sample_store sample_generated(1)
      sample_registered_valid sample_key_valid sample_aes_key(1) [symmetric] _ refl, of sample_serving "[9]"]
    sample_served [OF sample_saved_disk(2,3,1)]
  by (auto simp: sample_disk_facts sample_generated sample_saved_def)

text \<open>
  C11. A later run succeeds without registering. With usable stored credentials, a server that approves the reconnection of the stored
  ID, sends an AES key that decrypts to 32 bytes, and serves every file as above makes
  \<open>main\<close> return 0 under the stored ID, with the file system unchanged. The witness starts from the file system
  that the first run leaves behind.
\<close>

theorem returning_client_succeeds:
  assumes "lib_asio L = script_asio"
    and "loadTransferInfo (lib_json L) d ''transfer.json'' default_config = (Inr True, c)"
    and "hasClientInfo d c = Inr True" and "loadClientInfo d c = (Inr True, c')"
    and "loadPrivateKeyBase64 (lib_crypto L) (stored_key d c) (newCryptoHelper rng) = (True, h)"
    and "valid_response [ReconnectApproved] (ci_uuid (cm_clientInfo c')) r"
    and "key = fst (decryptAesKey (lib_crypto L) (drop 16 (sr_payload r)) h)" and "length key = 32"
    and "serves (lib_crypto L) d key (ci_uuid (cm_clientInfo c')) (ti_files (cm_transferInfo c)) inc"
  shows "\<exists>t'. main L (script (encode_response r @ inc @ rest)) rng d = (0, t') \<and> incoming t' = rest \<and>
    tc_clientId t' = ci_uuid (cm_clientInfo c') \<and> tc_decryptedAesKey t' = key \<and> tc_disk t' = d"
  using assms by (rule script_later_run)

theorem returning_client_succeeds_witness:
  "\<exists>t'. main sample_libs (script (encode_response sample_approved @ sample_serving @ [])) 65 sample_saved = (0, t') \<and>
    incoming t' = [] \<and> tc_clientId t' = sample_id \<and> tc_disk t' = sample_saved"
  using returning_client_succeeds [of sample_libs, OF _ sample_disk_facts(2) sample_saved_credentials(2,1) sample_loaded(1),
      of sample_approved "replicate 32 6" sample_serving "[]"]
    sample_served [OF sample_saved_disk(2,3,1)] sample_responses(1) sample_loaded(3)
  by (auto simp: sample_disk_facts)

text \<open>
  C12. A rejected identity is replaced in the same run. If the server answers the reconnect request for the stored credentials
  with 1606, \<open>main\<close> removes them and registers as a new client; with a server that then assigns an ID, sends a
  key and serves every file, it returns 0 under the new ID, and the file system holds the new
  credentials in place of the old ones.
\<close>

theorem rejected_client_registers:
  assumes "lib_asio L = script_asio"
    and "loadTransferInfo (lib_json L) d ''transfer.json'' default_config = (Inr True, c)"
    and "hasClientInfo d c = Inr True" and "loadClientInfo d c = (Inr True, c')"
    and "loadPrivateKeyBase64 (lib_crypto L) (stored_key d c) (newCryptoHelper rng) = (True, h0)"
    and "generateRsaKeys (lib_crypto L) h0 = (Inr (), h)" and "healthy_store c d"
    and "valid_response [ReconnectRejected] (ci_uuid (cm_clientInfo c')) r0"
    and "valid_response [RegistrationSuccess] i r1" and "valid_response [AesKeyReceived] (sr_payload r1) r2"
    and "key = fst (decryptAesKey (lib_crypto L) (drop 16 (sr_payload r2)) h)" and "length key = 32"
    and "e = snd (saveClientInfo (ti_clientName (cm_transferInfo c)) (sr_payload r1)
        (getPrivateKeyBase64 (lib_crypto L) h) (removeClientInfo d c) c)"
    and "serves (lib_crypto L) e key (sr_payload r1) (ti_files (cm_transferInfo c)) inc"
  shows "\<exists>t'. main L (script (encode_response r0 @ encode_response r1 @ encode_response r2 @ inc @ rest)) rng d = (0, t') \<and>
    incoming t' = rest \<and> tc_clientId t' = sr_payload r1 \<and> tc_decryptedAesKey t' = key \<and> tc_disk t' = e"
  using assms by (rule script_rejected_run)

theorem rejected_client_registers_witness:
  "\<exists>t'. main sample_libs (script (encode_response sample_rejected @ encode_response sample_registered @
      encode_response sample_key @ sample_serving @ [])) 65 sample_saved = (0, t') \<and>
    incoming t' = [] \<and> tc_clientId t' = sample_id \<and> tc_disk t' = sample_resaved"
proof -
  have "healthy_store sample_cm sample_saved"
    by (rule healthy_same_environment [OF sample_store sample_saved_disk(1)])
  then show ?thesis
    using rejected_client_registers [of sample_libs, OF _ sample_disk_facts(2) sample_saved_credentials(2,1) sample_loaded(1,2)
        _ sample_responses(2) sample_registered_valid sample_key_valid sample_aes_key(1) [symmetric] _ refl,
        of sample_serving "[]"]
      sample_served [OF sample_resaved_disk(2,3,1)]
    by (auto simp: sample_disk_facts sample_generated sample_resaved_def)
qed

end
