(* ===== verification/Console.thy ===== *)
theory Console
  imports TransferClient
begin

text \<open>
  What the program prints. Each \<open>_out\<close> function gives the output of the function of the code with that name, on
  \<open>std::cout\<close> and \<open>std::cerr\<close>, as a function of the same arguments, in order; it follows the branches
  of the code and takes the results of the calls from the model. Nothing of the program
  reads this output, so the functions stand beside the state-passing definitions. The texts of
  library exceptions are a parameter.
\<close>

section \<open>Output\<close>

datatype stream = Cout | Cerr

type_synonym console = "(stream \<times> string) list"

text \<open>A statement that ends in \<open>std::endl\<close>.\<close>

definition out :: "string \<Rightarrow> console" where "out s = [(Cout, s @ [LF])]"
definition err :: "string \<Rightarrow> console" where "err s = [(Cerr, s @ [LF])]"

definition ticks :: "string \<Rightarrow> string" where "ticks s = [CHR 0x27] @ s @ [CHR 0x27]"

datatype load_exception = ParseError string | StdException string | UnknownException

record 'w texts =
  tx_system_error :: "'w \<Rightarrow> string"
  tx_json :: "string \<Rightarrow> load_exception"
  tx_decrypt :: "bytes \<Rightarrow> string"
  tx_encrypt :: "bytes \<Rightarrow> string"
  tx_load_key :: "string \<Rightarrow> string"
  tx_what :: "exn \<Rightarrow> string"

text \<open>\<open>operator<<\<close> on a path prints it as \<open>std::quoted\<close> does; on a signed number, in decimal.\<close>

definition QUOTE :: char where "QUOTE = CHR 0x22"
definition BACKSLASH :: char where "BACKSLASH = CHR 0x5C"

definition quoted :: "string \<Rightarrow> string" where
  "quoted p =
     [QUOTE] @ concat (map (\<lambda>c. if c = QUOTE \<or> c = BACKSLASH then [BACKSLASH, c] else [c]) p) @ [QUOTE]"

definition signed_decimal :: "int \<Rightarrow> string" where
  "signed_decimal n = (if n < 0 then ''-'' @ decimal (nat (- n)) else decimal (nat n))"

section \<open>NetworkClient\<close>

definition connect_out :: "'w texts \<Rightarrow> 'w asio_api \<Rightarrow> string \<Rightarrow> u16 \<Rightarrow> 'w network_client \<Rightarrow> console" where
  "connect_out X A host port c =
     (let c = (if isConnected A c then disconnect A c else c);
          portStr = decimal (unat port)
      in out (''[*] Initializing Client I/O context...'' @ [LF]) @
         (case as_resolve A host portStr (nc_socket c) of
            (None, w) \<Rightarrow> err (''[!] Exception: '' @ tx_system_error X w)
          | (Some endpoints, w) \<Rightarrow>
              out (''[*] Connecting to ('' @ host @ '':'' @ portStr @ '')...'') @
              (case as_connect A endpoints w of
                 (True, w) \<Rightarrow> out ''[+] Connected successfully to server!''
               | (False, w) \<Rightarrow> err (''[!] Exception: '' @ tx_system_error X w))))"

definition send_out :: "'w asio_api \<Rightarrow> bytes \<Rightarrow> 'w network_client \<Rightarrow> console" where
  "send_out A data c =
     (if \<not> isConnected A c then err ''[NetworkClient] Error: Attempted to send on a closed socket.''
      else if data = [] then []
      else case as_write A data (nc_socket c) of
          (True, w) \<Rightarrow> out (''[>] Sent '' @ ticks (decimal (length data)) @ '' bytes to server.'')
        | (False, w) \<Rightarrow> [])"

definition receiveExact_out :: "'w texts \<Rightarrow> 'w asio_api \<Rightarrow> nat \<Rightarrow> 'w network_client \<Rightarrow> console" where
  "receiveExact_out X A numberOfBytes c =
     (if \<not> isConnected A c \<or> numberOfBytes = 0 then []
      else case as_read A numberOfBytes (nc_socket c) of
          ((None, got), w) \<Rightarrow> out (''[<] Received '' @ decimal (length got) @ '' bytes from server.'')
        | ((Some Eof, got), w) \<Rightarrow> out ''[-] Server closed connection.''
        | ((Some OtherError, got), w) \<Rightarrow> err (''[NetworkClient] Receive error: '' @ tx_system_error X w))"

section \<open>ConfigManager\<close>

definition load_document_out :: "'j json_api \<Rightarrow> 'j \<Rightarrow> console" where
  "load_document_out J configData =
     (if \<not> json_is_object J configData \<or> \<not> json_contains J configData ''server''
         \<or> \<not> json_is_object J (json_at J configData ''server'')
      then err (''[-] [ConfigManager] Error: Missing or invalid '' @ ticks ''server'' @ '' object in JSON.'')
      else
        let serverSection = json_at J configData ''server''
        in if \<not> json_contains J serverSection ''ip'' \<or> \<not> json_is_string J (json_at J serverSection ''ip'')
             \<or> \<not> json_contains J serverSection ''port''
             \<or> \<not> json_is_number_integer J (json_at J serverSection ''port'')
             \<or> \<not> json_contains J serverSection ''client''
             \<or> \<not> json_is_string J (json_at J serverSection ''client'')
           then err (''[-] [ConfigManager] Error: Schema mismatch inside '' @ ticks ''server'' @ '' object.'')
           else
             let rawPort = json_get_int J (json_at J serverSection ''port'');
                 clientName = json_get_string J (json_at J serverSection ''client'')
             in if sint rawPort \<le> 0 \<or> 65535 < sint rawPort
                then err (''[-] [ConfigManager] Error: Port value out of range (1-65535): '' @ signed_decimal (sint rawPort))
                else if clientName = [] \<or> 100 < length clientName
                then err ''[-] [ConfigManager] Error: Client name must be between 1 and 100 characters.''
                else [])"

definition loadTransferInfo_out :: "'w texts \<Rightarrow> 'j json_api \<Rightarrow> fs \<Rightarrow> string \<Rightarrow> console" where
  "loadTransferInfo_out X J d path =
     (case fs_exists d path of
        Inl e \<Rightarrow> []
      | Inr ex \<Rightarrow>
          if \<not> ex then err (''[-] [ConfigManager] Error: File not found: '' @ quoted path)
          else case fs_open_in d path of
            None \<Rightarrow> err (''[-] [ConfigManager] Error: Unable to open file: '' @ quoted path)
          | Some raw \<Rightarrow>
              (let text = text_in (fs_platform d) raw in
               case json_parse J text of
                 None \<Rightarrow>
                   (case tx_json X text of
                      ParseError what \<Rightarrow> err (''[-] [ConfigManager] Parse Error: '' @ what)
                    | StdException what \<Rightarrow> err (''[-] [ConfigManager] Unexpected Exception: '' @ what)
                    | UnknownException \<Rightarrow> err ''[-] [ConfigManager] Unknown fatal error occurred.'')
               | Some configData \<Rightarrow> load_document_out J configData))"

definition saveClientInfo_out ::
  "string \<Rightarrow> bytes \<Rightarrow> string \<Rightarrow> fs \<Rightarrow> config_manager \<Rightarrow> console" where
  "saveClientInfo_out name uuid privateKeyBase64 d c =
     (case fs_open_trunc d (cm_meInfoPath c) of
        None \<Rightarrow> err (''[-] Failed to open '' @ quoted (cm_meInfoPath c) @ '' for writing.'')
      | Some d1 \<Rightarrow>
          let d2 = fs_write d1 (cm_meInfoPath c)
                (text_out (fs_platform d) (me_info_text name uuid privateKeyBase64))
          in case fs_open_trunc d2 (cm_privKeyPath c) of
               None \<Rightarrow> err (''[-] Failed to open '' @ quoted (cm_privKeyPath c) @ '' for writing.'')
             | Some d3 \<Rightarrow> [])"

section \<open>CryptoHelper and EncryptedFile\<close>

definition decryptAesKey_out ::
  "'w texts \<Rightarrow> ('r, 'k, 'p) crypto_api \<Rightarrow> bytes \<Rightarrow> ('r, 'k, 'p) crypto_helper \<Rightarrow> console" where
  "decryptAesKey_out X C cipherText h =
     (case ch_privateKey h of
        None \<Rightarrow> err ''[-] Error: Private key not loaded or cipher text is empty.''
      | Some priv \<Rightarrow>
          if cipherText = [] then err ''[-] Error: Private key not loaded or cipher text is empty.''
          else case cp_oaep_decrypt C priv cipherText (ch_rng h) of
              (Some plain, r) \<Rightarrow> []
            | (None, r) \<Rightarrow> err (''[-] Decryption failed: '' @ tx_decrypt X cipherText))"

definition encryptAesCbc_out :: "'w texts \<Rightarrow> ('r, 'k, 'p) crypto_api \<Rightarrow> bytes \<Rightarrow> bytes \<Rightarrow> console" where
  "encryptAesCbc_out X C aesKey plainText =
     (if length aesKey \<noteq> AES_MAX_KEYLENGTH
      then err (''[-] [CryptoHelper] Error: AES-256 requires a 32-byte key (got '' @ decimal (length aesKey) @ '' bytes).'')
      else
        let iv = replicate AES_BLOCKSIZE 0
        in case cp_aes_cbc_encrypt C aesKey iv plainText of
             Some cipherText \<Rightarrow> []
           | None \<Rightarrow> err (''[-] [CryptoHelper] AES encryption error: '' @ tx_encrypt X plainText))"

definition loadPrivateKeyBase64_out :: "'w texts \<Rightarrow> ('r, 'k, 'p) crypto_api \<Rightarrow> string \<Rightarrow> console" where
  "loadPrivateKeyBase64_out X C base64Key =
     (case cp_load_private C (cp_base64_decode C base64Key) of
        None \<Rightarrow> err (''[-] Error loading private key: '' @ tx_load_key X base64Key)
      | Some key \<Rightarrow> [])"

definition createEncryptedFile_out ::
  "'w texts \<Rightarrow> ('r, 'k, 'p) crypto_api \<Rightarrow> fs \<Rightarrow> string \<Rightarrow> bytes \<Rightarrow> console" where
  "createEncryptedFile_out X C d filePath aesKey =
     (case fs_exists d filePath of
        Inl e \<Rightarrow> []
      | Inr ex \<Rightarrow>
          if \<not> ex then err (''[-] Error: Cannot open input file '' @ filePath)
          else case fs_file_size d filePath of
            Inl e \<Rightarrow> []
          | Inr fileSize \<Rightarrow>
              (case fs_open_in d filePath of
                 None \<Rightarrow> err (''[-] Error: Unable to open input file '' @ filePath)
               | Some content \<Rightarrow>
                   let rawBuffer = (if fileSize > 0 then read_into_buffer fileSize content
                                    else replicate fileSize NUL);
                       plainBytes = map byte_of_char rawBuffer;
                       encryptedBytes = encryptAesCbc C aesKey plainBytes
                   in encryptAesCbc_out X C aesKey plainBytes @
                      (if encryptedBytes = [] \<and> fileSize > 0 then err ''[-] Error: AES encryption failed.'' else [])))"

section \<open>TransferClient\<close>

definition SERVER_ERROR_MSG :: string where
  "SERVER_ERROR_MSG = ''server responded with an error''"

definition client_receiveExact_out ::
  "'w texts \<Rightarrow> ('w, 'j, 'r, 'k, 'p) libs \<Rightarrow> nat \<Rightarrow> ('w, 'r, 'k, 'p) transfer_client \<Rightarrow> console" where
  "client_receiveExact_out X L n t = receiveExact_out X (lib_asio L) n (tc_client t)"

text \<open>A call of \<open>client.send\<close> with the message printed when it fails.\<close>

definition client_send_out ::
  "('w, 'j, 'r, 'k, 'p) libs \<Rightarrow> bytes \<Rightarrow> ('w, 'r, 'k, 'p) transfer_client \<Rightarrow> console" where
  "client_send_out L packet t =
     send_out (lib_asio L) packet (tc_client t) @
     (if \<not> fst (client_send L packet t) then err SERVER_ERROR_MSG else [])"

definition receiveResponse_out ::
  "'w texts \<Rightarrow> ('w, 'j, 'r, 'k, 'p) libs \<Rightarrow> response_code list \<Rightarrow> ('w, 'r, 'k, 'p) transfer_client \<Rightarrow> console" where
  "receiveResponse_out X L acceptedCodes t =
     client_receiveExact_out X L RESPONSE_HEADER_SIZE t @
     (case client_receiveExact L RESPONSE_HEADER_SIZE t of (headerBuffer, t) \<Rightarrow>
      (case parseHeader headerBuffer of
         None \<Rightarrow> err (SERVER_ERROR_MSG @ '' (no valid response header)'')
       | Some header \<Rightarrow>
           let code = decimal (unat (response_code_value (rs_code header)));
               expectedSize = expectedPayloadSize (rs_code header)
           in (if rs_version header \<noteq> SERVER_VERSION
               then err (''[!] Warning: unexpected server version '' @ decimal (unat (rs_version header))) else []) @
              (if (case expectedSize of None \<Rightarrow> True | Some n \<Rightarrow> unat (rs_payloadSize header) \<noteq> n)
               then err (SERVER_ERROR_MSG @ '' (code '' @ code @ '', invalid payload size '' @
                      decimal (unat (rs_payloadSize header)) @ '')'')
               else
                 client_receiveExact_out X L (unat (rs_payloadSize header)) t @
                 (case client_receiveExact L (unat (rs_payloadSize header)) t of (payload, t) \<Rightarrow>
                    if length payload \<noteq> unat (rs_payloadSize header)
                    then err (SERVER_ERROR_MSG @ '' (connection lost while reading the payload)'')
                    else if rs_code header \<notin> set acceptedCodes
                    then err (SERVER_ERROR_MSG @ '' (unexpected response code '' @ code @ '')'')
                    else
                      let echoesClientId = (rs_code header \<noteq> RegistrationSuccess \<and>
                            rs_code header \<noteq> ReconnectRejected)
                      in if echoesClientId \<and> tc_clientId t \<noteq> take UUID_SIZE payload
                         then err (SERVER_ERROR_MSG @ '' (client ID mismatch in response code '' @ code @ '')'')
                         else []))))"

definition exchangeKeys_out ::
  "'w texts \<Rightarrow> ('w, 'j, 'r, 'k, 'p) libs \<Rightarrow> string \<Rightarrow> ('w, 'r, 'k, 'p) transfer_client \<Rightarrow> console" where
  "exchangeKeys_out X L clientName t =
     (let packet = buildPublicKeyExchange (tc_clientId t) clientName (getPublicKeyDER (lib_crypto L) (tc_crypto t)) in
      out ''[*] Sending RSA public key (Code 826)...'' @ client_send_out L packet t @
      (case client_send L packet t of
         (False, t) \<Rightarrow> []
       | (True, t) \<Rightarrow>
           receiveResponse_out X L [AesKeyReceived] t @
           (case receiveResponse L [AesKeyReceived] t of
              (None, t) \<Rightarrow> []
            | (Some aesResponse, t) \<Rightarrow>
                (case parseAesKeyPayload (sr_payload aesResponse) of
                   None \<Rightarrow> err SERVER_ERROR_MSG
                 | Some aes \<Rightarrow>
                     decryptAesKey_out X (lib_crypto L) (ak_encryptedAesKey aes) (tc_crypto t) @
                     out ''[+] Received and decrypted symmetric AES key (Code 1602).''))))"

definition registerAndExchangeKeys_out ::
  "'w texts \<Rightarrow> ('w, 'j, 'r, 'k, 'p) libs \<Rightarrow> string \<Rightarrow> ('w, 'r, 'k, 'p) transfer_client \<Rightarrow> console" where
  "registerAndExchangeKeys_out X L clientName t =
     out ''[*] Sending registration request (Code 825)...'' @
     client_send_out L (buildRegistration clientName) t @
     (case client_send L (buildRegistration clientName) t of
        (False, t) \<Rightarrow> []
      | (True, t) \<Rightarrow>
     receiveResponse_out X L [RegistrationSuccess] t @
     (case receiveResponse L [RegistrationSuccess] t of
        (None, t) \<Rightarrow> []
      | (Some registrationResponse, t) \<Rightarrow>
     (case parseClientIdPayload (sr_payload registrationResponse) of
        None \<Rightarrow> err SERVER_ERROR_MSG
      | Some assignedUuid \<Rightarrow>
     out ''[+] Registered successfully (Code 1600).'' @
     (let t = t\<lparr>tc_clientId := assignedUuid\<rparr> in
     (case generateRsaKeys (lib_crypto L) (tc_crypto t) of
        (Inl e, h) \<Rightarrow> []
      | (Inr _, h) \<Rightarrow>
     (let t = t\<lparr>tc_crypto := h\<rparr>; key = getPrivateKeyBase64 (lib_crypto L) (tc_crypto t) in
     saveClientInfo_out clientName (tc_clientId t) key (tc_disk t) (tc_config t) @
     (case saveClientInfo clientName (tc_clientId t) key (tc_disk t) (tc_config t) of
        (False, d) \<Rightarrow> err ''Error: failed to save client credentials (me.info / priv.key).''
      | (True, d) \<Rightarrow> exchangeKeys_out X L clientName (t\<lparr>tc_disk := d\<rparr>))))))))"

definition requestReconnect_out ::
  "'w texts \<Rightarrow> ('w, 'j, 'r, 'k, 'p) libs \<Rightarrow> ('w, 'r, 'k, 'p) transfer_client \<Rightarrow> console" where
  "requestReconnect_out X L t =
     (let storedInfo = cm_clientInfo (tc_config t);
          t = t\<lparr>tc_clientId := ci_uuid storedInfo\<rparr>;
          packet = buildReconnect (tc_clientId t) (ci_name storedInfo) in
     out ''[*] Existing credentials found. Sending reconnect request (Code 827)...'' @ client_send_out L packet t @
     (case client_send L packet t of
        (False, t) \<Rightarrow> []
      | (True, t) \<Rightarrow>
     receiveResponse_out X L [ReconnectApproved, ReconnectRejected] t @
     (case receiveResponse L [ReconnectApproved, ReconnectRejected] t of
        (None, t) \<Rightarrow> []
      | (Some reconnectResponse, t) \<Rightarrow>
          if rs_code (sr_header reconnectResponse) = ReconnectRejected
          then out ''[!] Server rejected reconnect (Code 1606). Registering as a new client...''
          else
     (case parseAesKeyPayload (sr_payload reconnectResponse) of
        None \<Rightarrow> err SERVER_ERROR_MSG
      | Some aes \<Rightarrow>
          decryptAesKey_out X (lib_crypto L) (ak_encryptedAesKey aes) (tc_crypto t) @
          out ''[+] Reconnected successfully (Code 1605).''))))"

definition tryReconnect_out ::
  "'w texts \<Rightarrow> ('w, 'j, 'r, 'k, 'p) libs \<Rightarrow> ('w, 'r, 'k, 'p) transfer_client \<Rightarrow> console" where
  "tryReconnect_out X L t =
     (let privKeyOpt = loadPrivateKey (tc_disk t) (tc_config t) in
     (case loadClientInfo (tc_disk t) (tc_config t) of
        (Inl e, c) \<Rightarrow> []
      | (Inr loaded, c) \<Rightarrow>
     (let t = t\<lparr>tc_config := c\<rparr>;
          key = (case privKeyOpt of Some key \<Rightarrow> key | None \<Rightarrow> ci_privateKeyBase64 (cm_clientInfo (tc_config t))) in
     (if loaded then loadPrivateKeyBase64_out X (lib_crypto L) key else []) @
     (case (if loaded then loadPrivateKeyBase64 (lib_crypto L) key (tc_crypto t) else (False, tc_crypto t)) of
        (credentialsLoaded, h) \<Rightarrow>
          if \<not> credentialsLoaded
          then err ''[!] Stored credentials are invalid. Falling back to new registration.''
          else requestReconnect_out X L (t\<lparr>tc_crypto := h\<rparr>)))))"

definition authenticate_out ::
  "'w texts \<Rightarrow> ('w, 'j, 'r, 'k, 'p) libs \<Rightarrow> string \<Rightarrow> ('w, 'r, 'k, 'p) transfer_client \<Rightarrow> console" where
  "authenticate_out X L clientName t =
     (case hasClientInfo (tc_disk t) (tc_config t) of
        Inl e \<Rightarrow> []
      | Inr has \<Rightarrow>
          if has
          then tryReconnect_out X L t @
            (case tryReconnect L False t of
               ((Inl e, _), t) \<Rightarrow> []
             | ((Inr ok, needsRegistration), t) \<Rightarrow>
                 if ok then []
                 else if needsRegistration then registerAndExchangeKeys_out X L clientName t
                 else [])
          else registerAndExchangeKeys_out X L clientName t)"

section \<open>Transfer and the program\<close>

definition verdict_out ::
  "'w texts \<Rightarrow> ('w, 'j, 'r, 'k, 'p) libs \<Rightarrow> encrypted_file_data \<Rightarrow> nat \<Rightarrow> file_crc_response
   \<Rightarrow> ('w, 'r, 'k, 'p) transfer_client \<Rightarrow> console" where
  "verdict_out X L fileData attempt crcResponse t =
     (if unat (fc_contentSize crcResponse) \<noteq> length (ef_encryptedContent fileData)
      then err (SERVER_ERROR_MSG @ '' (content size mismatch: sent '' @ decimal (length (ef_encryptedContent fileData)) @
             '', server reported '' @ decimal (unat (fc_contentSize crcResponse)) @ '')'')
      else if fc_cksum crcResponse = ef_crc fileData
      then
        (let packet = buildCrcStatus (tc_clientId t) CrcValid (ef_fileName fileData) in
         out ''[+] CRC verified successfully! Sending CRC confirmation (Code 900)...'' @ client_send_out L packet t @
         (case client_send L packet t of
            (False, t) \<Rightarrow> []
          | (True, t) \<Rightarrow>
              receiveResponse_out X L [MessageConfirmed] t @
              (case receiveResponse L [MessageConfirmed] t of
                 (None, t) \<Rightarrow> []
               | (Some _, t) \<Rightarrow> out ''[SUCCESS] File transfer and verification completed successfully!'')))
      else
        err (''[!] Warning: CRC mismatch on attempt '' @ decimal attempt @ '' (Local: '' @ decimal (unat (ef_crc fileData)) @
             '' != Server: '' @ decimal (unat (fc_cksum crcResponse)) @ '')'') @
        (if attempt < MAX_CRC_ATTEMPTS
         then out ''[*] Sending CRC retry request (Code 901)...'' @
           client_send_out L (buildCrcStatus (tc_clientId t) CrcInvalidRetry (ef_fileName fileData)) t
         else
           (let packet = buildCrcStatus (tc_clientId t) CrcInvalidAbort (ef_fileName fileData) in
            err ''[-] Max CRC retry limit reached. Sending abort notification (Code 902)...'' @ client_send_out L packet t @
            (case client_send L packet t of
               (False, t) \<Rightarrow> []
             | (True, t) \<Rightarrow>
                 receiveResponse_out X L [MessageConfirmed] t @
                 (case receiveResponse L [MessageConfirmed] t of
                    (None, t) \<Rightarrow> []
                  | (Some _, t) \<Rightarrow> err SERVER_ERROR_MSG)))))"

definition transfer_attempt_out ::
  "'w texts \<Rightarrow> ('w, 'j, 'r, 'k, 'p) libs \<Rightarrow> encrypted_file_data \<Rightarrow> nat \<Rightarrow> ('w, 'r, 'k, 'p) transfer_client \<Rightarrow> console" where
  "transfer_attempt_out X L fileData attempt t =
     (let packet = buildSendFile (tc_clientId t) (ef_origFileSize fileData) 1 1 (ef_fileName fileData)
            (ef_encryptedContent fileData) in
      out ([LF] @ ''[*] Transmission Attempt '' @ decimal attempt @ '' / '' @ decimal MAX_CRC_ATTEMPTS) @
      client_send_out L packet t @
      (case client_send L packet t of
         (False, t) \<Rightarrow> []
       | (True, t) \<Rightarrow>
           receiveResponse_out X L [FileReceivedWithCrc] t @
           (case receiveResponse L [FileReceivedWithCrc] t of
              (None, t) \<Rightarrow> []
            | (Some crcResponse, t) \<Rightarrow>
                (case parseFileCrcPayload (sr_payload crcResponse) of
                   None \<Rightarrow> err SERVER_ERROR_MSG
                 | Some crc \<Rightarrow> verdict_out X L fileData attempt crc t))))"

function transfer_loop_out ::
  "'w texts \<Rightarrow> ('w, 'j, 'r, 'k, 'p) libs \<Rightarrow> encrypted_file_data \<Rightarrow> nat \<Rightarrow> ('w, 'r, 'k, 'p) transfer_client \<Rightarrow> console" where
  "transfer_loop_out X L fileData attempt t =
     (if attempt \<le> MAX_CRC_ATTEMPTS
      then transfer_attempt_out X L fileData attempt t @
        (case transfer_attempt L fileData attempt t of
           (Return ok, t) \<Rightarrow> []
         | (NextAttempt, t) \<Rightarrow> transfer_loop_out X L fileData (Suc attempt) t)
      else [])"
  by pat_completeness auto
termination
  by (relation "measure (\<lambda>(X, L, fd, attempt, t). Suc MAX_CRC_ATTEMPTS - attempt)") auto

declare transfer_loop_out.simps [simp del]

definition transferAndVerify_out ::
  "'w texts \<Rightarrow> ('w, 'j, 'r, 'k, 'p) libs \<Rightarrow> encrypted_file_data \<Rightarrow> ('w, 'r, 'k, 'p) transfer_client \<Rightarrow> console" where
  "transferAndVerify_out X L fileData t = transfer_loop_out X L fileData 1 t"

definition sendSingleFile_out ::
  "'w texts \<Rightarrow> ('w, 'j, 'r, 'k, 'p) libs \<Rightarrow> string \<Rightarrow> ('w, 'r, 'k, 'p) transfer_client \<Rightarrow> console" where
  "sendSingleFile_out X L filePath t =
     (case fs_exists (tc_disk t) filePath of
        Inl e \<Rightarrow> []
      | Inr ex \<Rightarrow>
          if \<not> ex then err (''[-] File does not exist on disk: '' @ filePath)
          else
            createEncryptedFile_out X (lib_crypto L) (tc_disk t) filePath (tc_decryptedAesKey t) @
            (case createEncryptedFile (lib_crypto L) (tc_disk t) filePath (tc_decryptedAesKey t) of
               Inl e \<Rightarrow> []
             | Inr None \<Rightarrow> err (''[-] Error preparing encrypted file: '' @ filePath)
             | Inr (Some fileData) \<Rightarrow>
                 out (''[*] File prepared: '' @ ticks (ef_fileName fileData)) @
                 out (''    Original Size: '' @ decimal (unat (ef_origFileSize fileData)) @ '' bytes'') @
                 out (''    Encrypted Size: '' @ decimal (length (ef_encryptedContent fileData)) @ '' bytes'') @
                 out (''    Local POSIX Checksum: '' @ decimal (unat (ef_crc fileData))) @
                 transferAndVerify_out X L fileData t))"

fun send_files_out ::
  "'w texts \<Rightarrow> ('w, 'j, 'r, 'k, 'p) libs \<Rightarrow> string list \<Rightarrow> ('w, 'r, 'k, 'p) transfer_client \<Rightarrow> console" where
  "send_files_out X L [] t = []"
| "send_files_out X L (filePath # filesToSend) t =
     sendSingleFile_out X L filePath t @
     (case sendSingleFile L filePath t of
        (Inl e, t) \<Rightarrow> []
      | (Inr ok, t) \<Rightarrow> if \<not> ok then [] else send_files_out X L filesToSend t)"

definition run_out ::
  "'w texts \<Rightarrow> ('w, 'j, 'r, 'k, 'p) libs \<Rightarrow> ('w, 'r, 'k, 'p) transfer_client \<Rightarrow> console" where
  "run_out X L t =
     loadTransferInfo_out X (lib_json L) (tc_disk t) ''transfer.json'' @
     (case loadTransferInfo (lib_json L) (tc_disk t) ''transfer.json'' (tc_config t) of
        (Inl e, c) \<Rightarrow> []
      | (Inr False, c) \<Rightarrow> []
      | (Inr True, c) \<Rightarrow>
     (let t = t\<lparr>tc_config := c\<rparr>;
          serverConfig = cm_transferInfo (tc_config t);
          ip = ti_ip serverConfig;
          port = ti_port serverConfig;
          clientName = ti_clientName serverConfig;
          filesToSend = ti_files serverConfig in
     connect_out X (lib_asio L) ip port (tc_client t) @
     (case connect (lib_asio L) ip port (tc_client t) of
        (False, n) \<Rightarrow> err (''[-] Unable to connect to '' @ ip @ '':'' @ decimal (unat port))
      | (True, n) \<Rightarrow>
     (let t = t\<lparr>tc_client := n\<rparr> in
     authenticate_out X L clientName t @
     (case authenticate L clientName t of
        (Inl e, t) \<Rightarrow> []
      | (Inr False, t) \<Rightarrow> []
      | (Inr True, t) \<Rightarrow>
          if length (tc_decryptedAesKey t) \<noteq> 32
          then err ''[-] Decrypted AES key size is invalid.'' @ err SERVER_ERROR_MSG
          else send_files_out X L filesToSend t)))))"

definition main_out ::
  "'w texts \<Rightarrow> ('w, 'j, 'r, 'k, 'p) libs \<Rightarrow> 'w \<Rightarrow> 'r \<Rightarrow> fs \<Rightarrow> console" where
  "main_out X L socket rng disk =
     (let t = newTransferClient socket rng disk :: ('w, 'r, 'k, 'p) transfer_client in
      run_out X L t @
      (case run L t of
         (Inr ok, t) \<Rightarrow> []
       | (Inl e, t) \<Rightarrow> err (''Error: '' @ tx_what X e)))"

end
