(* ===== verification/ConsoleProperties.thy ===== *)
theory ConsoleProperties
  imports Console ProgramRun
begin

text \<open>
  What the user learns from the console: a failure that the server or the network caused is reported with the message of the
  protocol, and no run fails without a line on \<open>std::cerr\<close>.
\<close>

section \<open>Reported failures\<close>

definition reported :: "console \<Rightarrow> bool" where
  "reported os = list_ex (\<lambda>(channel, _). channel = Cerr) os"

definition server_error :: "console \<Rightarrow> bool" where
  "server_error os = list_ex (\<lambda>(channel, s). channel = Cerr \<and> take (length SERVER_ERROR_MSG) s = SERVER_ERROR_MSG) os"

lemma reported_append [simp]: "reported (a @ b) \<longleftrightarrow> reported a \<or> reported b"
  by (simp add: reported_def)

lemma server_error_append [simp]: "server_error (a @ b) \<longleftrightarrow> server_error a \<or> server_error b"
  by (simp add: server_error_def)

lemma server_error_reported: "server_error os \<Longrightarrow> reported os"
  by (auto simp: reported_def server_error_def list_ex_iff)

lemma reported_err [simp]: "reported (err s)" "server_error (err (SERVER_ERROR_MSG @ s))" "server_error (err SERVER_ERROR_MSG)"
  by (simp_all add: reported_def server_error_def err_def)

lemma send_reported: "client_send L d t = (False, t') \<Longrightarrow> server_error (client_send_out L d t)"
  by (simp add: client_send_out_def)

lemma response_reported: "receiveResponse L acc t = (None, t') \<Longrightarrow> server_error (receiveResponse_out X L acc t)"
  by (auto simp: receiveResponse_def receiveResponse_out_def Let_def split: prod.splits option.splits if_splits)

lemma verdict_reported: "verdict L fd n crc t = (Return False, t') \<Longrightarrow> server_error (verdict_out X L fd n crc t)"
  by (auto simp: verdict_def verdict_out_def Let_def split: if_splits prod.splits bool.splits option.splits
      dest: send_reported response_reported)

lemma attempt_reported:
  "transfer_attempt L fd n t = (Return False, t') \<Longrightarrow> server_error (transfer_attempt_out X L fd n t)"
  by (auto simp: transfer_attempt_def transfer_attempt_out_def Let_def split: prod.splits bool.splits option.splits
      dest: send_reported response_reported verdict_reported)

lemma attempt_next: "transfer_attempt L fd n t = (NextAttempt, t') \<Longrightarrow> n < 4"
  by (auto simp: transfer_attempt_def verdict_def MAX_CRC_ATTEMPTS_def split: prod.splits bool.splits option.splits if_splits)

lemma loop_reported:
  "transfer_loop L fd n t = (False, t') \<Longrightarrow> n \<le> 4 \<Longrightarrow> server_error (transfer_loop_out X L fd n t)"
proof (induction L fd n t rule: transfer_loop.induct)
  case (1 L fd n t)
  obtain o1 t1 where a: "transfer_attempt L fd n t = (o1, t1)" by fastforce
  show ?case
  proof (cases o1)
    case (Return b)
    then show ?thesis
      using 1(2,3) a attempt_reported [of L fd n t t1 X]
      by (auto simp: transfer_loop.simps [of L fd n] transfer_loop_out.simps [of X L fd n] MAX_CRC_ATTEMPTS_def)
  next
    case NextAttempt
    have "transfer_loop L fd (Suc n) t1 = (False, t')" "Suc n \<le> 4"
      using 1(2,3) a NextAttempt attempt_next [of L fd n t t1]
      by (simp_all add: transfer_loop.simps [of L fd n] MAX_CRC_ATTEMPTS_def)
    then show ?thesis
      using 1(1) [OF _ a [symmetric] NextAttempt] 1(3) a NextAttempt
      by (simp add: transfer_loop_out.simps [of X L fd n] MAX_CRC_ATTEMPTS_def)
  qed
qed

lemma single_reported: "sendSingleFile L p t = (Inr False, t') \<Longrightarrow> reported (sendSingleFile_out X L p t)"
  by (auto simp: sendSingleFile_def sendSingleFile_out_def transferAndVerify_def transferAndVerify_out_def
      split: sum.splits if_splits option.splits prod.splits
      dest!: loop_reported [where X = X] intro: server_error_reported)

lemma files_reported: "send_files L ps t = (Inr False, t') \<Longrightarrow> reported (send_files_out X L ps t)"
proof (induction ps arbitrary: t)
  case (Cons p ps)
  obtain r1 t1 where s: "sendSingleFile L p t = (r1, t1)" by fastforce
  then show ?case
    using Cons single_reported [of L p t t1 X] by (auto split: sum.splits if_splits)
qed simp

section \<open>Authentication\<close>

definition not_saved :: "console \<Rightarrow> bool" where
  "not_saved os = list_ex (\<lambda>l. l = (Cerr, ''Error: failed to save client credentials (me.info / priv.key).'' @ [LF])) os"

lemma not_saved_append [simp]: "not_saved (a @ b) \<longleftrightarrow> not_saved a \<or> not_saved b"
  by (simp add: not_saved_def)

lemma not_saved_err [simp]: "not_saved (err ''Error: failed to save client credentials (me.info / priv.key).'')"
  by (simp add: not_saved_def err_def)

lemma exchangeKeys_reported: "exchangeKeys L name t = (False, t') \<Longrightarrow> server_error (exchangeKeys_out X L name t)"
  by (auto simp: exchangeKeys_def exchangeKeys_out_def Let_def split: bool.splits option.splits prod.splits
      dest: send_reported response_reported)

text \<open>The key is announced as decrypted without a look at the result of the decryption.\<close>

lemma failed_decryption_announced:
  assumes "client_send L (buildPublicKeyExchange (tc_clientId t) name (getPublicKeyDER (lib_crypto L) (tc_crypto t))) t = (True, t1)"
    and "receiveResponse L [AesKeyReceived] t1 = (Some response, t2)"
    and "parseAesKeyPayload (sr_payload response) = Some aes"
    and "ch_privateKey (tc_crypto t2) = Some priv" and "ak_encryptedAesKey aes \<noteq> []"
    and "fst (cp_oaep_decrypt (lib_crypto L) priv (ak_encryptedAesKey aes) (ch_rng (tc_crypto t2))) = None"
  shows "\<exists>before. exchangeKeys_out X L name t = before @
      err (''[-] Decryption failed: '' @ tx_decrypt X (ak_encryptedAesKey aes)) @
      out ''[+] Received and decrypted symmetric AES key (Code 1602).''"
  using assms by (cases "cp_oaep_decrypt (lib_crypto L) priv (ak_encryptedAesKey aes) (ch_rng (tc_crypto t2))")
    (simp add: exchangeKeys_out_def decryptAesKey_out_def Let_def)

lemma register_reported:
  assumes "registerAndExchangeKeys L name t = (Inr False, t')"
  shows "server_error (registerAndExchangeKeys_out X L name t) \<or> not_saved (registerAndExchangeKeys_out X L name t)"
proof -
  obtain sent t1 where s: "client_send L (buildRegistration name) t = (sent, t1)" by fastforce
  obtain response t2 where r: "receiveResponse L [RegistrationSuccess] t1 = (response, t2)" by fastforce
  show ?thesis
  proof (cases "sent = False \<or> response = None")
    case True
    then show ?thesis
      using s r response_reported [of L _ t1 t2 X]
      by (cases sent) (auto simp: registerAndExchangeKeys_out_def dest: send_reported)
  next
    case False
    then obtain resp where resp: "sent" "response = Some resp" by (cases sent) auto
    show ?thesis
    proof (cases "parseClientIdPayload (sr_payload resp)")
      case None
      then show ?thesis by (simp add: registerAndExchangeKeys_out_def s r resp)
    next
      case (Some uuid)
      obtain g h where g: "generateRsaKeys (lib_crypto L) (tc_crypto (t2\<lparr>tc_clientId := uuid\<rparr>)) = (g, h)" by fastforce
      let ?t = "t2\<lparr>tc_clientId := uuid, tc_crypto := h\<rparr>"
      obtain saved d where d: "saveClientInfo name uuid (getPrivateKeyBase64 (lib_crypto L) h) (tc_disk t2) (tc_config t2) = (saved, d)"
        by fastforce
      obtain ok t3 where e: "exchangeKeys L name (?t\<lparr>tc_disk := d\<rparr>) = (ok, t3)" by fastforce
      show ?thesis
        using assms e g d
        by (cases g; cases saved)
          (simp_all add: registerAndExchangeKeys_def registerAndExchangeKeys_out_def s r resp Some exchangeKeys_reported)
    qed
  qed
qed

lemma request_reported:
  assumes "requestReconnect L False t = ((False, False), t')"
  shows "server_error (requestReconnect_out X L t)"
proof -
  let ?t = "t\<lparr>tc_clientId := ci_uuid (cm_clientInfo (tc_config t))\<rparr>"
  obtain sent t1 where
    s: "client_send L (buildReconnect (ci_uuid (cm_clientInfo (tc_config t))) (ci_name (cm_clientInfo (tc_config t)))) ?t = (sent, t1)"
    by fastforce
  obtain response t2 where r: "receiveResponse L [ReconnectApproved, ReconnectRejected] t1 = (response, t2)" by fastforce
  show ?thesis
    using assms s r
    by (cases sent; cases response)
      (auto simp: requestReconnect_def requestReconnect_out_def Let_def send_reported response_reported
        split: if_splits option.splits prod.splits)
qed

lemma reconnect_reported:
  assumes "tryReconnect L False t = ((Inr False, False), t')"
  shows "server_error (tryReconnect_out X L t)"
proof -
  obtain l c where l: "loadClientInfo (tc_disk t) (tc_config t) = (l, c)" by fastforce
  show ?thesis
    using assms l
    by (cases l) (auto simp: tryReconnect_def tryReconnect_out_def Let_def request_reported split: if_splits prod.splits)
qed

lemma authenticate_reported:
  assumes "authenticate L name t = (Inr False, t')"
  shows "server_error (authenticate_out X L name t) \<or> not_saved (authenticate_out X L name t)"
proof -
  obtain hc where hc: "hasClientInfo (tc_disk t) (tc_config t) = hc" by simp
  obtain r1 needs t1 where q: "tryReconnect L False t = ((r1, needs), t1)" by (metis prod.exhaust)
  show ?thesis
    using assms hc q reconnect_reported [of L t t1 X] register_reported [of L name t1 t' X] register_reported [of L name t t' X]
    by (cases hc; cases r1; cases needs) (auto simp: authenticate_def authenticate_out_def split: if_splits)
qed

section \<open>The program\<close>

lemma config_reported: "loadTransferInfo J d path c = (Inr False, c') \<Longrightarrow> reported (loadTransferInfo_out X J d path)"
  by (auto simp: loadTransferInfo_def loadTransferInfo_out_def load_document_def load_document_out_def Let_def
      split: sum.splits if_splits option.splits prod.splits load_exception.splits)

lemma not_saved_reported: "not_saved os \<Longrightarrow> reported os"
  by (auto simp: not_saved_def reported_def list_ex_iff)

section \<open>Announced transfers\<close>

text \<open>How often a transfer is announced as successful.\<close>

definition announcements :: "console \<Rightarrow> nat" where
  "announcements os =
     count_list os (Cout, ''[SUCCESS] File transfer and verification completed successfully!'' @ [LF])"

lemma announcements_lines [simp]:
  "announcements [] = 0"
  "announcements (a @ b) = announcements a + announcements b"
  "announcements (err s) = 0"
  "announcements (out s) = of_bool (s = ''[SUCCESS] File transfer and verification completed successfully!'')"
  by (simp_all add: announcements_def out_def err_def)

lemma send_unannounced [simp]: "announcements (client_send_out L d t) = 0"
  by (simp add: client_send_out_def send_out_def split: prod.splits bool.splits)

lemma receive_unannounced [simp]: "announcements (client_receiveExact_out X L n t) = 0"
  by (simp add: client_receiveExact_out_def receiveExact_out_def
      split: prod.splits option.splits io_error.splits)

lemma response_unannounced [simp]: "announcements (receiveResponse_out X L acc t) = 0"
  by (simp add: receiveResponse_out_def Let_def split: prod.splits option.splits)

lemma verdict_announced:
  "announcements (verdict_out X L fd n crc t) = of_bool (fst (verdict L fd n crc t) = Return True)"
  by (simp add: verdict_def verdict_out_def Let_def split: prod.splits bool.splits option.splits)

lemma attempt_announced:
  "announcements (transfer_attempt_out X L fd n t) = of_bool (fst (transfer_attempt L fd n t) = Return True)"
  by (simp add: transfer_attempt_def transfer_attempt_out_def Let_def verdict_announced
      split: prod.splits bool.splits option.splits)

lemma loop_announced: "announcements (transfer_loop_out X L fd n t) = of_bool (fst (transfer_loop L fd n t))"
proof (induction L fd n t rule: transfer_loop.induct)
  case (1 L fd n t)
  then show ?case
    by (subst transfer_loop.simps, subst transfer_loop_out.simps)
      (simp add: attempt_announced split: prod.splits attempt_outcome.splits)
qed

lemma prepared_unannounced [simp]: "announcements (createEncryptedFile_out X C d p key) = 0"
  by (simp add: createEncryptedFile_out_def encryptAesCbc_out_def Let_def split: sum.splits option.splits)

lemma single_announced:
  "announcements (sendSingleFile_out X L p t) = of_bool (fst (sendSingleFile L p t) = Inr True)"
  by (simp add: sendSingleFile_def sendSingleFile_out_def transferAndVerify_def transferAndVerify_out_def loop_announced
      split: sum.splits option.splits prod.splits)

lemma files_announced:
  "send_files L ps t = (Inr True, t') \<Longrightarrow> announcements (send_files_out X L ps t) = length ps"
proof (induction ps arbitrary: t)
  case (Cons p ps)
  then show ?case by (auto simp: single_announced split: sum.splits prod.splits if_splits)
qed simp

lemma exchange_unannounced [simp]: "announcements (exchangeKeys_out X L name t) = 0"
  by (simp add: exchangeKeys_out_def decryptAesKey_out_def Let_def split: prod.splits bool.splits option.splits)

lemma register_unannounced [simp]: "announcements (registerAndExchangeKeys_out X L name t) = 0"
  by (simp add: registerAndExchangeKeys_out_def saveClientInfo_out_def Let_def
      split: prod.splits bool.splits option.splits sum.splits)

lemma request_unannounced [simp]: "announcements (requestReconnect_out X L t) = 0"
  by (simp add: requestReconnect_out_def decryptAesKey_out_def Let_def split: prod.splits bool.splits option.splits)

lemma reconnect_unannounced [simp]: "announcements (tryReconnect_out X L t) = 0"
  by (simp add: tryReconnect_out_def loadPrivateKeyBase64_out_def Let_def split: prod.splits sum.splits option.splits)

lemma authenticate_unannounced [simp]: "announcements (authenticate_out X L name t) = 0"
  by (simp add: authenticate_out_def split: prod.splits sum.splits)

lemma start_unannounced [simp]:
  "announcements (loadTransferInfo_out X J d path) = 0" "announcements (connect_out X A host port c) = 0"
  by (simp_all add: loadTransferInfo_out_def load_document_out_def connect_out_def Let_def
      split: sum.splits option.splits prod.splits bool.splits load_exception.splits)

section \<open>The whole output\<close>

text \<open>The output of \<open>run\<close> by the stages of \<open>run_chain\<close>.\<close>

lemma run_output:
  fixes L :: "('w, 'j, 'r, 'k, 'p) libs" and w :: 'w and rng :: 'r and d :: fs
  defines "t \<equiv> newTransferClient w rng d"
  assumes l: "loadTransferInfo (lib_json L) d ''transfer.json'' default_config = (l, c)"
    and n: "connect (lib_asio L) (ti_ip (cm_transferInfo c)) (ti_port (cm_transferInfo c)) (newNetworkClient w) = (ok, n)"
    and a: "authenticate L (ti_clientName (cm_transferInfo c)) (t\<lparr>tc_config := c, tc_client := n\<rparr>) = (r2, t2)"
  shows "run_out X L t =
      loadTransferInfo_out X (lib_json L) d ''transfer.json'' @
      (if l \<noteq> Inr True then []
       else connect_out X (lib_asio L) (ti_ip (cm_transferInfo c)) (ti_port (cm_transferInfo c)) (newNetworkClient w) @
         (if \<not> ok then err (''[-] Unable to connect to '' @ ti_ip (cm_transferInfo c) @ '':'' @
              decimal (unat (ti_port (cm_transferInfo c))))
          else authenticate_out X L (ti_clientName (cm_transferInfo c)) (t\<lparr>tc_config := c, tc_client := n\<rparr>) @
            (if r2 \<noteq> Inr True then []
             else if length (tc_decryptedAesKey t2) \<noteq> 32
             then err ''[-] Decrypted AES key size is invalid.'' @ err SERVER_ERROR_MSG
             else send_files_out X L (ti_files (cm_transferInfo c)) t2)))"
proof -
  have [simp]: "tc_disk t = d" "tc_config t = default_config" "tc_client t = newNetworkClient w"
    by (simp_all add: t_def newTransferClient_def)
  show ?thesis
    using l n a by (auto simp: run_out_def Let_def split: sum.splits bool.splits)
qed

text \<open>Without a configuration the whole output is one line; the path is printed in quotes.\<close>

lemma missing_configuration_output:
  assumes "fs_exists d ''transfer.json'' = Inr False"
  shows "main_out X L w rng d =
      [(Cerr, ''[-] [ConfigManager] Error: File not found: '' @ [QUOTE] @ ''transfer.json'' @ [QUOTE] @ [LF])]"
    and "fst (main L w rng d) = 1"
  using assms
  by (simp_all add: main_out_def run_out_def main_def run_def newTransferClient_def loadTransferInfo_out_def
      loadTransferInfo_def err_def quoted_def QUOTE_def BACKSLASH_def)

text \<open>
  C18. The console announces a transfer as successful exactly when \<open>transferAndVerify\<close> returns true, and then
  once; when it returns false, a line with the error message of the protocol says so.
\<close>

theorem transfer_announced:
  "announcements (transferAndVerify_out X L fd t) = of_bool (fst (transferAndVerify L fd t)) \<and>
   (fst (transferAndVerify L fd t) \<or> server_error (transferAndVerify_out X L fd t))"
  using loop_reported [of L fd 1 t "snd (transfer_loop L fd 1 t)" X]
  by (cases "transfer_loop L fd 1 t")
    (auto simp: transferAndVerify_def transferAndVerify_out_def loop_announced)

text \<open>
  C13. The program never fails silently: when the exit code is not 0, whatever the libraries, the
  disk and the server do, some line on \<open>std::cerr\<close> reports it; when it is 0, the output
  announces exactly as many successful transfers as the configuration names files.
\<close>

theorem main_output_conclusive:
  "if fst (main L w rng d) = 0
   then announcements (main_out X L w rng d) =
     length (ti_files (cm_transferInfo (snd (loadTransferInfo (lib_json L) d ''transfer.json'' default_config))))
   else reported (main_out X L w rng d)"
proof -
  let ?t = "newTransferClient w rng d"
  obtain l c where l: "loadTransferInfo (lib_json L) d ''transfer.json'' default_config = (l, c)" by fastforce
  let ?i = "cm_transferInfo c"
  obtain ok n where n: "connect (lib_asio L) (ti_ip ?i) (ti_port ?i) (newNetworkClient w) = (ok, n)" by fastforce
  let ?t1 = "?t\<lparr>tc_config := c, tc_client := n\<rparr>"
  obtain r2 t2 where a: "authenticate L (ti_clientName ?i) ?t1 = (r2, t2)" by fastforce
  obtain r3 t3 where f: "send_files L (ti_files ?i) t2 = (r3, t3)" by fastforce
  obtain r t where r: "run L ?t = (r, t)" by fastforce
  note chain = run_chain [OF l n a f] run_output [OF l n a, of X]
  have exit: "fst (main L w rng d) = (if r = Inr True then 0 else 1)"
    "main_out X L w rng d = run_out X L ?t @ (case r of Inl e \<Rightarrow> err (''Error: '' @ tx_what X e) | Inr _ \<Rightarrow> [])"
    by (simp_all add: main_def main_out_def r split: sum.splits)
  show ?thesis
  proof (cases "r = Inr True")
    case True
    then show ?thesis
      using chain r l exit f files_announced [of L "ti_files ?i" t2 t3 X]
      by (auto split: if_splits sum.splits)
  next
    case False
    have "reported (run_out X L ?t)" if "r = Inr False"
      using chain r that config_reported [of "lib_json L" d _ default_config c X] l f
        authenticate_reported [of L _ ?t1 t2 X] files_reported [of L "ti_files ?i" t2 t3 X] a
      by (auto split: if_splits sum.splits intro: server_error_reported not_saved_reported)
    then show ?thesis
      using False exit by (cases r) auto
  qed
qed

end
