(* ===== verification/Confidentiality.thy ===== *)
theory Confidentiality
  imports ConsoleProperties ScriptedRun
begin

text \<open>
  The private key stays on the machine. Two runs of the program are compared that differ only in how the library
  serialises and encodes private keys. The text of the key goes into \<open>me.info\<close> and \<open>priv.key\<close> and
  nowhere else: nothing on the wire and no result depends on it.
\<close>

section \<open>Two libraries\<close>

definition with_export ::
  "('w, 'j, 'r, 'k, 'p) libs \<Rightarrow> ('k \<Rightarrow> bytes) \<Rightarrow> (bytes \<Rightarrow> string) \<Rightarrow> ('w, 'j, 'r, 'k, 'p) libs" where
  "with_export L save encode =
     L\<lparr>lib_crypto := (lib_crypto L)\<lparr>cp_save_private := save, cp_base64_encode := encode\<rparr>\<rparr>"

text \<open>What does not export a key is the same with both.\<close>

lemma with_export_libs [simp]:
  "lib_asio (with_export L sp be) = lib_asio L" "lib_json (with_export L sp be) = lib_json L"
  by (simp_all add: with_export_def)

lemma with_export_fields [simp]:
  "cp_generate (lib_crypto (with_export L sp be)) = cp_generate (lib_crypto L)"
  "cp_save_public (lib_crypto (with_export L sp be)) = cp_save_public (lib_crypto L)"
  "cp_oaep_decrypt (lib_crypto (with_export L sp be)) = cp_oaep_decrypt (lib_crypto L)"
  "cp_aes_cbc_encrypt (lib_crypto (with_export L sp be)) = cp_aes_cbc_encrypt (lib_crypto L)"
  "cp_load_private (lib_crypto (with_export L sp be)) = cp_load_private (lib_crypto L)"
  "cp_base64_decode (lib_crypto (with_export L sp be)) = cp_base64_decode (lib_crypto L)"
  by (simp_all add: with_export_def)

lemma with_export_crypto [simp]:
  "generateRsaKeys (lib_crypto (with_export L sp be)) = generateRsaKeys (lib_crypto L)"
  "getPublicKeyDER (lib_crypto (with_export L sp be)) = getPublicKeyDER (lib_crypto L)"
  "decryptAesKey (lib_crypto (with_export L sp be)) = decryptAesKey (lib_crypto L)"
  "encryptAesCbc (lib_crypto (with_export L sp be)) = encryptAesCbc (lib_crypto L)"
  "loadPrivateKeyBase64 (lib_crypto (with_export L sp be)) = loadPrivateKeyBase64 (lib_crypto L)"
  by (simp_all add: fun_eq_iff generateRsaKeys_def getPublicKeyDER_def decryptAesKey_def
      encryptAesCbc_def loadPrivateKeyBase64_def split: option.splits)

lemma with_export_client [simp]:
  "client_send (with_export L sp be) = client_send L"
  "client_receiveExact (with_export L sp be) = client_receiveExact L"
  "client_disconnect (with_export L sp be) = client_disconnect L"
  by (simp_all add: fun_eq_iff client_send_def client_receiveExact_def client_disconnect_def)

lemmas with_export_simps = with_export_libs with_export_crypto with_export_client

lemma with_export_response [simp]: "receiveResponse (with_export L sp be) = receiveResponse L"
  by (unfold receiveResponse_def with_export_simps) (rule refl)

lemma with_export_session [simp]:
  "exchangeKeys (with_export L sp be) = exchangeKeys L"
  "requestReconnect (with_export L sp be) = requestReconnect L"
  "verdict (with_export L sp be) = verdict L"
  by (unfold exchangeKeys_def requestReconnect_def verdict_def with_export_simps with_export_response) (rule refl)+

lemma with_export_operations [simp]:
  "tryReconnect (with_export L sp be) = tryReconnect L"
  "transfer_attempt (with_export L sp be) = transfer_attempt L"
  "createEncryptedFile (lib_crypto (with_export L sp be)) = createEncryptedFile (lib_crypto L)"
  by (unfold tryReconnect_def transfer_attempt_def createEncryptedFile_def with_export_simps
      with_export_response with_export_session) (rule refl)+

section \<open>Another disk\<close>

text \<open>The exchanges with the server neither read nor write files.\<close>

lemma case_apsnd [simp]: "(case apsnd f p of (x, y) \<Rightarrow> g x y) = (case p of (x, y) \<Rightarrow> g x (f y))"
  by (cases p) simp

abbreviation on_disk_of :: "fs \<Rightarrow> ('w, 'r, 'k, 'p) transfer_client \<Rightarrow> ('w, 'r, 'k, 'p) transfer_client" where
  "on_disk_of d t \<equiv> t\<lparr>tc_disk := d\<rparr>"

lemma disk_client [simp]:
  "client_send L p (on_disk_of d t) = apsnd (on_disk_of d) (client_send L p t)"
  "client_receiveExact L n (on_disk_of d t) = apsnd (on_disk_of d) (client_receiveExact L n t)"
  "client_disconnect L (on_disk_of d t) = on_disk_of d (client_disconnect L t)"
  by (simp_all add: client_send_def client_receiveExact_def client_disconnect_def split: prod.splits)

lemma disk_response [simp]:
  "receiveResponse L acc (on_disk_of d t) = apsnd (on_disk_of d) (receiveResponse L acc t)"
  by (simp add: receiveResponse_def Let_def split: prod.splits option.splits)

lemma disk_exchange [simp]:
  "exchangeKeys L name (on_disk_of d t) = apsnd (on_disk_of d) (exchangeKeys L name t)"
  by (simp add: exchangeKeys_def split: prod.splits option.splits bool.splits)

lemma disk_verdict [simp]:
  "verdict L fd n crc (on_disk_of d t) = apsnd (on_disk_of d) (verdict L fd n crc t)"
  by (simp add: verdict_def split: prod.splits option.splits bool.splits)

lemma disk_attempt [simp]:
  "transfer_attempt L fd n (on_disk_of d t) = apsnd (on_disk_of d) (transfer_attempt L fd n t)"
  by (simp add: transfer_attempt_def split: prod.splits option.splits bool.splits)

lemma other_loop:
  "transfer_loop (with_export L sp be) fd n (on_disk_of d t) = apsnd (on_disk_of d) (transfer_loop L fd n t)"
proof (induction L fd n t rule: transfer_loop.induct)
  case (1 L fd n t)
  then show ?case
    by (simp add: transfer_loop.simps [of L fd n] transfer_loop.simps [of "with_export L sp be" fd n]
        split: prod.splits attempt_outcome.splits)
qed

text \<open>Files that agree except at the paths in \<open>P\<close>.\<close>

definition same_files_but :: "string set \<Rightarrow> fs \<Rightarrow> fs \<Rightarrow> bool" where
  "same_files_but P d e \<longleftrightarrow> same_environment d e \<and> (\<forall>p. p \<notin> P \<longrightarrow> fs_files e p = fs_files d p)"

interpretation files_frame: state_preorder "same_files_but P" for P
  by unfold_locales (auto simp: same_files_but_def same_environment_def)

lemma other_file_queries:
  assumes "same_files_but P d e" and "p \<notin> P"
  shows "fs_exists e p = fs_exists d p" "fs_file_size e p = fs_file_size d p" "fs_open_in e p = fs_open_in d p"
    "fs_platform e = fs_platform d"
  using assms by (simp_all add: same_files_but_def same_environment_def fs_exists_def fs_file_size_def fs_open_in_def)

lemma other_file:
  assumes "same_files_but P d e" and "p \<notin> P"
  shows "createEncryptedFile C e p key = createEncryptedFile C d p key"
  unfolding createEncryptedFile_def other_file_queries [OF assms] by (rule refl)

lemma other_single:
  assumes "same_files_but P (tc_disk t) d" and "p \<notin> P"
  shows "sendSingleFile (with_export L sp be) p (on_disk_of d t) = apsnd (on_disk_of d) (sendSingleFile L p t)"
proof -
  obtain x where x: "createEncryptedFile (lib_crypto L) (tc_disk t) p (tc_decryptedAesKey t) = x"
    "createEncryptedFile (lib_crypto L) d p (tc_decryptedAesKey t) = x"
    using other_file [OF assms] by blast
  show ?thesis
    by (simp add: sendSingleFile_def transferAndVerify_def other_loop other_file_queries(1) [OF assms] x
        split: sum.splits option.splits prod.splits)
qed

lemma other_files:
  assumes "same_files_but P (tc_disk t) d" and "set ps \<inter> P = {}"
  shows "send_files (with_export L sp be) ps (on_disk_of d t) = apsnd (on_disk_of d) (send_files L ps t)"
  using assms
proof (induction ps arbitrary: t)
  case (Cons p ps)
  obtain r t1 where s: "sendSingleFile L p t = (r, t1)" by fastforce
  then have "tc_disk t1 = tc_disk t" by (rule only_clientD(5) [OF only_client_single])
  then show ?case
    using Cons other_single [of P t d p L sp be] s by (auto split: sum.splits)
qed simp

section \<open>Authentication\<close>

text \<open>Saving another key makes the same files, but for the key in them.\<close>

lemma other_save:
  assumes "saveClientInfo name u key d c = (ok, e)"
  obtains e' where "saveClientInfo name u key' d c = (ok, e')"
    and "same_files_but {cm_meInfoPath c, cm_privKeyPath c} e e'"
  using assms
  by (auto simp: saveClientInfo_def fs_open_trunc_def fs_write_def Let_def same_files_but_def same_environment_def
      split: if_splits option.splits)

lemma same_result:
  "x = (r, t') \<Longrightarrow> \<exists>d. x = (r, on_disk_of d t') \<and> same_files_but P (tc_disk t') d"
  by (intro exI [of _ "tc_disk t'"]) (simp add: files_frame.R_refl)

lemma other_register:
  assumes "registerAndExchangeKeys L name t = (r, t')"
  shows "\<exists>d. registerAndExchangeKeys (with_export L sp be) name t = (r, on_disk_of d t') \<and>
    same_files_but {cm_meInfoPath (tc_config t), cm_privKeyPath (tc_config t)} (tc_disk t') d"
proof -
  obtain ok1 t1 where s: "client_send L (buildRegistration name) t = (ok1, t1)" by fastforce
  obtain resp t2 where q: "receiveResponse L [RegistrationSuccess] t1 = (resp, t2)" by fastforce
  show ?thesis
  proof (cases "ok1 \<and> resp \<noteq> None \<and> parseClientIdPayload (sr_payload (the resp)) \<noteq> None")
    case False
    then have "registerAndExchangeKeys (with_export L sp be) name t = registerAndExchangeKeys L name t"
      using s q by (cases ok1; cases resp) (auto simp: registerAndExchangeKeys_def)
    then show ?thesis using assms by (intro same_result) simp
  next
    case True
    then obtain m u where m: "ok1" "resp = Some m" "parseClientIdPayload (sr_payload m) = Some u" by auto
    obtain g h where g: "generateRsaKeys (lib_crypto L) (tc_crypto t2) = (g, h)" by fastforce
    let ?t = "t2\<lparr>tc_clientId := u, tc_crypto := h\<rparr>"
    let ?save = "\<lambda>L. saveClientInfo name u (getPrivateKeyBase64 (lib_crypto L) h) (tc_disk t2) (tc_config t2)"
    obtain ok3 e where v: "?save L = (ok3, e)" by fastforce
    obtain e' where v': "?save (with_export L sp be) = (ok3, e')"
      and e': "same_files_but {cm_meInfoPath (tc_config t2), cm_privKeyPath (tc_config t2)} e e'"
      using other_save [OF v] by metis
    obtain ok4 t4 where x: "exchangeKeys L name ?t = (ok4, t4)" by fastforce
    have c: "tc_config t2 = tc_config t"
      using only_client_send [OF s] only_client_response [OF q] by (simp add: only_clientD)
    have out: "registerAndExchangeKeys K name t =
        (case g of Inl ex \<Rightarrow> (Inl ex, ?t) | Inr _ \<Rightarrow>
          (case ?save K of (False, d) \<Rightarrow> (Inr False, on_disk_of d ?t)
           | (True, d) \<Rightarrow> (case exchangeKeys K name (on_disk_of d ?t) of (ok, t) \<Rightarrow> (Inr ok, t))))"
      if "client_send K = client_send L" "receiveResponse K = receiveResponse L"
        "generateRsaKeys (lib_crypto K) = generateRsaKeys (lib_crypto L)" for K
      using s q m g by (simp add: registerAndExchangeKeys_def Let_def that split: sum.splits)
    show ?thesis
    proof (cases g)
      case (Inl ex)
      then show ?thesis using assms out [of L] out [of "with_export L sp be"] by (intro same_result) simp
    next
      case (Inr y)
      then show ?thesis
        using assms out [of L] out [of "with_export L sp be"] v v' x e' c
        by (intro exI [of _ e']) (cases ok3; auto)
    qed
  qed
qed

lemma other_authenticate:
  assumes "authenticate L name t = (r, t')"
  shows "\<exists>d. authenticate (with_export L sp be) name t = (r, on_disk_of d t') \<and>
    same_files_but {cm_meInfoPath (tc_config t), cm_privKeyPath (tc_config t)} (tc_disk t') d"
proof -
  obtain hc where hc: "hasClientInfo (tc_disk t) (tc_config t) = hc" by simp
  obtain r1 needs t1 where q: "tryReconnect L False t = ((r1, needs), t1)" by (metis prod.exhaust)
  consider (fresh) "hc = Inr False" | (again) "hc = Inr True" "r1 = Inr False" "needs"
    | (other) "hc \<noteq> Inr False" "\<not> (hc = Inr True \<and> r1 = Inr False \<and> needs)"
    by blast
  then show ?thesis
  proof cases
    case fresh
    then show ?thesis using assms hc other_register [of L name t r t' sp be] by (simp add: authenticate_def)
  next
    case again
    then show ?thesis
      using assms hc q other_register [of L name t1 r t' sp be] reconnect_paths [OF q] by (simp add: authenticate_def)
  next
    case other
    then have "authenticate (with_export L sp be) name t = authenticate L name t"
      using hc q by (cases hc; cases r1) (auto simp: authenticate_def)
    then show ?thesis using assms by (intro same_result) simp
  qed
qed

section \<open>The console\<close>

text \<open>What is printed depends on the exported key no more than the results do.\<close>

lemma printed_by_crypto [simp]:
  "decryptAesKey_out X (lib_crypto (with_export L sp be)) = decryptAesKey_out X (lib_crypto L)"
  "encryptAesCbc_out X (lib_crypto (with_export L sp be)) = encryptAesCbc_out X (lib_crypto L)"
  "loadPrivateKeyBase64_out X (lib_crypto (with_export L sp be)) = loadPrivateKeyBase64_out X (lib_crypto L)"
  by (simp_all add: fun_eq_iff decryptAesKey_out_def encryptAesCbc_out_def loadPrivateKeyBase64_out_def
      split: option.splits)

lemmas printing_simps = with_export_simps with_export_response with_export_session with_export_operations
  printed_by_crypto

lemma printed_by_client [simp]:
  "client_send_out (with_export L sp be) = client_send_out L"
  "client_receiveExact_out X (with_export L sp be) = client_receiveExact_out X L"
  by (unfold client_send_out_def client_receiveExact_out_def printing_simps) (rule refl)+

lemma printed_by_response [simp]: "receiveResponse_out X (with_export L sp be) = receiveResponse_out X L"
  by (unfold receiveResponse_out_def printing_simps printed_by_client) (rule refl)

lemma printed_by_session [simp]:
  "exchangeKeys_out X (with_export L sp be) = exchangeKeys_out X L"
  "requestReconnect_out X (with_export L sp be) = requestReconnect_out X L"
  "verdict_out X (with_export L sp be) = verdict_out X L"
  by (unfold exchangeKeys_out_def requestReconnect_out_def verdict_out_def printing_simps printed_by_client
      printed_by_response) (rule refl)+

lemma printed_by_operations [simp]:
  "tryReconnect_out X (with_export L sp be) = tryReconnect_out X L"
  "transfer_attempt_out X (with_export L sp be) = transfer_attempt_out X L"
  "createEncryptedFile_out X (lib_crypto (with_export L sp be)) = createEncryptedFile_out X (lib_crypto L)"
  by (unfold tryReconnect_out_def transfer_attempt_out_def createEncryptedFile_out_def printing_simps printed_by_client
      printed_by_response printed_by_session) (rule refl)+

lemma disk_printed [simp]:
  "client_send_out L p (on_disk_of d t) = client_send_out L p t"
  "client_receiveExact_out X L n (on_disk_of d t) = client_receiveExact_out X L n t"
  by (simp_all add: client_send_out_def client_receiveExact_out_def)

lemma disk_response_printed [simp]:
  "receiveResponse_out X L acc (on_disk_of d t) = receiveResponse_out X L acc t"
  by (simp add: receiveResponse_out_def Let_def cong: prod.case_cong option.case_cong bool.case_cong if_cong)

lemma disk_exchange_printed [simp]: "exchangeKeys_out X L name (on_disk_of d t) = exchangeKeys_out X L name t"
  by (simp add: exchangeKeys_out_def Let_def cong: prod.case_cong option.case_cong bool.case_cong if_cong)

lemma disk_verdict_printed [simp]: "verdict_out X L fd n crc (on_disk_of d t) = verdict_out X L fd n crc t"
  by (simp add: verdict_out_def Let_def cong: prod.case_cong option.case_cong bool.case_cong if_cong)

lemma disk_attempt_printed [simp]: "transfer_attempt_out X L fd n (on_disk_of d t) = transfer_attempt_out X L fd n t"
  by (simp add: transfer_attempt_out_def Let_def cong: prod.case_cong option.case_cong bool.case_cong if_cong)

lemma other_loop_printed:
  "transfer_loop_out X (with_export L sp be) fd n (on_disk_of d t) = transfer_loop_out X L fd n t"
proof (induction L fd n t rule: transfer_loop.induct)
  case (1 L fd n t)
  then show ?case
    by (simp add: transfer_loop_out.simps [of X L fd n] transfer_loop_out.simps [of X "with_export L sp be" fd n]
        split: prod.splits attempt_outcome.splits)
qed

lemma other_file_printed:
  assumes "same_files_but P d e" and "p \<notin> P"
  shows "createEncryptedFile_out X C e p key = createEncryptedFile_out X C d p key"
  unfolding createEncryptedFile_out_def other_file_queries [OF assms] by (rule refl)

lemma other_single_printed:
  assumes "same_files_but P (tc_disk t) d" and "p \<notin> P"
  shows "sendSingleFile_out X (with_export L sp be) p (on_disk_of d t) = sendSingleFile_out X L p t"
proof -
  obtain x where x: "createEncryptedFile (lib_crypto L) (tc_disk t) p (tc_decryptedAesKey t) = x"
    "createEncryptedFile (lib_crypto L) d p (tc_decryptedAesKey t) = x"
    using other_file [OF assms] by blast
  show ?thesis
    by (simp add: sendSingleFile_out_def transferAndVerify_out_def other_loop_printed other_file_queries(1) [OF assms]
        other_file_printed [OF assms] x split: sum.splits option.splits)
qed

lemma other_files_printed:
  assumes "same_files_but P (tc_disk t) d" and "set ps \<inter> P = {}"
  shows "send_files_out X (with_export L sp be) ps (on_disk_of d t) = send_files_out X L ps t"
  using assms
proof (induction ps arbitrary: t)
  case (Cons p ps)
  obtain r t1 where s: "sendSingleFile L p t = (r, t1)" by fastforce
  then have "tc_disk t1 = tc_disk t" by (rule only_clientD(5) [OF only_client_single])
  then show ?case
    using Cons other_single [of P t d p L sp be] other_single_printed [of P t d p X L sp be] s
    by (auto split: sum.splits)
qed simp

lemma other_save_printed: "saveClientInfo_out name u key' d c = saveClientInfo_out name u key d c"
  by (simp add: saveClientInfo_out_def fs_open_trunc_def fs_write_def Let_def)

lemma other_save_case:
  "(case saveClientInfo name u key' d c of (False, e) \<Rightarrow> x | (True, e) \<Rightarrow> y) =
   (case saveClientInfo name u key d c of (False, e) \<Rightarrow> x | (True, e) \<Rightarrow> y)"
  by (cases "saveClientInfo name u key d c") (auto elim: other_save [where key' = key'])

lemma other_register_printed:
  "registerAndExchangeKeys_out X (with_export L sp be) name t = registerAndExchangeKeys_out X L name t"
proof -
  let ?key = "\<lambda>L h. getPrivateKeyBase64 (lib_crypto L) h"
  have save: "saveClientInfo_out name u (?key (with_export L sp be) h) d c = saveClientInfo_out name u (?key L h) d c"
    "(case saveClientInfo name u (?key (with_export L sp be) h) d c of (False, e) \<Rightarrow> x | (True, e) \<Rightarrow> y) =
     (case saveClientInfo name u (?key L h) d c of (False, e) \<Rightarrow> x | (True, e) \<Rightarrow> y)"
    for u h d c and x y :: console
    by (rule other_save_printed, rule other_save_case)
  show ?thesis
    unfolding registerAndExchangeKeys_out_def Let_def
    by (simp add: save cong: prod.case_cong option.case_cong bool.case_cong sum.case_cong)
qed

lemma other_authenticate_printed: "authenticate_out X (with_export L sp be) name t = authenticate_out X L name t"
  by (simp add: authenticate_out_def other_register_printed
      cong: prod.case_cong option.case_cong bool.case_cong sum.case_cong if_cong)

section \<open>The program\<close>

lemma other_run:
  fixes L :: "('w, 'j, 'r, 'k, 'p) libs" and w :: 'w and rng :: 'r and d :: fs
  defines "files \<equiv> ti_files (cm_transferInfo (snd (loadTransferInfo (lib_json L) d ''transfer.json'' default_config)))"
  assumes files: "''me.info'' \<notin> set files" "''priv.key'' \<notin> set files"
    and r: "run L (newTransferClient w rng d) = (r, t')"
  shows "\<exists>e. run (with_export L sp be) (newTransferClient w rng d) = (r, on_disk_of e t') \<and>
    same_files_but {''me.info'', ''priv.key''} (tc_disk t') e"
    and "run_out X (with_export L sp be) (newTransferClient w rng d) = run_out X L (newTransferClient w rng d)"
proof -
  let ?L = "with_export L sp be" and ?P = "{''me.info'', ''priv.key''}"
  let ?t = "newTransferClient w rng d :: ('w, 'r, 'k, 'p) transfer_client"
  obtain l c where l: "loadTransferInfo (lib_json L) d ''transfer.json'' default_config = (l, c)" by fastforce
  let ?i = "cm_transferInfo c"
  obtain ok n where n: "connect (lib_asio L) (ti_ip ?i) (ti_port ?i) (newNetworkClient w) = (ok, n)" by fastforce
  let ?t1 = "?t\<lparr>tc_config := c, tc_client := n\<rparr>"
  obtain r2 t2 where a: "authenticate L (ti_clientName ?i) ?t1 = (r2, t2)" by fastforce
  obtain r3 t3 where f: "send_files L (ti_files ?i) t2 = (r3, t3)" by fastforce
  have paths: "cm_meInfoPath c = ''me.info''" "cm_privKeyPath c = ''priv.key''"
    using l by (auto simp: loadTransferInfo_def load_document_def default_config_def newConfigManager_def Let_def
        split: sum.splits option.splits if_splits)
  obtain e where a': "authenticate ?L (ti_clientName ?i) ?t1 = (r2, on_disk_of e t2)"
    and e: "same_files_but ?P (tc_disk t2) e"
    using other_authenticate [OF a, of sp be] by (auto simp: paths)
  have f': "send_files ?L (ti_files ?i) (on_disk_of e t2) = (r3, on_disk_of e t3)"
    using other_files [OF e, of "ti_files ?i" L sp be] f files l by (simp add: files_def)
  have t3: "tc_disk t3 = tc_disk t2"
    by (rule only_clientD(5) [OF only_client_files [OF f]])
  note chain = run_chain [OF l n a f] run_chain [of ?L, OF _ _ a' f', simplified, OF l n]
  show "run_out X ?L (newTransferClient w rng d) = run_out X L (newTransferClient w rng d)"
    using other_files_printed [OF e, of "ti_files ?i" X L sp be] files l
    by (simp add: run_output [OF l n a] run_output [of ?L, OF _ _ a', simplified, OF l n] files_def
        other_authenticate_printed)
  show "\<exists>e. run ?L ?t = (r, on_disk_of e t') \<and> same_files_but ?P (tc_disk t') e"
  proof (cases "l = Inr True \<and> ok")
    case False
    then show ?thesis using chain r by (intro same_result) (auto split: if_splits)
  next
    case True
    then show ?thesis
      using chain r e t3 by (intro exI [of _ e]) (cases r3; auto split: if_splits)
  qed
qed

text \<open>
  C5. The private key stays on the machine. When the configuration does not name the credential files
  themselves, two runs of the program that differ only in how private keys are serialised and
  encoded end with the same exit code, the same conversation on the wire, the same console output and the same state,
  and with the same files apart from \<open>me.info\<close> and \<open>priv.key\<close>: whatever the server does, neither
  it nor the console learns anything of the exported key.
\<close>

theorem private_key_not_sent:
  assumes "''me.info'' \<notin> set (ti_files (cm_transferInfo (snd (loadTransferInfo (lib_json L) d ''transfer.json'' default_config))))"
    and "''priv.key'' \<notin> set (ti_files (cm_transferInfo (snd (loadTransferInfo (lib_json L) d ''transfer.json'' default_config))))"
  shows "case main L w rng d of (code, t) \<Rightarrow>
    case main (with_export L save encode) w rng d of (code', t') \<Rightarrow>
      code' = code \<and> trace t' = trace t \<and> t' = t\<lparr>tc_disk := tc_disk t'\<rparr> \<and>
      same_files_but {''me.info'', ''priv.key''} (tc_disk t) (tc_disk t') \<and>
      main_out X (with_export L save encode) w rng d = main_out X L w rng d"
proof -
  obtain r t1 where r: "run L (newTransferClient w rng d) = (r, t1)" by fastforce
  obtain e where "run (with_export L save encode) (newTransferClient w rng d) = (r, on_disk_of e t1)"
    "same_files_but {''me.info'', ''priv.key''} (tc_disk t1) e"
    using other_run(1) [OF assms r] by blast
  then show ?thesis
    using r other_run(2) [OF assms r, where X = X and sp = save and be = encode]
    by (cases r) (auto simp: main_def main_out_def destroyTransferClient_def)
qed

text \<open>Two libraries for the witness, whose keys look different, in a session that registers and saves its key.\<close>

definition sample_texts :: "'w texts" where
  "sample_texts = \<lparr>tx_system_error = (\<lambda>_. ''system''), tx_json = (\<lambda>_. ParseError ''json''), tx_decrypt = (\<lambda>_. ''rsa''),
     tx_encrypt = (\<lambda>_. ''aes''), tx_load_key = (\<lambda>_. ''key''), tx_what = (\<lambda>_. ''what'')\<rparr>"

theorem private_key_not_sent_witness:
  "fst (main sample_libs (script sample_first_script) 65 sample_disk) = 0 \<and>
   (case main sample_libs (script sample_first_script) 65 sample_disk of (code, t) \<Rightarrow>
    case main (with_export sample_libs (\<lambda>_. [1, 2]) (\<lambda>_. ''other'')) (script sample_first_script) 65 sample_disk of
      (code', t') \<Rightarrow>
      code' = code \<and> trace t' = trace t \<and> t' = t\<lparr>tc_disk := tc_disk t'\<rparr> \<and>
      same_files_but {''me.info'', ''priv.key''} (tc_disk t) (tc_disk t') \<and>
      main_out sample_texts (with_export sample_libs (\<lambda>_. [1, 2]) (\<lambda>_. ''other'')) (script sample_first_script) 65 sample_disk =
      main_out sample_texts sample_libs (script sample_first_script) 65 sample_disk)"
proof
  show "fst (main sample_libs (script sample_first_script) 65 sample_disk) = 0"
    using sample_first_run by auto
  show "case main sample_libs (script sample_first_script) 65 sample_disk of (code, t) \<Rightarrow>
    case main (with_export sample_libs (\<lambda>_. [1, 2]) (\<lambda>_. ''other'')) (script sample_first_script) 65 sample_disk of
      (code', t') \<Rightarrow>
      code' = code \<and> trace t' = trace t \<and> t' = t\<lparr>tc_disk := tc_disk t'\<rparr> \<and>
      same_files_but {''me.info'', ''priv.key''} (tc_disk t) (tc_disk t') \<and>
      main_out sample_texts (with_export sample_libs (\<lambda>_. [1, 2]) (\<lambda>_. ''other'')) (script sample_first_script) 65 sample_disk =
      main_out sample_texts sample_libs (script sample_first_script) 65 sample_disk"
    by (rule private_key_not_sent)
      (simp_all add: sample_disk_facts)
qed

end
