(* ===== verification/CrashSafety.thy ===== *)
theory CrashSafety
  imports CredentialStore "HOL-Library.Sublist"
begin

text \<open>
  What an interrupted save leaves behind. \<open>saveClientInfo_states\<close> lists the states of the files that
  \<open>ConfigManager::saveClientInfo\<close> passes through, since a process can be killed between any two of them
  and a stream can have written any part of its text. The property is that the next session never reads a damaged
  identity.
\<close>

section \<open>The states of a save and of a removal\<close>

text \<open>The content of a file while a text is written to it.\<close>

definition writing :: "fs \<Rightarrow> string \<Rightarrow> string \<Rightarrow> fs list" where
  "writing d p s = map (\<lambda>n. fs_write d p (take n s)) [0..<Suc (length s)]"

definition saveClientInfo_states :: "string \<Rightarrow> bytes \<Rightarrow> string \<Rightarrow> fs \<Rightarrow> config_manager \<Rightarrow> fs list" where
  "saveClientInfo_states name uuid privateKeyBase64 d c =
     d # (case fs_open_trunc d (cm_meInfoPath c) of
        None \<Rightarrow> []
      | Some d1 \<Rightarrow>
          let meInfo = text_out (fs_platform d) (me_info_text name uuid privateKeyBase64);
              d2 = fs_write d1 (cm_meInfoPath c) meInfo
          in writing d1 (cm_meInfoPath c) meInfo @
             (case fs_open_trunc d2 (cm_privKeyPath c) of
                None \<Rightarrow> []
              | Some d3 \<Rightarrow> writing d3 (cm_privKeyPath c) privateKeyBase64))"

definition removeClientInfo_states :: "fs \<Rightarrow> config_manager \<Rightarrow> fs list" where
  "removeClientInfo_states d c =
     (let d1 = fs_remove d (cm_meInfoPath c) in [d, d1, fs_remove d1 (cm_privKeyPath c)])"

lemma last_writing: "writing d p s \<noteq> []" "last (writing d p s) = fs_write d p s"
  by (simp_all add: writing_def)

lemma in_writing: "e \<in> set (writing d p s) \<Longrightarrow> \<exists>n. e = fs_write d p (take n s)"
  by (auto simp: writing_def) (metis take_all order_refl)

text \<open>An uninterrupted save or removal ends where the operation does.\<close>

lemma states_end:
  "last (saveClientInfo_states name uuid key d c) = snd (saveClientInfo name uuid key d c)"
  "last (removeClientInfo_states d c) = removeClientInfo d c"
  by (simp_all add: saveClientInfo_states_def saveClientInfo_def removeClientInfo_states_def removeClientInfo_def
      last_writing Let_def split: option.splits)

section \<open>Texts that were cut off\<close>

text \<open>
  What reading in text mode makes of a prefix of what writing in text mode produced: a prefix of
  the text, or, when a Windows line end was cut in the middle, lines and a carriage return.
\<close>

definition cut :: "string \<Rightarrow> string \<Rightarrow> bool" where
  "cut r s \<longleftrightarrow> prefix r s \<or> (\<exists>a b. s = a @ LF # b \<and> r = a @ [CR])"

lemma cut_Cons: "cut r s \<Longrightarrow> cut (c # r) (c # s)"
  unfolding cut_def by (metis append_Cons prefix_Cons prefix_def)

lemma text_out_no_LF: "text_out Windows s = c # t \<Longrightarrow> c \<noteq> LF"
  by (cases s) (auto split: if_splits)

lemma crlf_to_lf_plain: "x = [] \<or> hd x \<noteq> LF \<Longrightarrow> crlf_to_lf (c # x) = c # crlf_to_lf x"
  by (cases x) auto

lemma crlf_to_lf_cut: "cut (crlf_to_lf (take n (text_out Windows s))) s"
proof (induction s arbitrary: n)
  case (Cons c s)
  consider "n = 0" | m where "n = Suc m" by (cases n)
  then show ?case
  proof cases
    case 1
    then show ?thesis by (simp add: cut_def)
  next
    case (2 m)
    show ?thesis
    proof (cases "c = LF")
      case True
      then show ?thesis
      proof (cases m)
        case 0
        then show ?thesis using 2 True by (auto simp: cut_def)
      next
        case (Suc k)
        then show ?thesis using 2 True Cons.IH [of k] by (simp add: cut_Cons)
      qed
    next
      case False
      have "take m (text_out Windows s) = [] \<or> hd (take m (text_out Windows s)) \<noteq> LF"
        using text_out_no_LF [of s] by (cases m; cases "text_out Windows s") auto
      then show ?thesis
        using 2 False Cons.IH [of m] by (simp add: crlf_to_lf_plain cut_Cons)
    qed
  qed
qed (simp add: cut_def)

lemma text_in_cut:
  assumes "CTRL_Z \<notin> set s"
  shows "cut (text_in pl (take n (text_out pl s))) s"
proof (cases pl)
  case Windows
  have "CTRL_Z \<notin> set (take n (text_out Windows s))"
    using set_text_out [of Windows s] assms set_take_subset [of n "text_out Windows s"] by auto
  then have "takeWhile (\<lambda>c. c \<noteq> CTRL_Z) (take n (text_out Windows s)) = take n (text_out Windows s)"
    by (intro takeWhile_all) (auto simp: list_all_iff)
  then show ?thesis
    using crlf_to_lf_cut [of n s] by (simp only: Windows text_in.simps)
qed (simp add: cut_def take_is_prefix)

text \<open>A line of a text that was cut off is complete when something follows it.\<close>

lemma cut_after_line:
  assumes r: "cut (l @ LF # rest) (l0 @ LF # s)" and l: "LF \<notin> set l" "LF \<notin> set l0"
  shows "l = l0 \<and> cut rest s"
proof -
  have line: "x = y \<and> u = v" if "x @ LF # u = y @ LF # v" "LF \<notin> set x" "LF \<notin> set y" for x y u v
    using that by (metis getline_line option.inject prod.inject)
  consider (whole) z where "l0 @ LF # s = (l @ LF # rest) @ z"
    | (ending) a b where "l0 @ LF # s = a @ LF # b" "l @ LF # rest = a @ [CR]"
    using r unfolding cut_def prefix_def by blast
  then show ?thesis
  proof cases
    case whole
    then show ?thesis using line [of l0 s l "rest @ z"] l by (auto simp: cut_def)
  next
    case (ending a b)
    have "rest \<noteq> []" using ending(2) by auto
    then obtain rest' where rest': "rest = rest' @ [CR]" "l @ LF # rest' = a"
      using ending(2) by (cases rest rule: rev_cases) auto
    then have "l = l0 \<and> s = rest' @ LF # b"
      using ending(1) line [of l0 s l "rest' @ LF # b"] l by auto
    then show ?thesis using rest' by (auto simp: cut_def)
  qed
qed

lemma getline_more:
  assumes "getline r = Some (l, rest)" and "rest \<noteq> []"
  shows "r = l @ LF # rest" and "LF \<notin> set l"
proof -
  have l: "l = takeWhile (\<lambda>c. c \<noteq> LF) r" "rest = drop 1 (dropWhile (\<lambda>c. c \<noteq> LF) r)"
    using assms(1) by (auto simp: getline_def split: if_splits)
  then obtain x where "dropWhile (\<lambda>c. c \<noteq> LF) r = x # rest"
    using assms(2) by (cases "dropWhile (\<lambda>c. c \<noteq> LF) r") auto
  moreover from this have "x = LF" by (simp add: dropWhile_eq_Cons_conv)
  ultimately show "r = l @ LF # rest"
    using takeWhile_dropWhile_id [of "\<lambda>c. c \<noteq> LF" r] l(1) by simp
  show "LF \<notin> set l" using assms(1) by (rule getline_no_LF)
qed

lemma getline_cut:
  assumes "cut r (l0 @ LF # s)" and "LF \<notin> set l0" and "getline r = Some (l, rest)" and "rest \<noteq> []"
  shows "l = l0 \<and> cut rest s"
  using cut_after_line [of l rest l0 s] assms(1,2) getline_more [OF assms(3,4)] by simp

section \<open>A save that is interrupted\<close>

text \<open>What loading makes of a \<open>me.info\<close> that was cut off at any point.\<close>

lemma load_cut:
  assumes "\<not> fs_status_fails e (cm_meInfoPath c)" and raw: "fs_open_in e (cm_meInfoPath c) = Some raw"
    and cut: "cut (text_in (fs_platform e) raw) (me_info_text name uuid key)"
    and plain: "plain_line name" "plain_line key" and uuid: "uuid_ok uuid"
  shows "loadClientInfo e c = (Inr False, c) \<or>
    (\<exists>k. prefix k (key @ [CR]) \<and> loadClientInfo e c = (Inr True, c\<lparr>cm_clientInfo :=
       \<lparr>ci_name = name, ci_uuid = uuid, ci_privateKeyBase64 = k\<rparr>\<rparr>))"
proof -
  have has: "hasClientInfo e c = Inr True"
    using assms(1) raw by (auto simp: hasClientInfo_def fs_exists_def fs_open_in_def split: if_splits)
  let ?r = "text_in (fs_platform e) raw"
  show ?thesis
  proof (cases "\<exists>l1 r1 l2 r2 l3 r3. getline ?r = Some (l1, r1) \<and> getline r1 = Some (l2, r2) \<and> getline r2 = Some (l3, r3)")
    case False
    then have "loadClientInfo e c = (Inr False, c)"
      by (auto simp: loadClientInfo_def has raw split: option.splits)
    then show ?thesis by simp
  next
    case True
    then obtain l1 r1 l2 r2 l3 r3 where
      g: "getline ?r = Some (l1, r1)" "getline r1 = Some (l2, r2)" "getline r2 = Some (l3, r3)"
      by blast
    then have ne: "r1 \<noteq> []" "r2 \<noteq> []" by (auto simp: getline_def)
    have 1: "l1 = name" "cut r1 (toHex uuid @ LF # key @ [LF])"
      using getline_cut [OF _ _ g(1) ne(1), of name] cut plain by (auto simp: me_info_text_def plain_line_def)
    have 2: "l2 = toHex uuid" "cut r2 (key @ [LF])"
      using getline_cut [OF 1(2) _ g(2) ne(2)] plain_toHex [of uuid] by (auto simp: plain_line_def)
    have "prefix l3 (key @ [CR])"
    proof -
      have l3: "prefix l3 r2" "LF \<notin> set l3"
        using g(3) by (auto simp: getline_def takeWhile_is_prefix split: if_splits dest: set_takeWhileD)
      consider "prefix r2 (key @ [LF])" | a b where "key @ [LF] = a @ LF # b" "r2 = a @ [CR]"
        using 2(2) by (auto simp: cut_def)
      then show ?thesis
      proof cases
        case 1
        then have "prefix l3 (key @ [LF])" using l3(1) by (rule prefix_order.trans [rotated])
        then show ?thesis using l3(2) by (auto simp: prefix_snoc)
      next
        case 2
        then have "a = key"
          using plain by (cases b rule: rev_cases) (auto simp: plain_line_def)
        then show ?thesis using l3(1) 2(2) by simp
      qed
    qed
    moreover have "loadClientInfo e c = (Inr True, c\<lparr>cm_clientInfo :=
       \<lparr>ci_name = name, ci_uuid = uuid, ci_privateKeyBase64 = l3\<rparr>\<rparr>)"
      using g 1(1) 2(1) toBytes_toHex [OF uuid] by (simp add: loadClientInfo_def has raw)
    ultimately show ?thesis by blast
  qed
qed

text \<open>The files after an interruption, on a healthy file system.\<close>

lemma save_states:
  fixes d :: fs
  defines "text pl name uuid key \<equiv> text_out pl (me_info_text name uuid key)"
  assumes "healthy_store c d" and "e \<in> set (saveClientInfo_states name uuid key d c)"
  obtains (before) "e = d"
    | (me_info) n where
        "e = d\<lparr>fs_files := (fs_files d)(cm_meInfoPath c \<mapsto> take n (text (fs_platform d) name uuid key))\<rparr>"
    | (priv_key) n where
        "e = d\<lparr>fs_files := (fs_files d)(cm_meInfoPath c \<mapsto> text (fs_platform d) name uuid key,
           cm_privKeyPath c \<mapsto> take n key)\<rparr>"
proof -
  have "fs_open_trunc d (cm_meInfoPath c) = Some (d\<lparr>fs_files := (fs_files d)(cm_meInfoPath c \<mapsto> [])\<rparr>)"
    and w: "fs_write (x\<lparr>fs_files := f\<rparr>) p z = x\<lparr>fs_files := f(p \<mapsto> z)\<rparr>"
    if "fs_capacity x p = None" for x f p z
    using assms by (simp_all add: fs_open_trunc_def fs_write_def healthy_store_def healthy_path_def that)
  moreover have "fs_capacity d (cm_meInfoPath c) = None" "fs_capacity d (cm_privKeyPath c) = None"
    "fs_writable d (cm_privKeyPath c)"
    using assms by (simp_all add: healthy_store_def healthy_path_def)
  ultimately have "e = d \<or>
      e \<in> set (writing (d\<lparr>fs_files := (fs_files d)(cm_meInfoPath c \<mapsto> [])\<rparr>) (cm_meInfoPath c)
            (text (fs_platform d) name uuid key)) \<or>
      e \<in> set (writing (d\<lparr>fs_files := (fs_files d)(cm_meInfoPath c \<mapsto> text (fs_platform d) name uuid key,
            cm_privKeyPath c \<mapsto> [])\<rparr>) (cm_privKeyPath c) key)"
    using assms(3) by (simp add: saveClientInfo_states_def Let_def text_def fs_open_trunc_def w)
  then show ?thesis
    using before me_info priv_key assms(2)
    by (auto dest!: in_writing simp: fs_write_def healthy_store_def healthy_path_def)
qed

text \<open>
  C25. What an interrupted save leaves behind. On a healthy file system, for a name and a key
  without line feeds and Ctrl-Z and an ID of 16 bytes, let \<open>saveClientInfo\<close> be stopped at any
  point. Then \<open>me.info\<close> loads to what it held before, or not at all, or to exactly the new name
  and client ID; in the last case the key in it may be cut off: it is the new key or a beginning
  of it, or, when the write stopped within a Windows line end, the new key followed by the carriage return.
  \<open>priv.key\<close> gives what it gave before, unless \<open>me.info\<close> already loads to the complete new
  identity; then it gives the new key, a beginning of it, or nothing.
\<close>

theorem interrupted_save_keeps_identity:
  assumes "healthy_store c d" and "plain_line name" and "plain_line key" and "uuid_ok uuid"
    and "e \<in> set (saveClientInfo_states name uuid key d c)"
  shows "(loadClientInfo e c = loadClientInfo d c \<or> loadClientInfo e c = (Inr False, c) \<or>
      (\<exists>k. prefix k (key @ [CR]) \<and> loadClientInfo e c = (Inr True, c\<lparr>cm_clientInfo :=
        \<lparr>ci_name = name, ci_uuid = uuid, ci_privateKeyBase64 = k\<rparr>\<rparr>))) \<and>
    (loadPrivateKey e c = loadPrivateKey d c \<or>
      loadClientInfo e c = (Inr True, c\<lparr>cm_clientInfo :=
        \<lparr>ci_name = name, ci_uuid = uuid, ci_privateKeyBase64 = key\<rparr>\<rparr>) \<and>
      (case loadPrivateKey e c of None \<Rightarrow> True | Some k \<Rightarrow> prefix k key))"
proof -
  have ctrl: "CTRL_Z \<notin> set (me_info_text name uuid key)"
    using assms(2,3) plain_toHex [of uuid] by (auto simp: me_info_text_def plain_line_def)
  have ok: "\<not> fs_status_fails d (cm_meInfoPath c)" "fs_readable d (cm_meInfoPath c)" "fs_readable d (cm_privKeyPath c)"
    "cm_meInfoPath c \<noteq> cm_privKeyPath c"
    using assms(1) by (simp_all add: healthy_store_def healthy_path_def)
  show ?thesis
    using assms(1,5)
  proof (cases rule: save_states)
    case before
    then show ?thesis by simp
  next
    case (me_info n)
    have "loadPrivateKey e c = loadPrivateKey d c"
      using me_info ok by (simp add: loadPrivateKey_def fs_open_in_def)
    moreover have "loadClientInfo e c = (Inr False, c) \<or>
      (\<exists>k. prefix k (key @ [CR]) \<and> loadClientInfo e c = (Inr True, c\<lparr>cm_clientInfo :=
        \<lparr>ci_name = name, ci_uuid = uuid, ci_privateKeyBase64 = k\<rparr>\<rparr>))"
      using me_info ok text_in_cut [OF ctrl, of "fs_platform d" n] assms(2-4)
      by (intro load_cut [where raw = "take n (text_out (fs_platform d) (me_info_text name uuid key))"])
        (simp_all add: fs_open_in_def)
    ultimately show ?thesis by blast
  next
    case (priv_key n)
    have "loadClientInfo e c = (Inr True, c\<lparr>cm_clientInfo :=
        \<lparr>ci_name = name, ci_uuid = uuid, ci_privateKeyBase64 = key\<rparr>\<rparr>)"
      using priv_key ok assms(2-4) me_info_lines [OF assms(2,3)] plain_toHex [of uuid] toBytes_toHex [OF assms(4)]
      by (intro loadClientInfo_lines [where la = name and lb = "toHex uuid" and lc = key and rest = "[]"
            and raw = "text_out (fs_platform d) (me_info_text name uuid key)"])
        (simp_all add: fs_open_in_def plain_line_def)
    moreover have "case loadPrivateKey e c of None \<Rightarrow> True | Some k \<Rightarrow> prefix k key"
    proof -
      have "prefix (takeWhile P (take n key)) key" for P
        using takeWhile_is_prefix take_is_prefix by (rule prefix_order.trans)
      then show ?thesis
        using priv_key ok by (simp add: loadPrivateKey_def fs_open_in_def getline_def)
    qed
    moreover have "prefix key (key @ [CR])" by simp
    ultimately show ?thesis by blast
  qed
qed

theorem interrupted_save_keeps_identity_witness:
  "list_all (\<lambda>e. let c = default_config; d = empty_fs Windows in
      (loadClientInfo e c = loadClientInfo d c \<or> loadClientInfo e c = (Inr False, c) \<or>
        (\<exists>k. prefix k (''a2V5'' @ [CR]) \<and> loadClientInfo e c = (Inr True, c\<lparr>cm_clientInfo :=
          \<lparr>ci_name = ''Ann'', ci_uuid = replicate 16 7, ci_privateKeyBase64 = k\<rparr>\<rparr>))) \<and>
      (loadPrivateKey e c = loadPrivateKey d c \<or>
        loadClientInfo e c = (Inr True, c\<lparr>cm_clientInfo :=
          \<lparr>ci_name = ''Ann'', ci_uuid = replicate 16 7, ci_privateKeyBase64 = ''a2V5''\<rparr>\<rparr>) \<and>
        (case loadPrivateKey e c of None \<Rightarrow> True | Some k \<Rightarrow> prefix k ''a2V5'')))
    (saveClientInfo_states ''Ann'' (replicate 16 7) ''a2V5'' (empty_fs Windows) default_config)"
  unfolding list_all_iff Let_def
  by (rule ballI, rule interrupted_save_keeps_identity)
    (simp_all add: plain_line_def LF_def CTRL_Z_def uuid_ok_def UUID_SIZE_def)

text \<open>An interrupted removal leaves no identity either: \<open>me.info\<close> goes first.\<close>

lemma interrupted_removal:
  assumes "healthy_store c d" and "e \<in> set (removeClientInfo_states d c)"
  shows "e = d \<or> hasClientInfo e c = Inr False"
  using assms
  by (auto simp: removeClientInfo_states_def Let_def hasClientInfo_def fs_exists_def fs_remove_def
      healthy_store_def healthy_path_def)

end
