(* ===== verification/Lifetime.thy ===== *)
theory Lifetime
  imports CrashSafety ProgramRun
begin

text \<open>
  Many sessions on the same files. A session may end in any way and may be killed while it
  saves or removes the credentials; between sessions the user may change every other file. The invariant, proved
  by rule induction, is that the identity on the disk is one that a server assigned to this client in some session,
  under the name configured then; so no session ever presents another one.
\<close>

section \<open>The states of the disk during a session\<close>

text \<open>
  The functions follow \<open>registerAndExchangeKeys\<close>, \<open>authenticate\<close> and \<open>run\<close> and list the states of the
  files, from the first to the last.
\<close>

definition register_disks ::
  "('w, 'j, 'r, 'k, 'p) libs \<Rightarrow> string \<Rightarrow> ('w, 'r, 'k, 'p) transfer_client \<Rightarrow> fs list" where
  "register_disks L clientName t =
     (case client_send L (buildRegistration clientName) t of
        (False, t) \<Rightarrow> [tc_disk t]
      | (True, t) \<Rightarrow>
     (case receiveResponse L [RegistrationSuccess] t of
        (None, t) \<Rightarrow> [tc_disk t]
      | (Some registrationResponse, t) \<Rightarrow>
     (case parseClientIdPayload (sr_payload registrationResponse) of
        None \<Rightarrow> [tc_disk t]
      | Some assignedUuid \<Rightarrow>
     (case generateRsaKeys (lib_crypto L) (tc_crypto t) of
        (Inl e, h) \<Rightarrow> [tc_disk t]
      | (Inr _, h) \<Rightarrow>
          saveClientInfo_states clientName assignedUuid (getPrivateKeyBase64 (lib_crypto L) h)
            (tc_disk t) (tc_config t)))))"

definition authenticate_disks ::
  "('w, 'j, 'r, 'k, 'p) libs \<Rightarrow> string \<Rightarrow> ('w, 'r, 'k, 'p) transfer_client \<Rightarrow> fs list" where
  "authenticate_disks L clientName t =
     (case hasClientInfo (tc_disk t) (tc_config t) of
        Inl e \<Rightarrow> [tc_disk t]
      | Inr has \<Rightarrow>
          if has
          then (case tryReconnect L False t of
              ((Inl e, _), t1) \<Rightarrow> [tc_disk t]
            | ((Inr ok, needsRegistration), t1) \<Rightarrow>
                if needsRegistration
                then removeClientInfo_states (tc_disk t) (tc_config t) @ register_disks L clientName t1
                else [tc_disk t])
          else register_disks L clientName t)"

definition main_disks ::
  "('w, 'j, 'r, 'k, 'p) libs \<Rightarrow> 'w \<Rightarrow> 'r \<Rightarrow> fs \<Rightarrow> fs list" where
  "main_disks L socket rng disk =
     (let t = newTransferClient socket rng disk in
      case loadTransferInfo (lib_json L) (tc_disk t) ''transfer.json'' (tc_config t) of
        (Inl e, c) \<Rightarrow> [disk]
      | (Inr False, c) \<Rightarrow> [disk]
      | (Inr True, c) \<Rightarrow>
     (let t = t\<lparr>tc_config := c\<rparr>; info = cm_transferInfo c in
      case connect (lib_asio L) (ti_ip info) (ti_port info) (tc_client t) of
        (False, n) \<Rightarrow> [disk]
      | (True, n) \<Rightarrow> authenticate_disks L (ti_clientName info) (t\<lparr>tc_client := n\<rparr>)))"

lemma register_disks_end:
  assumes "registerAndExchangeKeys L name t = (r, t')"
  shows "register_disks L name t \<noteq> [] \<and> last (register_disks L name t) = tc_disk t'"
proof -
  have x: "tc_disk t2 = d" if "exchangeKeys L name (t1\<lparr>tc_clientId := u, tc_crypto := h, tc_disk := d\<rparr>) = (b, t2)"
    "parseClientIdPayload p = Some u" for t1 t2 u h d b p
    using exchange_keys_counts [OF that(1)] parseClientId_ok [OF that(2)] by simp
  have ne: "saveClientInfo_states n u k d c \<noteq> []" for n u k d c by (simp add: saveClientInfo_states_def)
  show ?thesis
    using assms
    by (auto simp: registerAndExchangeKeys_def register_disks_def Let_def states_end ne x
        split: bool.splits option.splits sum.splits prod.splits)
qed

lemma authenticate_disks_end:
  assumes "authenticate L name t = (r, t')"
  shows "last (authenticate_disks L name t) = tc_disk t'"
proof -
  obtain hc where hc: "hasClientInfo (tc_disk t) (tc_config t) = hc" by simp
  obtain r1 needs t1 where q: "tryReconnect L False t = ((r1, needs), t1)" by (metis prod.exhaust)
  obtain r2 t2 where g: "registerAndExchangeKeys L name t1 = (r2, t2)" by fastforce
  have disk: "tc_disk t1 = (if needs then removeClientInfo (tc_disk t) (tc_config t) else tc_disk t)"
    "needs \<longrightarrow> r1 = Inr False"
    using reconnect_effect [where L = L and t = t] q by (auto split: if_splits)
  show ?thesis
    using assms hc q g disk register_disks_end [of L name t r t'] register_disks_end [OF g]
    by (cases hc) (auto simp: authenticate_def authenticate_disks_def states_end split: sum.splits if_splits)
qed

lemma main_disks_end: "last (main_disks L w rng d) = tc_disk (snd (main L w rng d))"
proof -
  let ?t = "newTransferClient w rng d"
  have new: "tc_disk ?t = d" "tc_config ?t = default_config" "tc_client ?t = newNetworkClient w"
    by (simp_all add: newTransferClient_def)
  obtain l c where l: "loadTransferInfo (lib_json L) d ''transfer.json'' default_config = (l, c)" by fastforce
  let ?i = "cm_transferInfo c"
  obtain ok n where n: "connect (lib_asio L) (ti_ip ?i) (ti_port ?i) (newNetworkClient w) = (ok, n)" by fastforce
  obtain r2 t2 where a: "authenticate L (ti_clientName ?i) (?t\<lparr>tc_config := c, tc_client := n\<rparr>) = (r2, t2)" by fastforce
  obtain r3 t3 where f: "send_files L (ti_files ?i) t2 = (r3, t3)" by fastforce
  obtain r t where r: "run L ?t = (r, t)" by fastforce
  have "tc_disk (snd (main L w rng d)) = tc_disk t"
    using r by (cases r) (auto simp: main_def destroyTransferClient_def)
  moreover have "tc_disk t3 = tc_disk t2"
    by (rule only_clientD(5) [OF only_client_files [OF f]])
  ultimately show ?thesis
    using run_chain [OF l n a f] r authenticate_disks_end [OF a]
    by (cases "l = Inr True"; cases ok)
      (auto simp: main_disks_def new l n Let_def split: if_splits sum.splits bool.splits)
qed

lemma register_disks_nonempty [simp]: "register_disks L name t \<noteq> []"
  using register_disks_end [of L name t] by (cases "registerAndExchangeKeys L name t") blast

lemma authenticate_disks_nonempty [simp]: "authenticate_disks L name t \<noteq> []"
  by (simp add: authenticate_disks_def split: sum.split prod.split)

lemma main_disks_nonempty: "main_disks L w rng d \<noteq> []"
  by (simp add: main_disks_def Let_def split: sum.split prod.split bool.split)

section \<open>Identities\<close>

text \<open>The identity that a session would load from the disk.\<close>

definition identity :: "fs \<Rightarrow> (string \<times> bytes) option" where
  "identity d =
     (case loadClientInfo d default_config of
        (Inr True, c) \<Rightarrow> Some (ci_name (cm_clientInfo c), ci_uuid (cm_clientInfo c))
      | _ \<Rightarrow> None)"

text \<open>The client IDs that the server assigned in a conversation: the payloads of its 1600 responses.\<close>

fun assigned_ids :: "net_event list \<Rightarrow> bytes list" where
  "assigned_ids (Received hb # Received u # evs) =
     (if map_option rs_code (parseHeader hb) = Some RegistrationSuccess then [u] else []) @ assigned_ids (Received u # evs)"
| "assigned_ids (ev # evs) = assigned_ids evs"
| "assigned_ids [] = []"

lemma assigned_Cons: "u \<in> set (assigned_ids evs) \<Longrightarrow> u \<in> set (assigned_ids (ev # evs))"
  by (cases "ev # evs" rule: assigned_ids.cases) auto

lemma assigned_append: "set (assigned_ids a) \<union> set (assigned_ids b) \<subseteq> set (assigned_ids (a @ b))"
  by (induction a rule: assigned_ids.induct) (auto intro: assigned_Cons)

lemma assigned_more: "grows k t t' \<Longrightarrow> u \<in> set (assigned_ids (trace t)) \<Longrightarrow> u \<in> set (assigned_ids (trace t'))"
  using assigned_append by (fastforce simp: grows_def)

lemma assigned_last:
  "map_option rs_code (parseHeader hb) = Some RegistrationSuccess \<Longrightarrow>
   u \<in> set (assigned_ids (evs @ [Received hb, Received u]))"
  using assigned_append [of evs "[Received hb, Received u]"] by auto

lemma register_disks_states:
  assumes "e \<in> set (register_disks L name t)" and "registerAndExchangeKeys L name t = (r, t')"
  shows "e = tc_disk t \<or> (\<exists>u h. e \<in> set (saveClientInfo_states name u (getPrivateKeyBase64 (lib_crypto L) h)
    (tc_disk t) (tc_config t)) \<and> uuid_ok u \<and> u \<in> set (assigned_ids (trace t')))"
proof -
  obtain ok t1 where s: "client_send L (buildRegistration name) t = (ok, t1)" by fastforce
  obtain m t2 where m: "receiveResponse L [RegistrationSuccess] t1 = (m, t2)" by fastforce
  have k: "tc_disk t2 = tc_disk t" "tc_config t2 = tc_config t" "tc_disk t1 = tc_disk t"
    using only_clientD [OF only_client_send [OF s]] only_clientD [OF only_client_response [OF m]] by auto
  show ?thesis
  proof (cases "ok \<and> m \<noteq> None \<and> parseClientIdPayload (sr_payload (the m)) \<noteq> None")
    case False
    then have "e = tc_disk t"
      using assms(1) s m k by (cases ok; cases m) (auto simp: register_disks_def)
    then show ?thesis by simp
  next
    case True
    then obtain x u where x: "ok" "m = Some x" "parseClientIdPayload (sr_payload x) = Some u" by auto
    obtain g h where g: "generateRsaKeys (lib_crypto L) (tc_crypto t2) = (g, h)" by fastforce
    have e: "e = tc_disk t \<or> e \<in> set (saveClientInfo_states name u (getPrivateKeyBase64 (lib_crypto L) h)
        (tc_disk t) (tc_config t))"
      using assms(1) s m k x g by (cases g) (auto simp: register_disks_def)
    have m': "receiveResponse L [RegistrationSuccess] t1 = (Some x, t2)" using m x by simp
    obtain hb where hb: "parseHeader hb = Some (sr_header x)" "rs_code (sr_header x) = RegistrationSuccess"
      "expectedPayloadSize RegistrationSuccess = Some (length (sr_payload x))"
      "trace t2 = trace t1 @ [Received hb] @ (if sr_payload x = [] then [] else [Received (sr_payload x)])"
      by (rule receiveResponse_Some [OF m']) auto
    have u: "u = sr_payload x" "sr_payload x \<noteq> []"
      using hb(3) x(3) by (auto simp: parseClientIdPayload_def protocol_sizes split: if_splits)
    have "grows 4 t2 t'"
      using assms(2) s m x g
      by (auto simp: registerAndExchangeKeys_def Let_def split: sum.splits prod.splits bool.splits
          dest!: grows_exchangeKeys intro: grows_mono [of 0])
    moreover have "u \<in> set (assigned_ids (trace t2))"
      using hb u assigned_last [of hb u "trace t1"] by simp
    ultimately have "u \<in> set (assigned_ids (trace t'))" by (rule assigned_more)
    then show ?thesis using e parseClientId_ok [OF x(3)] by blast
  qed
qed

section \<open>What a state of the disk can make of the identity\<close>

lemma default_paths [simp]: "cm_meInfoPath default_config = ''me.info''" "cm_privKeyPath default_config = ''priv.key''"
  by (simp_all add: default_config_def newConfigManager_def)

lemma identity_same:
  assumes "same_environment d e" and "fs_files e ''me.info'' = fs_files d ''me.info''"
  shows "identity e = identity d"
proof -
  have eq: "hasClientInfo e default_config = hasClientInfo d default_config" "fs_platform e = fs_platform d"
    "fs_open_in e (cm_meInfoPath default_config) = fs_open_in d (cm_meInfoPath default_config)"
    using assms by (simp_all add: hasClientInfo_def fs_exists_def fs_open_in_def same_environment_def)
  have "loadClientInfo e default_config = loadClientInfo d default_config"
    unfolding loadClientInfo_def eq by (rule refl)
  then show ?thesis by (simp add: identity_def)
qed

lemma identity_none: "fs_files e ''me.info'' = None \<Longrightarrow> identity e = None"
  by (simp add: identity_def loadClientInfo_def hasClientInfo_def fs_exists_def split: sum.split)

lemma identity_cut:
  assumes "fs_files e ''me.info'' = Some raw" and "cut (text_in (fs_platform e) raw) (me_info_text name u key)"
    and "plain_line name" "plain_line key" "uuid_ok u"
  shows "identity e = None \<or> identity e = Some (name, u)"
proof (cases "fs_status_fails e ''me.info'' \<or> \<not> fs_readable e ''me.info''")
  case True
  then show ?thesis
    by (auto simp: identity_def loadClientInfo_def hasClientInfo_def fs_exists_def fs_open_in_def assms(1) split: sum.split)
next
  case False
  then show ?thesis
    using load_cut [of e default_config raw name u key] assms by (auto simp: identity_def fs_open_in_def)
qed

text \<open>On any file system, however it fails.\<close>

lemma saved_me_info:
  assumes "e \<in> set (saveClientInfo_states name u key d c)"
    and "cm_meInfoPath c = ''me.info''" "cm_privKeyPath c = ''priv.key''"
  shows "same_environment d e \<and> (fs_files e ''me.info'' = fs_files d ''me.info'' \<or>
    (\<exists>n. fs_files e ''me.info'' = Some (take n (text_out (fs_platform d) (me_info_text name u key)))))"
proof -
  define me where "me = text_out (fs_platform d) (me_info_text name u key)"
  have w: "same_environment x (fs_write x p z)" "\<exists>n. fs_files (fs_write x p z) p = Some (take n z)"
    "q \<noteq> p \<Longrightarrow> fs_files (fs_write x p z) q = fs_files x q" for x p z q
    by (auto simp: fs_write_def same_environment_def split: option.split intro: exI [of _ "length z"])
  consider "e = d"
    | d1 n where "fs_open_trunc d ''me.info'' = Some d1" "e = fs_write d1 ''me.info'' (take n me)"
    | d1 d3 n where "fs_open_trunc d ''me.info'' = Some d1"
        "fs_open_trunc (fs_write d1 ''me.info'' me) ''priv.key'' = Some d3" "e = fs_write d3 ''priv.key'' (take n key)"
    using assms by (auto simp: saveClientInfo_states_def Let_def me_def eq_commute [of "Some x" "fs_open_trunc f p" for x f p]
        split: option.splits dest!: in_writing)
  then show ?thesis
  proof cases
    case 1
    then show ?thesis by (simp add: environment.R_refl)
  next
    case 2
    obtain m where "fs_files e ''me.info'' = Some (take m (take n me))"
      using w(2) [of d1 "''me.info''" "take n me"] 2(2) by auto
    moreover have "same_environment d e"
      using environment.R_trans [OF same_environment_ops(3) [OF 2(1)] w(1)] 2(2) by simp
    ultimately show ?thesis by (auto simp: me_def take_take)
  next
    case 3
    have "same_environment d d3"
      using environment.R_trans [OF environment.R_trans [OF same_environment_ops(3) [OF 3(1)] w(1)] same_environment_ops(3) [OF 3(2)]] .
    then have "same_environment d e"
      using environment.R_trans [OF _ w(1)] 3(3) by blast
    moreover have "fs_files e ''me.info'' = fs_files (fs_write d1 ''me.info'' me) ''me.info''"
      using 3(2,3) w(3) [of "''me.info''" "''priv.key''" d3] by (auto simp: fs_open_trunc_def split: if_splits)
    ultimately show ?thesis
      using w(2) [of d1 "''me.info''" me] by (auto simp: me_def)
  qed
qed

lemma saved_identity:
  assumes e: "e \<in> set (saveClientInfo_states name u key d c)"
    and c: "cm_meInfoPath c = ''me.info''" "cm_privKeyPath c = ''priv.key''"
    and plain: "plain_line name" "plain_line key" "uuid_ok u"
  shows "identity e \<in> {identity d, None, Some (name, u)}"
proof -
  have env: "same_environment d e" using saved_me_info [OF e c] ..
  have ctrl: "CTRL_Z \<notin> set (me_info_text name u key)"
    using plain plain_toHex [of u] by (auto simp: me_info_text_def plain_line_def)
  consider "fs_files e ''me.info'' = fs_files d ''me.info''"
    | n where "fs_files e ''me.info'' = Some (take n (text_out (fs_platform d) (me_info_text name u key)))"
    using saved_me_info [OF e c] by blast
  then show ?thesis
  proof cases
    case 1
    then show ?thesis using identity_same [OF env] by simp
  next
    case 2
    have "fs_platform e = fs_platform d" using env by (simp add: same_environment_def)
    then show ?thesis
      using identity_cut [OF 2 _ plain] text_in_cut [OF ctrl, of "fs_platform d" n] by auto
  qed
qed

lemma removed_identity:
  assumes "e \<in> set (removeClientInfo_states d c)" and "cm_meInfoPath c = ''me.info''" "cm_privKeyPath c = ''priv.key''"
  shows "identity e \<in> {identity d, None}"
proof -
  have r: "same_environment d (fs_remove d p)" for d p by (rule same_environment_ops)
  have me: "fs_files (fs_remove d ''me.info'') ''me.info'' \<in> {None, fs_files d ''me.info''}"
    "fs_files (fs_remove d ''priv.key'') ''me.info'' = fs_files d ''me.info''" for d
    by (auto simp: fs_remove_def)
  then have "same_environment d e \<and> fs_files e ''me.info'' \<in> {None, fs_files d ''me.info''}"
    using assms r environment.R_trans environment.R_refl
    by (auto simp: removeClientInfo_states_def Let_def) blast+
  then show ?thesis using identity_same [of d e] identity_none [of e] by auto
qed

section \<open>What a session can make of the identity\<close>

lemma exported_key_plain: "key_text_law C \<Longrightarrow> plain_line (getPrivateKeyBase64 C h)"
  by (auto simp: key_text_law_def getPrivateKeyBase64_def plain_line_def split: option.split)

text \<open>After authentication a run only adds to the conversation.\<close>

lemma main_after_authentication:
  fixes L :: "('w, 'j, 'r, 'k, 'p) libs" and w :: 'w and rng :: 'r and d :: fs
  defines "t \<equiv> newTransferClient w rng d"
  assumes l: "loadTransferInfo (lib_json L) d ''transfer.json'' default_config = (Inr True, c)"
    and n: "connect (lib_asio L) (ti_ip (cm_transferInfo c)) (ti_port (cm_transferInfo c)) (newNetworkClient w) = (True, n)"
    and a: "authenticate L (ti_clientName (cm_transferInfo c)) (t\<lparr>tc_config := c, tc_client := n\<rparr>) = (r2, t2)"
    and m: "main L w rng d = (code, t')"
  obtains r3 t3 where "send_files L (ti_files (cm_transferInfo c)) t2 = (r3, t3)"
    and "t' \<in> {client_disconnect L t2, client_disconnect L t3, client_disconnect L (client_disconnect L t3)}"
proof -
  obtain r3 t3 where f: "send_files L (ti_files (cm_transferInfo c)) t2 = (r3, t3)" by fastforce
  obtain r u where r: "run L t = (r, u)" "t' = client_disconnect L u"
    using main_run [OF m] unfolding t_def by blast
  have "u \<in> {t2, t3, client_disconnect L t3}"
    using run_chain [OF l n a [unfolded t_def] f] r(1) unfolding t_def by (auto split: if_splits sum.splits)
  then show ?thesis using that [OF f] r(2) by auto
qed

lemma main_assigned:
  assumes "send_files L ps t2 = (r3, t3)"
    and "t' \<in> {client_disconnect L t2, client_disconnect L t3, client_disconnect L (client_disconnect L t3)}"
    and "u \<in> set (assigned_ids (trace t2))"
  shows "u \<in> set (assigned_ids (trace t'))"
  using assms(2,3) assigned_more [OF grows_disconnect] assigned_more [OF grows_files [OF assms(1)]] by auto

lemma register_identity:
  assumes "key_text_law (lib_crypto L)" and "plain_line name"
    and "cm_meInfoPath (tc_config t) = ''me.info''" "cm_privKeyPath (tc_config t) = ''priv.key''"
    and "e \<in> set (register_disks L name t)" and "registerAndExchangeKeys L name t = (r, t')"
  shows "identity e \<in> {identity (tc_disk t), None} \<union> (\<lambda>u. Some (name, u)) ` set (assigned_ids (trace t'))"
  using register_disks_states [OF assms(5,6)] saved_identity [OF _ assms(3,4,2) exported_key_plain [OF assms(1)]]
  by fastforce

lemma authenticate_identity:
  assumes law: "key_text_law (lib_crypto L)" and name: "plain_line name"
    and paths: "cm_meInfoPath (tc_config t) = ''me.info''" "cm_privKeyPath (tc_config t) = ''priv.key''"
    and e: "e \<in> set (authenticate_disks L name t)" and a: "authenticate L name t = (r, t')"
  shows "identity e \<in> {identity (tc_disk t), None} \<union> (\<lambda>u. Some (name, u)) ` set (assigned_ids (trace t'))"
proof -
  obtain hc where hc: "hasClientInfo (tc_disk t) (tc_config t) = hc" by simp
  obtain r1 needs t1 where q: "tryReconnect L False t = ((r1, needs), t1)" by (metis prod.exhaust)
  consider (fresh) "hc = Inr False" | (again) "hc = Inr True" "r1 = Inr False" "needs"
    | (other) "hc \<noteq> Inr False" "\<not> (hc = Inr True \<and> needs)"
    using reconnect_effect [where L = L and t = t] q by (auto split: if_splits)
  then show ?thesis
  proof cases
    case fresh
    then have "e \<in> set (register_disks L name t)" "registerAndExchangeKeys L name t = (r, t')"
      using e a hc by (simp_all add: authenticate_disks_def authenticate_def)
    then show ?thesis by (rule register_identity [OF law name paths])
  next
    case again
    have t1: "tc_disk t1 = removeClientInfo (tc_disk t) (tc_config t)"
      using reconnect_effect [where L = L and t = t] q again by (auto split: if_splits)
    have removed: "identity x \<in> {identity (tc_disk t), None}"
      if "x \<in> set (removeClientInfo_states (tc_disk t) (tc_config t))" for x
      using removed_identity [OF that paths] .
    have gone: "identity (tc_disk t1) \<in> {identity (tc_disk t), None}"
      unfolding t1 using removed [of "removeClientInfo (tc_disk t) (tc_config t)"]
      by (simp add: removeClientInfo_states_def removeClientInfo_def Let_def)
    have g: "registerAndExchangeKeys L name t1 = (r, t')"
      using a hc q again by (simp add: authenticate_def)
    consider "e \<in> set (removeClientInfo_states (tc_disk t) (tc_config t))" | "e \<in> set (register_disks L name t1)"
      using e hc q again by (auto simp: authenticate_disks_def)
    then show ?thesis
    proof cases
      case 1
      then show ?thesis using removed by blast
    next
      case 2
      have "identity e \<in> {identity (tc_disk t1), None} \<union> (\<lambda>u. Some (name, u)) ` set (assigned_ids (trace t'))"
        using reconnect_paths [OF q] paths by (intro register_identity [OF law name _ _ 2 g]) simp_all
      then show ?thesis using gone by auto
    qed
  next
    case other
    then have "e = tc_disk t"
      using e hc q by (cases hc) (auto simp: authenticate_disks_def split: sum.splits)
    then show ?thesis by simp
  qed
qed

text \<open>The client name that a session reads from \<open>transfer.json\<close>.\<close>

definition configured_name :: "('w, 'j, 'r, 'k, 'p) libs \<Rightarrow> fs \<Rightarrow> string" where
  "configured_name L d =
     ti_clientName (cm_transferInfo (snd (loadTransferInfo (lib_json L) d ''transfer.json'' default_config)))"

lemma loaded_paths:
  assumes "loadTransferInfo J d path default_config = (l, c)"
  shows "cm_meInfoPath c = ''me.info''" "cm_privKeyPath c = ''priv.key''"
  using assms by (auto simp: loadTransferInfo_def load_document_def Let_def
      split: sum.splits option.splits if_splits)

text \<open>Either nobody gets as far as authentication, or \<open>authenticate\<close> decides what is on the disk.\<close>

lemma main_disks_cases:
  fixes L :: "('w, 'j, 'r, 'k, 'p) libs" and w :: 'w and rng :: 'r
  assumes "e \<in> set (main_disks L w rng d)"
  obtains (same) "e = d"
    | (online) c n where "loadTransferInfo (lib_json L) d ''transfer.json'' default_config = (Inr True, c)"
      "connect (lib_asio L) (ti_ip (cm_transferInfo c)) (ti_port (cm_transferInfo c)) (newNetworkClient w) = (True, n)"
      "e \<in> set (authenticate_disks L (ti_clientName (cm_transferInfo c))
        ((newTransferClient w rng d)\<lparr>tc_config := c, tc_client := n\<rparr>))"
proof -
  have new: "tc_disk (newTransferClient w rng d) = d" "tc_config (newTransferClient w rng d) = default_config"
    "tc_client (newTransferClient w rng d) = newNetworkClient w"
    by (simp_all add: newTransferClient_def)
  obtain l c where l: "loadTransferInfo (lib_json L) d ''transfer.json'' default_config = (l, c)" by fastforce
  obtain ok n where
    n: "connect (lib_asio L) (ti_ip (cm_transferInfo c)) (ti_port (cm_transferInfo c)) (newNetworkClient w) = (ok, n)"
    by fastforce
  show ?thesis
    using assms same online l n by (cases "l = Inr True"; cases ok)
      (auto simp: main_disks_def Let_def new split: sum.splits bool.splits)
qed

lemma main_identity:
  fixes L :: "('w, 'j, 'r, 'k, 'p) libs"
  assumes "key_text_law (lib_crypto L)" and "plain_line (configured_name L d)" and "e \<in> set (main_disks L w rng d)"
  shows "identity e \<in> {identity d, None} \<union>
    (\<lambda>u. Some (configured_name L d, u)) ` set (assigned_ids (trace (snd (main L w rng d))))"
  using assms(3)
proof (cases rule: main_disks_cases)
  case (online c n)
  let ?t = "(newTransferClient w rng d)\<lparr>tc_config := c, tc_client := n\<rparr>"
  obtain r2 t2 where a: "authenticate L (ti_clientName (cm_transferInfo c)) ?t = (r2, t2)" by fastforce
  obtain code t' where m: "main L w rng d = (code, t')" by fastforce
  have name: "configured_name L d = ti_clientName (cm_transferInfo c)" by (simp add: configured_name_def online(1))
  have "identity e \<in> {identity d, None} \<union> (\<lambda>u. Some (configured_name L d, u)) ` set (assigned_ids (trace t2))"
    using authenticate_identity [OF assms(1) assms(2) [unfolded name] _ _ online(3) a] loaded_paths [OF online(1)]
    by (simp add: name newTransferClient_def)
  moreover have "set (assigned_ids (trace t2)) \<subseteq> set (assigned_ids (trace t'))"
    by (rule main_after_authentication [OF online(1,2) a m]) (blast intro: main_assigned)
  ultimately show ?thesis unfolding m by auto
qed simp

section \<open>The lifetime of a client\<close>

text \<open>
  \<open>lifetime L ids d\<close>: after any number of sessions, interrupted or not, \<open>d\<close> is what the disk holds and
  \<open>ids\<close> are the identities that servers assigned, under the names configured then. The network and the random pool
  are different in every session.
\<close>

inductive lifetime :: "('w, 'j, 'r, 'k, 'p) libs \<Rightarrow> (string \<times> bytes) list \<Rightarrow> fs \<Rightarrow> bool"
  for L :: "('w, 'j, 'r, 'k, 'p) libs" where
  installed: "fs_files d ''me.info'' = None \<Longrightarrow> lifetime L [] d"
| session: "lifetime L ids d \<Longrightarrow> plain_line (configured_name L d) \<Longrightarrow> e \<in> set (main_disks L w rng d) \<Longrightarrow>
    lifetime L (map (Pair (configured_name L d)) (assigned_ids (trace (snd (main L w rng d)))) @ ids) e"
| edited: "lifetime L ids d \<Longrightarrow> same_environment d e \<Longrightarrow> fs_files e ''me.info'' = fs_files d ''me.info'' \<Longrightarrow>
    fs_files e ''priv.key'' = fs_files d ''priv.key'' \<Longrightarrow> lifetime L ids e"

lemma lifetime_identity:
  assumes "lifetime L ids d" and "key_text_law (lib_crypto L)"
  shows "identity d \<in> insert None (Some ` set ids)"
  using assms(1)
proof (induction rule: lifetime.induct)
  case (installed d)
  then show ?case by (simp add: identity_none)
next
  case (session ids d e w rng)
  then show ?case using main_identity [OF assms(2) session(2,3)] by auto
next
  case (edited ids d e)
  then show ?case using identity_same [of d e] by simp
qed

section \<open>The identities presented to the server\<close>

text \<open>A reconnect request is for one of the identities; other events are not restricted.\<close>

fun presents :: "(string \<times> bytes) set \<Rightarrow> net_event \<Rightarrow> bool" where
  "presents ids (Sent p) =
     (if snd (request_of p) = 827 then p \<in> (\<lambda>(name, u). buildReconnect u name) ` ids else True)"
| "presents ids ev = True"

lemma presents_mono: "presents A ev \<Longrightarrow> A \<subseteq> B \<Longrightarrow> presents B ev"
  by (cases ev) (auto split: if_splits)

lemma presents_reading: "reading ev \<Longrightarrow> presents A ev"
  by (cases ev) (auto simp: reading_def)

lemma presents_response: "receiveResponse L acc t = (r, t') \<Longrightarrow> emits (presents A) t t'"
  by (rule emits_mono [OF emits_response presents_reading])

lemma presents_send:
  "client_send L p t = (ok, t') \<Longrightarrow> p \<noteq> [] \<Longrightarrow> snd (request_of p) \<noteq> 827 \<Longrightarrow> emits (presents A) t t'"
  by (rule emits_send) auto

lemma presents_counts:
  assumes "grows k t t'" and "sent 827 t' = sent 827 t"
  shows "emits (presents A) t t'"
proof -
  obtain evs where evs: "trace t' = trace t @ evs" using assms(1) by (auto simp: grows_def)
  then have "sent_code 827 evs = 0" using assms(2) by simp
  then have "list_all (presents A) evs"
    by (induction evs) (auto simp: sent_code_def elim: presents.elims split: if_splits net_event.splits)
  then show ?thesis using evs by (auto simp: emits_def)
qed

lemma presents_disconnect: "emits (presents A) t (client_disconnect L t)"
  by (rule emits_disconnect) simp

text \<open>The transfer of files presents no identity.\<close>

lemma presents_verdict:
  assumes "verdict L fd n crc t = (out, t')" and "uuid_ok (tc_clientId t)"
  shows "emits (presents A) t t'"
proof -
  have s: "emits (presents A) t t1"
    if "client_send L (buildCrcStatus (tc_clientId t) code fn) t = (ok, t1)" "code \<in> {CrcValid, CrcInvalidRetry, CrcInvalidAbort}"
    for code fn ok t1
    using that(2) by (intro presents_send [OF that(1) packets_nonempty(5)]) (auto simp: request_codes assms(2))
  show ?thesis
    using assms(1)
    by (auto simp: verdict_def split: if_splits prod.splits bool.splits option.splits
        dest!: s presents_response [where A = A] intro: emission.R_trans)
qed

lemma presents_attempt:
  assumes "transfer_attempt L fd n t = (out, t')" and ok: "uuid_ok (tc_clientId t)"
  shows "emits (presents A) t t'"
proof -
  let ?p = "buildSendFile (tc_clientId t) (ef_origFileSize fd) 1 1 (ef_fileName fd) (ef_encryptedContent fd)"
  obtain sent1 t1 where s: "client_send L ?p t = (sent1, t1)" by fastforce
  obtain m t2 where m: "receiveResponse L [FileReceivedWithCrc] t1 = (m, t2)" by fastforce
  have p1: "emits (presents A) t t1"
    using presents_send [OF s packets_nonempty(4)] ok by (simp add: request_codes)
  have p2: "emits (presents A) t t2"
    using emission.R_trans [OF p1 presents_response [OF m]] .
  have "tc_clientId t2 = tc_clientId t"
    using only_client_send [OF s] only_client_response [OF m] by (simp add: only_clientD)
  then have v: "emits (presents A) t t3" if "verdict L fd n crc t2 = (out, t3)" for crc t3
    using emission.R_trans [OF p2 presents_verdict [OF that]] ok by simp
  show ?thesis
    using assms(1) s m p1 p2 v by (auto simp: transfer_attempt_def split: bool.splits option.splits)
qed

lemma presents_loop:
  "transfer_loop L fd n t = (b, t') \<Longrightarrow> uuid_ok (tc_clientId t) \<Longrightarrow> emits (presents A) t t'"
proof (induction L fd n t rule: transfer_loop.induct)
  case (1 L fd n t)
  obtain out t1 where a: "transfer_attempt L fd n t = (out, t1)" by fastforce
  note p = presents_attempt [OF a 1(3)]
  have "uuid_ok (tc_clientId t1)" using only_clientD(3) [OF only_client_attempt [OF a]] 1(3) by simp
  then show ?case
    using 1(2) p a emission.R_trans [OF p 1(1) [OF _ a [symmetric]]]
    by (cases out) (auto simp: transfer_loop.simps [of L fd n] split: if_splits intro: emission.R_refl)
qed

lemma presents_files:
  "send_files L ps t = (r, t') \<Longrightarrow> uuid_ok (tc_clientId t) \<Longrightarrow> emits (presents A) t t'"
proof (induction ps arbitrary: t)
  case (Cons p ps)
  obtain r1 t1 where s: "sendSingleFile L p t = (r1, t1)" by fastforce
  have p1: "emits (presents A) t t1"
    using s Cons.prems(2) by (auto simp: sendSingleFile_def transferAndVerify_def
        split: sum.splits if_splits option.splits prod.splits dest: presents_loop [where A = A] intro: emission.R_refl)
  have "uuid_ok (tc_clientId t1)" using only_clientD(3) [OF only_client_single [OF s]] Cons.prems(2) by simp
  then show ?case
    using Cons s p1 emission.R_trans [OF p1] by (auto split: sum.splits if_splits)
qed (simp add: emission.R_refl)

text \<open>Authentication presents the identity on the disk, if any.\<close>

lemma presents_request:
  assumes "requestReconnect L False t = (x, t')" and "uuid_ok (ci_uuid (cm_clientInfo (tc_config t)))"
  shows "emits (presents {(ci_name (cm_clientInfo (tc_config t)), ci_uuid (cm_clientInfo (tc_config t)))}) t t'"
    (is "emits (presents ?A) t t'")
proof -
  let ?i = "cm_clientInfo (tc_config t)"
  let ?t = "t\<lparr>tc_clientId := ci_uuid ?i\<rparr>"
  obtain sent1 t1 where s: "client_send L (buildReconnect (ci_uuid ?i) (ci_name ?i)) ?t = (sent1, t1)" by fastforce
  obtain m t2 where m: "receiveResponse L [ReconnectApproved, ReconnectRejected] t1 = (m, t2)" by fastforce
  have "emits (presents ?A) ?t t1"
    by (rule emits_send [OF s packets_nonempty(3)]) simp_all
  then have p1: "emits (presents ?A) t t1" by (simp add: emits_def)
  have p2: "emits (presents ?A) t t2"
    using emission.R_trans [OF p1 presents_response [OF m]] .
  have "trace t' = trace t1 \<or> trace t' = trace t2"
    using assms(1) s m
    by (auto simp: requestReconnect_def Let_def split: bool.splits option.splits prod.splits if_splits)
  then show ?thesis using p1 p2 by (auto simp: emits_def)
qed

lemma presents_reconnect:
  assumes "tryReconnect L False t = (x, t')"
    and paths: "cm_meInfoPath (tc_config t) = ''me.info''" "cm_privKeyPath (tc_config t) = ''priv.key''"
  shows "emits (presents (set_option (identity (tc_disk t)))) t t'"
proof -
  obtain l c where l: "loadClientInfo (tc_disk t) (tc_config t) = (l, c)" by fastforce
  have id: "identity (tc_disk t) = Some (ci_name (cm_clientInfo c), ci_uuid (cm_clientInfo c))" if "l = Inr True"
    using that l paths
    by (auto simp: identity_def loadClientInfo_def hasClientInfo_def split: sum.splits option.splits if_splits prod.splits)
  have q: "emits (presents (set_option (identity (tc_disk t)))) t t2"
    if "requestReconnect L False (t\<lparr>tc_config := c, tc_crypto := h\<rparr>) = (rr, t2)" "l = Inr True" for h rr t2
    using presents_request [OF that(1)] loadClientInfo_uuid [of "tc_disk t" "tc_config t" c] l that(2)
    by (simp add: id emits_def)
  show ?thesis
    using assms(1) l by (auto simp: tryReconnect_unfold split: sum.splits if_splits prod.splits dest!: q)
qed

lemma presents_authenticate:
  assumes "authenticate L name t = (r, t')"
    and paths: "cm_meInfoPath (tc_config t) = ''me.info''" "cm_privKeyPath (tc_config t) = ''priv.key''"
  shows "emits (presents (set_option (identity (tc_disk t)))) t t'"
proof -
  obtain hc where hc: "hasClientInfo (tc_disk t) (tc_config t) = hc" by simp
  obtain r1 needs t1 where q: "tryReconnect L False t = ((r1, needs), t1)" by (metis prod.exhaust)
  have reg: "emits (presents A) u u'" if "registerAndExchangeKeys L name u = (b, u')" for A u u' b
    using presents_counts [OF grows_register [OF that]] register_counts [OF that] by simp
  note p = presents_reconnect [OF q paths]
  show ?thesis
    using assms(1) hc q p reg emission.R_trans [OF p reg]
    by (cases hc) (auto simp: authenticate_def split: sum.splits if_splits)
qed

lemma presents_connect:
  "connect A host port c = (ok, c') \<Longrightarrow> nc_trace c = [] \<Longrightarrow> list_all (presents ids) (nc_trace c')"
  by (auto simp: connect_def Let_def disconnect_def split: if_splits option.splits prod.splits bool.splits)

lemma presents_main:
  fixes L :: "('w, 'j, 'r, 'k, 'p) libs"
  assumes m: "main L w rng d = (code, t')"
  shows "list_all (presents (set_option (identity d))) (trace t')"
proof -
  obtain r t1 where r: "run L (newTransferClient w rng d) = (r, t1)" "t' = client_disconnect L t1"
    using main_run [OF m] by blast
  let ?P = "presents (set_option (identity d))"
  have closing: "list_all ?P (trace (client_disconnect L t))" if "list_all ?P (trace t)" for t
    using presents_disconnect [of "set_option (identity d)" t L] that by (auto simp: emits_def)
  have "list_all ?P (trace t1)"
    using r(1)
  proof (cases rule: run_stages)
    case (config c)
    then show ?thesis by (simp add: newTransferClient_def newNetworkClient_def)
  next
    case (offline c n)
    then show ?thesis using presents_connect [OF offline(2)] by (simp add: newNetworkClient_def)
  next
    case (online c n r2 t2)
    let ?t = "(newTransferClient w rng d)\<lparr>tc_config := c, tc_client := n\<rparr>"
    have "emits ?P ?t t2"
      using presents_authenticate [OF online(3)] loaded_paths [OF online(1)] by (simp add: newTransferClient_def)
    then have p2: "list_all ?P (trace t2)"
      using presents_connect [OF online(2)] by (auto simp: emits_def newNetworkClient_def)
    have "client_ok t2"
      by (rule client_ok_authenticate [OF online(3)]) (simp add: client_ok_def newTransferClient_def uuid_ok_def)
    then have "emits ?P t2 t3" if "send_files L (ti_files (cm_transferInfo c)) t2 = (r, t3)" for t3
      using presents_files [OF that] by (simp add: client_ok_def)
    then show ?thesis
      using online(4) p2 closing by (cases r) (fastforce simp: emits_def split: if_splits)+
  qed
  then show ?thesis using closing r(2) by simp
qed

text \<open>
  C4. A client presents only what was assigned to it. Over any number of sessions on the same
  files, ended in any way or killed at any point while the credentials were being saved or removed,
  with whatever failures of the disk, under client names without line feeds: the
  identity on the disk is always one that a server assigned in one of the sessions, under the name
  configured then, or none; and every reconnect request of the next session is for such an identity.
\<close>

theorem lifetime_owns_identity:
  assumes "key_text_law (lib_crypto L)" and "lifetime L ids d"
  shows "identity d \<in> insert None (Some ` set ids) \<and>
    list_all (presents (set ids)) (trace (snd (main L w rng d)))"
proof -
  obtain code t where m: "main L w rng d = (code, t)" by fastforce
  have i: "identity d \<in> insert None (Some ` set ids)"
    by (rule lifetime_identity [OF assms(2,1)])
  then have sub: "set_option (identity d) \<subseteq> set ids" by auto
  have "list_all (presents (set ids)) (trace t)"
    using presents_main [OF m] presents_mono [OF _ sub] by (rule list.pred_mono_strong)
  then show ?thesis using i m by simp
qed

text \<open>A first session that registers, and the reconnection of the second.\<close>

lemma sample_lifetime:
  "lifetime sample_libs (map (Pair ''BenClientTest'')
     (assigned_ids (trace (snd (main sample_libs (script sample_first_script) 65 sample_disk)))) @ []) sample_saved"
proof -
  have name: "configured_name sample_libs sample_disk = ''BenClientTest''"
    by (simp add: configured_name_def sample_disk_facts)
  obtain t' where "main sample_libs (script sample_first_script) 65 sample_disk = (0, t')" "tc_disk t' = sample_saved"
    using sample_first_run by blast
  then have "last (main_disks sample_libs (script sample_first_script) 65 sample_disk) = sample_saved"
    by (simp add: main_disks_end)
  moreover have "main_disks sample_libs (script sample_first_script) 65 sample_disk \<noteq> []"
    by (rule main_disks_nonempty)
  ultimately have saved: "sample_saved \<in> set (main_disks sample_libs (script sample_first_script) 65 sample_disk)"
    by (metis last_in_set)
  have "fs_files sample_disk ''me.info'' = None" by (simp add: sample_disk_def)
  then have "lifetime sample_libs [] sample_disk" by (rule lifetime.installed)
  moreover have "plain_line (configured_name sample_libs sample_disk)"
    by (simp add: name plain_line_def LF_def CTRL_Z_def)
  ultimately show ?thesis using lifetime.session [OF _ _ saved] unfolding name by blast
qed

theorem lifetime_owns_identity_witness:
  "identity sample_saved \<in> insert None (Some ` set (map (Pair ''BenClientTest'')
     (assigned_ids (trace (snd (main sample_libs (script sample_first_script) 65 sample_disk)))) @ [])) \<and>
   list_all (presents (set (map (Pair ''BenClientTest'')
     (assigned_ids (trace (snd (main sample_libs (script sample_first_script) 65 sample_disk)))) @ [])))
     (trace (snd (main sample_libs (script (encode_response sample_approved)) 66 sample_saved)))"
  by (rule lifetime_owns_identity [OF _ sample_lifetime]) simp

end
