(* ===== verification/Spec2Isabelle.thy ===== *)
theory Spec2Isabelle
  imports ProgramProperties Confidentiality Lifetime
begin

text \<open>
  A verification development for DefensiveClient, a C++ client that registers with a server, exchanges
  keys and uploads encrypted files with a checksum handshake. Paths are relative to \<open>src/\<close>.

  \<^bold>\<open>The program and the theories.\<close>
  \<^item> \<open>EncryptedFile.cpp\<close>: the POSIX checksum is \<open>CrcTable\<close> (the table) and \<open>Cksum\<close> (\<open>memcrc\<close> and the
    specification of \<open>cksum\<close> as polynomial division). \<open>CksumCorrect\<close> relates the table to the shift
    register, \<open>CksumPosix\<close> the loop to the specification. \<open>createEncryptedFile\<close> is in
    \<open>EncryptedFile\<close>.
  \<^item> \<open>Protocol.h\<close>, \<open>Protocol.cpp\<close>: constants, codes, headers and endian helpers are in
    \<open>Protocol\<close>, the request builders in \<open>PacketBuilder\<close>, the response parsers in
    \<open>PacketParser\<close>. \<open>ProtocolSpec\<close> is an independent decoder of requests and encoder of
    responses, against which both are proved.
  \<^item> \<open>ConfigManager.h\<close>, \<open>ConfigManager.cpp\<close>: \<open>HexConverter\<close>, and \<open>ConfigManager\<close> over the
    file system of \<open>FileSystem\<close>. \<open>CredentialStore\<close> states the store of credentials as a
    contract and proves it of the files, \<open>TransferConfig\<close> the validation of
    \<open>transfer.json\<close>.
  \<^item> \<open>CryptoHelper.h\<close>, \<open>CryptoHelper.cpp\<close>: \<open>CryptoHelper\<close>.
  \<^item> \<open>NetworkClient.h\<close>, \<open>NetworkClient.cpp\<close>: \<open>NetworkClient\<close>, with the contract \<open>channel\<close> that the
    session relies on, and a scripted network.
  \<^item> \<open>TransferClient.h\<close>, \<open>TransferClient.cpp\<close>, \<open>Main.cpp\<close>: \<open>TransferClient\<close>, from
    \<open>receiveResponse\<close> to \<open>run\<close> and \<open>main\<close>.
  \<open>Prelude\<close> holds the types, the automation and the two shared interfaces.

  \<^bold>\<open>State and effects.\<close> A class is a record of its members, a method takes the record and
  returns it updated. \<open>std::optional\<close> is \<open>option\<close>; an exception that leaves a function is \<open>Inl\<close>.
  \<open>TransferClient\<close> also carries the file system. Fixed-width integers are words; \<open>size_t\<close> is a
  natural number with its narrowing casts written out; \<open>unsigned long\<close> has the width of the
  platform (32 or 64 bits), and text files are translated on Windows. Boost.Asio, Crypto++
  and nlohmann::json are parameters (\<open>asio_api\<close>, \<open>crypto_api\<close>, \<open>json_api\<close>, bundled as
  \<open>libs\<close>); the documented behaviour that a property needs is a named predicate
  (\<open>asio_close_law\<close>, \<open>key_export_law\<close>, \<open>key_text_law\<close>,
  \<open>cbc_padding_law\<close>, \<open>cbc_decrypt_law\<close>), and witnesses instantiate it. The field \<open>nc_trace\<close> of the network client
  is the only addition to the code: it records what was done on the wire.

  \<^bold>\<open>The specification of a session.\<close> \<open>SessionSpec\<close> is a state machine over the events on the
  wire, with the rules the protocol gives: reconnect or register first, one request at a
  time, every response of the expected code and size and with the client's ID, at most four
  transmissions of a file, nothing after a failure but closing the connection. Its steps are executable
  (\<open>code_pred\<close>).
  \<open>Exchange\<close> and \<open>SessionRefinement\<close> prove that every operation of \<open>TransferClient\<close> follows it,
  for every behaviour of server, network, files and libraries. \<open>Emission\<close> tells which
  events an operation can add and states what \<open>receiveResponse\<close> guarantees;
  \<open>TransferProperties\<close>, \<open>AuthProperties\<close> and \<open>ProgramProperties\<close> hold the properties of the
  transfer of a file, of authentication and of the whole program. Liveness is stated over the
  scripted network: a server that answers within the protocol makes the operation succeed.
  \<open>ScriptedRun\<close> follows whole sessions of this kind: a first run, a later one on the files that the
  first leaves behind, and one in which the server rejects the stored identity.

  \<^bold>\<open>The whole program.\<close> \<open>WireBound\<close> counts the operations on the connection, \<open>ProgramRun\<close> splits
  \<open>run\<close> and \<open>main\<close> into stages, and \<open>Delivery\<close> takes the server's side: what a server that decodes and decrypts
  the confirmed packets holds is what the client had on disk. It composes the file system, the
  checksum, the encryption, the packet builder and the session.

  \<^bold>\<open>The console.\<close> Nothing reads what the program prints, so \<open>Console\<close> models it beside the
  state: for every function that prints, the lines on \<open>std::cout\<close> and \<open>std::cerr\<close> as a function of the same
  arguments, over the results of the calls. \<open>ConsoleProperties\<close> proves that failures are reported and
  successes announced, from one response up to \<open>main\<close>.

  \<^bold>\<open>Interruptions, many sessions, secrets.\<close> \<open>CrashSafety\<close> lists the states that the credential
  files pass through while they are saved or removed, and what can be loaded from each. \<open>Lifetime\<close> does so for
  a whole session (\<open>main_disks\<close>) and puts any number of sessions together in the inductive predicate \<open>lifetime\<close>:
  the client only ever presents an identity that a server assigned to it. \<open>Confidentiality\<close> compares two
  runs that export private keys differently: they differ in \<open>me.info\<close> and \<open>priv.key\<close> and nowhere else.

  \<^bold>\<open>Loops.\<close> All loops of the code end, and their models are total functions: the retry loop by
  the number of attempts left, the checksum's length loop by the length, the others by
  the structure of their list. No fuel is used.

  \<^bold>\<open>Not modelled.\<close> The internals of the three libraries, hence no cryptographic
  strength; memory exhaustion; a file that changes while it is read; more than one instance of the
  program on the same files; links, aliases and letter case of paths; the build files. The
  export of a private key as text is taken not to throw. In \<open>main\<close>, the default construction of
  \<open>TransferClient\<close> is taken not to throw and the \<open>catch (...)\<close> branch, which only differs in
  its message, is left out: every exception modelled is a \<open>std::exception\<close>. The constructor of
  \<open>TransferInfo\<close> with arguments is never called and has no counterpart.
\<close>

end
